(* ===== verification/Prelude.thy ===== *)
theory Prelude
  imports Main "HOL-Library.Word"
begin

text \<open>
  What every component of the development shares: the integer types of the C++ code, its
  failures as values, programs that read and write an explicit state, their total-correctness
  calculus, little-endian byte encodings, and byte memories.
\<close>

unbundle bit_operations_syntax

section \<open>Integer types\<close>

type_synonym byte = "8 word"
type_synonym u16 = "16 word"
type_synonym u32 = "32 word"
type_synonym u64 = "64 word"
type_synonym addr = u64

text \<open>Simplification turns a shift by one into a product.\<close>

lemma bit_double_word: "bit (c * 2 :: 'a::len word) n \<longleftrightarrow> n < LENGTH('a) \<and> 0 < n \<and> bit c (n - 1)"
proof -
  have "c * 2 = push_bit 1 c" by (simp add: push_bit_eq_mult)
  then have "bit (c * 2) n = bit (push_bit 1 c) n" by (rule arg_cong)
  also have "\<dots> \<longleftrightarrow> n < LENGTH('a) \<and> 0 < n \<and> bit c (n - 1)"
    unfolding bit_push_bit_iff by auto
  finally show ?thesis .
qed

section \<open>Programs\<close>

text \<open>
  A C++ function that reads and writes the state \<open>'s\<close> is a function from the state it
  starts in to \<open>None\<close> (it never returns), a failure, or a result with the state it
  leaves. A failure is a thrown exception, a failed \<open>assert\<close>, a call of \<open>abort\<close>
  or \<open>exit\<close>, or behaviour the language leaves undefined (an access out of bounds).
\<close>

datatype exn =
    Runtime_Error string
  | Invalid_Argument string
  | Assert_Failed string
  | Abort
  | Exit int
  | Undefined string

type_synonym ('s, 'a) prog = "'s \<Rightarrow> (exn + 'a \<times> 's) option"

definition ret :: "'a \<Rightarrow> ('s, 'a) prog" where
  "ret a = (\<lambda>s. Some (Inr (a, s)))"

definition raise :: "exn \<Rightarrow> ('s, 'a) prog" where
  "raise e = (\<lambda>s. Some (Inl e))"

definition bind :: "('s, 'a) prog \<Rightarrow> ('a \<Rightarrow> ('s, 'b) prog) \<Rightarrow> ('s, 'b) prog" where
  "bind m f = (\<lambda>s. case m s of
       None \<Rightarrow> None
     | Some (Inl e) \<Rightarrow> Some (Inl e)
     | Some (Inr (a, s')) \<Rightarrow> f a s')"

definition gets :: "('s \<Rightarrow> 'a) \<Rightarrow> ('s, 'a) prog" where
  "gets f = (\<lambda>s. Some (Inr (f s, s)))"

definition modify :: "('s \<Rightarrow> 's) \<Rightarrow> ('s, unit) prog" where
  "modify f = (\<lambda>s. Some (Inr ((), f s)))"

definition check :: "bool \<Rightarrow> exn \<Rightarrow> ('s, unit) prog" where
  "check b e = (if b then ret () else raise e)"

text \<open>A computation that reads no state: its value or its failure.\<close>

definition lift :: "exn + 'a \<Rightarrow> ('s, 'a) prog" where
  "lift r = (case r of Inl e \<Rightarrow> raise e | Inr a \<Rightarrow> ret a)"

text \<open>A loop over the elements of a sequence, in order.\<close>

primrec for_each :: "'x list \<Rightarrow> ('x \<Rightarrow> ('s, unit) prog) \<Rightarrow> ('s, unit) prog" where
  "for_each [] f = ret ()"
| "for_each (x # xs) f = bind (f x) (\<lambda>_. for_each xs f)"

text \<open>A program on a part of the state, run on the whole.\<close>

definition zoom :: "('s \<Rightarrow> 't) \<Rightarrow> ('t \<Rightarrow> 's \<Rightarrow> 's) \<Rightarrow> ('t, 'a) prog \<Rightarrow> ('s, 'a) prog" where
  "zoom get put m = (\<lambda>s. case m (get s) of
       None \<Rightarrow> None
     | Some (Inl e) \<Rightarrow> Some (Inl e)
     | Some (Inr (a, t)) \<Rightarrow> Some (Inr (a, put t s)))"

named_theorems run_simps \<open>equations that run a program on a state\<close>

lemma run_ret [run_simps]: "ret a s = Some (Inr (a, s))"
  by (simp add: ret_def)

lemma run_raise [run_simps]: "raise e s = Some (Inl e)"
  by (simp add: raise_def)

lemma run_gets [run_simps]: "gets f s = Some (Inr (f s, s))"
  by (simp add: gets_def)

lemma run_modify [run_simps]: "modify f s = Some (Inr ((), f s))"
  by (simp add: modify_def)

lemma run_check [run_simps]: "check b e s = (if b then Some (Inr ((), s)) else Some (Inl e))"
  by (simp add: check_def run_simps)

lemma run_bind [run_simps]:
  "bind m f s = (case m s of
       None \<Rightarrow> None
     | Some (Inl e) \<Rightarrow> Some (Inl e)
     | Some (Inr (a, s')) \<Rightarrow> f a s')"
  by (simp add: bind_def)

lemma run_zoom [run_simps]:
  "zoom get put m s = (case m (get s) of
       None \<Rightarrow> None
     | Some (Inl e) \<Rightarrow> Some (Inl e)
     | Some (Inr (a, t)) \<Rightarrow> Some (Inr (a, put t s)))"
  by (simp add: zoom_def)

lemma bind_ret [simp]: "bind (ret a) f = f a"
  by (rule ext) (simp add: bind_def ret_def raise_def)

lemma bind_raise [simp]: "bind (raise e) f = raise e"
  by (rule ext) (simp add: bind_def ret_def raise_def)

lemma lift_Inr [simp]: "lift (Inr a) = ret a"
  by (simp add: lift_def)

lemma lift_Inl [simp]: "lift (Inl e) = raise e"
  by (simp add: lift_def)

lemma bind_assoc: "bind (bind m f) g = bind m (\<lambda>a. bind (f a) g)"
  by (rule ext) (simp add: bind_def split: option.splits sum.splits prod.splits)

section \<open>Total correctness\<close>

text \<open>
  \<open>wp m Q s\<close>: started in \<open>s\<close>, the program returns, without a failure, a result
  and a state that satisfy \<open>Q\<close>.
\<close>

definition wp :: "('s, 'a) prog \<Rightarrow> ('a \<Rightarrow> 's \<Rightarrow> bool) \<Rightarrow> 's \<Rightarrow> bool" where
  "wp m Q s = (case m s of Some (Inr (a, s')) \<Rightarrow> Q a s' | _ \<Rightarrow> False)"

named_theorems wp_simps \<open>weakest preconditions of the program constructors\<close>

lemma wp_ret [simp, wp_simps]: "wp (ret a) Q s = Q a s"
  by (simp add: wp_def ret_def raise_def gets_def modify_def)

lemma wp_raise [simp, wp_simps]: "wp (raise e) Q s = False"
  by (simp add: wp_def ret_def raise_def gets_def modify_def)

lemma wp_gets [simp, wp_simps]: "wp (gets f) Q s = Q (f s) s"
  by (simp add: wp_def ret_def raise_def gets_def modify_def)

lemma wp_modify [simp, wp_simps]: "wp (modify f) Q s = Q () (f s)"
  by (simp add: wp_def ret_def raise_def gets_def modify_def)

lemma wp_check [simp, wp_simps]: "wp (check b e) Q s = (b \<and> Q () s)"
  by (simp add: wp_def check_def ret_def raise_def)

lemma wp_bind [simp, wp_simps]: "wp (bind m f) Q s = wp m (\<lambda>a. wp (f a) Q) s"
  by (simp add: wp_def bind_def split: option.splits sum.splits prod.splits)

lemma wp_if [wp_simps]: "wp (if b then m else n) Q s = (if b then wp m Q s else wp n Q s)"
  by simp

lemma wp_zoom [simp, wp_simps]: "wp (zoom get put m) Q s = wp m (\<lambda>a t. Q a (put t s)) (get s)"
  by (simp add: wp_def zoom_def split: option.splits sum.splits prod.splits)

lemma wp_mono: "wp m P s \<Longrightarrow> (\<And>a s'. P a s' \<Longrightarrow> Q a s') \<Longrightarrow> wp m Q s"
  by (auto simp: wp_def split: option.splits sum.splits prod.splits)

text \<open>A step of a sequence, its result known.\<close>

lemma wp_seq: "wp m P s \<Longrightarrow> (\<And>a s'. P a s' \<Longrightarrow> wp (f a) Q s') \<Longrightarrow> wp (bind m f) Q s"
  unfolding wp_bind by (rule wp_mono)

lemma wp_conj: "wp m P s \<Longrightarrow> wp m Q s \<Longrightarrow> wp m (\<lambda>a s'. P a s' \<and> Q a s') s"
  by (auto simp: wp_def split: option.splits sum.splits prod.splits)

lemma wp_runs: "wp m Q s \<Longrightarrow> \<exists>a s'. m s = Some (Inr (a, s')) \<and> Q a s'"
  by (auto simp: wp_def split: option.splits sum.splits prod.splits)

lemma wpE:
  assumes "wp m Q s"
  obtains a s' where "m s = Some (Inr (a, s'))" and "Q a s'"
  using wp_runs [OF assms] by blast

lemma wp_runI: "m s = Some (Inr (a, s')) \<Longrightarrow> Q a s' \<Longrightarrow> wp m Q s"
  by (simp add: wp_def ret_def raise_def gets_def modify_def)

lemma wp_run: "m s = Some (Inr (a, s')) \<Longrightarrow> wp m Q s = Q a s'"
  by (simp add: wp_def ret_def raise_def gets_def modify_def)

text \<open>An invariant of the body is an invariant of the loop.\<close>

lemma wp_for_each:
  assumes "\<And>x s. x \<in> set xs \<Longrightarrow> I s \<Longrightarrow> wp (f x) (\<lambda>_. I) s" and "I s"
  shows "wp (for_each xs f) (\<lambda>_. I) s"
  using assms
proof (induction xs arbitrary: s)
  case Nil
  then show ?case by simp
next
  case (Cons x xs)
  have "wp (f x) (\<lambda>_. I) s" using Cons.prems by simp
  then have "wp (f x) (\<lambda>_. wp (for_each xs f) (\<lambda>_. I)) s"
    by (rule wp_mono) (simp add: Cons.IH Cons.prems(1))
  then show ?case by simp
qed

section \<open>Stateless programs\<close>

text \<open>A program that touches no state, run next to any state.\<close>

definition stateless :: "(unit, 'a) prog \<Rightarrow> ('s, 'a) prog" where
  "stateless = zoom (\<lambda>_. ()) (\<lambda>_ s. s)"

named_theorems stateless_simps \<open>programs that touch no state\<close>

lemma stateless_ret [stateless_simps]: "stateless (ret a) = ret a"
  by (rule ext) (simp add: stateless_def run_simps)

lemma stateless_raise [stateless_simps]: "stateless (raise e) = raise e"
  by (rule ext) (simp add: stateless_def run_simps)

lemma stateless_check [stateless_simps]: "stateless (check b e) = check b e"
  by (simp add: check_def stateless_simps)

lemma stateless_bind [stateless_simps]: "stateless (bind m f) = bind (stateless m) (\<lambda>a. stateless (f a))"
  by (rule ext) (auto simp: stateless_def run_simps split: option.splits sum.splits prod.splits)

lemma stateless_if [stateless_simps]: "stateless (if b then m else n) = (if b then stateless m else stateless n)"
  by simp

lemma wp_stateless: "m = stateless m' \<Longrightarrow> wp m' Q () \<Longrightarrow> wp m (\<lambda>a s'. Q a () \<and> s' = s) s"
  by (auto simp: stateless_def wp_def zoom_def split: option.splits sum.splits prod.splits)

end
