(* ===== verification/Bytes.thy ===== *)
theory Bytes
  imports Prelude
begin

text \<open>
  Little-endian encodings of words, as a C++ object is laid out in the memory of the hosts
  and targets the code runs on, and memories of bytes addressed by 64-bit addresses that
  wrap around.
\<close>

section \<open>Little-endian words\<close>

definition le_bytes :: "nat \<Rightarrow> 'a::len word \<Rightarrow> byte list" where
  "le_bytes n w = map (\<lambda>i. ucast (drop_bit (8 * i) w)) [0..<n]"

fun le_word :: "byte list \<Rightarrow> 'a::len word" where
  "le_word [] = 0"
| "le_word (b # bs) = ucast b OR push_bit 8 (le_word bs)"

lemma unat_ucast_up:
  "LENGTH('a::len) \<le> LENGTH('b::len) \<Longrightarrow> unat (ucast (w :: 'a word) :: 'b word) = unat w"
proof -
  assume "LENGTH('a) \<le> LENGTH('b)"
  then have "(2 :: nat) ^ LENGTH('a) \<le> 2 ^ LENGTH('b)" by simp
  then have "unat w < 2 ^ LENGTH('b)" using unsigned_less [of w, where ?'a = nat] by linarith
  then show ?thesis by (simp add: unsigned_ucast_eq take_bit_nat_eq_self)
qed

lemma length_le_bytes [simp]: "length (le_bytes n w) = n"
  by (simp add: le_bytes_def)

lemma nth_le_bytes [simp]: "i < n \<Longrightarrow> le_bytes n w ! i = ucast (drop_bit (8 * i) w)"
  by (simp add: le_bytes_def)

lemma le_bytes_Suc: "le_bytes (Suc n) w = ucast w # le_bytes n (drop_bit 8 w)"
  by (rule nth_equalityI) (auto simp: nth_Cons drop_bit_drop_bit ac_simps split: nat.splits)

lemma bit_le_word:
  "bit (le_word bs :: 'a::len word) n \<longleftrightarrow>
     n < LENGTH('a) \<and> n div 8 < length bs \<and> bit (bs ! (n div 8)) (n mod 8)"
proof (induction bs arbitrary: n)
  case Nil
  then show ?case by simp
next
  case (Cons b bs)
  show ?case
  proof (cases "n < 8")
    case True
    then show ?thesis
      by (auto simp: bit_or_iff bit_push_bit_iff bit_ucast_iff dest: bit_imp_le_length)
  next
    case False
    then have "n div 8 = Suc ((n - 8) div 8)" "n mod 8 = (n - 8) mod 8"
      by (simp_all add: div_if mod_if)
    with False show ?thesis
      by (auto simp: bit_or_iff bit_push_bit_iff bit_ucast_iff Cons.IH dest: bit_imp_le_length)
  qed
qed

lemma le_word_le_bytes: "LENGTH('a) \<le> 8 * n \<Longrightarrow> le_word (le_bytes n w) = (w :: 'a::len word)"
proof (rule bit_word_eqI)
  fix i
  assume len: "LENGTH('a) \<le> 8 * n" and i: "i < LENGTH('a)"
  have "i div 8 < n"
    using len i by (simp add: less_mult_imp_div_less mult.commute)
  moreover have "8 * (i div 8) + i mod 8 = i"
    by simp
  ultimately show "bit (le_word (le_bytes n w) :: 'a word) i = bit w i"
    using i by (simp add: bit_le_word bit_ucast_iff bit_drop_bit_eq)
qed

lemma le_bytes_le_word:
  "8 * length bs \<le> LENGTH('a) \<Longrightarrow> le_bytes (length bs) (le_word bs :: 'a::len word) = bs"
proof (rule nth_equalityI)
  fix i
  assume len: "8 * length bs \<le> LENGTH('a)"
    and i: "i < length (le_bytes (length bs) (le_word bs :: 'a::len word))"
  then have i': "i < length bs" by simp
  show "le_bytes (length bs) (le_word bs :: 'a word) ! i = bs ! i"
  proof (rule bit_word_eqI)
    fix n :: nat
    assume "n < LENGTH(8)"
    then have n: "n < 8" by simp
    have "8 * i + n < LENGTH('a)" using len i' n by linarith
    moreover have "(8 * i + n) div 8 = i" "(8 * i + n) mod 8 = n" using n by simp_all
    ultimately show "bit (le_bytes (length bs) (le_word bs :: 'a word) ! i) n = bit (bs ! i) n"
      using i' n by (simp add: bit_ucast_iff bit_drop_bit_eq bit_le_word)
  qed
qed simp

lemma le_word_take_bytes:
  "le_word (take (LENGTH('a) div 8) bs) = (le_word bs :: 'a::len word)" if "8 dvd LENGTH('a)"
proof (rule bit_word_eqI)
  fix i
  assume i: "i < LENGTH('a)"
  from that obtain k where k: "LENGTH('a) = 8 * k" by blast
  with i have "i div 8 < LENGTH('a) div 8" by (simp add: less_mult_imp_div_less mult.commute)
  then show "bit (le_word (take (LENGTH('a) div 8) bs) :: 'a word) i = bit (le_word bs :: 'a word) i"
    by (auto simp: bit_le_word)
qed

section \<open>Memories\<close>

type_synonym mem = "addr \<Rightarrow> byte"

definition mem_read :: "mem \<Rightarrow> addr \<Rightarrow> nat \<Rightarrow> byte list" where
  "mem_read m a n = map (\<lambda>i. m (a + of_nat i)) [0..<n]"

fun mem_write :: "mem \<Rightarrow> addr \<Rightarrow> byte list \<Rightarrow> mem" where
  "mem_write m a [] = m"
| "mem_write m a (b # bs) = mem_write (m(a := b)) (a + 1) bs"

lemma length_mem_read [simp]: "length (mem_read m a n) = n"
  by (simp add: mem_read_def)

lemma mem_read_0 [simp]: "mem_read m a 0 = []"
  by (simp add: mem_read_def)

lemma nth_mem_read [simp]: "i < n \<Longrightarrow> mem_read m a n ! i = m (a + of_nat i)"
  by (simp add: mem_read_def)

lemma mem_read_append: "mem_read m a (n + k) = mem_read m a n @ mem_read m (a + of_nat n) k"
  by (rule nth_equalityI) (auto simp: nth_append add.assoc not_less simp flip: of_nat_add)

lemma take_mem_read [simp]: "take k (mem_read m a n) = mem_read m a (min k n)"
  by (rule nth_equalityI) auto

lemma drop_mem_read [simp]: "drop k (mem_read m a n) = mem_read m (a + of_nat k) (n - k)"
  by (rule nth_equalityI) (auto simp: add.assoc)

lemma mem_write_append:
  "mem_write m a (xs @ ys) = mem_write (mem_write m a xs) (a + of_nat (length xs)) ys"
  by (induction xs arbitrary: m a) (auto simp: ac_simps)

text \<open>
  A write of at most \<open>2\<^sup>6\<^sup>4\<close> bytes, read back byte by byte: the address \<open>x\<close> is in
  the range exactly when its distance from the start, modulo \<open>2\<^sup>6\<^sup>4\<close>, is below
  the length.
\<close>

lemma unat_addr_less: "unat (d :: addr) < 2 ^ 64"
proof -
  have "unat d < 2 ^ LENGTH(64)" by (rule unsigned_less)
  then show ?thesis by simp
qed

lemma unat_diff_Suc:
  fixes x a :: addr
  assumes "x \<noteq> a"
  shows "unat (x - a) = Suc (unat (x - (a + 1)))"
proof -
  have "x - a \<noteq> 0" using assms by simp
  moreover have "x - (a + 1) = (x - a) - 1" by simp
  ultimately show ?thesis
    by (metis Suc_pred' unat_gt_0 unat_minus_one)
qed

lemma mem_write_apply:
  "length bs \<le> 2 ^ 64 \<Longrightarrow>
   mem_write m a bs x = (if unat (x - a) < length bs then bs ! unat (x - a) else m x)"
proof (induction bs arbitrary: m a)
  case Nil
  then show ?case by simp
next
  case (Cons b bs)
  show ?case
  proof (cases "x = a")
    case True
    have "unat (a - (a + 1)) = 2 ^ 64 - 1"
      by (simp add: unsigned_minus_1_eq_mask mask_eq_exp_minus_1)
    with Cons True show ?thesis by simp
  next
    case False
    with Cons show ?thesis by (simp add: unat_diff_Suc)
  qed
qed

lemma unat_of_nat_addr [simp]: "i < 2 ^ 64 \<Longrightarrow> unat (of_nat i :: addr) = i"
  by (simp add: unat_of_nat take_bit_eq_mod)

lemma mem_read_write [simp]:
  "length bs \<le> 2 ^ 64 \<Longrightarrow> mem_read (mem_write m a bs) a (length bs) = bs"
  by (rule nth_equalityI) (auto simp: mem_write_apply)

lemma mem_write_read [simp]: "n \<le> 2 ^ 64 \<Longrightarrow> mem_write m a (mem_read m a n) = m"
  by (rule ext) (auto simp: mem_write_apply)

definition in_range :: "addr \<Rightarrow> addr \<Rightarrow> nat \<Rightarrow> bool" where
  "in_range x a n \<longleftrightarrow> unat (x - a) < n"

lemma in_range_of_nat [simp]: "i < 2 ^ 64 \<Longrightarrow> in_range (a + of_nat i) a n \<longleftrightarrow> i < n"
  by (simp add: in_range_def)

lemma mem_write_other:
  "length bs \<le> 2 ^ 64 \<Longrightarrow> \<not> in_range x a (length bs) \<Longrightarrow> mem_write m a bs x = m x"
  by (simp add: mem_write_apply in_range_def)

text \<open>Two adjacent writes that together cover at most \<open>2\<^sup>6\<^sup>4\<close> bytes commute.\<close>

lemma unat_minus_of_nat:
  fixes d :: addr
  assumes "n \<le> 2 ^ 64"
  shows "unat (d - of_nat n) = (if n \<le> unat d then unat d - n else 2 ^ 64 + unat d - n)"
proof (cases "n = 2 ^ 64")
  case True
  have "(2 :: addr) ^ LENGTH(64) = 0" by (rule word_exp_length_eq_0)
  then have "(of_nat n :: addr) = 0" unfolding True of_nat_power by simp
  then have d: "d - of_nat n = d" by simp
  have "\<not> n \<le> unat d" using True unat_addr_less [of d] by simp
  then show ?thesis unfolding d using True by simp
next
  case False
  with assms have "n < 2 ^ 64" by simp
  then have "unat (of_nat n :: addr) = n" by simp
  with \<open>n < 2 ^ 64\<close> show ?thesis
    by (simp add: unat_sub_if') linarith
qed

lemma unat_sub_of_nat:
  fixes x a :: addr
  assumes "n \<le> 2 ^ 64"
  shows "unat (x - (a + of_nat n)) =
    (if n \<le> unat (x - a) then unat (x - a) - n else 2 ^ 64 + unat (x - a) - n)"
  using unat_minus_of_nat [OF assms, of "x - a"] by (simp add: diff_diff_eq)

lemma mem_write_adjacent:
  assumes "length xs + length ys \<le> 2 ^ 64"
  shows "mem_write (mem_write m (a + of_nat (length xs)) ys) a xs = mem_write m a (xs @ ys)"
proof
  fix x
  have "length xs \<le> 2 ^ 64" "length ys \<le> 2 ^ 64" using assms by simp_all
  moreover have "unat (x - a) < 2 ^ 64" by (rule unat_addr_less)
  ultimately show "mem_write (mem_write m (a + of_nat (length xs)) ys) a xs x
      = mem_write m a (xs @ ys) x"
    using assms
    by (auto simp: mem_write_apply nth_append unat_sub_of_nat not_less)
qed

text \<open>A write does not change what is read just before or just after it.\<close>

lemma mem_read_before:
  assumes "n + length bs \<le> 2 ^ 64"
  shows "mem_read (mem_write m (a + of_nat n) bs) a n = mem_read m a n"
proof (rule nth_equalityI)
  fix i
  assume "i < length (mem_read (mem_write m (a + of_nat n) bs) a n)"
  then have i: "i < n" by simp
  have "unat (a + of_nat i - (a + of_nat n)) = 2 ^ 64 + i - n"
    using unat_sub_of_nat [of n "a + of_nat i" a] i assms by simp
  then have "\<not> unat (a + of_nat i - (a + of_nat n)) < length bs" using assms by linarith
  with i assms show "mem_read (mem_write m (a + of_nat n) bs) a n ! i = mem_read m a n ! i"
    by (simp add: mem_write_apply)
qed simp

lemma mem_read_after:
  assumes "length bs + n \<le> 2 ^ 64"
  shows "mem_read (mem_write m a bs) (a + of_nat (length bs)) n = mem_read m (a + of_nat (length bs)) n"
proof (rule nth_equalityI)
  fix i
  assume "i < length (mem_read (mem_write m a bs) (a + of_nat (length bs)) n)"
  then have i: "i < n" by simp
  have "a + of_nat (length bs) + of_nat i - a = of_nat (length bs + i)" by simp
  then have "unat (a + of_nat (length bs) + of_nat i - a) = length bs + i"
    using i assms by (simp only: unat_of_nat_addr)
  with i assms show "mem_read (mem_write m a bs) (a + of_nat (length bs)) n ! i =
      mem_read m (a + of_nat (length bs)) n ! i"
    by (simp add: mem_write_apply)
qed simp

text \<open>Writing back a range that was read, with the middle replaced, writes the middle only.\<close>

lemma mem_write_patch:
  assumes "k + length bs \<le> n" and "n \<le> 2 ^ 64"
  shows "mem_write m a (take k (mem_read m a n) @ bs @ drop (k + length bs) (mem_read m a n))
    = mem_write m (a + of_nat k) bs"
proof
  fix x
  have "unat (x - a) < 2 ^ 64" by (rule unat_addr_less)
  moreover have "a + of_nat (unat (x - a)) = x" by simp
  ultimately show "mem_write m a (take k (mem_read m a n) @ bs
      @ drop (k + length bs) (mem_read m a n)) x = mem_write m (a + of_nat k) bs x"
    using assms
    by (auto simp: mem_write_apply nth_append unat_sub_of_nat min_def add.assoc
        simp flip: of_nat_add)
qed

end
