(* ===== verification/Memif.thy ===== *)
theory Memif
  imports Bytes
begin

text \<open>
  The memory interface of the front-end server (\<open>tb/dpi/fesvr/memif.h\<close>,
  \<open>memif.cc\<close>): byte-granular reads and writes of target memory over an interface that
  moves whole aligned chunks only. A subclass of \<open>chunked_memif_t\<close> is a record of its
  five virtual methods; \<open>memif_t::read\<close> and \<open>memif_t::write\<close> are programs over
  that record. The locale \<open>chunked_memory\<close> states what a provider of chunks promises
  and proves that the byte-granular operations then read and write exactly the requested
  bytes; \<open>clearing_memory\<close> adds a \<open>clear_chunk\<close> that really clears.

  Sizes (\<open>size_t\<close>) are natural numbers: the buffer of a transfer is an object in host
  memory, so its size and every offset into it is below \<open>2\<^sup>6\<^sup>4\<close>. Target addresses
  are 64-bit words and wrap around.
\<close>

section \<open>The chunk interface\<close>

record 's chunked_memif =
  read_chunk :: "addr \<Rightarrow> nat \<Rightarrow> ('s, byte list) prog"
  write_chunk :: "addr \<Rightarrow> byte list \<Rightarrow> ('s, unit) prog"
  clear_chunk :: "addr \<Rightarrow> nat \<Rightarrow> ('s, unit) prog"
  chunk_align :: "'s \<Rightarrow> nat"
  chunk_max_size :: "'s \<Rightarrow> nat"

text \<open>\<open>x & (align - 1)\<close> and \<open>x & ~(align - 1)\<close>.\<close>

definition low_bits :: "addr \<Rightarrow> nat \<Rightarrow> nat" where
  "low_bits x align = unat (x AND (of_nat align - 1))"

definition align_down :: "addr \<Rightarrow> nat \<Rightarrow> addr" where
  "align_down x align = x AND NOT (of_nat align - 1)"

section \<open>Reading\<close>

text \<open>
  The three steps of \<open>memif_t::read\<close>: the bytes before the first chunk boundary, the
  bytes after the last one, and the whole chunks between them. Each of the first two returns
  its bytes and what is left to transfer.
\<close>

definition read_head :: "'s chunked_memif \<Rightarrow> nat \<Rightarrow> addr \<Rightarrow> nat \<Rightarrow> ('s, byte list \<times> nat) prog" where
  "read_head c align a len =
     (if len \<noteq> 0 \<and> low_bits a align \<noteq> 0
      then let this_len = min len (align - low_bits a align) in
        bind (read_chunk c (align_down a align) align) (\<lambda>chunk.
        ret (take this_len (drop (low_bits a align) chunk), this_len))
      else ret ([], 0))"

definition read_tail :: "'s chunked_memif \<Rightarrow> nat \<Rightarrow> addr \<Rightarrow> nat \<Rightarrow> ('s, byte list \<times> nat) prog" where
  "read_tail c align a len =
     (if low_bits (of_nat len) align \<noteq> 0
      then let this_len = low_bits (of_nat len) align; start = len - this_len in
        bind (read_chunk c (a + of_nat start) align) (\<lambda>chunk.
        ret (take this_len chunk, this_len))
      else ret ([], 0))"

partial_function (option) read_loop ::
    "'s chunked_memif \<Rightarrow> addr \<Rightarrow> nat \<Rightarrow> nat \<Rightarrow> byte list \<Rightarrow> 's \<Rightarrow> (exn + byte list \<times> 's) option" where
  "read_loop c a len pos acc s =
     (if pos < len
      then (case read_chunk c (a + of_nat pos) (min (chunk_max_size c s) (len - pos)) s of
          None \<Rightarrow> None
        | Some (Inl e) \<Rightarrow> Some (Inl e)
        | Some (Inr (b, s')) \<Rightarrow> read_loop c a len (pos + chunk_max_size c s') (acc @ b) s')
      else Some (Inr (acc, s)))"

definition memif_read :: "'s chunked_memif \<Rightarrow> addr \<Rightarrow> nat \<Rightarrow> ('s, byte list) prog" where
  "memif_read c a len =
     bind (gets (chunk_align c)) (\<lambda>align.
     bind (read_head c align a len) (\<lambda>(head, h).
     bind (read_tail c align (a + of_nat h) (len - h)) (\<lambda>(tail, t).
     bind (read_loop c (a + of_nat h) (len - h - t) 0 []) (\<lambda>mid.
     ret (head @ mid @ tail)))))"

section \<open>Writing\<close>

text \<open>
  \<open>memif_t::write\<close> patches the chunks at both ends, then clears or writes the middle.
  The first two steps return how many bytes they wrote.
\<close>

definition write_head :: "'s chunked_memif \<Rightarrow> nat \<Rightarrow> addr \<Rightarrow> byte list \<Rightarrow> ('s, nat) prog" where
  "write_head c align a bytes =
     (if length bytes \<noteq> 0 \<and> low_bits a align \<noteq> 0
      then let off = low_bits a align; this_len = min (length bytes) (align - off) in
        bind (read_chunk c (align_down a align) align) (\<lambda>chunk.
        bind (write_chunk c (align_down a align)
               (take off chunk @ take this_len bytes @ drop (off + this_len) chunk)) (\<lambda>_.
        ret this_len))
      else ret 0)"

definition write_tail :: "'s chunked_memif \<Rightarrow> nat \<Rightarrow> addr \<Rightarrow> byte list \<Rightarrow> ('s, nat) prog" where
  "write_tail c align a bytes =
     (if low_bits (of_nat (length bytes)) align \<noteq> 0
      then let this_len = low_bits (of_nat (length bytes)) align;
               start = length bytes - this_len in
        bind (read_chunk c (a + of_nat start) align) (\<lambda>chunk.
        bind (write_chunk c (a + of_nat start) (drop start bytes @ drop this_len chunk)) (\<lambda>_.
        ret this_len))
      else ret 0)"

partial_function (option) write_loop ::
    "'s chunked_memif \<Rightarrow> nat \<Rightarrow> addr \<Rightarrow> byte list \<Rightarrow> nat \<Rightarrow> 's \<Rightarrow> (exn + unit \<times> 's) option" where
  "write_loop c max_chunk a bytes pos s =
     (if pos < length bytes
      then (case write_chunk c (a + of_nat pos) (take max_chunk (drop pos bytes)) s of
          None \<Rightarrow> None
        | Some (Inl e) \<Rightarrow> Some (Inl e)
        | Some (Inr (_, s')) \<Rightarrow> write_loop c max_chunk a bytes (pos + max_chunk) s')
      else Some (Inr ((), s)))"

definition write_body :: "'s chunked_memif \<Rightarrow> addr \<Rightarrow> byte list \<Rightarrow> ('s, unit) prog" where
  "write_body c a bytes =
     (if bytes \<noteq> [] \<and> list_all (\<lambda>b. b = 0) bytes
      then clear_chunk c a (length bytes)
      else bind (gets (chunk_max_size c)) (\<lambda>max_chunk. write_loop c max_chunk a bytes 0))"

definition memif_write :: "'s chunked_memif \<Rightarrow> addr \<Rightarrow> byte list \<Rightarrow> ('s, unit) prog" where
  "memif_write c a bytes =
     bind (gets (chunk_align c)) (\<lambda>align.
     bind (write_head c align a bytes) (\<lambda>h.
     let a = a + of_nat h; bytes = drop h bytes in
     bind (write_tail c align a bytes) (\<lambda>t.
     write_body c a (take (length bytes - t) bytes))))"

section \<open>Typed accesses\<close>

text \<open>
  \<open>MEMIF_READ_FUNC\<close> and \<open>MEMIF_WRITE_FUNC\<close>: the address must be a multiple of the
  size of the value. The signed accessors move the same bytes as the unsigned ones.
\<close>

definition memif_read_val :: "nat \<Rightarrow> 's chunked_memif \<Rightarrow> addr \<Rightarrow> ('s, 'a::len word) prog" where
  "memif_read_val n c a =
     bind (check (a AND (of_nat n - 1) = 0) (Runtime_Error ''misaligned address'')) (\<lambda>_.
     bind (memif_read c a n) (\<lambda>bs. ret (le_word bs)))"

definition memif_write_val :: "nat \<Rightarrow> 's chunked_memif \<Rightarrow> addr \<Rightarrow> 'a::len word \<Rightarrow> ('s, unit) prog" where
  "memif_write_val n c a val =
     bind (check (a AND (of_nat n - 1) = 0) (Runtime_Error ''misaligned address'')) (\<lambda>_.
     memif_write c a (le_bytes n val))"

definition read_uint8 :: "'s chunked_memif \<Rightarrow> addr \<Rightarrow> ('s, byte) prog" where
  "read_uint8 = memif_read_val 1"

definition write_uint8 :: "'s chunked_memif \<Rightarrow> addr \<Rightarrow> byte \<Rightarrow> ('s, unit) prog" where
  "write_uint8 = memif_write_val 1"

definition read_uint16 :: "'s chunked_memif \<Rightarrow> addr \<Rightarrow> ('s, u16) prog" where
  "read_uint16 = memif_read_val 2"

definition write_uint16 :: "'s chunked_memif \<Rightarrow> addr \<Rightarrow> u16 \<Rightarrow> ('s, unit) prog" where
  "write_uint16 = memif_write_val 2"

definition read_uint32 :: "'s chunked_memif \<Rightarrow> addr \<Rightarrow> ('s, u32) prog" where
  "read_uint32 = memif_read_val 4"

definition write_uint32 :: "'s chunked_memif \<Rightarrow> addr \<Rightarrow> u32 \<Rightarrow> ('s, unit) prog" where
  "write_uint32 = memif_write_val 4"

definition read_uint64 :: "'s chunked_memif \<Rightarrow> addr \<Rightarrow> ('s, u64) prog" where
  "read_uint64 = memif_read_val 8"

definition write_uint64 :: "'s chunked_memif \<Rightarrow> addr \<Rightarrow> u64 \<Rightarrow> ('s, unit) prog" where
  "write_uint64 = memif_write_val 8"

definition read_int8 :: "'s chunked_memif \<Rightarrow> addr \<Rightarrow> ('s, int) prog" where
  "read_int8 c a = bind (memif_read_val 1 c a) (\<lambda>v :: byte. ret (sint v))"

definition read_int16 :: "'s chunked_memif \<Rightarrow> addr \<Rightarrow> ('s, int) prog" where
  "read_int16 c a = bind (memif_read_val 2 c a) (\<lambda>v :: u16. ret (sint v))"

definition read_int32 :: "'s chunked_memif \<Rightarrow> addr \<Rightarrow> ('s, int) prog" where
  "read_int32 c a = bind (memif_read_val 4 c a) (\<lambda>v :: u32. ret (sint v))"

definition read_int64 :: "'s chunked_memif \<Rightarrow> addr \<Rightarrow> ('s, int) prog" where
  "read_int64 c a = bind (memif_read_val 8 c a) (\<lambda>v :: u64. ret (sint v))"

definition write_int8 :: "'s chunked_memif \<Rightarrow> addr \<Rightarrow> int \<Rightarrow> ('s, unit) prog" where
  "write_int8 c a v = memif_write_val 1 c a (word_of_int v :: byte)"

definition write_int16 :: "'s chunked_memif \<Rightarrow> addr \<Rightarrow> int \<Rightarrow> ('s, unit) prog" where
  "write_int16 c a v = memif_write_val 2 c a (word_of_int v :: u16)"

definition write_int32 :: "'s chunked_memif \<Rightarrow> addr \<Rightarrow> int \<Rightarrow> ('s, unit) prog" where
  "write_int32 c a v = memif_write_val 4 c a (word_of_int v :: u32)"

definition write_int64 :: "'s chunked_memif \<Rightarrow> addr \<Rightarrow> int \<Rightarrow> ('s, unit) prog" where
  "write_int64 c a v = memif_write_val 8 c a (word_of_int v :: u64)"

section \<open>Alignment\<close>

lemma low_bits_pow2: "low_bits a (2 ^ k) = unat a mod 2 ^ k"
proof -
  have "a AND (of_nat (2 ^ k) - 1) = take_bit k a"
    by (simp add: take_bit_eq_mask mask_eq_exp_minus_1)
  then have "low_bits a (2 ^ k) = unat (take_bit k a)"
    by (simp only: low_bits_def)
  also have "\<dots> = take_bit k (unat a)"
    by (rule unsigned_take_bit_eq)
  finally show ?thesis
    by (simp only: take_bit_eq_mod)
qed

lemma low_bits_of_nat: "k < 64 \<Longrightarrow> low_bits (of_nat n) (2 ^ k) = n mod 2 ^ k"
proof -
  assume k: "k < 64"
  then have "(2 :: nat) ^ k dvd 2 ^ LENGTH(64)" by (intro le_imp_power_dvd) simp
  then show ?thesis
    by (simp only: low_bits_pow2 unat_of_nat take_bit_eq_mod mod_mod_cancel)
qed

lemma align_down_add: "align_down a n + of_nat (low_bits a n) = a"
proof -
  have "align_down a n + of_nat (low_bits a n) = (a AND NOT (of_nat n - 1)) OR (a AND (of_nat n - 1))"
    unfolding align_down_def low_bits_def
    by (simp add: disjunctive_add bit_simps)
  also have "\<dots> = a"
    by (rule bit_word_eqI) (auto simp: bit_simps)
  finally show ?thesis .
qed

lemma align_down_eq: "align_down a n = a - of_nat (low_bits a n)"
  using align_down_add [of a n] by (simp add: algebra_simps)

lemma dvd_unat_add:
  assumes "k < 64" and "2 ^ k dvd unat (x :: addr)" and "2 ^ k dvd n"
  shows "2 ^ k dvd unat (x + of_nat n)"
proof -
  have "low_bits (x + of_nat n) (2 ^ k) = (unat x + n) mod 2 ^ k"
    using low_bits_of_nat [OF assms(1), of "unat x + n"] by simp
  also have "\<dots> = 0" using assms(2,3) by auto
  finally show ?thesis by (simp add: low_bits_pow2 dvd_eq_mod_eq_0)
qed

lemma align_down_aligned: "2 ^ k dvd unat a \<Longrightarrow> align_down a (2 ^ k) = a"
  by (simp add: align_down_eq low_bits_pow2 dvd_eq_mod_eq_0)

lemma unat_align_down: "unat (align_down a (2 ^ k)) = unat a - unat a mod 2 ^ k"
proof -
  have "unat a mod 2 ^ k \<le> unat a" by simp
  moreover have "unat (of_nat (unat a mod 2 ^ k) :: addr) = unat a mod 2 ^ k"
    using unat_addr_less [of a] by (intro unat_of_nat_addr) (meson le_less_trans mod_less_eq_dividend)
  ultimately show ?thesis
    by (simp add: align_down_eq low_bits_pow2 unat_sub word_le_nat_alt)
qed

lemma align_down_dvd: "2 ^ k dvd unat (align_down a (2 ^ k))"
  by (simp add: unat_align_down dvd_minus_mod)

text \<open>The end of the chunk an address lies in.\<close>

lemma align_up_eq:
  assumes "low_bits a n < n"
  shows "a + of_nat (n - low_bits a n) = align_down a n + of_nat n"
proof -
  have "a + of_nat (n - low_bits a n) = align_down a n + (of_nat (low_bits a n) + of_nat (n - low_bits a n))"
    by (simp only: align_down_add flip: add.assoc)
  also have "\<dots> = align_down a n + of_nat n"
    using assms by (simp only: flip: of_nat_add) simp
  finally show ?thesis .
qed

text \<open>A range of addresses that lies in a set.\<close>

definition range_in :: "addr \<Rightarrow> nat \<Rightarrow> addr set \<Rightarrow> bool" where
  "range_in a n X \<longleftrightarrow> (\<forall>i<n. a + of_nat i \<in> X)"

lemma range_inI: "(\<And>i. i < n \<Longrightarrow> a + of_nat i \<in> X) \<Longrightarrow> range_in a n X"
  by (simp add: range_in_def)

lemma range_inD: "range_in a n X \<Longrightarrow> i < n \<Longrightarrow> a + of_nat i \<in> X"
  by (simp add: range_in_def)

lemma range_in_sub: "range_in a n X \<Longrightarrow> i + k \<le> n \<Longrightarrow> range_in (a + of_nat i) k X"
  by (auto simp: range_in_def add.assoc simp flip: of_nat_add)

lemma range_in_take: "range_in a n X \<Longrightarrow> k \<le> n \<Longrightarrow> range_in a k X"
  by (simp add: range_in_def)

section \<open>The contract of a provider of chunks\<close>

definition chunk_request :: "'s chunked_memif \<Rightarrow> 's \<Rightarrow> addr \<Rightarrow> nat \<Rightarrow> bool" where
  "chunk_request c s a n \<longleftrightarrow>
     chunk_align c s dvd unat a \<and> chunk_align c s dvd n \<and> 0 < n \<and> n \<le> chunk_max_size c s"

definition same_shape :: "'s chunked_memif \<Rightarrow> ('s \<Rightarrow> addr set) \<Rightarrow> 's \<Rightarrow> 's \<Rightarrow> bool" where
  "same_shape c D s s' \<longleftrightarrow>
     D s' = D s \<and> chunk_align c s' = chunk_align c s \<and> chunk_max_size c s' = chunk_max_size c s"

lemma same_shape_refl [simp]: "same_shape c D s s"
  by (simp add: same_shape_def)

lemma same_shape_trans: "same_shape c D s t \<Longrightarrow> same_shape c D t u \<Longrightarrow> same_shape c D s u"
  by (simp add: same_shape_def)

text \<open>
  \<open>view\<close> is the target memory the provider shows, \<open>D\<close> the addresses it serves,
  \<open>inv\<close> its invariant and \<open>clears\<close> the ranges its \<open>clear_chunk\<close> really clears,
  which it decides from the bytes of the range alone.
\<close>

locale chunked_memory =
  fixes c :: "'s chunked_memif"
    and view :: "'s \<Rightarrow> mem"
    and D :: "'s \<Rightarrow> addr set"
    and inv :: "'s \<Rightarrow> bool"
    and clears :: "mem \<Rightarrow> addr \<Rightarrow> nat \<Rightarrow> bool"
  assumes align_pow2: "inv s \<Longrightarrow> \<exists>k<64. chunk_align c s = 2 ^ k"
    and max_size: "inv s \<Longrightarrow> 0 < chunk_max_size c s \<and> chunk_align c s dvd chunk_max_size c s"
    and whole_chunks: "inv s \<Longrightarrow> a \<in> D s \<Longrightarrow> i < chunk_align c s \<Longrightarrow>
      align_down a (chunk_align c s) + of_nat i \<in> D s"
    and read_law: "inv s \<Longrightarrow> chunk_request c s a n \<Longrightarrow> n < 2 ^ 64 \<Longrightarrow> range_in a n (D s) \<Longrightarrow>
      wp (read_chunk c a n) (\<lambda>bs s'. bs = mem_read (view s) a n \<and>
        view s' = view s \<and> inv s' \<and> same_shape c D s s') s"
    and write_law: "inv s \<Longrightarrow> chunk_request c s a (length bs) \<Longrightarrow> length bs < 2 ^ 64 \<Longrightarrow>
      range_in a (length bs) (D s) \<Longrightarrow>
      wp (write_chunk c a bs) (\<lambda>_ s'. view s' = mem_write (view s) a bs \<and>
        inv s' \<and> same_shape c D s s') s"
    and clear_law: "inv s \<Longrightarrow> chunk_align c s dvd unat a \<Longrightarrow> chunk_align c s dvd n \<Longrightarrow> 0 < n \<Longrightarrow>
      n < 2 ^ 64 \<Longrightarrow> range_in a n (D s) \<Longrightarrow> clears (view s) a n \<Longrightarrow>
      wp (clear_chunk c a n) (\<lambda>_ s'. view s' = mem_write (view s) a (replicate n 0) \<and>
        inv s' \<and> same_shape c D s s') s"
    and clears_local: "mem_read m a n = mem_read m' a n \<Longrightarrow> clears m a n = clears m' a n"
begin

lemma max_ge_align: "inv s \<Longrightarrow> chunk_align c s \<le> chunk_max_size c s"
  using max_size dvd_imp_le by blast

lemma request_chunk:
  assumes "inv s" and "a \<in> D s" and "chunk_align c s dvd unat a"
  shows "chunk_request c s a (chunk_align c s)" and "range_in a (chunk_align c s) (D s)"
    and "chunk_align c s < 2 ^ 64"
proof -
  obtain k where k: "k < 64" "chunk_align c s = 2 ^ k" using align_pow2 assms(1) by blast
  have "align_down a (chunk_align c s) = a"
    using assms(3) k(2) by (simp add: align_down_aligned)
  then show "range_in a (chunk_align c s) (D s)"
    using whole_chunks [OF assms(1,2)] by (simp add: range_in_def)
  show "chunk_request c s a (chunk_align c s)"
    using assms max_ge_align [OF assms(1)] k by (simp add: chunk_request_def)
  show "chunk_align c s < 2 ^ 64"
    using k by (metis one_less_numeral_iff power_strict_increasing semiring_norm(76))
qed

lemma request_base:
  assumes "inv s" and "a \<in> D s"
  defines "b \<equiv> align_down a (chunk_align c s)"
  shows "b \<in> D s" and "chunk_align c s dvd unat b"
proof -
  obtain k where k: "k < 64" "chunk_align c s = 2 ^ k" using align_pow2 assms(1) by blast
  show "chunk_align c s dvd unat b" using k by (simp add: b_def align_down_dvd)
  show "b \<in> D s" using whole_chunks [OF assms(1,2), of 0] k by (simp add: b_def)
qed

abbreviation ok :: "'s \<Rightarrow> 's \<Rightarrow> bool" where
  "ok s s' \<equiv> view s' = view s \<and> inv s' \<and> same_shape c D s s'"

lemma ok_trans: "ok s s' \<Longrightarrow> ok s' t \<Longrightarrow> ok s t"
  by (simp add: same_shape_def)

lemma ok_mono:
  assumes "wp m (\<lambda>a t. P a \<and> ok s' t) s''" and "ok s s'"
  shows "wp m (\<lambda>a t. P a \<and> ok s t) s''"
  using assms(1) by (rule wp_mono) (use assms(2) ok_trans in blast)

lemma wp_read_aligned_chunk:
  assumes "inv s" and "a \<in> D s" and "chunk_align c s dvd unat a"
  shows "wp (read_chunk c a (chunk_align c s))
    (\<lambda>bs s'. bs = mem_read (view s) a (chunk_align c s) \<and> ok s s') s"
  using request_chunk [OF assms] read_law assms(1) by blast

lemma wp_read_head:
  assumes "inv s" and "range_in a len (D s)"
  shows "wp (read_head c (chunk_align c s) a len) (\<lambda>(hd, h) s'.
      h \<le> len \<and> hd = mem_read (view s) a h \<and>
      (h = len \<or> chunk_align c s dvd unat (a + of_nat h)) \<and> ok s s') s"
proof -
  obtain k where k: "k < 64" "chunk_align c s = 2 ^ k" using align_pow2 assms(1) by blast
  let ?al = "chunk_align c s" and ?off = "low_bits a (chunk_align c s)"
  let ?b = "align_down a ?al"
  show ?thesis
  proof (cases "len \<noteq> 0 \<and> ?off \<noteq> 0")
    case False
    then have "len = 0 \<or> ?al dvd unat a"
      by (auto simp: k(2) low_bits_pow2 dvd_eq_mod_eq_0)
    with False assms show ?thesis by (auto simp: read_head_def)
  next
    case True
    have a: "a \<in> D s" using range_inD [OF assms(2), of 0] True by simp
    have off: "?off < ?al" by (simp add: k(2) low_bits_pow2)
    have end_al: "?al dvd unat (a + of_nat (?al - ?off))"
      unfolding align_up_eq [OF off]
      using dvd_unat_add [OF k(1), of ?b ?al] request_base(2) [OF assms(1) a] k(2) by simp
    have "wp (read_chunk c ?b ?al) (\<lambda>bs s'. bs = mem_read (view s) ?b ?al \<and> ok s s') s"
      using request_base [OF assms(1) a] assms(1) by (intro wp_read_aligned_chunk) auto
    then show ?thesis
      using True off end_al
      by (auto simp: read_head_def Let_def min_def align_down_add elim!: wp_mono)
  qed
qed

lemma wp_read_tail:
  assumes "inv s" and "range_in a len (D s)" and "len = 0 \<or> chunk_align c s dvd unat a"
  shows "wp (read_tail c (chunk_align c s) a len) (\<lambda>(tl, t) s'.
      t = len mod chunk_align c s \<and> tl = mem_read (view s) (a + of_nat (len - t)) t \<and> ok s s') s"
proof -
  obtain k where k: "k < 64" "chunk_align c s = 2 ^ k" using align_pow2 assms(1) by blast
  let ?al = "chunk_align c s"
  have t: "low_bits (of_nat len) ?al = len mod ?al"
    unfolding k(2) by (rule low_bits_of_nat [OF k(1)])
  show ?thesis
  proof (cases "len mod ?al = 0")
    case True
    with assms t show ?thesis by (simp add: read_tail_def)
  next
    case False
    then have "len \<noteq> 0" by (intro notI) simp
    let ?x = "a + of_nat (len - len mod ?al)"
    have "len - len mod ?al < len" using False \<open>len \<noteq> 0\<close> by simp
    then have x: "?x \<in> D s" by (rule range_inD [OF assms(2)])
    have "?al dvd unat ?x"
      using dvd_unat_add [OF k(1), of a "len - len mod ?al"] assms(3) \<open>len \<noteq> 0\<close> k(2)
      by (simp add: dvd_minus_mod)
    then have "wp (read_chunk c ?x ?al) (\<lambda>bs s'. bs = mem_read (view s) ?x ?al \<and> ok s s') s"
      using assms(1) x by (intro wp_read_aligned_chunk)
    then show ?thesis
      using False t k(2)
      by (auto simp: read_tail_def Let_def min_def less_imp_le elim!: wp_mono)
  qed
qed

lemma wp_read_loop:
  assumes "inv s" and "chunk_align c s dvd unat a" and "chunk_align c s dvd len"
    and "chunk_align c s dvd pos" and "range_in a len (D s)" and "len < 2 ^ 64"
  shows "wp (read_loop c a len pos (mem_read (view s) a (min pos len)))
    (\<lambda>bs s'. bs = mem_read (view s) a len \<and> ok s s') s"
  using assms
proof (induction "len - pos" arbitrary: pos s rule: less_induct)
  case less
  note prems = less.prems
  show ?case
  proof (cases "pos < len")
    case False
    then show ?thesis using prems by (simp add: wp_def read_loop.simps min_def)
  next
    case True
    let ?mx = "chunk_max_size c s" and ?al = "chunk_align c s"
    obtain k where k: "k < 64" "?al = 2 ^ k" using align_pow2 prems(1) by blast
    let ?n = "min ?mx (len - pos)" and ?x = "a + of_nat pos"
    have mx: "0 < ?mx" "?al dvd ?mx" using max_size prems(1) by auto
    have "?al dvd ?n" using mx prems(3,4) by (simp add: min_def)
    moreover have "?al dvd unat ?x"
      using dvd_unat_add [OF k(1), of a pos] prems(2,4) k(2) by simp
    ultimately have "chunk_request c s ?x ?n"
      using True mx by (simp add: chunk_request_def)
    moreover have "range_in ?x ?n (D s)"
      by (rule range_in_sub [OF prems(5)]) (use True in simp)
    ultimately have "wp (read_chunk c ?x ?n) (\<lambda>bs s'. bs = mem_read (view s) ?x ?n \<and> ok s s') s"
      using read_law [OF prems(1)] prems(6) by simp
    then obtain b s' where run: "read_chunk c ?x ?n s = Some (Inr (b, s'))"
      and post: "b = mem_read (view s) ?x ?n \<and> ok s s'"
      by (rule wpE)
    then have b: "b = mem_read (view s) ?x ?n" and ok: "ok s s'" by simp_all
    have shape: "chunk_max_size c s' = ?mx" "chunk_align c s' = ?al" "D s' = D s"
      using ok by (auto simp: same_shape_def)
    have "mem_read (view s) a (min pos len) @ b = mem_read (view s) a (min (pos + ?mx) len)"
    proof -
      have "min (pos + ?mx) len = pos + ?n" "min pos len = pos" using True by auto
      then show ?thesis by (simp only: b mem_read_append)
    qed
    moreover have "wp (read_loop c a len (pos + ?mx) (mem_read (view s') a (min (pos + ?mx) len)))
        (\<lambda>bs t. bs = mem_read (view s') a len \<and> ok s' t) s'"
      using True mx ok prems shape by (intro less.hyps) (auto intro: dvd_add)
    ultimately have "wp (read_loop c a len (pos + ?mx) (mem_read (view s) a (min pos len) @ b))
        (\<lambda>bs t. bs = mem_read (view s) a len \<and> ok s' t) s'"
      using ok by simp
    from ok_mono [OF this ok] have "wp (read_loop c a len (pos + ?mx) (mem_read (view s) a (min pos len) @ b))
        (\<lambda>bs t. bs = mem_read (view s) a len \<and> ok s t) s'" .
    then show ?thesis
      using True run shape by (simp add: wp_def read_loop.simps [of c a len pos])
  qed
qed

lemma wp_read_middle:
  assumes "inv s" and "range_in a len (D s)" and "len < 2 ^ 64"
    and "len = 0 \<or> chunk_align c s dvd unat a" and "chunk_align c s dvd len"
  shows "wp (read_loop c a len 0 []) (\<lambda>bs s'. bs = mem_read (view s) a len \<and> ok s s') s"
proof (cases "len = 0")
  case True
  then show ?thesis using assms by (simp add: wp_def read_loop.simps)
next
  case False
  then show ?thesis
    using wp_read_loop [of s a len 0] assms by simp
qed

lemma wp_read_rest:
  assumes "inv s" and "range_in a len (D s)" and "len < 2 ^ 64"
    and "len = 0 \<or> chunk_align c s dvd unat a"
  shows "wp (bind (read_tail c (chunk_align c s) a len) (\<lambda>(tail, t).
      bind (read_loop c a (len - t) 0 []) (\<lambda>mid. ret (hs @ mid @ tail))))
    (\<lambda>bs s'. bs = hs @ mem_read (view s) a len \<and> ok s s') s"
  unfolding wp_bind
  using wp_read_tail [OF assms(1,2,4)]
proof (rule wp_mono, clarify)
  fix tl t s'
  let ?t = "len mod chunk_align c s"
  assume s': "view s' = view s" "inv s'" "same_shape c D s s'"
  have shape: "chunk_align c s' = chunk_align c s" "D s' = D s"
    using s'(3) by (auto simp: same_shape_def)
  have "range_in a (len - ?t) (D s')"
    unfolding shape by (rule range_in_take [OF assms(2)]) simp
  then have "wp (read_loop c a (len - ?t) 0 [])
      (\<lambda>bs t. bs = mem_read (view s') a (len - ?t) \<and> ok s' t) s'"
    using assms(3,4) s' shape by (intro wp_read_middle) (auto simp: dvd_minus_mod)
  from ok_mono [OF this] have "wp (read_loop c a (len - ?t) 0 [])
      (\<lambda>bs t. bs = mem_read (view s') a (len - ?t) \<and> ok s t) s'"
    using s' by blast
  moreover have "mem_read (view s) a len =
      mem_read (view s) a (len - ?t) @ mem_read (view s) (a + of_nat (len - ?t)) ?t"
    using mem_read_append [of "view s" a "len - ?t" ?t] by simp
  ultimately show "wp (bind (read_loop c a (len - ?t) 0 []) (\<lambda>mid. ret (hs @ mid @
      mem_read (view s) (a + of_nat (len - ?t)) ?t)))
    (\<lambda>bs s'. bs = hs @ mem_read (view s) a len \<and> ok s s') s'"
    unfolding wp_bind by (elim wp_mono) (simp add: s')
qed

text \<open>
  Reading: \<open>memif_t::read\<close> returns exactly the bytes of the range and leaves the memory
  as it was.
\<close>

lemma wp_memif_read:
  assumes "inv s" and "range_in a len (D s)" and "len < 2 ^ 64"
  shows "wp (memif_read c a len) (\<lambda>bs s'. bs = mem_read (view s) a len \<and> ok s s') s"
  unfolding memif_read_def wp_bind wp_gets
  using wp_read_head [OF assms(1,2)]
proof (rule wp_mono, clarify)
  fix hs h s'
  assume h: "h \<le> len" "h = len \<or> chunk_align c s dvd unat (a + of_nat h)"
    and s': "view s' = view s" "inv s'" "same_shape c D s s'"
  have shape: "chunk_align c s' = chunk_align c s" "D s' = D s"
    using s'(3) by (auto simp: same_shape_def)
  have "range_in (a + of_nat h) (len - h) (D s')"
    unfolding shape by (rule range_in_sub [OF assms(2)]) (use h in simp)
  then have "wp (bind (read_tail c (chunk_align c s') (a + of_nat h) (len - h)) (\<lambda>(tail, t).
      bind (read_loop c (a + of_nat h) (len - h - t) 0 []) (\<lambda>mid. ret (mem_read (view s) a h @ mid @ tail))))
    (\<lambda>bs t. bs = mem_read (view s) a h @ mem_read (view s') (a + of_nat h) (len - h) \<and> ok s' t) s'"
    using h(2) s'(2) shape assms(3) by (intro wp_read_rest) auto
  from ok_mono [OF this]
  show "wp (bind (read_tail c (chunk_align c s) (a + of_nat h) (len - h)) (\<lambda>(tail, t).
      bind (read_loop c (a + of_nat h) (len - h - t) 0 []) (\<lambda>mid. ret (mem_read (view s) a h @ mid @ tail))))
    (\<lambda>bs s'. bs = mem_read (view s) a len \<and> ok s s') s'"
    using h(1) s' shape mem_read_append [of "view s" a h "len - h"] by simp
qed

abbreviation wrote :: "'s \<Rightarrow> addr \<Rightarrow> byte list \<Rightarrow> 's \<Rightarrow> bool" where
  "wrote s a bs s' \<equiv> view s' = mem_write (view s) a bs \<and> inv s' \<and> same_shape c D s s'"

lemma wp_patch_chunk:
  assumes "inv s" and "b \<in> D s" and "chunk_align c s dvd unat b"
    and "k + length bs \<le> chunk_align c s"
  shows "wp (bind (read_chunk c b (chunk_align c s)) (\<lambda>chunk.
      write_chunk c b (take k chunk @ bs @ drop (k + length bs) chunk)))
    (\<lambda>_. wrote s (b + of_nat k) bs) s"
  unfolding wp_bind
  using wp_read_aligned_chunk [OF assms(1-3)]
proof (rule wp_mono, clarify)
  fix s'
  let ?al = "chunk_align c s" and ?chunk = "mem_read (view s) b (chunk_align c s)"
  let ?new = "take k ?chunk @ bs @ drop (k + length bs) ?chunk"
  assume s': "view s' = view s" "inv s'" "same_shape c D s s'"
  have shape: "chunk_align c s' = ?al" "D s' = D s" using s'(3) by (auto simp: same_shape_def)
  have len: "length ?new = ?al" using assms(4) by simp
  note req = request_chunk [of s' b, unfolded shape, OF s'(2) assms(2,3)]
  have "wp (write_chunk c b ?new) (\<lambda>_. wrote s' b ?new) s'"
    using req s'(2) by (intro write_law) (simp_all only: len shape)
  moreover have "mem_write (view s') b ?new = mem_write (view s) (b + of_nat k) bs"
    unfolding s'(1) by (rule mem_write_patch) (use assms(4) req(3) in auto)
  ultimately show "wp (write_chunk c b ?new) (\<lambda>_. wrote s (b + of_nat k) bs) s'"
    by (elim wp_mono) (use s'(3) in \<open>auto simp: same_shape_def\<close>)
qed

lemma wp_write_head:
  assumes "inv s" and "range_in a (length bs) (D s)"
  shows "wp (write_head c (chunk_align c s) a bs) (\<lambda>h s'.
      h \<le> length bs \<and> (h = length bs \<or> chunk_align c s dvd unat (a + of_nat h)) \<and>
      wrote s a (take h bs) s') s"
proof -
  obtain k where k: "k < 64" "chunk_align c s = 2 ^ k" using align_pow2 assms(1) by blast
  let ?al = "chunk_align c s" and ?off = "low_bits a (chunk_align c s)"
  let ?b = "align_down a ?al" and ?n = "min (length bs) (chunk_align c s - low_bits a (chunk_align c s))"
  show ?thesis
  proof (cases "length bs \<noteq> 0 \<and> ?off \<noteq> 0")
    case False
    then have "length bs = 0 \<or> ?al dvd unat a"
      by (auto simp: k(2) low_bits_pow2 dvd_eq_mod_eq_0)
    with False assms show ?thesis by (auto simp: write_head_def)
  next
    case True
    have a: "a \<in> D s" using range_inD [OF assms(2), of 0] True by simp
    have off: "?off < ?al" by (simp add: k(2) low_bits_pow2)
    have base: "?b + of_nat ?off = a" by (rule align_down_add)
    have end_al: "?al dvd unat (a + of_nat (?al - ?off))"
      unfolding align_up_eq [OF off]
      using dvd_unat_add [OF k(1), of ?b ?al] request_base(2) [OF assms(1) a] k(2) by simp
    have "wp (bind (read_chunk c ?b ?al) (\<lambda>chunk. write_chunk c ?b
        (take ?off chunk @ take ?n bs @ drop (?off + length (take ?n bs)) chunk)))
      (\<lambda>_. wrote s (?b + of_nat ?off) (take ?n bs)) s"
      using request_base [OF assms(1) a] assms(1) off by (intro wp_patch_chunk) auto
    then show ?thesis
      using True end_al unfolding base
      by (auto simp: write_head_def Let_def min_def elim!: wp_mono)
  qed
qed

lemma wp_write_tail:
  assumes "inv s" and "range_in a (length bs) (D s)" and "bs = [] \<or> chunk_align c s dvd unat a"
  shows "wp (write_tail c (chunk_align c s) a bs) (\<lambda>t s'. t = length bs mod chunk_align c s \<and>
      wrote s (a + of_nat (length bs - t)) (drop (length bs - t) bs) s') s"
proof -
  obtain k where k: "k < 64" "chunk_align c s = 2 ^ k" using align_pow2 assms(1) by blast
  let ?al = "chunk_align c s" and ?len = "length bs"
  have t: "low_bits (of_nat ?len) ?al = ?len mod ?al"
    unfolding k(2) by (rule low_bits_of_nat [OF k(1)])
  show ?thesis
  proof (cases "?len mod ?al = 0")
    case True
    with assms t show ?thesis by (simp add: write_tail_def)
  next
    case False
    then have "?len \<noteq> 0" by (intro notI) simp
    let ?start = "?len - ?len mod ?al"
    have "?start < ?len" using False \<open>?len \<noteq> 0\<close> by simp
    then have x: "a + of_nat ?start \<in> D s" by (rule range_inD [OF assms(2)])
    have "?al dvd unat (a + of_nat ?start)"
      using dvd_unat_add [OF k(1), of a ?start] assms(3) \<open>?len \<noteq> 0\<close> k(2)
      by (simp add: dvd_minus_mod)
    then have "wp (bind (read_chunk c (a + of_nat ?start) ?al) (\<lambda>chunk.
        write_chunk c (a + of_nat ?start) (take 0 chunk @ drop ?start bs @
          drop (0 + length (drop ?start bs)) chunk)))
      (\<lambda>_. wrote s (a + of_nat ?start + of_nat 0) (drop ?start bs)) s"
      using assms(1) x k by (intro wp_patch_chunk) (auto simp: less_imp_le)
    then show ?thesis
      using False t k(2) by (auto simp: write_tail_def Let_def less_imp_le elim!: wp_mono)
  qed
qed

lemma wp_write_loop:
  assumes "inv s" and "chunk_align c s dvd unat a" and "chunk_align c s dvd length bs"
    and "chunk_align c s dvd pos" and "range_in a (length bs) (D s)" and "length bs < 2 ^ 64"
    and "mx = chunk_max_size c s"
  shows "wp (write_loop c mx a bs pos) (\<lambda>_. wrote s (a + of_nat pos) (drop pos bs)) s"
  using assms
proof (induction "length bs - pos" arbitrary: pos s rule: less_induct)
  case less
  note prems = less.prems
  show ?case
  proof (cases "pos < length bs")
    case False
    then show ?thesis using prems by (simp add: wp_def write_loop.simps)
  next
    case True
    let ?al = "chunk_align c s" and ?x = "a + of_nat pos" and ?bs = "take mx (drop pos bs)"
    obtain k where k: "k < 64" "?al = 2 ^ k" using align_pow2 prems(1) by blast
    have mx: "0 < mx" "?al dvd mx" using max_size prems(1,7) by auto
    have len: "length ?bs = min mx (length bs - pos)" by simp
    have "?al dvd length ?bs" using mx prems(3,4) by (simp add: min_def)
    moreover have "?al dvd unat ?x"
      using dvd_unat_add [OF k(1), of a pos] prems(2,4) k(2) by simp
    ultimately have "chunk_request c s ?x (length ?bs)"
      using True mx prems(7) by (simp add: chunk_request_def)
    moreover have "range_in ?x (length ?bs) (D s)"
      by (rule range_in_sub [OF prems(5)]) (use True in simp)
    ultimately have "wp (write_chunk c ?x ?bs) (\<lambda>_. wrote s ?x ?bs) s"
      using write_law [OF prems(1)] prems(6) by simp
    then obtain u s' where run: "write_chunk c ?x ?bs s = Some (Inr (u, s'))" and w: "wrote s ?x ?bs s'"
      by (rule wpE)
    have shape: "chunk_max_size c s' = chunk_max_size c s" "chunk_align c s' = ?al" "D s' = D s"
      using w by (auto simp: same_shape_def)
    have next_pos: "wp (write_loop c mx a bs (pos + mx))
        (\<lambda>_. wrote s' (a + of_nat (pos + mx)) (drop (pos + mx) bs)) s'"
      using True mx w prems shape by (intro less.hyps) (auto intro: dvd_add)
    have split: "mem_write (view s') (a + of_nat (pos + mx)) (drop (pos + mx) bs) =
        mem_write (view s) ?x (drop pos bs)"
    proof (cases "mx \<le> length bs - pos")
      case True
      have eq: "drop pos bs = ?bs @ drop (pos + mx) bs"
        using append_take_drop_id [of mx "drop pos bs"] by (simp add: add.commute)
      have "mem_write (view s) ?x (drop pos bs) =
          mem_write (mem_write (view s) ?x ?bs) (?x + of_nat (length ?bs)) (drop (pos + mx) bs)"
        by (subst eq, rule mem_write_append)
      moreover have "length ?bs = mx" using True by simp
      moreover have "view s' = mem_write (view s) ?x ?bs" using w by simp
      ultimately show ?thesis by (simp only: of_nat_add add.assoc)
    next
      case False
      then show ?thesis using w by simp
    qed
    show ?thesis
      unfolding wp_def write_loop.simps [of c mx a bs pos s]
      using True run next_pos w split
      by (auto simp: wp_def same_shape_def split: option.splits sum.splits)
  qed
qed

lemma wp_write_body:
  assumes "inv s" and "bs = [] \<or> chunk_align c s dvd unat a" and "chunk_align c s dvd length bs"
    and "range_in a (length bs) (D s)" and "length bs < 2 ^ 64"
    and "bs \<noteq> [] \<Longrightarrow> list_all (\<lambda>b. b = 0) bs \<Longrightarrow> clears (view s) a (length bs)"
  shows "wp (write_body c a bs) (\<lambda>_. wrote s a bs) s"
proof (cases "bs \<noteq> [] \<and> list_all (\<lambda>b. b = 0) bs")
  case True
  then have "bs = replicate (length bs) 0" by (simp add: list_all_iff replicate_length_same)
  with True assms show ?thesis
    using clear_law [of s a "length bs"] by (simp add: write_body_def)
next
  case False
  then have body: "write_body c a bs = bind (gets (chunk_max_size c)) (\<lambda>mx. write_loop c mx a bs 0)"
    by (simp only: write_body_def if_False)
  show ?thesis
  proof (cases "bs = []")
    case True
    then show ?thesis using assms unfolding body by (simp add: wp_def write_loop.simps run_simps)
  next
    case False
    then show ?thesis
      using wp_write_loop [of s a bs 0 "chunk_max_size c s"] assms unfolding body by simp
  qed
qed

lemma wp_write_rest:
  assumes "inv s" and "range_in a (length bs) (D s)" and "length bs < 2 ^ 64"
    and "bs = [] \<or> chunk_align c s dvd unat a"
    and clears: "\<And>n. 0 < n \<Longrightarrow> n \<le> length bs \<Longrightarrow> list_all (\<lambda>b. b = 0) (take n bs) \<Longrightarrow>
      clears (view s) a n"
  shows "wp (bind (write_tail c (chunk_align c s) a bs)
      (\<lambda>t. write_body c a (take (length bs - t) bs))) (\<lambda>_. wrote s a bs) s"
  unfolding wp_bind
  using wp_write_tail [OF assms(1,2,4)]
proof (rule wp_mono, clarify)
  fix s'
  let ?n = "length bs - length bs mod chunk_align c s"
  let ?tail = "drop ?n bs" and ?mid = "take ?n bs"
  assume s': "view s' = mem_write (view s) (a + of_nat ?n) ?tail" "inv s'" "same_shape c D s s'"
  have shape: "chunk_align c s' = chunk_align c s" "D s' = D s"
    using s'(3) by (auto simp: same_shape_def)
  have "mem_read (view s') a ?n = mem_read (view s) a ?n"
    unfolding s'(1) using assms(3) by (intro mem_read_before) simp
  then have "clears (view s') a ?n = clears (view s) a ?n" by (rule clears_local)
  then have "wp (write_body c a ?mid) (\<lambda>_. wrote s' a ?mid) s'"
    using s'(2) shape assms clears [of ?n] range_in_take [OF assms(2), of ?n]
    by (intro wp_write_body) (auto simp: dvd_minus_mod)
  moreover have "mem_write (view s') a ?mid = mem_write (view s) a bs"
    unfolding s'(1) using mem_write_adjacent [of ?mid ?tail "view s" a] assms(3) by simp
  ultimately show "wp (write_body c a ?mid) (\<lambda>_. wrote s a bs) s'"
    by (elim wp_mono) (use s'(3) in \<open>auto simp: same_shape_def\<close>)
qed

text \<open>
  Writing: \<open>memif_t::write\<close> changes exactly the bytes of the range, provided the part of
  the range it may clear is one that \<open>clear_chunk\<close> really clears.
\<close>

lemma wp_memif_write:
  assumes "inv s" and "range_in a (length bs) (D s)" and "length bs < 2 ^ 64"
    and clears: "\<And>i n. 0 < n \<Longrightarrow> i + n \<le> length bs \<Longrightarrow> list_all (\<lambda>b. b = 0) (take n (drop i bs)) \<Longrightarrow>
      clears (view s) (a + of_nat i) n"
  shows "wp (memif_write c a bs) (\<lambda>_. wrote s a bs) s"
  unfolding memif_write_def wp_bind wp_gets Let_def
  using wp_write_head [OF assms(1,2)]
proof (rule wp_mono)
  fix h s'
  assume "h \<le> length bs \<and> (h = length bs \<or> chunk_align c s dvd unat (a + of_nat h)) \<and>
      wrote s a (take h bs) s'"
  then have h: "h \<le> length bs" "h = length bs \<or> chunk_align c s dvd unat (a + of_nat h)"
    and s': "view s' = mem_write (view s) a (take h bs)" "inv s'" "same_shape c D s s'"
    by simp_all
  let ?a = "a + of_nat h" and ?bs = "drop h bs"
  have shape: "chunk_align c s' = chunk_align c s" "D s' = D s"
    using s'(3) by (auto simp: same_shape_def)
  have "clears (view s') ?a n" if n: "0 < n" "n \<le> length ?bs" "list_all (\<lambda>b. b = 0) (take n ?bs)" for n
  proof -
    have "mem_read (view s') ?a n = mem_read (view s) ?a n"
      unfolding s'(1) using n(2) h(1) assms(3) mem_read_after [of "take h bs" n "view s" a] by simp
    then have "clears (view s') ?a n = clears (view s) ?a n" by (rule clears_local)
    then show ?thesis using clears [of n h] n h(1) by simp
  qed
  moreover have "range_in ?a (length ?bs) (D s')"
    unfolding shape by (rule range_in_sub [OF assms(2)]) (use h(1) in simp)
  ultimately have "wp (bind (write_tail c (chunk_align c s') ?a ?bs)
      (\<lambda>t. write_body c ?a (take (length ?bs - t) ?bs))) (\<lambda>_. wrote s' ?a ?bs) s'"
    using h(2) s'(2) shape assms(3) by (intro wp_write_rest) auto
  moreover have "mem_write (view s') ?a ?bs = mem_write (view s) a bs"
    unfolding s'(1) using mem_write_append [of "view s" a "take h bs" ?bs] h(1) by simp
  ultimately show "wp (write_tail c (chunk_align c s) ?a ?bs)
      (\<lambda>t. wp (write_body c ?a (take (length ?bs - t) ?bs)) (\<lambda>_. wrote s a bs)) s'"
    unfolding shape wp_bind [symmetric]
    by (elim wp_mono) (use s'(3) in \<open>auto simp: same_shape_def\<close>)
qed

end

text \<open>A provider whose \<open>clear_chunk\<close> clears every range.\<close>

locale clearing_memory = chunked_memory c view D inv "\<lambda>_ _ _. True"
  for c :: "'s chunked_memif" and view D inv
begin

lemma wp_write:
  "inv s \<Longrightarrow> range_in a (length bs) (D s) \<Longrightarrow> length bs < 2 ^ 64 \<Longrightarrow>
    wp (memif_write c a bs) (\<lambda>_. wrote s a bs) s"
  by (rule wp_memif_write) simp_all

text \<open>Reading back what was written.\<close>

lemma wp_write_read:
  assumes "inv s" and "range_in a (length bs) (D s)" and "length bs < 2 ^ 64"
  shows "wp (bind (memif_write c a bs) (\<lambda>_. memif_read c a (length bs)))
    (\<lambda>r s'. r = bs \<and> wrote s a bs s') s"
  unfolding wp_bind
  using wp_write [OF assms]
proof (rule wp_mono)
  fix u s'
  assume s': "wrote s a bs s'"
  then have "range_in a (length bs) (D s')" using assms(2) by (simp add: same_shape_def)
  with s' assms(3) have "wp (memif_read c a (length bs))
      (\<lambda>r t. r = mem_read (view s') a (length bs) \<and> ok s' t) s'"
    by (intro wp_memif_read) auto
  then show "wp (memif_read c a (length bs)) (\<lambda>r t. r = bs \<and> wrote s a bs t) s'"
    by (elim wp_mono) (use s' assms(3) in \<open>auto simp: same_shape_def\<close>)
qed

end

end
