(* ===== verification/Hexwriter.thy ===== *)
theory Hexwriter
  imports Memif
begin

text \<open>
  The memory image writer of \<open>elf2hex\<close> (\<open>tb/dpi/fesvr/htif_hexwriter.h\<close>,
  \<open>htif_hexwriter.cc\<close>): a provider of chunks that keeps rows of \<open>width\<close> bytes in a
  \<open>std::map\<close>, and prints one line of hexadecimal digits per row.
\<close>

section \<open>State and operations\<close>

record hexwriter =
  hx_base :: addr
  hx_width :: nat
  hx_depth :: nat
  hx_mem :: "nat \<rightharpoonup> byte list"

definition htif_hexwriter :: "addr \<Rightarrow> nat \<Rightarrow> nat \<Rightarrow> hexwriter" where
  "htif_hexwriter b w d = \<lparr>hx_base = b, hx_width = w, hx_depth = d, hx_mem = Map.empty\<rparr>"

text \<open>The asserts both transfers start with; \<open>t\<close> is the address relative to the base.\<close>

definition hx_check :: "addr \<Rightarrow> nat \<Rightarrow> (hexwriter, unit) prog" where
  "hx_check t len =
     bind (gets (\<lambda>s. (hx_width s, hx_depth s))) (\<lambda>(w, d).
     bind (check (w \<noteq> 0) (Undefined ''division by zero'')) (\<lambda>_.
     bind (check (len mod w = 0) (Assert_Failed ''len % chunk_align() == 0'')) (\<lambda>_.
     bind (check (t < of_nat (w * d)) (Assert_Failed ''taddr < width*depth'')) (\<lambda>_.
     check (t + of_nat len \<le> of_nat (w * d)) (Assert_Failed ''taddr+len <= width*depth'')))))"

text \<open>
  A row as the loops find it: \<open>mem[taddr/width]\<close> inserts an empty row when there is none,
  and an empty row is resized to \<open>width\<close> zero bytes.
\<close>

definition hx_row :: "hexwriter \<Rightarrow> nat \<Rightarrow> byte list" where
  "hx_row s r = (case hx_mem s r of
       None \<Rightarrow> replicate (hx_width s) 0
     | Some v \<Rightarrow> if v = [] then replicate (hx_width s) 0 else v)"

text \<open>
  The \<open>while (len)\<close> loops: \<open>len\<close> is a multiple of \<open>width\<close> there, so they run once per
  row. The read loop advances its destination; the write loop does not advance its source.
\<close>

primrec hx_read_rows :: "nat \<Rightarrow> addr \<Rightarrow> (hexwriter, byte list) prog" where
  "hx_read_rows 0 t = ret []"
| "hx_read_rows (Suc n) t =
     bind (gets (\<lambda>s. (hx_width s, unat t div hx_width s))) (\<lambda>(w, r).
     bind (gets (\<lambda>s. hx_row s r)) (\<lambda>row.
     bind (modify (\<lambda>s. s\<lparr>hx_mem := (hx_mem s)(r \<mapsto> row)\<rparr>)) (\<lambda>_.
     bind (hx_read_rows n (t + of_nat w)) (\<lambda>rest.
     ret (take w row @ rest)))))"

primrec hx_write_rows :: "nat \<Rightarrow> addr \<Rightarrow> byte list \<Rightarrow> (hexwriter, unit) prog" where
  "hx_write_rows 0 t src = ret ()"
| "hx_write_rows (Suc n) t src =
     bind (gets (\<lambda>s. (hx_width s, unat t div hx_width s))) (\<lambda>(w, r).
     bind (gets (\<lambda>s. hx_row s r)) (\<lambda>row.
     bind (modify (\<lambda>s. s\<lparr>hx_mem := (hx_mem s)(r \<mapsto> take w src @ drop w row)\<rparr>)) (\<lambda>_.
     hx_write_rows n (t + of_nat w) src)))"

definition hx_read_chunk :: "addr \<Rightarrow> nat \<Rightarrow> (hexwriter, byte list) prog" where
  "hx_read_chunk taddr len =
     bind (gets (\<lambda>s. (taddr - hx_base s, hx_width s))) (\<lambda>(t, w).
     bind (hx_check t len) (\<lambda>_. hx_read_rows (len div w) t))"

definition hx_write_chunk :: "addr \<Rightarrow> byte list \<Rightarrow> (hexwriter, unit) prog" where
  "hx_write_chunk taddr src =
     bind (gets (\<lambda>s. (taddr - hx_base s, hx_width s))) (\<lambda>(t, w).
     bind (hx_check t (length src)) (\<lambda>_. hx_write_rows (length src div w) t src))"

definition hx_clear_chunk :: "addr \<Rightarrow> nat \<Rightarrow> (hexwriter, unit) prog" where
  "hx_clear_chunk taddr len = ret ()"

definition hexwriter_ops :: "hexwriter chunked_memif" where
  "hexwriter_ops = \<lparr>read_chunk = hx_read_chunk, write_chunk = hx_write_chunk,
     clear_chunk = hx_clear_chunk, chunk_align = hx_width, chunk_max_size = hx_width\<rparr>"

section \<open>Printing\<close>

definition hex_digit :: "nat \<Rightarrow> char" where
  "hex_digit n = ''0123456789abcdef'' ! n"

definition hex_byte :: "byte \<Rightarrow> string" where
  "hex_byte b = [hex_digit (unat (drop_bit 4 b AND 15)), hex_digit (unat (b AND 15))]"

definition hx_line :: "hexwriter \<Rightarrow> nat \<Rightarrow> string" where
  "hx_line s r = (case hx_mem s r of
       None \<Rightarrow> concat (map (\<lambda>j. ''00'') [0..<hx_width s])
     | Some v \<Rightarrow> concat (map (\<lambda>j. hex_byte (v ! (hx_width s - j - 1))) [0..<hx_width s]))"

definition hx_print :: "hexwriter \<Rightarrow> string list" where
  "hx_print s = map (hx_line s) [0..<hx_depth s]"

section \<open>The memory it shows\<close>

definition hx_view :: "hexwriter \<Rightarrow> mem" where
  "hx_view s a = hx_row s (unat (a - hx_base s) div hx_width s) ! (unat (a - hx_base s) mod hx_width s)"

definition hx_dom :: "hexwriter \<Rightarrow> addr set" where
  "hx_dom s = {a. unat (a - hx_base s) < hx_width s * hx_depth s}"

definition hx_inv :: "hexwriter \<Rightarrow> bool" where
  "hx_inv s \<longleftrightarrow> (\<exists>k<64. hx_width s = 2 ^ k) \<and> hx_width s dvd unat (hx_base s) \<and>
     hx_width s * hx_depth s < 2 ^ 64 \<and>
     (\<forall>r v. hx_mem s r = Some v \<longrightarrow> length v = hx_width s)"

text \<open>The invariant of a writer made with the parameters \<open>p\<close>, which never change.\<close>

definition hx_at :: "addr \<times> nat \<times> nat \<Rightarrow> hexwriter \<Rightarrow> bool" where
  "hx_at p s \<longleftrightarrow> hx_inv s \<and> (hx_base s, hx_width s, hx_depth s) = p"

lemma hx_inv_init:
  "k < 64 \<Longrightarrow> 2 ^ k dvd unat b \<Longrightarrow> 2 ^ k * d < 2 ^ 64 \<Longrightarrow> hx_inv (htif_hexwriter b (2 ^ k) d)"
  by (auto simp: hx_inv_def htif_hexwriter_def)

lemma hx_view_init [simp]: "0 < w \<Longrightarrow> hx_view (htif_hexwriter b w d) a = 0"
  by (simp add: hx_view_def hx_row_def htif_hexwriter_def)

lemma length_hx_row: "hx_inv s \<Longrightarrow> length (hx_row s r) = hx_width s"
  by (auto simp: hx_row_def hx_inv_def split: option.splits)

lemma hx_width_pos: "hx_inv s \<Longrightarrow> 0 < hx_width s"
  by (auto simp: hx_inv_def)

lemma hx_row_upd:
  "hx_row (s\<lparr>hx_mem := (hx_mem s)(r \<mapsto> v)\<rparr>) r' =
     (if r' = r then (if v = [] then replicate (hx_width s) 0 else v) else hx_row s r')"
  by (simp add: hx_row_def split: option.split)

text \<open>Storing a row of the right length; storing the row that is there changes nothing seen.\<close>

lemma hx_store_inv:
  "hx_inv s \<Longrightarrow> length v = hx_width s \<Longrightarrow> hx_inv (s\<lparr>hx_mem := (hx_mem s)(r \<mapsto> v)\<rparr>)"
  by (auto simp: hx_inv_def)

lemma hx_store_shape:
  "same_shape hexwriter_ops hx_dom s (s\<lparr>hx_mem := (hx_mem s)(r \<mapsto> v)\<rparr>)"
  by (simp add: same_shape_def hexwriter_ops_def hx_dom_def)

lemma hx_store_row:
  assumes "hx_inv s" and "length v = hx_width s"
  shows "hx_view (s\<lparr>hx_mem := (hx_mem s)(r \<mapsto> v)\<rparr>) a =
    (let t = unat (a - hx_base s) in
     if t div hx_width s = r then v ! (t mod hx_width s) else hx_view s a)"
  using assms hx_width_pos [OF assms(1)] by (auto simp: hx_view_def hx_row_upd Let_def)

lemma hx_store_same:
  assumes "hx_inv s"
  shows "hx_view (s\<lparr>hx_mem := (hx_mem s)(r \<mapsto> hx_row s r)\<rparr>) = hx_view s"
proof
  fix a
  show "hx_view (s\<lparr>hx_mem := (hx_mem s)(r \<mapsto> hx_row s r)\<rparr>) a = hx_view s a"
    unfolding hx_store_row [OF assms length_hx_row [OF assms]] Let_def
    by (simp add: hx_view_def)
qed

section \<open>The hexwriter is a chunked memory\<close>

lemma dvd_unat_sub:
  assumes "k < 64" and "2 ^ k dvd unat (a :: addr)" and "2 ^ k dvd unat (b :: addr)"
  shows "2 ^ k dvd unat (a - b)"
proof -
  have "(2 :: nat) ^ k dvd 2 ^ 64" using assms(1) by (intro le_imp_power_dvd) simp
  then have "(2 :: nat) ^ k dvd unat a + 2 ^ 64 - unat b"
    using assms(2,3) by (intro dvd_diff_nat dvd_add)
  with assms(2,3) show ?thesis by (simp add: unat_sub_if')
qed

text \<open>A request through the interface is for one row: the largest chunk is the smallest.\<close>

lemma hx_request:
  assumes "hx_inv s" and "chunk_request hexwriter_ops s a n" and "range_in a n (hx_dom s)"
  defines "t \<equiv> a - hx_base s"
  shows "n = hx_width s" and "hx_width s dvd unat t" and "unat t + hx_width s \<le> hx_width s * hx_depth s"
    and "hx_check t n s = Some (Inr ((), s))"
proof -
  obtain k where k: "k < 64" "hx_width s = 2 ^ k" using assms(1) by (auto simp: hx_inv_def)
  let ?w = "hx_width s" and ?d = "hx_depth s"
  have wd: "?w * ?d < 2 ^ 64" using assms(1) by (simp add: hx_inv_def)
  show n: "n = ?w" using assms(2) by (auto simp: chunk_request_def hexwriter_ops_def dvd_imp_le intro: antisym)
  show dvd: "?w dvd unat t"
    using dvd_unat_sub [OF k(1), of a "hx_base s"] assms(1,2) k(2)
    by (auto simp: t_def chunk_request_def hexwriter_ops_def hx_inv_def)
  have "a + of_nat 0 \<in> hx_dom s" by (rule range_inD [OF assms(3)]) (use n k in simp)
  then have lt: "unat t < ?w * ?d" by (simp add: hx_dom_def t_def)
  obtain q where q: "unat t = ?w * q" using dvd by blast
  with lt have "Suc q \<le> ?d" using k by simp
  then have "?w * Suc q \<le> ?w * ?d" by (rule mult_le_mono2)
  with q show le: "unat t + ?w \<le> ?w * ?d" by simp
  have "unat (of_nat (?w * ?d) :: addr) = ?w * ?d" by (rule unat_of_nat_addr [OF wd])
  moreover have "unat (t + of_nat ?w) = unat t + ?w"
    using unat_of_nat_addr [of "unat t + ?w"] le wd by simp
  ultimately show "hx_check t n s = Some (Inr ((), s))"
    using lt le k n
    by (simp add: hx_check_def run_simps word_less_nat_alt word_le_nat_alt)
qed

lemma hx_view_row:
  assumes "hx_inv s" and "hx_width s dvd unat (a - hx_base s)"
    and "unat (a - hx_base s) + hx_width s < 2 ^ 64"
  shows "mem_read (hx_view s) a (hx_width s) = hx_row s (unat (a - hx_base s) div hx_width s)"
proof (rule nth_equalityI)
  let ?t = "a - hx_base s"
  fix i
  assume "i < length (mem_read (hx_view s) a (hx_width s))"
  then have i: "i < hx_width s" by simp
  have "a + of_nat i - hx_base s = ?t + of_nat i" by simp
  also have "unat \<dots> = unat ?t + i"
    using unat_of_nat_addr [of "unat ?t + i"] assms(3) i by simp
  finally have "unat (a + of_nat i - hx_base s) = unat ?t + i" .
  with i assms(2) show "mem_read (hx_view s) a (hx_width s) ! i = hx_row s (unat ?t div hx_width s) ! i"
    by (auto simp: hx_view_def elim!: dvdE)
qed (simp add: length_hx_row [OF assms(1)])

text \<open>The view after one row is stored is the memory with that row written.\<close>

lemma hx_view_store:
  assumes inv: "hx_inv s" and "length v = hx_width s" and dvd: "hx_width s dvd unat (a - hx_base s)"
    and bound: "unat (a - hx_base s) + hx_width s < 2 ^ 64"
  shows "hx_view (s\<lparr>hx_mem := (hx_mem s)(unat (a - hx_base s) div hx_width s \<mapsto> v)\<rparr>) =
    mem_write (hx_view s) a v"
proof
  fix x
  let ?w = "hx_width s" and ?t = "unat (a - hx_base s)" and ?u = "unat (x - hx_base s)"
  have w: "0 < ?w" by (rule hx_width_pos [OF inv])
  obtain q where q: "?t = ?w * q" using dvd by blast
  have t: "of_nat ?t = a - hx_base s" by simp
  have "unat ((x - hx_base s) - of_nat ?t) = (if ?t \<le> ?u then ?u - ?t else 2 ^ 64 + ?u - ?t)"
    by (rule unat_minus_of_nat) (use bound in simp)
  then have diff: "unat (x - a) = (if ?t \<le> ?u then ?u - ?t else 2 ^ 64 + ?u - ?t)"
    unfolding t by simp
  have rows: "?u div ?w = q \<longleftrightarrow> ?t \<le> ?u \<and> ?u < ?t + ?w"
    using w unfolding q
    by (metis div_nat_eqI dividend_less_times_div mult.commute mult_Suc_right add.commute times_div_less_eq_dividend)
  have "mem_write (hx_view s) a v x = (if unat (x - a) < ?w then v ! unat (x - a) else hx_view s x)"
    using bound assms(2) by (subst mem_write_apply) auto
  also have "\<dots> = (if ?u div ?w = q then v ! (?u mod ?w) else hx_view s x)"
  proof (cases "?u div ?w = q")
    case True
    then have "?u - ?t = ?u mod ?w" unfolding q by (metis minus_mult_div_eq_mod)
    moreover have "unat (x - a) = ?u - ?t" "unat (x - a) < ?w" using True rows diff by auto
    ultimately show ?thesis using True by simp
  next
    case False
    then have "\<not> unat (x - a) < ?w" using rows diff bound by auto
    with False show ?thesis by simp
  qed
  finally show "hx_view (s\<lparr>hx_mem := (hx_mem s)(?t div ?w \<mapsto> v)\<rparr>) x = mem_write (hx_view s) a v x"
    using inv assms(2) w by (simp add: hx_store_row Let_def q)
qed

text \<open>\<open>clear_chunk\<close> does nothing: it clears the ranges that are zero already.\<close>

definition hx_clears :: "mem \<Rightarrow> addr \<Rightarrow> nat \<Rightarrow> bool" where
  "hx_clears m a n \<longleftrightarrow> mem_read m a n = replicate n 0"

lemma hx_whole_rows:
  assumes inv: "hx_inv s" and a: "a \<in> hx_dom s" and i: "i < hx_width s"
  shows "align_down a (hx_width s) + of_nat i \<in> hx_dom s"
proof -
  obtain k where k: "k < 64" "hx_width s = 2 ^ k" using inv by (auto simp: hx_inv_def)
  let ?w = "hx_width s" and ?d = "hx_depth s"
  let ?b = "align_down a ?w - hx_base s" and ?off = "low_bits a ?w"
  have dvd: "?w dvd unat ?b"
    unfolding k(2) by (rule dvd_unat_sub [OF k(1) align_down_dvd]) (use inv k(2) in \<open>simp add: hx_inv_def\<close>)
  then obtain q where q: "unat ?b = ?w * q" by blast
  have "?w dvd 2 ^ 64" unfolding k(2) by (intro le_imp_power_dvd) (use k(1) in simp)
  then obtain r where r: "2 ^ 64 = ?w * r" by blast
  have "?w * q < ?w * r" using unat_addr_less [of ?b] q r by simp
  then have "?w * Suc q \<le> ?w * r" by (intro mult_le_mono2) simp
  then have fits: "unat ?b + ?w \<le> 2 ^ 64" using q r by simp
  have off: "?off < ?w" by (simp add: k(2) low_bits_pow2)
  have t: "a - hx_base s = ?b + of_nat ?off"
    using align_down_add [of a ?w] by (simp add: algebra_simps)
  have sum: "unat (?b + of_nat j) = unat ?b + j" if "j < ?w" for j
    using unat_of_nat_addr [of "unat ?b + j"] fits that by simp
  have "unat (a - hx_base s) = unat ?b + ?off" unfolding t by (rule sum [OF off])
  with a have "?w * q + ?off < ?w * ?d" by (simp add: hx_dom_def q)
  then have "?w * q < ?w * ?d" by (rule le_less_trans [OF le_add1])
  then have "?w * Suc q \<le> ?w * ?d" by (intro mult_le_mono2) simp
  moreover have "align_down a ?w + of_nat i - hx_base s = ?b + of_nat i" by simp
  ultimately have "unat (align_down a ?w + of_nat i - hx_base s) < ?w * ?d"
    unfolding \<open>align_down a ?w + of_nat i - hx_base s = ?b + of_nat i\<close> sum [OF i] q
    using i by simp
  then show ?thesis by (simp add: hx_dom_def)
qed

interpretation hx: chunked_memory hexwriter_ops hx_view hx_dom "hx_at p" hx_clears for p
proof unfold_locales
  fix s and a :: addr and n :: nat
  assume at: "hx_at p s" and req: "chunk_request hexwriter_ops s a n" and "n < 2 ^ 64"
    and rng: "range_in a n (hx_dom s)"
  from at have inv: "hx_inv s" by (simp add: hx_at_def)
  note r = hx_request [OF inv req rng]
  let ?t = "a - hx_base s" and ?r = "unat (a - hx_base s) div hx_width s"
  let ?s' = "s\<lparr>hx_mem := (hx_mem s)(?r \<mapsto> hx_row s ?r)\<rparr>"
  have b: "unat ?t + hx_width s < 2 ^ 64" using r(3) inv by (simp add: hx_inv_def)
  have "read_chunk hexwriter_ops a n s = Some (Inr (hx_row s ?r, ?s'))"
    using r hx_width_pos [OF inv] length_hx_row [OF inv, of ?r]
    by (simp add: hexwriter_ops_def hx_read_chunk_def run_simps)
  then show "wp (read_chunk hexwriter_ops a n) (\<lambda>bs s'. bs = mem_read (hx_view s) a n \<and>
      hx_view s' = hx_view s \<and> hx_at p s' \<and> same_shape hexwriter_ops hx_dom s s') s"
    using inv r b at hx_store_inv [OF inv length_hx_row [OF inv]]
    by (auto simp: wp_run hx_at_def hx_view_row hx_store_same hx_store_shape)
next
  fix s and a :: addr and bs :: "byte list"
  assume at: "hx_at p s" and req: "chunk_request hexwriter_ops s a (length bs)"
    and "length bs < 2 ^ 64" and rng: "range_in a (length bs) (hx_dom s)"
  from at have inv: "hx_inv s" by (simp add: hx_at_def)
  note r = hx_request [OF inv req rng]
  let ?t = "a - hx_base s" and ?r = "unat (a - hx_base s) div hx_width s"
  let ?s' = "s\<lparr>hx_mem := (hx_mem s)(?r \<mapsto> bs)\<rparr>"
  have b: "unat ?t + hx_width s < 2 ^ 64" using r(3) inv by (simp add: hx_inv_def)
  have "write_chunk hexwriter_ops a bs s = Some (Inr ((), ?s'))"
    using r hx_width_pos [OF inv] length_hx_row [OF inv, of ?r]
    by (simp add: hexwriter_ops_def hx_write_chunk_def run_simps)
  then show "wp (write_chunk hexwriter_ops a bs) (\<lambda>_ s'. hx_view s' = mem_write (hx_view s) a bs \<and>
      hx_at p s' \<and> same_shape hexwriter_ops hx_dom s s') s"
    using inv r b at hx_store_inv [OF inv r(1)]
    by (auto simp: wp_run hx_at_def hx_view_store hx_store_shape)
next
  fix s and a :: addr and i :: nat
  assume at: "hx_at p s" and a: "a \<in> hx_dom s" and i: "i < chunk_align hexwriter_ops s"
  show "align_down a (chunk_align hexwriter_ops s) + of_nat i \<in> hx_dom s"
    using hx_whole_rows [OF _ a] at i by (simp add: hexwriter_ops_def hx_at_def)
next
  fix s and a :: addr and n :: nat
  assume "hx_at p s" and n: "n < 2 ^ 64" and clears: "hx_clears (hx_view s) a n"
  have "mem_write (hx_view s) a (mem_read (hx_view s) a n) = hx_view s"
    using n by (intro mem_write_read) simp
  with clears \<open>hx_at p s\<close> show "wp (clear_chunk hexwriter_ops a n) (\<lambda>_ s'.
      hx_view s' = mem_write (hx_view s) a (replicate n 0) \<and> hx_at p s' \<and>
      same_shape hexwriter_ops hx_dom s s') s"
    by (simp add: hexwriter_ops_def hx_clear_chunk_def hx_clears_def)
qed (auto simp: hexwriter_ops_def hx_at_def hx_inv_def hx_clears_def)

section \<open>Reads and writes of the image\<close>

lemma hx_clears_zero:
  assumes "\<And>i. i < length bs \<Longrightarrow> bs ! i = 0 \<Longrightarrow> m (a + of_nat i) = 0"
    and "i + n \<le> length bs" and "list_all (\<lambda>b. b = 0) (take n (drop i bs))"
  shows "hx_clears m (a + of_nat i) n"
  unfolding hx_clears_def
proof (rule nth_equalityI)
  fix j
  assume "j < length (mem_read m (a + of_nat i) n)"
  then have j: "j < n" by simp
  then have "bs ! (i + j) = 0"
    using assms(2,3) by (auto simp: list_all_length)
  then have "m (a + of_nat (i + j)) = 0" using assms(1) [of "i + j"] assms(2) j by simp
  then show "mem_read m (a + of_nat i) n ! j = replicate n 0 ! j"
    using j by (simp add: add.assoc)
qed simp

text \<open>
  C5: a byte-granular write through the interface stores exactly its bytes in the image,
  wherever it writes no zero over a byte that is not zero.
\<close>

theorem hexwriter_write_exact:
  assumes "hx_inv s" and "range_in a (length bs) (hx_dom s)" and "length bs < 2 ^ 64"
    and "\<And>i. i < length bs \<Longrightarrow> bs ! i = 0 \<Longrightarrow> hx_view s (a + of_nat i) = 0"
  shows "wp (memif_write hexwriter_ops a bs) (\<lambda>_ s'. hx_view s' = mem_write (hx_view s) a bs \<and>
    hx_inv s' \<and> hx_base s' = hx_base s \<and> hx_width s' = hx_width s \<and> hx_depth s' = hx_depth s) s"
proof -
  have "wp (memif_write hexwriter_ops a bs) (\<lambda>_ s'. hx_view s' = mem_write (hx_view s) a bs \<and>
      hx_at (hx_base s, hx_width s, hx_depth s) s' \<and> same_shape hexwriter_ops hx_dom s s') s"
    using assms by (intro hx.wp_memif_write hx_clears_zero) (simp_all add: hx_at_def)
  then show ?thesis by (rule wp_mono) (simp add: hx_at_def)
qed

definition hx_example :: hexwriter where
  "hx_example = (htif_hexwriter 0x80000000 8 2)\<lparr>hx_mem := [0 \<mapsto> [1, 2, 3, 4, 5, 6, 7, 8]]\<rparr>"

lemma hx_example_inv: "hx_inv hx_example"
  unfolding hx_inv_def hx_example_def htif_hexwriter_def
  by (auto intro!: exI [of _ 3])

lemma hexwriter_write_exact_witness:
  "wp (memif_write hexwriter_ops 0x80000006 [9, 10, 11]) (\<lambda>_ s'.
     hx_view s' = mem_write (hx_view hx_example) 0x80000006 [9, 10, 11] \<and> hx_inv s' \<and>
     hx_base s' = hx_base hx_example \<and> hx_width s' = hx_width hx_example \<and> hx_depth s' = hx_depth hx_example) hx_example"
proof (rule hexwriter_write_exact)
  show "hx_inv hx_example" by (rule hx_example_inv)
  show "range_in 0x80000006 (length [9, 10, 11 :: byte]) (hx_dom hx_example)"
    by (simp add: range_in_def hx_dom_def hx_example_def htif_hexwriter_def less_Suc_eq numeral_3_eq_3)
qed (auto simp: less_Suc_eq)

text \<open>
  C40: an aligned write of zeros is dropped, whatever the image holds there: \<open>clear_chunk\<close>
  has an empty body, and \<open>memif_t::write\<close> relies on it.
\<close>

theorem hexwriter_zero_write_lost:
  assumes "hx_inv s" and "hx_width s dvd unat a" and "hx_width s dvd n"
  shows "memif_write hexwriter_ops a (replicate n 0) s = Some (Inr ((), s))"
proof -
  obtain k where k: "k < 64" "hx_width s = 2 ^ k" using assms(1) by (auto simp: hx_inv_def)
  have "low_bits a (hx_width s) = 0" "low_bits (of_nat n) (hx_width s) = 0"
    using assms k low_bits_of_nat [OF k(1), of n] by (simp_all add: low_bits_pow2 dvd_eq_mod_eq_0)
  then show ?thesis
    by (cases "n = 0")
      (simp_all add: memif_write_def write_head_def write_tail_def write_body_def write_loop.simps
        hexwriter_ops_def hx_clear_chunk_def list_all_iff run_simps)
qed

lemma hexwriter_zero_write_lost_witness:
  "memif_write hexwriter_ops 0x80000000 (replicate 8 0) hx_example = Some (Inr ((), hx_example)) \<and>
   hx_view hx_example 0x80000000 = 1"
proof
  show "memif_write hexwriter_ops 0x80000000 (replicate 8 0) hx_example = Some (Inr ((), hx_example))"
    by (rule hexwriter_zero_write_lost [OF hx_example_inv]) (simp_all add: hx_example_def htif_hexwriter_def)
  show "hx_view hx_example 0x80000000 = 1"
    by (simp add: hx_view_def hx_row_def hx_example_def htif_hexwriter_def)
qed

section \<open>The printed image\<close>

text \<open>Reading hexadecimal digits back: what a tool that loads the image does.\<close>

definition hex_value :: "char \<Rightarrow> nat" where
  "hex_value ch = (let c = of_char ch in if c < 58 then c - 48 else c - 87)"

fun parse_hex :: "string \<Rightarrow> byte list" where
  "parse_hex (h # l # cs) = of_nat (16 * hex_value h + hex_value l) # parse_hex cs"
| "parse_hex _ = []"

lemma hex_value_digits: "map (\<lambda>n. hex_value (hex_digit n)) [0..<16] = [0..<16]"
  by code_simp

lemma hex_value_digit: "n < 16 \<Longrightarrow> hex_value (hex_digit n) = n"
  using arg_cong [OF hex_value_digits, of "\<lambda>xs. xs ! n"] by simp

lemma unat_low_nibble: "unat (b AND 15 :: byte) = unat b mod 16"
proof -
  have "b AND 15 = take_bit 4 b" by (simp add: take_bit_eq_mask mask_eq_exp_minus_1)
  then have "unat (b AND 15) = take_bit 4 (unat b)" by (simp only: unsigned_take_bit_eq)
  then show ?thesis by (simp add: take_bit_eq_mod)
qed

lemma unat_high_nibble: "unat (drop_bit 4 b AND 15 :: byte) = unat b div 16"
proof -
  have "unat b < 2 ^ LENGTH(8)" by (rule unsigned_less)
  then have "unat b div 16 < 16" by simp
  moreover have "unat (drop_bit 4 b) = unat b div 16"
    unfolding unat_drop_bit_eq by (simp add: drop_bit_eq_div)
  ultimately show ?thesis by (simp only: unat_low_nibble mod_less)
qed

lemma parse_hex_byte: "parse_hex (hex_byte b @ cs) = b # parse_hex cs"
proof -
  have "unat b < 2 ^ LENGTH(8)" by (rule unsigned_less)
  then have "unat b div 16 < 16" "unat b mod 16 < 16" by simp_all
  then have "hex_value (hex_digit (unat b div 16)) = unat b div 16"
    "hex_value (hex_digit (unat b mod 16)) = unat b mod 16" by (simp_all only: hex_value_digit)
  moreover have "of_nat (16 * (unat b div 16) + unat b mod 16) = b"
    unfolding mult_div_mod_eq by simp
  ultimately show ?thesis
    unfolding hex_byte_def unat_high_nibble unfolding unat_low_nibble by simp
qed

lemma parse_hex_bytes: "parse_hex (concat (map hex_byte bs)) = bs"
  by (induction bs) (simp_all add: parse_hex_byte)

lemma map_nth_rev: "length v = w \<Longrightarrow> map (\<lambda>j. v ! (w - j - 1)) [0..<w] = rev v"
  by (rule nth_equalityI) (simp_all add: rev_nth)

lemma hx_line_row:
  assumes "hx_inv s"
  shows "hx_line s r = concat (map hex_byte (rev (hx_row s r)))"
proof (cases "hx_mem s r")
  case None
  have "hex_byte 0 = ''00''" by code_simp
  with None show ?thesis
    by (simp add: hx_line_def hx_row_def map_replicate_const)
next
  case (Some v)
  with assms have v: "length v = hx_width s" by (simp add: hx_inv_def)
  with hx_width_pos [OF assms] have ne: "v \<noteq> []" by auto
  have "map (\<lambda>j. hex_byte (v ! (hx_width s - j - 1))) [0..<hx_width s] = map hex_byte (rev v)"
    using map_nth_rev [OF v] by (metis (no_types, lifting) map_map comp_def map_eq_conv)
  with Some ne show ?thesis by (simp add: hx_line_def hx_row_def)
qed

text \<open>Line \<open>r\<close> of the printed image, read back, is row \<open>r\<close> of the memory it shows.\<close>

lemma hx_line_view:
  assumes "hx_inv s" and "r < hx_depth s"
  shows "rev (parse_hex (hx_print s ! r)) =
    mem_read (hx_view s) (hx_base s + of_nat (r * hx_width s)) (hx_width s)"
proof -
  let ?w = "hx_width s" and ?a = "hx_base s + of_nat (r * hx_width s)"
  have w: "0 < ?w" by (rule hx_width_pos [OF assms(1)])
  have "r * ?w + ?w \<le> ?w * hx_depth s"
    using mult_le_mono2 [of "Suc r" "hx_depth s" ?w] assms(2) by (simp add: mult.commute)
  then have fits: "r * ?w + ?w < 2 ^ 64" using assms(1) by (simp add: hx_inv_def)
  then have t: "unat (?a - hx_base s) = r * ?w" using unat_of_nat_addr [of "r * ?w"] by simp
  have "mem_read (hx_view s) ?a ?w = hx_row s r"
    using hx_view_row [OF assms(1), of ?a] t fits w by simp
  moreover have "hx_print s ! r = hx_line s r" using assms(2) by (simp add: hx_print_def)
  ultimately show ?thesis by (simp add: hx_line_row [OF assms(1)] parse_hex_bytes)
qed

end
