(* ===== verification/Clib.thy ===== *)
theory Clib
  imports Bytes
begin

text \<open>
  The functions of the C library that parse the command lines and the strings of the code,
  on strings as character lists, and the powers of two the code tests for.
\<close>

section \<open>Numbers in strings\<close>

definition is_space :: "char \<Rightarrow> bool" where
  "is_space ch \<longleftrightarrow> (let c = (of_char ch :: nat) in c = 32 \<or> (9 \<le> c \<and> c \<le> 13))"

definition is_digit :: "char \<Rightarrow> bool" where
  "is_digit ch \<longleftrightarrow> (let c = (of_char ch :: nat) in 48 \<le> c \<and> c \<le> 57)"

fun decimal :: "string \<Rightarrow> int \<Rightarrow> int" where
  "decimal [] n = n"
| "decimal (ch # cs) n = (if is_digit ch then decimal cs (10 * n + (of_char ch - 48)) else n)"

text \<open>\<open>atoi\<close> and \<open>atoll\<close>: the value of the longest prefix that is a number, or zero.\<close>

definition atoi :: "string \<Rightarrow> int" where
  "atoi s = (case dropWhile is_space s of
       [] \<Rightarrow> 0
     | ch # cs \<Rightarrow>
         if ch = CHR ''-'' then - decimal cs 0
         else if ch = CHR ''+'' then decimal cs 0
         else decimal (ch # cs) 0)"

text \<open>\<open>std::to_string\<close>.\<close>

fun to_string :: "nat \<Rightarrow> string" where
  "to_string n = (if n < 10 then [] else to_string (n div 10)) @ [char_of (48 + n mod 10)]"

declare to_string.simps [simp del]

section \<open>C strings\<close>

text \<open>The string a pointer to these bytes denotes, and the bytes of a string.\<close>

definition cstring :: "byte list \<Rightarrow> string" where
  "cstring bs = map (\<lambda>b. char_of (unat b)) (takeWhile (\<lambda>b. b \<noteq> 0) bs)"

definition bytes_of :: "string \<Rightarrow> byte list" where
  "bytes_of s = map of_char s"

lemma length_bytes_of [simp]: "length (bytes_of s) = length s"
  by (simp add: bytes_of_def)

lemma char_of_byte: "char_of (unat (of_char c :: byte)) = c"
proof -
  have "unat (of_nat (of_char c) :: byte) = of_char c" by (simp add: unat_of_nat take_bit_nat_eq_self)
  then have "unat (of_char c :: byte) = of_char c" by (simp only: of_nat_of_char)
  then show ?thesis by simp
qed

lemma of_char_eq_0: "(of_char c :: byte) = 0 \<longleftrightarrow> c = CHR 0x00"
proof
  assume "(of_char c :: byte) = 0"
  then have "c = char_of (0 :: nat)" using char_of_byte [of c] by simp
  then show "c = CHR 0x00" by (simp add: char_of_def)
qed simp

text \<open>A string without NUL, stored with its terminator, is read back.\<close>

lemma cstring_bytes_of: "CHR 0x00 \<notin> set s \<Longrightarrow> cstring (bytes_of s @ 0 # bs) = s"
proof -
  assume "CHR 0x00 \<notin> set s"
  then have "takeWhile (\<lambda>b. b \<noteq> 0) (bytes_of s @ 0 # bs) = bytes_of s"
    by (induction s) (auto simp: bytes_of_def of_char_eq_0)
  then show ?thesis by (simp add: cstring_def bytes_of_def char_of_byte comp_def)
qed

section \<open>Powers of two\<close>

lemma bit_unat_top: "2 ^ n \<le> unat w \<Longrightarrow> unat w < 2 ^ Suc n \<Longrightarrow> bit (w :: 'a::len word) n"
proof -
  assume "2 ^ n \<le> unat w" and "unat w < 2 ^ Suc n"
  then have "unat w div 2 ^ n = 1" by (simp add: div_nat_eqI)
  then have "bit (unat w) n" by (simp add: bit_iff_odd)
  then show ?thesis by (simp add: bit_unsigned_iff)
qed

lemma pow2_check:
  assumes "w \<noteq> 0" and "w AND (w - 1) = 0"
  shows "\<exists>k<LENGTH('a). unat (w :: 'a::len word) = 2 ^ k"
proof -
  have pos: "1 \<le> unat w" using assms(1) by (metis One_nat_def Suc_leI unat_gt_0)
  then obtain k where k: "2 ^ k \<le> unat w" "unat w < 2 ^ Suc k"
    using ex_power_ivl1 [of 2 "unat w"] by auto
  have "unat w < 2 ^ LENGTH('a)" by (rule unsigned_less)
  then have "k < LENGTH('a)" using k(1) by (meson le_less_trans nat_power_less_imp_less zero_less_numeral)
  moreover have "unat w = 2 ^ k"
  proof (rule ccontr)
    assume "unat w \<noteq> 2 ^ k"
    moreover have "unat (w - 1) = unat w - 1" using pos by (simp add: unat_sub word_le_nat_alt)
    ultimately have "bit (w - 1) k" using k by (intro bit_unat_top) auto
    moreover have "bit w k" using k by (rule bit_unat_top)
    ultimately have "bit (w AND (w - 1)) k" by (simp add: bit_and_iff)
    with assms(2) show False by simp
  qed
  ultimately show ?thesis by blast
qed

end
