(* ===== verification/Elf.thy ===== *)
theory Elf
  imports Hexwriter Clib
begin

text \<open>
  The ELF loader (\<open>tb/dpi/fesvr/elf.h\<close>, \<open>elfloader.cc\<close>). The 32-bit and the
  64-bit structures have the same fields at different widths, so each is one record over the
  width; the macro \<open>LOAD_ELF\<close>, which the code expands once per class, is a group of
  definitions over an \<open>elf_class\<close> that holds the layout of the four structures. The
  file is the byte sequence that \<open>mmap\<close> shows; reading past it is undefined behaviour.
\<close>

section \<open>Structures\<close>

record 'w elf_ehdr =
  e_ident :: "byte list"
  e_type :: u16
  e_machine :: u16
  e_version :: u32
  e_entry :: 'w
  e_phoff :: 'w
  e_shoff :: 'w
  e_flags :: u32
  e_ehsize :: u16
  e_phentsize :: u16
  e_phnum :: u16
  e_shentsize :: u16
  e_shnum :: u16
  e_shstrndx :: u16

record 'w elf_shdr =
  sh_name :: u32
  sh_type :: u32
  sh_flags :: 'w
  sh_addr :: 'w
  sh_offset :: 'w
  sh_size :: 'w
  sh_link :: u32
  sh_info :: u32
  sh_addralign :: 'w
  sh_entsize :: 'w

record 'w elf_phdr =
  p_type :: u32
  p_offset :: 'w
  p_vaddr :: 'w
  p_paddr :: 'w
  p_filesz :: 'w
  p_memsz :: 'w
  p_flags :: u32
  p_align :: 'w

record 'w elf_sym =
  st_name :: u32
  st_value :: 'w
  st_size :: 'w
  st_info :: byte
  st_other :: byte
  st_shndx :: u16

text \<open>The field of \<open>n\<close> bytes at offset \<open>off\<close> of a structure.\<close>

definition fld :: "byte list \<Rightarrow> nat \<Rightarrow> nat \<Rightarrow> 'a::len word" where
  "fld bs off n = le_word (take n (drop off bs))"

definition Elf32_Ehdr :: "byte list \<Rightarrow> 32 word elf_ehdr" where
  "Elf32_Ehdr b = \<lparr>e_ident = take 16 b, e_type = fld b 16 2, e_machine = fld b 18 2,
     e_version = fld b 20 4, e_entry = fld b 24 4, e_phoff = fld b 28 4, e_shoff = fld b 32 4,
     e_flags = fld b 36 4, e_ehsize = fld b 40 2, e_phentsize = fld b 42 2, e_phnum = fld b 44 2,
     e_shentsize = fld b 46 2, e_shnum = fld b 48 2, e_shstrndx = fld b 50 2\<rparr>"

definition Elf32_Shdr :: "byte list \<Rightarrow> 32 word elf_shdr" where
  "Elf32_Shdr b = \<lparr>sh_name = fld b 0 4, sh_type = fld b 4 4, sh_flags = fld b 8 4,
     sh_addr = fld b 12 4, sh_offset = fld b 16 4, sh_size = fld b 20 4, sh_link = fld b 24 4,
     sh_info = fld b 28 4, sh_addralign = fld b 32 4, sh_entsize = fld b 36 4\<rparr>"

definition Elf32_Phdr :: "byte list \<Rightarrow> 32 word elf_phdr" where
  "Elf32_Phdr b = \<lparr>p_type = fld b 0 4, p_offset = fld b 4 4, p_vaddr = fld b 8 4,
     p_paddr = fld b 12 4, p_filesz = fld b 16 4, p_memsz = fld b 20 4, p_flags = fld b 24 4,
     p_align = fld b 28 4\<rparr>"

definition Elf32_Sym :: "byte list \<Rightarrow> 32 word elf_sym" where
  "Elf32_Sym b = \<lparr>st_name = fld b 0 4, st_value = fld b 4 4, st_size = fld b 8 4,
     st_info = fld b 12 1, st_other = fld b 13 1, st_shndx = fld b 14 2\<rparr>"

definition Elf64_Ehdr :: "byte list \<Rightarrow> 64 word elf_ehdr" where
  "Elf64_Ehdr b = \<lparr>e_ident = take 16 b, e_type = fld b 16 2, e_machine = fld b 18 2,
     e_version = fld b 20 4, e_entry = fld b 24 8, e_phoff = fld b 32 8, e_shoff = fld b 40 8,
     e_flags = fld b 48 4, e_ehsize = fld b 52 2, e_phentsize = fld b 54 2, e_phnum = fld b 56 2,
     e_shentsize = fld b 58 2, e_shnum = fld b 60 2, e_shstrndx = fld b 62 2\<rparr>"

definition Elf64_Shdr :: "byte list \<Rightarrow> 64 word elf_shdr" where
  "Elf64_Shdr b = \<lparr>sh_name = fld b 0 4, sh_type = fld b 4 4, sh_flags = fld b 8 8,
     sh_addr = fld b 16 8, sh_offset = fld b 24 8, sh_size = fld b 32 8, sh_link = fld b 40 4,
     sh_info = fld b 44 4, sh_addralign = fld b 48 8, sh_entsize = fld b 56 8\<rparr>"

definition Elf64_Phdr :: "byte list \<Rightarrow> 64 word elf_phdr" where
  "Elf64_Phdr b = \<lparr>p_type = fld b 0 4, p_offset = fld b 8 8, p_vaddr = fld b 16 8,
     p_paddr = fld b 24 8, p_filesz = fld b 32 8, p_memsz = fld b 40 8, p_flags = fld b 4 4,
     p_align = fld b 48 8\<rparr>"

definition Elf64_Sym :: "byte list \<Rightarrow> 64 word elf_sym" where
  "Elf64_Sym b = \<lparr>st_name = fld b 0 4, st_value = fld b 8 8, st_size = fld b 16 8,
     st_info = fld b 4 1, st_other = fld b 5 1, st_shndx = fld b 6 2\<rparr>"

definition PT_LOAD :: u32 where "PT_LOAD = 1"

definition SHT_NOBITS :: u32 where "SHT_NOBITS = 8"

definition IS_ELF :: "byte list \<Rightarrow> bool" where
  "IS_ELF ident \<longleftrightarrow> ident ! 0 = 0x7F \<and> ident ! 1 = 0x45 \<and> ident ! 2 = 0x4C \<and> ident ! 3 = 0x46"

definition IS_ELF32 :: "byte list \<Rightarrow> bool" where
  "IS_ELF32 ident \<longleftrightarrow> IS_ELF ident \<and> ident ! 4 = 1"

definition IS_ELF64 :: "byte list \<Rightarrow> bool" where
  "IS_ELF64 ident \<longleftrightarrow> IS_ELF ident \<and> ident ! 4 = 2"

section \<open>The mapped file\<close>

record 'w elf_class =
  ehdr_of :: "byte list \<Rightarrow> 'w elf_ehdr"
  phdr_of :: "byte list \<Rightarrow> 'w elf_phdr"
  shdr_of :: "byte list \<Rightarrow> 'w elf_shdr"
  sym_of :: "byte list \<Rightarrow> 'w elf_sym"
  phdr_size :: nat
  shdr_size :: nat
  sym_size :: nat

definition elf_class32 :: "32 word elf_class" where
  "elf_class32 = \<lparr>ehdr_of = Elf32_Ehdr, phdr_of = Elf32_Phdr, shdr_of = Elf32_Shdr,
     sym_of = Elf32_Sym, phdr_size = 32, shdr_size = 40, sym_size = 16\<rparr>"

definition elf_class64 :: "64 word elf_class" where
  "elf_class64 = \<lparr>ehdr_of = Elf64_Ehdr, phdr_of = Elf64_Phdr, shdr_of = Elf64_Shdr,
     sym_of = Elf64_Sym, phdr_size = 56, shdr_size = 64, sym_size = 24\<rparr>"

definition buf_bytes :: "byte list \<Rightarrow> nat \<Rightarrow> nat \<Rightarrow> ('s, byte list) prog" where
  "buf_bytes buf off n =
     (if off + n \<le> length buf then ret (take n (drop off buf))
      else raise (Undefined ''read past the mapped file''))"

text \<open>
  \<open>strnlen(buf + off, max_len) < max_len\<close> and the string it finds: the scan ends at the
  first zero, and reads on past the mapping when there is none.
\<close>

definition buf_string :: "byte list \<Rightarrow> nat \<Rightarrow> nat \<Rightarrow> ('s, string) prog" where
  "buf_string buf off max_len =
     (let t = take max_len (drop off buf) in
      if 0 \<in> set t then ret (cstring t)
      else if length t = max_len then raise (Assert_Failed ''strnlen(s, max_len) < max_len'')
      else raise (Undefined ''read past the mapped file''))"

definition phdr_at :: "'w::len word elf_class \<Rightarrow> byte list \<Rightarrow> nat \<Rightarrow> ('s, 'w word elf_phdr) prog" where
  "phdr_at c buf i = bind (buf_bytes buf (unat (e_phoff (ehdr_of c buf)) + i * phdr_size c) (phdr_size c))
     (\<lambda>b. ret (phdr_of c b))"

definition shdr_at :: "'w::len word elf_class \<Rightarrow> byte list \<Rightarrow> nat \<Rightarrow> ('s, 'w word elf_shdr) prog" where
  "shdr_at c buf i = bind (buf_bytes buf (unat (e_shoff (ehdr_of c buf)) + i * shdr_size c) (shdr_size c))
     (\<lambda>b. ret (shdr_of c b))"

section \<open>Segments\<close>

text \<open>
  The offset plus the size of a table is computed in \<open>size_t\<close>; the sums of two fields of
  a header are computed at the width of the fields. Both wrap around.
\<close>

definition table_end :: "'w::len word \<Rightarrow> u16 \<Rightarrow> nat \<Rightarrow> u64" where
  "table_end off num sz = ucast off + ucast num * of_nat sz"

definition load_segment ::
    "(addr \<Rightarrow> byte list \<Rightarrow> ('s, unit) prog) \<Rightarrow> byte list \<Rightarrow> 'w::len word elf_phdr \<Rightarrow> ('s, unit) prog" where
  "load_segment wr buf ph =
     (if p_type ph = PT_LOAD \<and> p_memsz ph \<noteq> 0 then
        bind (if p_filesz ph \<noteq> 0 then
            bind (check (unat (p_offset ph + p_filesz ph) \<le> length buf)
              (Assert_Failed ''size >= p_offset + p_filesz'')) (\<lambda>_.
            bind (buf_bytes buf (unat (p_offset ph)) (unat (p_filesz ph))) (\<lambda>bs.
            wr (ucast (p_paddr ph)) bs))
          else ret ()) (\<lambda>_.
        bind (check (unat (p_memsz ph - p_filesz ph) < 2 ^ 63)
          (Runtime_Error ''vector::resize'')) (\<lambda>_.
        wr (ucast (p_paddr ph + p_filesz ph)) (replicate (unat (p_memsz ph - p_filesz ph)) 0)))
      else ret ())"

definition load_segments ::
    "'w::len word elf_class \<Rightarrow> (addr \<Rightarrow> byte list \<Rightarrow> ('s, unit) prog) \<Rightarrow> byte list \<Rightarrow> ('s, unit) prog" where
  "load_segments c wr buf =
     (let eh = ehdr_of c buf in
      bind (check (table_end (e_phoff eh) (e_phnum eh) (phdr_size c) \<le> of_nat (length buf))
        (Assert_Failed ''size >= e_phoff + e_phnum*sizeof(*ph)'')) (\<lambda>_.
      for_each [0..<unat (e_phnum eh)] (\<lambda>i.
        bind (phdr_at c buf i) (load_segment wr buf))))"

section \<open>Symbols\<close>

text \<open>One iteration of the loop over the section headers: \<open>(strtabidx, symtabidx)\<close>.\<close>

definition scan_section ::
    "'w::len word elf_class \<Rightarrow> byte list \<Rightarrow> 'w word elf_shdr \<Rightarrow> nat \<Rightarrow> nat \<times> nat \<Rightarrow> ('s, nat \<times> nat) prog" where
  "scan_section c buf str i idx =
     bind (shdr_at c buf i) (\<lambda>sh.
     let max_len = ucast (sh_size str) - sh_name sh in
     bind (check (unat (sh_name sh) < unat (sh_size str)) (Assert_Failed ''sh_name < sh_size'')) (\<lambda>_.
     bind (buf_string buf (unat (sh_offset str) + unat (sh_name sh)) (unat max_len)) (\<lambda>name.
     if sh_type sh AND SHT_NOBITS \<noteq> 0 then ret idx
     else
       bind (check (unat (sh_offset sh + sh_size sh) \<le> length buf)
         (Assert_Failed ''size >= sh_offset + sh_size'')) (\<lambda>_.
       ret (if name = ''.strtab'' then i else fst idx,
            if name = ''.symtab'' then i else snd idx)))))"

primrec scan_sections ::
    "'w::len word elf_class \<Rightarrow> byte list \<Rightarrow> 'w word elf_shdr \<Rightarrow> nat list \<Rightarrow> nat \<times> nat \<Rightarrow> ('s, nat \<times> nat) prog" where
  "scan_sections c buf str [] idx = ret idx"
| "scan_sections c buf str (i # is) idx =
     bind (scan_section c buf str i idx) (scan_sections c buf str is)"

definition symbol_at ::
    "'w::len word elf_class \<Rightarrow> byte list \<Rightarrow> 'w word elf_shdr \<Rightarrow> 'w word elf_shdr \<Rightarrow> nat \<Rightarrow> ('s, string \<times> u64) prog" where
  "symbol_at c buf strtab symtab i =
     bind (buf_bytes buf (unat (sh_offset symtab) + i * sym_size c) (sym_size c)) (\<lambda>b.
     let sym = sym_of c b; max_len = ucast (sh_size strtab) - st_name sym in
     bind (check (unat (st_name sym) < unat (sh_size strtab)) (Assert_Failed ''st_name < sh_size'')) (\<lambda>_.
     bind (buf_string buf (unat (sh_offset strtab) + unat (st_name sym)) (unat max_len)) (\<lambda>name.
     ret (name, ucast (st_value sym)))))"

primrec read_symbols ::
    "'w::len word elf_class \<Rightarrow> byte list \<Rightarrow> 'w word elf_shdr \<Rightarrow> 'w word elf_shdr \<Rightarrow> nat list \<Rightarrow>
      (string \<rightharpoonup> u64) \<Rightarrow> ('s, string \<rightharpoonup> u64) prog" where
  "read_symbols c buf strtab symtab [] m = ret m"
| "read_symbols c buf strtab symtab (i # is) m =
     bind (symbol_at c buf strtab symtab i) (\<lambda>(name, val).
     read_symbols c buf strtab symtab is (m(name \<mapsto> val)))"

definition load_symbols :: "'w::len word elf_class \<Rightarrow> byte list \<Rightarrow> ('s, string \<rightharpoonup> u64) prog" where
  "load_symbols c buf =
     (let eh = ehdr_of c buf in
      bind (check (table_end (e_shoff eh) (e_shnum eh) (shdr_size c) \<le> of_nat (length buf))
        (Assert_Failed ''size >= e_shoff + e_shnum*sizeof(*sh)'')) (\<lambda>_.
      bind (check (e_shstrndx eh < e_shnum eh) (Assert_Failed ''e_shstrndx < e_shnum'')) (\<lambda>_.
      bind (shdr_at c buf (unat (e_shstrndx eh))) (\<lambda>str.
      bind (check (unat (sh_offset str + sh_size str) \<le> length buf)
        (Assert_Failed ''size >= sh_offset + sh_size'')) (\<lambda>_.
      bind (scan_sections c buf str [0..<unat (e_shnum eh)] (0, 0)) (\<lambda>(strtabidx, symtabidx).
      if strtabidx \<noteq> 0 \<and> symtabidx \<noteq> 0 then
        bind (shdr_at c buf strtabidx) (\<lambda>strtab.
        bind (shdr_at c buf symtabidx) (\<lambda>symtab.
        read_symbols c buf strtab symtab [0..<unat (sh_size symtab) div sym_size c] Map.empty))
      else ret Map.empty))))))"

section \<open>The loader\<close>

definition LOAD_ELF ::
    "'w::len word elf_class \<Rightarrow> (addr \<Rightarrow> byte list \<Rightarrow> ('s, unit) prog) \<Rightarrow> byte list \<Rightarrow>
      ('s, (string \<rightharpoonup> u64) \<times> u64) prog" where
  "LOAD_ELF c wr buf =
     bind (load_segments c wr buf) (\<lambda>_.
     bind (load_symbols c buf) (\<lambda>symbols.
     ret (symbols, ucast (e_entry (ehdr_of c buf)))))"

text \<open>
  \<open>load_elf\<close>: the file is \<open>None\<close> when it cannot be opened; mapping an empty file fails.
  The symbols, and the entry point the code returns through a pointer.
\<close>

definition load_elf ::
    "(addr \<Rightarrow> byte list \<Rightarrow> ('s, unit) prog) \<Rightarrow> byte list option \<Rightarrow> ('s, (string \<rightharpoonup> u64) \<times> u64) prog" where
  "load_elf wr file = (case file of
       None \<Rightarrow> raise (Assert_Failed ''fd != -1'')
     | Some buf \<Rightarrow>
         bind (check (buf \<noteq> []) (Assert_Failed ''buf != MAP_FAILED'')) (\<lambda>_.
         bind (check (64 \<le> length buf) (Assert_Failed ''size >= sizeof(Elf64_Ehdr)'')) (\<lambda>_.
         bind (check (IS_ELF32 (take 16 buf) \<or> IS_ELF64 (take 16 buf))
           (Assert_Failed ''IS_ELF32(*eh64) || IS_ELF64(*eh64)'')) (\<lambda>_.
         if IS_ELF32 (take 16 buf) then LOAD_ELF elf_class32 wr buf
         else LOAD_ELF elf_class64 wr buf))))"

section \<open>What loading puts in memory\<close>

text \<open>
  The segments a file asks for: an address and the bytes of the file followed by zeros.
\<close>

definition phdr_nth :: "'w::len word elf_class \<Rightarrow> byte list \<Rightarrow> nat \<Rightarrow> 'w word elf_phdr" where
  "phdr_nth c buf i =
     phdr_of c (take (phdr_size c) (drop (unat (e_phoff (ehdr_of c buf)) + i * phdr_size c) buf))"

definition phdr_loads :: "'w::len word elf_phdr \<Rightarrow> bool" where
  "phdr_loads ph \<longleftrightarrow> p_type ph = PT_LOAD \<and> p_memsz ph \<noteq> 0"

definition phdr_segment :: "byte list \<Rightarrow> 'w::len word elf_phdr \<Rightarrow> addr \<times> byte list" where
  "phdr_segment buf ph =
     (ucast (p_paddr ph),
      take (unat (p_filesz ph)) (drop (unat (p_offset ph)) buf) @
      replicate (unat (p_memsz ph) - unat (p_filesz ph)) 0)"

definition elf_segments :: "'w::len word elf_class \<Rightarrow> byte list \<Rightarrow> (addr \<times> byte list) list" where
  "elf_segments c buf =
     map (phdr_segment buf)
       (filter phdr_loads (map (phdr_nth c buf) [0..<unat (e_phnum (ehdr_of c buf))]))"

definition load_image :: "(addr \<times> byte list) list \<Rightarrow> mem \<Rightarrow> mem" where
  "load_image segs m = fold (\<lambda>(a, bs) m. mem_write m a bs) segs m"

text \<open>Headers that stay inside the file and do not wrap around.\<close>

definition phdr_ok :: "byte list \<Rightarrow> 'w::len word elf_phdr \<Rightarrow> bool" where
  "phdr_ok buf ph \<longleftrightarrow> unat (p_offset ph) + unat (p_filesz ph) \<le> length buf \<and>
     unat (p_offset ph) + unat (p_filesz ph) < 2 ^ LENGTH('w) \<and>
     p_filesz ph \<le> p_memsz ph \<and> unat (p_memsz ph) < 2 ^ 63 \<and>
     unat (p_paddr ph) + unat (p_filesz ph) < 2 ^ LENGTH('w)"

definition elf_ok :: "'w::len word elf_class \<Rightarrow> byte list \<Rightarrow> bool" where
  "elf_ok c buf \<longleftrightarrow> length buf < 2 ^ 64 \<and>
     (let eh = ehdr_of c buf in
      unat (e_phoff eh) + unat (e_phnum eh) * phdr_size c \<le> length buf \<and>
      list_all (\<lambda>i. phdr_loads (phdr_nth c buf i) \<longrightarrow> phdr_ok buf (phdr_nth c buf i))
        [0..<unat (e_phnum eh)])"

text \<open>
  A memory the loader writes to: \<open>writable m a bs\<close> says that the write of \<open>bs\<close> at
  \<open>a\<close> is performed exactly when the memory holds \<open>m\<close>.
\<close>

locale byte_memory =
  fixes wr :: "addr \<Rightarrow> byte list \<Rightarrow> ('s, unit) prog"
    and view :: "'s \<Rightarrow> mem"
    and D :: "'s \<Rightarrow> addr set"
    and inv :: "'s \<Rightarrow> bool"
    and writable :: "mem \<Rightarrow> addr \<Rightarrow> byte list \<Rightarrow> bool"
  assumes write_law: "inv s \<Longrightarrow> range_in a (length bs) (D s) \<Longrightarrow> length bs < 2 ^ 64 \<Longrightarrow>
      writable (view s) a bs \<Longrightarrow>
      wp (wr a bs) (\<lambda>_ s'. view s' = mem_write (view s) a bs \<and> inv s' \<and> D s' = D s) s"
    and writable_split: "length (xs @ ys) < 2 ^ 64 \<Longrightarrow> writable m a (xs @ ys) \<Longrightarrow>
      writable m a xs \<and> writable (mem_write m a xs) (a + of_nat (length xs)) ys"
begin

primrec writable_all :: "(addr \<times> byte list) list \<Rightarrow> mem \<Rightarrow> bool" where
  "writable_all [] m = True"
| "writable_all (seg # segs) m =
     (writable m (fst seg) (snd seg) \<and> writable_all segs (mem_write m (fst seg) (snd seg)))"

abbreviation loaded :: "'s \<Rightarrow> (addr \<times> byte list) list \<Rightarrow> 's \<Rightarrow> bool" where
  "loaded s segs s' \<equiv> view s' = load_image segs (view s) \<and> inv s' \<and> D s' = D s"

lemma wp_write_two:
  assumes "inv s" and "range_in a (length (xs @ ys)) (D s)" and "length (xs @ ys) < 2 ^ 64"
    and "writable (view s) a (xs @ ys)"
  shows "wp (bind (if xs \<noteq> [] then wr a xs else ret ()) (\<lambda>_. wr (a + of_nat (length xs)) ys))
    (\<lambda>_. loaded s [(a, xs @ ys)]) s"
proof -
  note w = writable_split [OF assms(3,4)]
  have first: "wp (if xs \<noteq> [] then wr a xs else ret ())
      (\<lambda>_ s'. view s' = mem_write (view s) a xs \<and> inv s' \<and> D s' = D s) s"
    using write_law [of s a xs] assms w by (auto simp: range_in_def)
  show ?thesis
    unfolding wp_bind
    using first
  proof (rule wp_mono)
    fix u s'
    assume s': "view s' = mem_write (view s) a xs \<and> inv s' \<and> D s' = D s"
    then have "range_in (a + of_nat (length xs)) (length ys) (D s')"
      using range_in_sub [OF assms(2), of "length xs" "length ys"] by simp
    with s' w assms(3) have "wp (wr (a + of_nat (length xs)) ys) (\<lambda>_ t.
        view t = mem_write (view s') (a + of_nat (length xs)) ys \<and> inv t \<and> D t = D s') s'"
      by (intro write_law) auto
    then show "wp (wr (a + of_nat (length xs)) ys) (\<lambda>_. loaded s [(a, xs @ ys)]) s'"
      by (elim wp_mono) (use s' in \<open>auto simp: load_image_def mem_write_append\<close>)
  qed
qed

lemma wp_load_segment:
  assumes "inv s" and "phdr_loads ph" and ok: "phdr_ok buf ph" and size_w: "LENGTH('w) \<le> 64"
    and seg: "phdr_segment buf ph = (a, bs)"
    and "range_in a (length bs) (D s)" and "writable (view s) a bs"
  shows "wp (load_segment wr buf (ph :: 'w::len word elf_phdr)) (\<lambda>_. loaded s [(a, bs)]) s"
proof -
  let ?n = "unat (p_filesz ph)" and ?o = "unat (p_offset ph)"
  let ?xs = "take ?n (drop ?o buf)" and ?z = "unat (p_memsz ph) - ?n"
  have le: "?n \<le> unat (p_memsz ph)" using ok by (simp add: phdr_ok_def word_le_nat_alt)
  have z: "unat (p_memsz ph - p_filesz ph) = ?z"
    using ok by (simp add: phdr_ok_def unat_sub)
  have off: "unat (p_offset ph + p_filesz ph) = ?o + ?n"
    using ok by (simp add: phdr_ok_def unat_word_ariths)
  have pa: "ucast (p_paddr ph + p_filesz ph) = (ucast (p_paddr ph) + of_nat ?n :: addr)"
  proof -
    have "(2 :: nat) ^ LENGTH('w) \<le> 2 ^ 64" using size_w by (intro power_increasing) simp_all
    then have "unat (p_paddr ph) + ?n < 2 ^ 64" using ok by (auto simp: phdr_ok_def)
    then show ?thesis
      using ok size_w by (simp add: phdr_ok_def word_unat_eq_iff unat_word_ariths unat_ucast_up)
  qed
  have len: "length ?xs = ?n" using ok by (auto simp: phdr_ok_def min_def)
  have ne: "?xs \<noteq> [] \<longleftrightarrow> p_filesz ph \<noteq> 0" using len by (auto simp: unat_eq_0)
  have a: "a = ucast (p_paddr ph)" "bs = ?xs @ replicate ?z 0"
    using seg by (auto simp: phdr_segment_def)
  have "length bs = unat (p_memsz ph)" using a(2) len le by simp
  then have "length bs < 2 ^ 64" using ok by (simp add: phdr_ok_def)
  then have "wp (bind (if ?xs \<noteq> [] then wr a ?xs else ret ())
      (\<lambda>_. wr (a + of_nat (length ?xs)) (replicate ?z 0))) (\<lambda>_. loaded s [(a, bs)]) s"
    using assms(1,6,7) unfolding a(2) by (intro wp_write_two) simp_all
  moreover have inside: "?o + ?n \<le> length buf" and zeros: "?z < 2 ^ 63"
    using ok by (auto simp: phdr_ok_def)
  have "(if p_filesz ph \<noteq> 0 then bind (check (unat (p_offset ph + p_filesz ph) \<le> length buf)
        (Assert_Failed ''size >= p_offset + p_filesz'')) (\<lambda>_. bind (buf_bytes buf ?o ?n) (wr (ucast (p_paddr ph))))
      else ret ()) = (if ?xs \<noteq> [] then wr a ?xs else ret ())"
    unfolding ne off a(1) using inside by (simp add: buf_bytes_def check_def)
  then have "load_segment wr buf ph = bind (if ?xs \<noteq> [] then wr a ?xs else ret ())
      (\<lambda>_. wr (a + of_nat (length ?xs)) (replicate ?z 0))"
    unfolding load_segment_def z pa len a(1) [symmetric]
    using assms(2) zeros by (simp only: phdr_loads_def check_def if_True bind_ret simp_thms)
  ultimately show ?thesis by (simp add: wp_def)
qed


text \<open>The loop over the program headers, and the whole loader.\<close>

lemma load_image_append: "load_image (xs @ ys) m = load_image ys (load_image xs m)"
  by (simp add: load_image_def)

lemma wp_load_phdrs:
  assumes "LENGTH('w) \<le> 64" and "inv s"
    and "\<And>i. i \<in> set is \<Longrightarrow> unat (e_phoff (ehdr_of c buf)) + (i + 1) * phdr_size c \<le> length buf"
    and "\<And>i. i \<in> set is \<Longrightarrow> phdr_loads (phdr_nth c buf i) \<Longrightarrow> phdr_ok buf (phdr_nth c buf i)"
    and "segs = map (phdr_segment buf) (filter phdr_loads (map (phdr_nth c buf) is))"
    and "\<And>a bs. (a, bs) \<in> set segs \<Longrightarrow> range_in a (length bs) (D s)"
    and "writable_all segs (view s)"
  shows "wp (for_each is (\<lambda>i. bind (phdr_at (c :: 'w::len word elf_class) buf i) (load_segment wr buf)))
    (\<lambda>_. loaded s segs) s"
  using assms
proof (induction "is" arbitrary: s segs)
  case Nil
  then show ?case by (simp add: load_image_def)
next
  case (Cons i "is")
  note prems = Cons.prems
  let ?ph = "phdr_nth c buf i"
  let ?rest = "map (phdr_segment buf) (filter phdr_loads (map (phdr_nth c buf) is))"
  have at: "(phdr_at c buf i :: ('s, _) prog) = ret ?ph"
    using prems(3) [of i] by (simp add: phdr_at_def buf_bytes_def phdr_nth_def add.assoc add.commute)
  show ?case
  proof (cases "phdr_loads ?ph")
    case False
    then have "load_segment wr buf ?ph = ret ()" by (auto simp: load_segment_def phdr_loads_def)
    moreover have "segs = ?rest" using prems(5) False by simp
    then have "wp (for_each is (\<lambda>i. bind (phdr_at c buf i) (load_segment wr buf))) (\<lambda>_. loaded s segs) s"
      using prems(1-4,6,7) by (intro Cons.IH) auto
    ultimately show ?thesis by (simp add: at)
  next
    case True
    obtain a bs where seg: "phdr_segment buf ?ph = (a, bs)" by (rule prod.exhaust)
    have segs: "segs = (a, bs) # ?rest" using prems(5) True seg by simp
    have rest: "writable_all ?rest (mem_write (view s) a bs)" using prems(7) unfolding segs by simp
    have "wp (load_segment wr buf ?ph) (\<lambda>_. loaded s [(a, bs)]) s"
      using prems True segs seg by (intro wp_load_segment) auto
    then have "wp (load_segment wr buf ?ph)
        (\<lambda>_. wp (for_each is (\<lambda>i. bind (phdr_at c buf i) (load_segment wr buf))) (\<lambda>_. loaded s segs)) s"
    proof (rule wp_mono)
      fix u s'
      assume s': "loaded s [(a, bs)] s'"
      have "wp (for_each is (\<lambda>i. bind (phdr_at c buf i) (load_segment wr buf))) (\<lambda>_. loaded s' ?rest) s'"
        using prems(1-4,6) s' rest unfolding segs by (intro Cons.IH) (auto simp: load_image_def)
      then show "wp (for_each is (\<lambda>i. bind (phdr_at c buf i) (load_segment wr buf))) (\<lambda>_. loaded s segs) s'"
        by (elim wp_mono) (use s' segs in \<open>simp add: load_image_def\<close>)
    qed
    then show ?thesis by (simp add: at)
  qed
qed

lemma wp_load_segments:
  assumes "LENGTH('w) \<le> 64" and "inv s" and ok: "elf_ok c buf"
    and "\<And>a bs. (a, bs) \<in> set (elf_segments c buf) \<Longrightarrow> range_in a (length bs) (D s)"
    and "writable_all (elf_segments c buf) (view s)"
  shows "wp (load_segments (c :: 'w::len word elf_class) wr buf) (\<lambda>_. loaded s (elf_segments c buf)) s"
proof -
  let ?eh = "ehdr_of c buf"
  let ?n = "unat (e_phnum ?eh)" and ?o = "unat (e_phoff ?eh)"
  have fits: "?o + ?n * phdr_size c \<le> length buf" "length buf < 2 ^ 64"
    using ok by (auto simp: elf_ok_def Let_def)
  have "table_end (e_phoff ?eh) (e_phnum ?eh) (phdr_size c) =
      of_nat (unat (ucast (e_phoff ?eh) :: u64) + unat (ucast (e_phnum ?eh) :: u64) * phdr_size c)"
    by (simp add: table_end_def)
  also have "unat (ucast (e_phoff ?eh) :: u64) = ?o" by (rule unat_ucast_up) (simp add: assms(1))
  also have "unat (ucast (e_phnum ?eh) :: u64) = ?n" by (rule unat_ucast_up) simp
  finally have end_eq: "table_end (e_phoff ?eh) (e_phnum ?eh) (phdr_size c) = of_nat (?o + ?n * phdr_size c)" .
  have "table_end (e_phoff ?eh) (e_phnum ?eh) (phdr_size c) \<le> of_nat (length buf)"
    unfolding end_eq word_le_nat_alt using fits unat_of_nat_addr [OF fits(2)]
    by (subst unat_of_nat_addr) auto
  moreover have "?o + (i + 1) * phdr_size c \<le> length buf" if "i \<in> set [0..<?n]" for i
  proof -
    have "(i + 1) * phdr_size c \<le> ?n * phdr_size c" using that by (intro mult_le_mono1) simp
    with fits(1) show ?thesis by linarith
  qed
  moreover have "phdr_ok buf (phdr_nth c buf i)"
    if "i \<in> set [0..<?n]" and "phdr_loads (phdr_nth c buf i)" for i
    using ok that by (auto simp: elf_ok_def Let_def list_all_iff)
  ultimately show ?thesis
    using wp_load_phdrs [OF assms(1,2), of "[0..<?n]" c buf "elf_segments c buf"] assms(4,5)
    by (simp add: load_segments_def Let_def elf_segments_def)
qed

end

end
