(* ===== verification/Elf2hex.thy ===== *)
theory Elf2hex
  imports Elf Clib
begin

text \<open>
  The program \<open>elf2hex\<close> (\<open>tb/dpi/fesvr/elf2hex.cc\<close>): it loads an ELF file into a
  \<open>htif_hexwriter_t\<close> and prints the rows. The file system is a parameter; what the program
  prints on its standard output is its result, with its exit code.
\<close>

section \<open>The program\<close>

definition elf2hex :: "(string \<Rightarrow> byte list option) \<Rightarrow> string list \<Rightarrow> (exn + int \<times> string list) option" where
  "elf2hex files argv =
     (if length argv < 4 \<or> length argv > 5 then Some (Inr (1, []))
      else
        let base = (if length argv = 5 then word_of_int (atoi (argv ! 4)) else 0) :: u64 in
        if length argv = 5 \<and> base AND (base - 1) \<noteq> 0 then Some (Inr (1, []))
        else
          let width = word_of_int (atoi (argv ! 1)) :: u32 in
          if width = 0 \<or> width AND (width - 1) \<noteq> 0 then Some (Inr (1, []))
          else
            let depth = word_of_int (atoi (argv ! 2)) :: u32 in
            if depth = 0 \<or> depth AND (depth - 1) \<noteq> 0 then Some (Inr (1, []))
            else
              (case load_elf (memif_write hexwriter_ops) (files (argv ! 3))
                      (htif_hexwriter base (unat width) (unat depth)) of
                 None \<Rightarrow> None
               | Some (Inl e) \<Rightarrow> Some (Inl e)
               | Some (Inr (_, htif)) \<Rightarrow> Some (Inr (0, hx_print htif))))"

section \<open>The hexwriter as the memory of the loader\<close>

definition hx_writable :: "mem \<Rightarrow> addr \<Rightarrow> byte list \<Rightarrow> bool" where
  "hx_writable m a bs \<longleftrightarrow> (\<forall>i<length bs. bs ! i = 0 \<longrightarrow> m (a + of_nat i) = 0)"

interpretation hx_load: byte_memory "memif_write hexwriter_ops" hx_view hx_dom "hx_at p" hx_writable for p
proof unfold_locales
  fix s a and bs :: "byte list"
  assume "hx_at p s" and "range_in a (length bs) (hx_dom s)" and "length bs < 2 ^ 64"
    and "hx_writable (hx_view s) a bs"
  then have "wp (memif_write hexwriter_ops a bs) (\<lambda>_ s'. hx_view s' = mem_write (hx_view s) a bs \<and>
      hx_at p s' \<and> same_shape hexwriter_ops hx_dom s s') s"
    by (intro hx.wp_memif_write hx_clears_zero) (simp_all add: hx_writable_def)
  then show "wp (memif_write hexwriter_ops a bs) (\<lambda>_ s'. hx_view s' = mem_write (hx_view s) a bs \<and>
      hx_at p s' \<and> hx_dom s' = hx_dom s) s"
    by (rule wp_mono) (simp add: same_shape_def)
next
  fix m a and xs ys :: "byte list"
  assume len: "length (xs @ ys) < 2 ^ 64" and w: "hx_writable m a (xs @ ys)"
  have "hx_writable m a xs"
    unfolding hx_writable_def
  proof (intro allI impI)
    fix i
    assume "i < length xs" and "xs ! i = 0"
    with w show "m (a + of_nat i) = 0"
      by (simp add: hx_writable_def nth_append)
  qed
  moreover have "hx_writable (mem_write m a xs) (a + of_nat (length xs)) ys"
    unfolding hx_writable_def
  proof (intro allI impI)
    fix i
    assume i: "i < length ys" and "ys ! i = 0"
    then have "m (a + of_nat (length xs + i)) = 0"
      using w by (auto simp: hx_writable_def dest!: spec [of _ "length xs + i"])
    moreover have "\<not> in_range (a + of_nat (length xs + i)) a (length xs)"
      using len i by (subst in_range_of_nat) auto
    ultimately show "mem_write m a xs (a + of_nat (length xs) + of_nat i) = 0"
      using mem_write_other len by (simp add: add.assoc)
  qed
  ultimately show "hx_writable m a xs \<and> hx_writable (mem_write m a xs) (a + of_nat (length xs)) ys" ..
qed

section \<open>The printed image of a file\<close>

text \<open>Segments that do not overlap, and that a memory of zeros takes in any order.\<close>

definition ranges_apart :: "addr \<Rightarrow> nat \<Rightarrow> addr \<Rightarrow> nat \<Rightarrow> bool" where
  "ranges_apart a n b k \<longleftrightarrow> n \<le> unat (b - a) \<and> k \<le> unat (a - b)"

fun segs_apart :: "(addr \<times> byte list) list \<Rightarrow> bool" where
  "segs_apart [] = True"
| "segs_apart ((a, bs) # segs) =
     (list_all (\<lambda>(b, cs). ranges_apart a (length bs) b (length cs)) segs \<and> segs_apart segs)"

definition zero_at :: "mem \<Rightarrow> addr \<times> byte list \<Rightarrow> bool" where
  "zero_at m seg \<longleftrightarrow> (\<forall>i<length (snd seg). m (fst seg + of_nat i) = 0)"

lemma ranges_apart_other:
  assumes "ranges_apart a n b k" and "i < k"
  shows "\<not> in_range (b + of_nat i) a n"
proof (cases "a = b")
  case True
  with assms show ?thesis by (simp add: ranges_apart_def)
next
  case False
  have i: "i < 2 ^ 64" using assms unat_addr_less [of "a - b"] by (simp add: ranges_apart_def)
  have "unat (of_nat i - (a - b)) = (if unat (a - b) \<le> i then i - unat (a - b) else 2 ^ 64 + i - unat (a - b))"
    using unat_minus_of_nat [of "unat (a - b)" "of_nat i"] unat_addr_less [of "a - b"] i by simp
  moreover have "unat (- (a - b)) = 2 ^ 64 - unat (a - b)"
    using False unat_minus_of_nat [of "unat (a - b)" 0] unat_addr_less [of "a - b"]
    by (simp add: unat_eq_0)
  ultimately have "n \<le> unat (b + of_nat i - a)"
    using assms unat_addr_less [of "a - b"] by (simp add: ranges_apart_def algebra_simps, linarith)
  then show ?thesis by (simp add: in_range_def)
qed

lemma hx_writable_apart:
  "segs_apart segs \<Longrightarrow> list_all (\<lambda>(a, bs). length bs \<le> 2 ^ 64) segs \<Longrightarrow> list_all (zero_at m) segs \<Longrightarrow>
    hx_load.writable_all segs m"
proof (induction segs arbitrary: m rule: segs_apart.induct)
  case 1
  then show ?case by simp
next
  case (2 a bs segs)
  have "hx_writable m a bs" using 2(4) by (simp add: hx_writable_def zero_at_def)
  moreover have "zero_at (mem_write m a bs) seg" if "seg \<in> set segs" for seg
    unfolding zero_at_def
  proof (intro allI impI)
    fix i
    assume i: "i < length (snd seg)"
    have "ranges_apart a (length bs) (fst seg) (length (snd seg))"
      using 2(2) that by (auto simp: list_all_iff split: prod.splits)
    from ranges_apart_other [OF this i] 2(3)
    have "mem_write m a bs (fst seg + of_nat i) = m (fst seg + of_nat i)"
      by (intro mem_write_other) simp_all
    also have "\<dots> = 0" using 2(4) that i by (auto simp: list_all_iff zero_at_def)
    finally show "mem_write m a bs (fst seg + of_nat i) = 0" .
  qed
  then have "hx_load.writable_all segs (mem_write m a bs)"
    using 2(2,3) by (intro 2(1)) (auto simp: list_all_iff)
  ultimately show ?case by simp
qed

definition segs_in :: "addr \<Rightarrow> nat \<Rightarrow> (addr \<times> byte list) list \<Rightarrow> bool" where
  "segs_in b n segs \<longleftrightarrow> list_all (\<lambda>(a, bs). unat (a - b) + length bs \<le> n) segs"

lemma segs_in_range:
  assumes "segs_in b n segs" and "n < 2 ^ 64" and "(a, bs) \<in> set segs"
  shows "range_in a (length bs) {x. unat (x - b) < n}"
  unfolding range_in_def
proof (intro allI impI CollectI)
  fix i
  assume i: "i < length bs"
  have le: "unat (a - b) + length bs \<le> n" using assms(1,3) by (auto simp: segs_in_def list_all_iff)
  have "a + of_nat i - b = of_nat (unat (a - b) + i)" by simp
  also have "unat \<dots> = unat (a - b) + i" using le i assms(2) by (intro unat_of_nat_addr) simp
  finally show "unat (a + of_nat i - b) < n" using le i by simp
qed

lemma load_elf64:
  "64 \<le> length buf \<Longrightarrow> IS_ELF64 (take 16 buf) \<Longrightarrow> load_elf wr (Some buf) = LOAD_ELF elf_class64 wr buf"
  by (auto simp: load_elf_def check_def IS_ELF64_def IS_ELF32_def)

text \<open>The symbol table is read without touching the memory.\<close>

lemma stateless_buf_bytes [stateless_simps]: "stateless (buf_bytes buf off n) = buf_bytes buf off n"
  by (simp add: buf_bytes_def stateless_simps)

lemma stateless_buf_string [stateless_simps]: "stateless (buf_string buf off n) = buf_string buf off n"
  by (simp add: buf_string_def Let_def stateless_simps)

lemma stateless_shdr_at [stateless_simps]: "stateless (shdr_at c buf i) = shdr_at c buf i"
  by (simp add: shdr_at_def stateless_simps)

lemma stateless_scan_section [stateless_simps]:
  "stateless (scan_section c buf str i idx) = scan_section c buf str i idx"
  by (simp add: scan_section_def Let_def stateless_simps cong: if_cong)

lemma stateless_scan_sections [stateless_simps]:
  "stateless (scan_sections c buf str is idx) = scan_sections c buf str is idx"
  by (induction "is" arbitrary: idx) (simp_all add: stateless_simps)

lemma stateless_symbol_at [stateless_simps]:
  "stateless (symbol_at c buf strtab symtab i) = symbol_at c buf strtab symtab i"
  by (simp add: symbol_at_def Let_def stateless_simps)

lemma stateless_read_symbols [stateless_simps]:
  "stateless (read_symbols c buf strtab symtab is m) = read_symbols c buf strtab symtab is m"
  by (induction "is" arbitrary: m) (simp_all add: stateless_simps case_prod_unfold)

lemma stateless_load_symbols: "load_symbols c buf = stateless (load_symbols c buf)"
  by (simp add: load_symbols_def Let_def stateless_simps case_prod_unfold cong: if_cong)

text \<open>Loading a file into an empty image.\<close>

lemma wp_hx_load_elf:
  assumes inv: "hx_at (base, w, d) s" and view: "hx_view s = (\<lambda>_. 0)"
    and dom: "hx_dom s = {x. unat (x - base) < w * d}" and size: "w * d < 2 ^ 64"
    and elf: "64 \<le> length buf" "IS_ELF64 (take 16 buf)" "elf_ok elf_class64 buf"
      "wp (load_symbols elf_class64 buf) (\<lambda>_ _. True) ()"
    and segs: "segs = elf_segments elf_class64 buf" "segs_in base (w * d) segs" "segs_apart segs"
  shows "wp (load_elf (memif_write hexwriter_ops) (Some buf))
    (\<lambda>_ s'. hx_view s' = load_image segs (\<lambda>_. 0) \<and> hx_at (base, w, d) s') s"
  unfolding load_elf64 [OF elf(1,2)] LOAD_ELF_def
proof (rule wp_seq)
  have "list_all (\<lambda>(a, bs). length bs \<le> 2 ^ 64) segs"
    using segs(2) size by (auto simp: segs_in_def list_all_iff)
  moreover have "list_all (zero_at (hx_view s)) segs" by (simp add: view list_all_iff zero_at_def)
  ultimately have "hx_load.writable_all segs (hx_view s)" by (rule hx_writable_apart [OF segs(3)])
  then show "wp (load_segments elf_class64 (memif_write hexwriter_ops) buf)
      (\<lambda>_ s'. hx_view s' = load_image segs (hx_view s) \<and> hx_at (base, w, d) s' \<and> hx_dom s' = hx_dom s) s"
    using hx_load.wp_load_segments [of "(base, w, d)" s elf_class64 buf] inv elf(3)
      segs_in_range [OF segs(2) size] dom
    unfolding segs(1) by auto
  fix u t
  assume t: "hx_view t = load_image segs (hx_view s) \<and> hx_at (base, w, d) t \<and> hx_dom t = hx_dom s"
  show "wp (bind (load_symbols elf_class64 buf) (\<lambda>symbols. ret (symbols, ucast (e_entry (ehdr_of elf_class64 buf)))))
      (\<lambda>_ s'. hx_view s' = load_image segs (\<lambda>_. 0) \<and> hx_at (base, w, d) s') t"
    by (rule wp_seq [OF wp_stateless [OF stateless_load_symbols elf(4)]]) (use t view in simp)
qed

lemma hx_print_rows:
  assumes "hx_at (base, w, d) s"
  shows "length (hx_print s) = d"
    and "r < d \<Longrightarrow> rev (parse_hex (hx_print s ! r)) = mem_read (hx_view s) (base + of_nat (r * w)) w"
  using assms hx_line_view [of s r] by (simp_all add: hx_print_def hx_at_def)

text \<open>
  C4: for arguments that pass the checks and a 64-bit file whose headers stay in the file,
  whose symbol table reads well and whose segments lie in the image and do not overlap,
  \<open>elf2hex\<close> exits with 0 and prints \<open>depth\<close> lines, and line \<open>r\<close>, read from its last
  byte to its first, is row \<open>r\<close> of a memory of zeros with the segments loaded.
\<close>

theorem elf2hex_prints_image:
  assumes args: "length argv = 5" "files (argv ! 3) = Some buf"
      "base = word_of_int (atoi (argv ! 4))" "width = (word_of_int (atoi (argv ! 1)) :: u32)"
      "depth = (word_of_int (atoi (argv ! 2)) :: u32)"
    and pow2: "base AND (base - 1) = 0" "width \<noteq> 0" "width AND (width - 1) = 0"
      "depth \<noteq> 0" "depth AND (depth - 1) = 0"
    and aligned: "unat width dvd unat base"
    and elf: "64 \<le> length buf" "IS_ELF64 (take 16 buf)" "elf_ok elf_class64 buf"
      "wp (load_symbols elf_class64 buf) (\<lambda>_ _. True) ()"
    and segs: "segs = elf_segments elf_class64 buf"
      "segs_in base (unat width * unat depth) segs" "segs_apart segs"
  shows "\<exists>lines. elf2hex files argv = Some (Inr (0, lines)) \<and> length lines = unat depth \<and>
    (\<forall>r<unat depth. rev (parse_hex (lines ! r)) =
      mem_read (load_image segs (\<lambda>_. 0)) (base + of_nat (r * unat width)) (unat width))"
proof -
  let ?w = "unat width" and ?d = "unat depth"
  let ?s = "htif_hexwriter base ?w ?d"
  obtain k where k: "k < 64" "?w = 2 ^ k" using pow2_check [OF pow2(2,3)] by auto
  have lt32: "?w < 2 ^ 32" "?d < 2 ^ 32" using unsigned_less [of width] unsigned_less [of depth] by simp_all
  have "?w * ?d < 2 ^ 32 * 2 ^ 32" using lt32 by (intro mult_strict_mono) simp_all
  then have size: "?w * ?d < 2 ^ 64" by simp
  have inv: "hx_at (base, ?w, ?d) ?s"
    using hx_inv_init [of k base ?d] k size aligned by (simp add: hx_at_def htif_hexwriter_def)
  have view: "hx_view ?s = (\<lambda>_. 0)" using k by (intro ext) simp
  have dom: "hx_dom ?s = {x. unat (x - base) < ?w * ?d}" by (simp add: hx_dom_def htif_hexwriter_def)
  from wp_hx_load_elf [OF inv view dom size elf segs] obtain r s' where
    run: "load_elf (memif_write hexwriter_ops) (files (argv ! 3)) ?s = Some (Inr (r, s'))"
    and s': "hx_view s' = load_image segs (\<lambda>_. 0)" "hx_at (base, ?w, ?d) s'"
    unfolding args(2) by (rule wpE) blast
  have "elf2hex files argv = Some (Inr (0, hx_print s'))"
    using run pow2 args by (simp add: elf2hex_def Let_def)
  then show ?thesis using hx_print_rows [OF s'(2)] s'(1) by auto
qed

text \<open>A file with one segment of four bytes and four zeros at \<open>0x80000004\<close>.\<close>

definition example_elf :: "byte list" where
  "example_elf = [
      0x7F, 0x45, 0x4C, 0x46, 2, 1, 1, 0, 0, 0, 0, 0, 0, 0, 0, 0,
      2, 0, 0xF3, 0, 1, 0, 0, 0, 4, 0, 0, 0x80, 0, 0, 0, 0,
      0x40, 0, 0, 0, 0, 0, 0, 0, 0x80, 0, 0, 0, 0, 0, 0, 0,
      0, 0, 0, 0, 0x40, 0, 0x38, 0, 1, 0, 0x40, 0, 1, 0, 0, 0,
      1, 0, 0, 0, 5, 0, 0, 0, 0x78, 0, 0, 0, 0, 0, 0, 0,
      0, 0, 0, 0, 0, 0, 0, 0, 4, 0, 0, 0x80, 0, 0, 0, 0,
      4, 0, 0, 0, 0, 0, 0, 0, 8, 0, 0, 0, 0, 0, 0, 0,
      0, 0, 0, 0, 0, 0, 0, 0, 0x13, 0, 0x50, 0xFF, 0, 0, 0, 0,
      0, 0, 0, 0, 3, 0, 0, 0, 0, 0, 0, 0, 0, 0, 0, 0,
      0, 0, 0, 0, 0, 0, 0, 0, 0x7C, 0, 0, 0, 0, 0, 0, 0,
      4, 0, 0, 0, 0, 0, 0, 0, 0, 0, 0, 0, 0, 0, 0, 0,
      0, 0, 0, 0, 0, 0, 0, 0, 0, 0, 0, 0, 0, 0, 0, 0]"

lemma example_elf_header: "length example_elf = 192" "IS_ELF64 (take 16 example_elf)"
  by (simp_all add: example_elf_def IS_ELF64_def IS_ELF_def)

lemma example_elf_segments:
  "elf_segments elf_class64 example_elf = [(0x80000004, [0x13, 0, 0x50, 0xFF, 0, 0, 0, 0])]"
  by code_simp

lemma example_elf_fields:
  "e_phoff (ehdr_of elf_class64 example_elf) = 64" "e_phnum (ehdr_of elf_class64 example_elf) = 1"
  "phdr_nth elf_class64 example_elf 0 =
    \<lparr>p_type = 1, p_offset = 120, p_vaddr = 0, p_paddr = 0x80000004, p_filesz = 4, p_memsz = 8,
     p_flags = 5, p_align = 0\<rparr>"
  by code_simp+

lemma example_elf_ok: "elf_ok elf_class64 example_elf"
  by (simp add: elf_ok_def example_elf_fields example_elf_header phdr_ok_def elf_class64_def [THEN arg_cong, of phdr_size])

lemma example_elf_symbols: "wp (load_symbols elf_class64 example_elf) (\<lambda>_ _. True) ()"
  by code_simp

theorem elf2hex_prints_image_witness:
  "\<exists>lines. elf2hex (\<lambda>_. Some example_elf) [''elf2hex'', ''8'', ''2'', ''a.elf'', ''2147483648''] = Some (Inr (0, lines)) \<and>
    length lines = 2 \<and>
    (\<forall>r<2. rev (parse_hex (lines ! r)) =
      mem_read (load_image [(0x80000004, [0x13, 0, 0x50, 0xFF, 0, 0, 0, 0])] (\<lambda>_. 0))
        (0x80000000 + of_nat (r * 8)) 8)"
proof -
  let ?argv = "[''elf2hex'', ''8'', ''2'', ''a.elf'', ''2147483648'']"
  have atoi: "atoi ''8'' = 8" "atoi ''2'' = 2" "atoi ''2147483648'' = 2147483648" by code_simp+
  show ?thesis
    using elf2hex_prints_image [where argv = ?argv and files = "\<lambda>_. Some example_elf" and buf = example_elf and base = "0x80000000" and width = 8 and depth = 2 and segs =
        "[(0x80000004, [0x13, 0, 0x50, 0xFF, 0, 0, 0, 0])]"]
    by (simp add: atoi example_elf_header example_elf_segments example_elf_ok example_elf_symbols segs_in_def)
qed

end
