(* ===== verification/Htif_State.thy ===== *)
theory Htif_State
  imports Memif Clib
begin

text \<open>
  The state of the front-end server (\<open>tb/dpi/fesvr\<close>: \<open>htif.h\<close>, \<open>device.h\<close>,
  \<open>rfb.h\<close>, \<open>syscall.h\<close>): the fields of \<open>htif_t\<close> and of the objects it owns in
  one record, over a target \<open>'t\<close> that is reached through chunks and a host \<open>'h\<close> that
  is reached through system calls. The operating system of the host is a parameter
  (\<open>host_os\<close>): every call the code makes is a function from its arguments to its result.
  Handlers that the code stores as \<open>std::function\<close> are constructors of a datatype.
\<close>

section \<open>Commands\<close>

text \<open>A command is the word the target wrote to \<open>tohost\<close>.\<close>

type_synonym command = u64

definition cmd_device :: "command \<Rightarrow> byte" where
  "cmd_device tohost = ucast (drop_bit 56 tohost)"

definition cmd_cmd :: "command \<Rightarrow> byte" where
  "cmd_cmd tohost = ucast (drop_bit 48 tohost)"

definition cmd_payload :: "command \<Rightarrow> u64" where
  "cmd_payload tohost = drop_bit 16 (push_bit 16 tohost)"

definition cmd_response :: "command \<Rightarrow> u64 \<Rightarrow> u64" where
  "cmd_response tohost resp = push_bit 48 (drop_bit 48 tohost) OR drop_bit 16 (push_bit 16 resp)"

definition MAX_COMMANDS :: nat where "MAX_COMMANDS = 256"

definition MAX_DEVICES :: nat where "MAX_DEVICES = 256"

section \<open>Devices\<close>

datatype handler =
    Handle_null_command | Handle_identify | Handle_syscall
  | Bcd_handle_read | Bcd_handle_write | Disk_handle_read | Disk_handle_write
  | Rfb_handle_configure | Rfb_handle_set_address

datatype device_body =
    Null_device
  | Syscall_proxy
  | Bcd
  | Disk int nat
  | Rfb nat

record device =
  command_handlers :: "handler list"
  command_names :: "string list"
  identity :: string
  body :: device_body

record rfb =
  rfb_sockfd :: int
  rfb_afd :: int
  rfb_memif :: bool
  rfb_addr :: u64
  rfb_width :: u16
  rfb_height :: u16
  rfb_bpp :: u16
  rfb_display :: int
  rfb_fb1 :: "byte list option"
  rfb_fb2 :: "byte list"
  rfb_read_pos :: nat

section \<open>The host\<close>

record host_stat =
  st_dev :: u64
  st_ino :: u64
  st_mode :: u32
  st_nlink :: u64
  st_uid :: u32
  st_gid :: u32
  st_rdev :: u64
  st_size :: u64
  st_blksize :: u64
  st_blocks :: u64
  st_atime :: u64
  st_mtime :: u64
  st_ctime :: u64

text \<open>
  The calls return the result of the C function, which is \<open>-1\<close> on an error, and the new
  state of the host, which holds \<open>errno\<close>; \<open>os_fstat\<close>, \<open>os_lstat\<close> and
  \<open>os_fstatat\<close> also return what the caller's \<open>struct stat\<close> holds after the call.
\<close>

record 'h host_os =
  os_errno :: "'h \<Rightarrow> int"
  os_read :: "int \<Rightarrow> nat \<Rightarrow> 'h \<Rightarrow> (int \<times> byte list) \<times> 'h"
  os_pread :: "int \<Rightarrow> nat \<Rightarrow> u64 \<Rightarrow> 'h \<Rightarrow> (int \<times> byte list) \<times> 'h"
  os_write :: "int \<Rightarrow> byte list \<Rightarrow> 'h \<Rightarrow> int \<times> 'h"
  os_pwrite :: "int \<Rightarrow> byte list \<Rightarrow> u64 \<Rightarrow> 'h \<Rightarrow> int \<times> 'h"
  os_close :: "int \<Rightarrow> 'h \<Rightarrow> int \<times> 'h"
  os_lseek :: "int \<Rightarrow> u64 \<Rightarrow> int \<Rightarrow> 'h \<Rightarrow> int \<times> 'h"
  os_fstat :: "int \<Rightarrow> 'h \<Rightarrow> (int \<times> host_stat) \<times> 'h"
  os_lstat :: "string \<Rightarrow> 'h \<Rightarrow> (int \<times> host_stat) \<times> 'h"
  os_fstatat :: "int \<Rightarrow> string \<Rightarrow> int \<Rightarrow> 'h \<Rightarrow> (int \<times> host_stat) \<times> 'h"
  os_fcntl :: "int \<Rightarrow> int \<Rightarrow> u64 \<Rightarrow> 'h \<Rightarrow> int \<times> 'h"
  os_ftruncate :: "int \<Rightarrow> u64 \<Rightarrow> 'h \<Rightarrow> int \<times> 'h"
  os_openat :: "int \<Rightarrow> string \<Rightarrow> int \<Rightarrow> u32 \<Rightarrow> 'h \<Rightarrow> int \<times> 'h"
  os_faccessat :: "int \<Rightarrow> string \<Rightarrow> int \<Rightarrow> 'h \<Rightarrow> int \<times> 'h"
  os_renameat :: "int \<Rightarrow> string \<Rightarrow> int \<Rightarrow> string \<Rightarrow> 'h \<Rightarrow> int \<times> 'h"
  os_linkat :: "int \<Rightarrow> string \<Rightarrow> int \<Rightarrow> string \<Rightarrow> int \<Rightarrow> 'h \<Rightarrow> int \<times> 'h"
  os_unlinkat :: "int \<Rightarrow> string \<Rightarrow> int \<Rightarrow> 'h \<Rightarrow> int \<times> 'h"
  os_mkdirat :: "int \<Rightarrow> string \<Rightarrow> u32 \<Rightarrow> 'h \<Rightarrow> int \<times> 'h"
  os_getcwd :: "nat \<Rightarrow> 'h \<Rightarrow> string option \<times> 'h"
  os_chdir :: "string \<Rightarrow> 'h \<Rightarrow> int \<times> 'h"
  os_dup :: "int \<Rightarrow> 'h \<Rightarrow> int \<times> 'h"
  os_poll_in :: "int \<Rightarrow> 'h \<Rightarrow> bool \<times> 'h"
  os_exists :: "string \<Rightarrow> 'h \<Rightarrow> bool"
  os_file :: "string \<Rightarrow> 'h \<Rightarrow> byte list option"
  os_create :: "string \<Rightarrow> string list \<Rightarrow> 'h \<Rightarrow> bool \<times> 'h"
  os_signal :: "'h \<Rightarrow> bool \<times> 'h"
  os_rfb_trylock :: "nat \<Rightarrow> 'h \<Rightarrow> bool \<times> 'h"
  os_fresh :: "nat \<Rightarrow> 'h \<Rightarrow> byte list"

section \<open>The server\<close>

record ('t, 'h) htif =
  target :: 't
  host :: 'h
  entry :: u64
  targs :: "string list"
  sig_file :: string
  sig_addr :: u64
  sig_len :: u64
  tohost_addr :: u64
  fromhost_addr :: u64
  exitcode :: u32
  stopped :: bool
  devices :: "device list"
  num_devices :: nat
  dynamic_devices :: "device list"
  rfbs :: "rfb list"
  pending_reads :: "command list"
  fromhost_queue :: "u64 list"
  fds :: "int list"
  chroot :: string

text \<open>
  What a subclass of \<open>htif_t\<close> provides: the chunk interface to its target, \<open>idle\<close>,
  \<open>reset\<close> and \<open>is_address_preloaded\<close>; the host it runs on; and the directory
  \<open>PREFIX TARGET_DIR\<close> that the build sets.
\<close>

record ('t, 'h) env =
  chunks :: "'t chunked_memif"
  idle :: "('t, unit) prog"
  htif_reset :: "u64 \<Rightarrow> ('t, unit) prog"
  is_address_preloaded :: "'t \<Rightarrow> addr \<Rightarrow> nat \<Rightarrow> bool"
  os :: "'h host_os"
  target_dir :: string

definition on_target :: "('t, 'a) prog \<Rightarrow> (('t, 'h) htif, 'a) prog" where
  "on_target = zoom target (\<lambda>t s. s\<lparr>target := t\<rparr>)"

definition on_host :: "('h \<Rightarrow> 'a \<times> 'h) \<Rightarrow> (('t, 'h) htif, 'a) prog" where
  "on_host f = (\<lambda>s. case f (host s) of (a, h) \<Rightarrow> Some (Inr (a, s\<lparr>host := h\<rparr>)))"

definition mem_rd :: "('t, 'h) env \<Rightarrow> addr \<Rightarrow> nat \<Rightarrow> (('t, 'h) htif, byte list) prog" where
  "mem_rd e a n = on_target (memif_read (chunks e) a n)"

definition mem_wr :: "('t, 'h) env \<Rightarrow> addr \<Rightarrow> byte list \<Rightarrow> (('t, 'h) htif, unit) prog" where
  "mem_wr e a bs = on_target (memif_write (chunks e) a bs)"

text \<open>A \<open>std::vector\<close> of \<open>n\<close> bytes is an allocation that has a largest size.\<close>

definition alloc_bytes :: "u64 \<Rightarrow> ('s, unit) prog" where
  "alloc_bytes n = check (unat n < 2 ^ 63) (Runtime_Error ''vector'')"

text \<open>\<open>cmd.respond\<close>: the callback pushes the response on the queue of \<open>run\<close>.\<close>

definition respond :: "command \<Rightarrow> u64 \<Rightarrow> (('t, 'h) htif, unit) prog" where
  "respond cmd resp = modify (\<lambda>s. s\<lparr>fromhost_queue := fromhost_queue s @ [cmd_response cmd resp]\<rparr>)"

lemma wp_on_host [simp]: "wp (on_host f) Q s = (case f (host s) of (a, h) \<Rightarrow> Q a (s\<lparr>host := h\<rparr>))"
  by (simp add: on_host_def wp_def split: prod.splits)

lemma run_on_host [run_simps]: "on_host f s = (case f (host s) of (a, h) \<Rightarrow> Some (Inr (a, s\<lparr>host := h\<rparr>)))"
  by (simp add: on_host_def)

text \<open>\<open>exit_code\<close>: the arithmetic shift of an \<open>int\<close>.\<close>

definition exit_code :: "('t, 'h) htif \<Rightarrow> int" where
  "exit_code s = sint (exitcode s) div 2"

section \<open>Commands and responses\<close>

text \<open>
  A response carries the device and command number of the command it answers, and the
  low 48 bits of the value.
\<close>

theorem cmd_response_fields:
  "cmd_device (cmd_response w r) = cmd_device w \<and> cmd_cmd (cmd_response w r) = cmd_cmd w \<and>
   cmd_payload (cmd_response w r) = take_bit 48 r"
  unfolding cmd_device_def cmd_cmd_def cmd_payload_def cmd_response_def
  by (intro conjI; rule bit_word_eqI) (auto simp: bit_simps)

text \<open>The three fields of a command are all there is in it.\<close>

lemma cmd_fields_unique:
  assumes "cmd_device w = cmd_device v" and "cmd_cmd w = cmd_cmd v" and "cmd_payload w = cmd_payload v"
  shows "w = v"
proof (rule bit_word_eqI)
  fix n :: nat
  assume n: "n < LENGTH(64)"
  have d: "bit (cmd_device w) (n - 56) = bit (cmd_device v) (n - 56)"
    and c: "bit (cmd_cmd w) (n - 48) = bit (cmd_cmd v) (n - 48)"
    and p: "bit (cmd_payload w) n = bit (cmd_payload v) n" using assms by simp_all
  consider "n < 48" | "48 \<le> n" "n < 56" | "56 \<le> n" by linarith
  then show "bit w n = bit v n"
    using n d c p by cases (auto simp: cmd_device_def cmd_cmd_def cmd_payload_def bit_simps)
qed

end
