(* ===== verification/Examples.thy ===== *)
theory Examples
  imports Htif_State
begin

text \<open>
  Concrete instances of the parameters of the model, for the witnesses: a target that is a
  plain byte memory, and a host with an input, an output and no files.
\<close>

section \<open>A plain memory\<close>

definition plain_ops :: "mem chunked_memif" where
  "plain_ops = \<lparr>read_chunk = (\<lambda>a n m. Some (Inr (mem_read m a n, m))),
     write_chunk = (\<lambda>a bs m. Some (Inr ((), mem_write m a bs))),
     clear_chunk = (\<lambda>a n m. Some (Inr ((), mem_write m a (replicate n 0)))),
     chunk_align = (\<lambda>_. 8), chunk_max_size = (\<lambda>_. 1024)\<rparr>"

interpretation plain: clearing_memory plain_ops id "\<lambda>_. UNIV" "\<lambda>_. True"
proof unfold_locales
  show "\<exists>k<64. chunk_align plain_ops s = 2 ^ k" for s
    by (rule exI [of _ 3]) (simp add: plain_ops_def)
qed (simp_all add: plain_ops_def wp_def same_shape_def)

lemma plain_read: "n < 2 ^ 64 \<Longrightarrow> memif_read plain_ops a n m = Some (Inr (mem_read m a n, m))"
  using plain.wp_memif_read [where s = m and a = a and len = n] by (auto simp: range_in_def elim: wpE)

lemma plain_write: "length bs < 2 ^ 64 \<Longrightarrow> memif_write plain_ops a bs m = Some (Inr ((), mem_write m a bs))"
  using plain.wp_write [where s = m and a = a and bs = bs] by (auto simp: range_in_def elim: wpE)

section \<open>A small host\<close>

record toy_host =
  toy_errno :: int
  toy_in :: "byte list"
  toy_out :: "byte list"

definition toy_fail :: "toy_host \<Rightarrow> int \<times> toy_host" where
  "toy_fail h = (- 1, h\<lparr>toy_errno := 2\<rparr>)"

definition toy_stat :: host_stat where
  "toy_stat = \<lparr>st_dev = 0xAA, st_ino = 0, st_mode = 0, st_nlink = 0, st_uid = 0, st_gid = 0, st_rdev = 0,
     st_size = 0, st_blksize = 0, st_blocks = 0, st_atime = 0, st_mtime = 0, st_ctime = 0\<rparr>"

definition toy_os :: "toy_host host_os" where
  "toy_os = \<lparr>os_errno = toy_errno,
     os_read = (\<lambda>fd n h. ((int (length (take n (toy_in h))), take n (toy_in h)), h\<lparr>toy_in := drop n (toy_in h)\<rparr>)),
     os_pread = (\<lambda>fd n off h. ((0, []), h)),
     os_write = (\<lambda>fd bs h. (int (length bs), h\<lparr>toy_out := toy_out h @ bs\<rparr>)),
     os_pwrite = (\<lambda>fd bs off h. (int (length bs), h)),
     os_close = (\<lambda>fd h. (0, h)), os_lseek = (\<lambda>fd off dir. toy_fail),
     os_fstat = (\<lambda>fd h. ((- 1, toy_stat), h\<lparr>toy_errno := 9\<rparr>)),
     os_lstat = (\<lambda>name h. ((- 1, toy_stat), h\<lparr>toy_errno := 2\<rparr>)),
     os_fstatat = (\<lambda>fd name flags h. ((- 1, toy_stat), h\<lparr>toy_errno := 2\<rparr>)),
     os_fcntl = (\<lambda>fd cmd arg. toy_fail), os_ftruncate = (\<lambda>fd n. toy_fail),
     os_openat = (\<lambda>fd name flags mode. toy_fail), os_faccessat = (\<lambda>fd name mode. toy_fail),
     os_renameat = (\<lambda>fd1 name1 fd2 name2. toy_fail),
     os_linkat = (\<lambda>fd1 name1 fd2 name2 flags. toy_fail), os_unlinkat = (\<lambda>fd name flags. toy_fail),
     os_mkdirat = (\<lambda>fd name mode. toy_fail), os_getcwd = (\<lambda>n h. (Some ''/root/dir'', h)),
     os_chdir = (\<lambda>name. toy_fail), os_dup = (\<lambda>fd h. (fd + 10, h)),
     os_poll_in = (\<lambda>fd h. (toy_in h \<noteq> [], h)), os_exists = (\<lambda>name h. False), os_file = (\<lambda>name h. None),
     os_create = (\<lambda>name ls h. (True, h)), os_signal = (\<lambda>h. (False, h)),
     os_rfb_trylock = (\<lambda>i h. (False, h)), os_fresh = (\<lambda>n h. replicate n 0xCC)\<rparr>"

definition toy_env :: "(mem, toy_host) env" where
  "toy_env = \<lparr>chunks = plain_ops, idle = ret (), htif_reset = (\<lambda>a. ret ()),
     is_address_preloaded = (\<lambda>t a n. False), os = toy_os, target_dir = ''/riscv64-unknown-elf/bin/''\<rparr>"

definition toy_htif :: "(mem, toy_host) htif" where
  "toy_htif = \<lparr>target = (\<lambda>a. 0), host = \<lparr>toy_errno = 0, toy_in = [0x41, 0x42], toy_out = []\<rparr>,
     entry = 0x80000000, targs = [''prog'', ''-v''], sig_file = '''', sig_addr = 0, sig_len = 0,
     tohost_addr = 0, fromhost_addr = 0, exitcode = 0, stopped = False, devices = [], num_devices = 0,
     dynamic_devices = [], rfbs = [], pending_reads = [], fromhost_queue = [], fds = [10, 11, 11],
     chroot = ''''\<rparr>"

end
