(* ===== verification/Device.thy ===== *)
theory Device
  imports Htif_State Examples
begin

text \<open>
  The devices of the front-end server (\<open>tb/dpi/fesvr/device.cc\<close>, \<open>term.cc\<close>): the
  table of command handlers every device has, the identify command, the console (\<open>bcd_t\<close>)
  and the disk, and the list of devices.
\<close>

section \<open>The command table of a device\<close>

definition IDENTITY_SIZE :: nat where "IDENTITY_SIZE = 64"

definition register_command :: "nat \<Rightarrow> handler \<Rightarrow> string \<Rightarrow> (device, unit) prog" where
  "register_command cmd h name =
     bind (check (cmd < MAX_COMMANDS) (Assert_Failed ''cmd < command_t::MAX_COMMANDS'')) (\<lambda>_.
     bind (check (length name < IDENTITY_SIZE) (Assert_Failed ''strlen(name) < IDENTITY_SIZE'')) (\<lambda>_.
     modify (\<lambda>d. d\<lparr>command_handlers := (command_handlers d)[cmd := h],
                    command_names := (command_names d)[cmd := name]\<rparr>)))"

definition device_t :: "(device, unit) prog" where
  "device_t =
     bind (for_each [0..<MAX_COMMANDS] (\<lambda>cmd. register_command cmd Handle_null_command '''')) (\<lambda>_.
     register_command (MAX_COMMANDS - 1) Handle_identify ''identity'')"

definition blank_device :: "string \<Rightarrow> device_body \<Rightarrow> device" where
  "blank_device name b = \<lparr>command_handlers = replicate MAX_COMMANDS Handle_null_command,
     command_names = replicate MAX_COMMANDS '''', identity = name, body = b\<rparr>"

definition make_device :: "string \<Rightarrow> device_body \<Rightarrow> (nat \<times> handler \<times> string) list \<Rightarrow> ('s, device) prog" where
  "make_device name b cmds =
     zoom (\<lambda>_. blank_device name b) (\<lambda>_ s. s)
       (bind device_t (\<lambda>_. bind (for_each cmds (\<lambda>(cmd, h, n). register_command cmd h n)) (\<lambda>_. gets id)))"

definition null_device_t :: "('s, device) prog" where
  "null_device_t = make_device '''' Null_device []"

definition bcd_t :: "('s, device) prog" where
  "bcd_t = make_device ''bcd'' Bcd [(0, Bcd_handle_read, ''read''), (1, Bcd_handle_write, ''write'')]"

definition rfb_t :: "nat \<Rightarrow> ('s, device) prog" where
  "rfb_t i = make_device ''rfb'' (Rfb i)
     [(0, Rfb_handle_configure, ''configure''), (1, Rfb_handle_set_address, ''set_address'')]"

section \<open>The identify command\<close>

definition handle_identify :: "('t, 'h) env \<Rightarrow> device \<Rightarrow> command \<Rightarrow> (('t, 'h) htif, unit) prog" where
  "handle_identify e d cmd =
     (let what = unat (cmd_payload cmd) mod MAX_COMMANDS;
          a = cmd_payload cmd div of_nat MAX_COMMANDS in
      bind (check (a mod of_nat IDENTITY_SIZE = 0) (Assert_Failed ''addr % IDENTITY_SIZE == 0'')) (\<lambda>_.
      bind (if what = MAX_COMMANDS - 1
            then bind (check (length (identity d) < IDENTITY_SIZE)
                   (Assert_Failed ''strlen(identity()) < IDENTITY_SIZE'')) (\<lambda>_. ret (identity d))
            else ret (command_names d ! what)) (\<lambda>name.
      bind (mem_wr e a (bytes_of name @ replicate (IDENTITY_SIZE - length name) 0)) (\<lambda>_.
      respond cmd 1))))"

section \<open>The terminal\<close>

definition term_read :: "('t, 'h) env \<Rightarrow> (('t, 'h) htif, int) prog" where
  "term_read e =
     bind (on_host (os_poll_in (os e) 0)) (\<lambda>ready.
     if \<not> ready then ret (- 1)
     else bind (on_host (os_read (os e) 0 1)) (\<lambda>(r, bs).
       ret (if r \<le> 0 then - 1 else uint (hd bs))))"

definition term_write :: "('t, 'h) env \<Rightarrow> byte \<Rightarrow> (('t, 'h) htif, unit) prog" where
  "term_write e ch =
     bind (on_host (os_write (os e) 1 [ch])) (\<lambda>r. if r \<noteq> 1 then raise Abort else ret ())"

section \<open>The console\<close>

definition bcd_handle_read :: "command \<Rightarrow> (('t, 'h) htif, unit) prog" where
  "bcd_handle_read cmd = modify (\<lambda>s. s\<lparr>pending_reads := pending_reads s @ [cmd]\<rparr>)"

definition bcd_handle_write :: "('t, 'h) env \<Rightarrow> command \<Rightarrow> (('t, 'h) htif, unit) prog" where
  "bcd_handle_write e cmd = term_write e (ucast (cmd_payload cmd))"

definition bcd_tick :: "('t, 'h) env \<Rightarrow> (('t, 'h) htif, unit) prog" where
  "bcd_tick e =
     bind (gets pending_reads) (\<lambda>pending.
     case pending of
       [] \<Rightarrow> ret ()
     | cmd # rest \<Rightarrow>
         bind (term_read e) (\<lambda>ch.
         if ch \<noteq> - 1 then
           bind (respond cmd (0x100 OR word_of_int ch)) (\<lambda>_.
           modify (\<lambda>s. s\<lparr>pending_reads := rest\<rparr>))
         else ret ()))"

section \<open>The disk\<close>

text \<open>\<open>request_t\<close>: address, offset, size and tag.\<close>

record disk_request =
  req_addr :: u64
  req_offset :: u64
  req_size :: u64
  req_tag :: u64

definition O_RDWR :: int where "O_RDWR = 2"

text \<open>The constructor; \<open>open\<close> is \<open>openat\<close> relative to the working directory.\<close>

definition disk_t :: "('t, 'h) env \<Rightarrow> string \<Rightarrow> (('t, 'h) htif, device) prog" where
  "disk_t e fn =
     bind (on_host (os_openat (os e) (- 100) fn O_RDWR 0)) (\<lambda>fd.
     bind (check (\<not> fd < 0) (Runtime_Error ''could not open'')) (\<lambda>_.
     bind (make_device '''' (Disk fd 0) [(0, Disk_handle_read, ''read''), (1, Disk_handle_write, ''write'')]) (\<lambda>d.
     bind (on_host (os_fstat (os e) fd)) (\<lambda>(r, st).
     bind (check (\<not> r < 0) (Runtime_Error ''could not stat'')) (\<lambda>_.
     let sz = unat (st_size st) in
     ret (d\<lparr>identity := ''disk size='' @ to_string sz, body := Disk fd sz\<rparr>))))))"

definition disk_request_at :: "('t, 'h) env \<Rightarrow> command \<Rightarrow> (('t, 'h) htif, disk_request) prog" where
  "disk_request_at e cmd =
     bind (mem_rd e (cmd_payload cmd) 32) (\<lambda>b.
     ret \<lparr>req_addr = le_word (take 8 b), req_offset = le_word (take 8 (drop 8 b)),
          req_size = le_word (take 8 (drop 16 b)), req_tag = le_word (take 8 (drop 24 b))\<rparr>)"

definition disk_handle_read :: "('t, 'h) env \<Rightarrow> int \<Rightarrow> command \<Rightarrow> (('t, 'h) htif, unit) prog" where
  "disk_handle_read e fd cmd =
     bind (disk_request_at e cmd) (\<lambda>req.
     bind (alloc_bytes (req_size req)) (\<lambda>_.
     bind (on_host (os_pread (os e) fd (unat (req_size req)) (req_offset req))) (\<lambda>(r, bs).
     bind (check (word_of_int r = req_size req) (Runtime_Error ''could not read'')) (\<lambda>_.
     bind (mem_wr e (req_addr req) bs) (\<lambda>_.
     respond cmd (req_tag req))))))"

definition disk_handle_write :: "('t, 'h) env \<Rightarrow> int \<Rightarrow> command \<Rightarrow> (('t, 'h) htif, unit) prog" where
  "disk_handle_write e fd cmd =
     bind (disk_request_at e cmd) (\<lambda>req.
     bind (alloc_bytes (req_size req)) (\<lambda>_.
     bind (mem_rd e (req_addr req) (unat (req_size req))) (\<lambda>bs.
     bind (on_host (os_pwrite (os e) fd bs (req_offset req))) (\<lambda>r.
     bind (check (word_of_int r = req_size req) (Runtime_Error ''could not write'')) (\<lambda>_.
     respond cmd (req_tag req))))))"

section \<open>The list of devices\<close>

definition register_device :: "device \<Rightarrow> (('t, 'h) htif, unit) prog" where
  "register_device dev =
     bind (modify (\<lambda>s. s\<lparr>num_devices := num_devices s + 1\<rparr>)) (\<lambda>_.
     bind (gets num_devices) (\<lambda>n.
     bind (check (n < MAX_DEVICES) (Assert_Failed ''num_devices < command_t::MAX_DEVICES'')) (\<lambda>_.
     modify (\<lambda>s. s\<lparr>devices := (devices s)[n - 1 := dev]\<rparr>))))"

section \<open>The table a device is made with\<close>

text \<open>Every device handles every command number: with the registered handler, or not at all.\<close>

lemma wp_register_command:
  "cmd < 256 \<Longrightarrow> length name < 64 \<Longrightarrow>
    wp (register_command cmd h name) Q d =
      Q () (d\<lparr>command_handlers := (command_handlers d)[cmd := h],
             command_names := (command_names d)[cmd := name]\<rparr>)"
  by (simp add: register_command_def MAX_COMMANDS_def IDENTITY_SIZE_def)

lemma replicate_update [simp]: "(replicate n x)[i := x] = replicate n x"
  by (cases "i < n") (auto simp: list_eq_iff_nth_eq nth_list_update)

lemma wp_register_nulls:
  "n \<le> 256 \<Longrightarrow> wp (for_each [0..<n] (\<lambda>cmd. register_command cmd Handle_null_command ''''))
    (\<lambda>_ d. d = blank_device name b) (blank_device name b)"
proof (rule wp_for_each)
  fix x s
  assume "n \<le> 256" and "x \<in> set [0..<n]" and "s = blank_device name b"
  then show "wp (register_command x Handle_null_command '''') (\<lambda>_ d. d = blank_device name b) s"
    by (simp add: wp_register_command blank_device_def MAX_COMMANDS_def)
qed simp

lemma wp_device_t:
  "wp device_t (\<lambda>_ d. d = (blank_device name b)
      \<lparr>command_handlers := (replicate 256 Handle_null_command)[255 := Handle_identify],
       command_names := (replicate 256 '''')[255 := ''identity'']\<rparr>) (blank_device name b)"
  unfolding device_t_def wp_bind
  by (rule wp_mono, unfold MAX_COMMANDS_def, rule wp_register_nulls)
    (simp_all add: wp_register_command blank_device_def MAX_COMMANDS_def)

definition well_formed_device :: "device \<Rightarrow> bool" where
  "well_formed_device d \<longleftrightarrow> length (command_handlers d) = 256 \<and> length (command_names d) = 256 \<and>
     list_all (\<lambda>n. length n < 64) (command_names d) \<and> length (identity d) < 64 \<and>
     command_handlers d ! 255 = Handle_identify \<and> command_names d ! 255 = ''identity''"

lemma wf_register:
  "well_formed_device d \<Longrightarrow> cmd < 255 \<Longrightarrow> length name < 64 \<Longrightarrow>
    well_formed_device (d\<lparr>command_handlers := (command_handlers d)[cmd := h],
             command_names := (command_names d)[cmd := name]\<rparr>)"
  by (auto simp: well_formed_device_def list_all_iff dest!: set_update_subset_insert [THEN subsetD])

lemma wp_register_all:
  "list_all (\<lambda>(cmd, h, n). cmd < 255 \<and> length n < 64) cmds \<Longrightarrow> well_formed_device d \<Longrightarrow>
    wp (for_each cmds (\<lambda>(cmd, h, n). register_command cmd h n))
      (\<lambda>_ d'. well_formed_device d' \<and> identity d' = identity d \<and> body d' = body d \<and>
        (\<forall>c<256. command_handlers d' ! c =
          (case map_of (rev cmds) c of None \<Rightarrow> command_handlers d ! c | Some (h, n) \<Rightarrow> h))) d"
proof (induction cmds arbitrary: d)
  case Nil
  then show ?case by simp
next
  case (Cons x cmds)
  obtain cmd h n where x: "x = (cmd, h, n)" by (cases x)
  let ?d = "d\<lparr>command_handlers := (command_handlers d)[cmd := h],
             command_names := (command_names d)[cmd := n]\<rparr>"
  have len: "length (command_handlers d) = 256" using Cons.prems(2) by (simp add: well_formed_device_def)
  have "well_formed_device ?d" using Cons.prems x by (intro wf_register) auto
  then have "wp (for_each cmds (\<lambda>(cmd, h, n). register_command cmd h n))
      (\<lambda>_ d'. well_formed_device d' \<and> identity d' = identity ?d \<and> body d' = body ?d \<and>
        (\<forall>c<256. command_handlers d' ! c =
          (case map_of (rev cmds) c of None \<Rightarrow> command_handlers ?d ! c | Some (h, n) \<Rightarrow> h))) ?d"
    using Cons.prems by (intro Cons.IH) auto
  then have "wp (for_each cmds (\<lambda>(cmd, h, n). register_command cmd h n))
      (\<lambda>_ d'. well_formed_device d' \<and> identity d' = identity d \<and> body d' = body d \<and>
        (\<forall>c<256. command_handlers d' ! c =
          (case map_of (rev (x # cmds)) c of None \<Rightarrow> command_handlers d ! c | Some (h, n) \<Rightarrow> h))) ?d"
    by (rule wp_mono) (auto simp: x map_add_def nth_list_update len split: option.splits)
  then show ?case using Cons.prems x by (simp add: wp_register_command)
qed

lemma wp_make_device:
  assumes "list_all (\<lambda>(cmd, h, n). cmd < 255 \<and> length n < 64) cmds" and "length name < 64"
  shows "wp (make_device name b cmds) (\<lambda>d s'. s' = s \<and> well_formed_device d \<and> identity d = name \<and> body d = b \<and>
    (\<forall>c<255. command_handlers d ! c =
      (case map_of (rev cmds) c of None \<Rightarrow> Handle_null_command | Some (h, n) \<Rightarrow> h))) s"
proof -
  let ?d = "(blank_device name b)
      \<lparr>command_handlers := (replicate 256 Handle_null_command)[255 := Handle_identify],
       command_names := (replicate 256 '''')[255 := ''identity'']\<rparr>"
  have wf: "well_formed_device ?d"
    using assms(2) by (auto simp: well_formed_device_def blank_device_def list_all_length nth_list_update)
  have "wp (bind device_t (\<lambda>_. bind (for_each cmds (\<lambda>(cmd, h, n). register_command cmd h n)) (\<lambda>_. gets id)))
      (\<lambda>d t. well_formed_device d \<and> identity d = name \<and> body d = b \<and>
        (\<forall>c<255. command_handlers d ! c =
          (case map_of (rev cmds) c of None \<Rightarrow> Handle_null_command | Some (h, n) \<Rightarrow> h))) (blank_device name b)"
    unfolding wp_bind
  proof (rule wp_mono [OF wp_device_t])
    fix u and d :: device
    assume d: "d = ?d"
    show "wp (for_each cmds (\<lambda>(cmd, h, n). register_command cmd h n)) (\<lambda>a. wp (gets id)
      (\<lambda>d t. well_formed_device d \<and> identity d = name \<and> body d = b \<and>
        (\<forall>c<255. command_handlers d ! c =
          (case map_of (rev cmds) c of None \<Rightarrow> Handle_null_command | Some (h, n) \<Rightarrow> h)))) d"
      unfolding d
      by (rule wp_mono [OF wp_register_all [OF assms(1) wf]])
        (auto simp: blank_device_def split: option.splits)
  qed
  then show ?thesis by (simp add: make_device_def)
qed

text \<open>
  The console, as its constructor builds it: command 0 reads, command 1 writes, command
  255 identifies, every other command is ignored.
\<close>

theorem bcd_commands:
  "wp bcd_t (\<lambda>d s'. s' = s \<and> well_formed_device d \<and> identity d = ''bcd'' \<and>
    command_handlers d =
      Bcd_handle_read # Bcd_handle_write # replicate 253 Handle_null_command @ [Handle_identify]) s"
proof -
  have "wp bcd_t (\<lambda>d s'. s' = s \<and> well_formed_device d \<and> identity d = ''bcd'' \<and> body d = Bcd \<and>
    (\<forall>c<255. command_handlers d ! c =
      (case map_of (rev [(0, Bcd_handle_read, ''read''), (1, Bcd_handle_write, ''write'')]) c of
         None \<Rightarrow> Handle_null_command | Some (h, n) \<Rightarrow> h))) s"
    unfolding bcd_t_def by (rule wp_make_device) simp_all
  moreover have handlers: "hs = Bcd_handle_read # Bcd_handle_write # replicate 253 Handle_null_command @ [Handle_identify]"
    if len: "length hs = 256" and last: "hs ! 255 = Handle_identify"
      and low: "\<And>c. c < 255 \<Longrightarrow> hs ! c = (if c = 0 then Bcd_handle_read else if c = 1 then Bcd_handle_write
         else Handle_null_command)" for hs
  proof (rule nth_equalityI)
    fix i assume "i < length hs"
    then consider "i < 255" | "i = 255" using len by fastforce
    then show "hs ! i = (Bcd_handle_read # Bcd_handle_write # replicate 253 Handle_null_command @ [Handle_identify]) ! i"
      by cases (use last low in \<open>auto simp: nth_Cons nth_append split: nat.splits\<close>)
  qed (simp add: len)
  ultimately show ?thesis
    by - (erule wp_mono, auto simp: well_formed_device_def intro!: handlers)
qed

section \<open>The console answers in order\<close>

text \<open>
  A console tick with input \<open>ch\<close> ready answers the oldest pending read with
  \<open>0x100 | ch\<close>, in the device and command fields of that read, and removes it alone.
\<close>

theorem bcd_tick_answers:
  assumes "pending_reads s = cmd # rest" and "os_poll_in (os e) 0 (host s) = (True, h)"
    and "os_read (os e) 0 1 h = ((1, [ch]), h')"
  shows "bcd_tick e s = Some (Inr ((), s\<lparr>host := h', pending_reads := rest,
    fromhost_queue := fromhost_queue s @ [cmd_response cmd (0x100 OR ucast ch)]\<rparr>))"
proof -
  have "word_of_int (uint ch) = (ucast ch :: u64)" by simp
  moreover have "uint ch \<noteq> - 1" using uint_ge_0 [of ch] by linarith
  ultimately show ?thesis
    using assms by (simp add: bcd_tick_def term_read_def respond_def run_simps)
qed

text \<open>No input, no answer: the queue of reads is unchanged.\<close>

lemma bcd_tick_no_input:
  assumes "os_poll_in (os e) 0 (host s) = (False, h)"
  shows "bcd_tick e s = Some (Inr ((), if pending_reads s = [] then s else s\<lparr>host := h\<rparr>))"
  using assms by (cases "pending_reads s") (simp_all add: bcd_tick_def term_read_def run_simps)



theorem bcd_tick_answers_witness:
  "bcd_tick toy_env (toy_htif\<lparr>pending_reads := [0x0100000000000000, 5]\<rparr>) =
    Some (Inr ((), toy_htif\<lparr>host := \<lparr>toy_errno = 0, toy_in = [0x42], toy_out = []\<rparr>, pending_reads := [5],
      fromhost_queue := [cmd_response 0x0100000000000000 (0x100 OR ucast (0x41 :: byte))]\<rparr>))"
  using bcd_tick_answers [of "toy_htif\<lparr>pending_reads := [0x0100000000000000, 5]\<rparr>" _ _ toy_env
      "host toy_htif" "0x41" "\<lparr>toy_errno = 0, toy_in = [0x42], toy_out = []\<rparr>"]
  by (simp add: toy_env_def toy_os_def toy_htif_def)

end
