(* ===== verification/Syscall.thy ===== *)
theory Syscall
  imports Device
begin

text \<open>
  The system call proxy (\<open>tb/dpi/fesvr/syscall.h\<close>, \<open>syscall.cc\<close>): the table of file
  descriptors of the target, the paths of a changed root, every system call of the table, and
  the dispatch of a call that the target describes in its memory.
\<close>

section \<open>Results and arguments\<close>

text \<open>The conversion of a register to an \<open>int\<close>, and \<open>-1\<close> turned into \<open>-errno\<close>.\<close>

definition c_int :: "u64 \<Rightarrow> int" where
  "c_int r = sint (ucast r :: u32)"

definition sysret_errno :: "('t, 'h) env \<Rightarrow> int \<Rightarrow> (('t, 'h) htif, u64) prog" where
  "sysret_errno e r =
     gets (\<lambda>s. if r = - 1 then word_of_int (- os_errno (os e) (host s)) else word_of_int r)"

definition RISCV_AT_FDCWD :: int where "RISCV_AT_FDCWD = - 100"

definition ENOMEM :: int where "ENOMEM = 12"

section \<open>File descriptors\<close>

fun free_fd :: "int list \<Rightarrow> nat" where
  "free_fd [] = 0"
| "free_fd (f # fs) = (if f = - 1 then 0 else Suc (free_fd fs))"

definition fds_alloc :: "int \<Rightarrow> int list \<Rightarrow> nat \<times> int list" where
  "fds_alloc fd fs =
     (let i = free_fd fs in (i, if i = length fs then fs @ [fd] else fs[i := fd]))"

definition fds_dealloc :: "u64 \<Rightarrow> int list \<Rightarrow> exn + int list" where
  "fds_dealloc fd fs =
     (if unat fd < length fs then Inr (fs[unat fd := - 1]) else Inl (Undefined ''fds[fd]''))"

definition fds_lookup :: "u64 \<Rightarrow> int list \<Rightarrow> int" where
  "fds_lookup fd fs =
     (if c_int fd = RISCV_AT_FDCWD then - 100
      else if unat fd \<ge> length fs then - 1 else fs ! unat fd)"

definition lookup_fd :: "u64 \<Rightarrow> (('t, 'h) htif, int) prog" where
  "lookup_fd fd = gets (\<lambda>s. fds_lookup fd (fds s))"

section \<open>Paths\<close>

definition do_chroot :: "string \<Rightarrow> string \<Rightarrow> string" where
  "do_chroot root fn = (if root \<noteq> [] \<and> fn \<noteq> [] \<and> hd fn = CHR ''/'' then root @ fn else fn)"

definition undo_chroot :: "string \<Rightarrow> string \<Rightarrow> string" where
  "undo_chroot root fn =
     (if root = [] then fn
      else if take (length root) fn = root \<and>
          (last root = CHR ''/'' \<or> (length root < length fn \<and> fn ! length root = CHR ''/''))
      then drop (length root - (if last root = CHR ''/'' then 1 else 0)) fn
      else ''/'')"

text \<open>A name of \<open>len\<close> bytes in target memory, used as a C string.\<close>

definition read_name :: "('t, 'h) env \<Rightarrow> u64 \<Rightarrow> u64 \<Rightarrow> (('t, 'h) htif, string) prog" where
  "read_name e p len =
     bind (alloc_bytes len) (\<lambda>_.
     bind (mem_rd e p (unat len)) (\<lambda>bs.
     if 0 \<in> set bs then ret (cstring bs) else raise (Undefined ''name without a terminator'')))"

text \<open>\<open>AT_SYSCALL\<close>: the path of a call relative to \<open>dirfd\<close>.\<close>

definition at_path :: "u64 \<Rightarrow> string \<Rightarrow> (('t, 'h) htif, string) prog" where
  "at_path dirfd name =
     gets (\<lambda>s. if c_int dirfd = RISCV_AT_FDCWD then do_chroot (chroot s) name else name)"

section \<open>The status of a file\<close>

definition riscv_stat :: "host_stat \<Rightarrow> byte list" where
  "riscv_stat s =
     le_bytes 8 (st_dev s) @ le_bytes 8 (st_ino s) @ le_bytes 4 (st_mode s) @
     le_bytes 4 (ucast (st_nlink s) :: u32) @ le_bytes 4 (st_uid s) @ le_bytes 4 (st_gid s) @
     le_bytes 8 (st_rdev s) @ le_bytes 8 (0 :: u64) @ le_bytes 8 (st_size s) @
     le_bytes 4 (ucast (st_blksize s) :: u32) @ le_bytes 4 (0 :: u32) @ le_bytes 8 (st_blocks s) @
     le_bytes 8 (st_atime s) @ le_bytes 8 (0 :: u64) @ le_bytes 8 (st_mtime s) @ le_bytes 8 (0 :: u64) @
     le_bytes 8 (st_ctime s) @ le_bytes 8 (0 :: u64) @ le_bytes 4 (0 :: u32) @ le_bytes 4 (0 :: u32)"

section \<open>System calls\<close>

definition sys_exit :: "u64 \<Rightarrow> (('t, 'h) htif, u64) prog" where
  "sys_exit code =
     bind (modify (\<lambda>s. s\<lparr>exitcode := ucast (push_bit 1 code OR 1)\<rparr>)) (\<lambda>_. ret 0)"

definition sys_read :: "('t, 'h) env \<Rightarrow> u64 \<Rightarrow> u64 \<Rightarrow> u64 \<Rightarrow> (('t, 'h) htif, u64) prog" where
  "sys_read e fd pbuf len =
     bind (alloc_bytes len) (\<lambda>_.
     bind (lookup_fd fd) (\<lambda>f.
     bind (on_host (os_read (os e) f (unat len))) (\<lambda>(r, buf).
     bind (sysret_errno e r) (\<lambda>ret_errno.
     bind (if r > 0 then mem_wr e pbuf (take (nat r) buf) else ret ()) (\<lambda>_.
     ret ret_errno)))))"

definition sys_pread :: "('t, 'h) env \<Rightarrow> u64 \<Rightarrow> u64 \<Rightarrow> u64 \<Rightarrow> u64 \<Rightarrow> (('t, 'h) htif, u64) prog" where
  "sys_pread e fd pbuf len off =
     bind (alloc_bytes len) (\<lambda>_.
     bind (lookup_fd fd) (\<lambda>f.
     bind (on_host (os_pread (os e) f (unat len) off)) (\<lambda>(r, buf).
     bind (sysret_errno e r) (\<lambda>ret_errno.
     bind (if r > 0 then mem_wr e pbuf (take (nat r) buf) else ret ()) (\<lambda>_.
     ret ret_errno)))))"

definition sys_write :: "('t, 'h) env \<Rightarrow> u64 \<Rightarrow> u64 \<Rightarrow> u64 \<Rightarrow> (('t, 'h) htif, u64) prog" where
  "sys_write e fd pbuf len =
     bind (alloc_bytes len) (\<lambda>_.
     bind (mem_rd e pbuf (unat len)) (\<lambda>buf.
     bind (lookup_fd fd) (\<lambda>f.
     bind (on_host (os_write (os e) f buf)) (sysret_errno e))))"

definition sys_pwrite :: "('t, 'h) env \<Rightarrow> u64 \<Rightarrow> u64 \<Rightarrow> u64 \<Rightarrow> u64 \<Rightarrow> (('t, 'h) htif, u64) prog" where
  "sys_pwrite e fd pbuf len off =
     bind (alloc_bytes len) (\<lambda>_.
     bind (mem_rd e pbuf (unat len)) (\<lambda>buf.
     bind (lookup_fd fd) (\<lambda>f.
     bind (on_host (os_pwrite (os e) f buf off)) (sysret_errno e))))"

definition sys_close :: "('t, 'h) env \<Rightarrow> u64 \<Rightarrow> (('t, 'h) htif, u64) prog" where
  "sys_close e fd =
     bind (lookup_fd fd) (\<lambda>f.
     bind (on_host (os_close (os e) f)) (\<lambda>r.
     if r < 0 then sysret_errno e (- 1)
     else
       bind (gets fds) (\<lambda>fs.
       bind (lift (fds_dealloc fd fs)) (\<lambda>fs'.
       bind (modify (\<lambda>s. s\<lparr>fds := fs'\<rparr>)) (\<lambda>_. ret 0)))))"

definition sys_lseek :: "('t, 'h) env \<Rightarrow> u64 \<Rightarrow> u64 \<Rightarrow> u64 \<Rightarrow> (('t, 'h) htif, u64) prog" where
  "sys_lseek e fd ptr dir =
     bind (lookup_fd fd) (\<lambda>f.
     bind (on_host (os_lseek (os e) f ptr (c_int dir))) (sysret_errno e))"

definition write_stat :: "('t, 'h) env \<Rightarrow> u64 \<Rightarrow> int \<times> host_stat \<Rightarrow> (('t, 'h) htif, u64) prog" where
  "write_stat e pbuf = (\<lambda>(r, buf).
     bind (sysret_errno e r) (\<lambda>ret_errno.
     bind (if ret_errno \<noteq> - 1 then mem_wr e pbuf (riscv_stat buf) else ret ()) (\<lambda>_.
     ret ret_errno)))"

definition sys_fstat :: "('t, 'h) env \<Rightarrow> u64 \<Rightarrow> u64 \<Rightarrow> (('t, 'h) htif, u64) prog" where
  "sys_fstat e fd pbuf =
     bind (lookup_fd fd) (\<lambda>f.
     bind (on_host (os_fstat (os e) f)) (write_stat e pbuf))"

definition sys_fcntl :: "('t, 'h) env \<Rightarrow> u64 \<Rightarrow> u64 \<Rightarrow> u64 \<Rightarrow> (('t, 'h) htif, u64) prog" where
  "sys_fcntl e fd cmd arg =
     bind (lookup_fd fd) (\<lambda>f.
     bind (on_host (os_fcntl (os e) f (c_int cmd) arg)) (sysret_errno e))"

definition sys_ftruncate :: "('t, 'h) env \<Rightarrow> u64 \<Rightarrow> u64 \<Rightarrow> (('t, 'h) htif, u64) prog" where
  "sys_ftruncate e fd len =
     bind (lookup_fd fd) (\<lambda>f.
     bind (on_host (os_ftruncate (os e) f len)) (sysret_errno e))"

definition sys_lstat :: "('t, 'h) env \<Rightarrow> u64 \<Rightarrow> u64 \<Rightarrow> u64 \<Rightarrow> (('t, 'h) htif, u64) prog" where
  "sys_lstat e pname len pbuf =
     bind (read_name e pname len) (\<lambda>name.
     bind (gets (\<lambda>s. do_chroot (chroot s) name)) (\<lambda>path.
     bind (on_host (os_lstat (os e) path)) (write_stat e pbuf)))"

definition sys_openat ::
    "('t, 'h) env \<Rightarrow> u64 \<Rightarrow> u64 \<Rightarrow> u64 \<Rightarrow> u64 \<Rightarrow> u64 \<Rightarrow> (('t, 'h) htif, u64) prog" where
  "sys_openat e dirfd pname len flags mode =
     bind (read_name e pname len) (\<lambda>name.
     bind (lookup_fd dirfd) (\<lambda>f.
     bind (at_path dirfd name) (\<lambda>path.
     bind (on_host (os_openat (os e) f path (c_int flags) (ucast mode))) (\<lambda>r.
     bind (sysret_errno e r) (\<lambda>ret_errno.
     if c_int ret_errno < 0 then sysret_errno e (- 1)
     else
       bind (gets (\<lambda>s. fds_alloc (c_int ret_errno) (fds s))) (\<lambda>(i, fs).
       bind (modify (\<lambda>s. s\<lparr>fds := fs\<rparr>)) (\<lambda>_. ret (of_nat i))))))))"

definition sys_fstatat ::
    "('t, 'h) env \<Rightarrow> u64 \<Rightarrow> u64 \<Rightarrow> u64 \<Rightarrow> u64 \<Rightarrow> u64 \<Rightarrow> (('t, 'h) htif, u64) prog" where
  "sys_fstatat e dirfd pname len pbuf flags =
     bind (read_name e pname len) (\<lambda>name.
     bind (lookup_fd dirfd) (\<lambda>f.
     bind (at_path dirfd name) (\<lambda>path.
     bind (on_host (os_fstatat (os e) f path (c_int flags))) (write_stat e pbuf))))"

definition sys_faccessat ::
    "('t, 'h) env \<Rightarrow> u64 \<Rightarrow> u64 \<Rightarrow> u64 \<Rightarrow> u64 \<Rightarrow> (('t, 'h) htif, u64) prog" where
  "sys_faccessat e dirfd pname len mode =
     bind (read_name e pname len) (\<lambda>name.
     bind (lookup_fd dirfd) (\<lambda>f.
     bind (at_path dirfd name) (\<lambda>path.
     bind (on_host (os_faccessat (os e) f path (c_int mode))) (sysret_errno e))))"

definition sys_renameat ::
    "('t, 'h) env \<Rightarrow> u64 \<Rightarrow> u64 \<Rightarrow> u64 \<Rightarrow> u64 \<Rightarrow> u64 \<Rightarrow> u64 \<Rightarrow> (('t, 'h) htif, u64) prog" where
  "sys_renameat e odirfd popath olen ndirfd pnpath nlen =
     bind (alloc_bytes olen) (\<lambda>_.
     bind (alloc_bytes nlen) (\<lambda>_.
     bind (read_name e popath olen) (\<lambda>opath.
     bind (read_name e pnpath nlen) (\<lambda>npath.
     bind (lookup_fd odirfd) (\<lambda>f.
     bind (at_path odirfd opath) (\<lambda>p.
     bind (lookup_fd ndirfd) (\<lambda>g.
     bind (at_path ndirfd npath) (\<lambda>q.
     bind (on_host (os_renameat (os e) f p g q)) (sysret_errno e)))))))))"

definition sys_linkat ::
    "('t, 'h) env \<Rightarrow> u64 \<Rightarrow> u64 \<Rightarrow> u64 \<Rightarrow> u64 \<Rightarrow> u64 \<Rightarrow> u64 \<Rightarrow> u64 \<Rightarrow> (('t, 'h) htif, u64) prog" where
  "sys_linkat e odirfd poname olen ndirfd pnname nlen flags =
     bind (alloc_bytes olen) (\<lambda>_.
     bind (alloc_bytes nlen) (\<lambda>_.
     bind (read_name e poname olen) (\<lambda>oname.
     bind (read_name e pnname nlen) (\<lambda>nname.
     bind (lookup_fd odirfd) (\<lambda>f.
     bind (at_path odirfd oname) (\<lambda>p.
     bind (lookup_fd ndirfd) (\<lambda>g.
     bind (at_path ndirfd nname) (\<lambda>q.
     bind (on_host (os_linkat (os e) f p g q (c_int flags))) (sysret_errno e)))))))))"

definition sys_unlinkat :: "('t, 'h) env \<Rightarrow> u64 \<Rightarrow> u64 \<Rightarrow> u64 \<Rightarrow> u64 \<Rightarrow> (('t, 'h) htif, u64) prog" where
  "sys_unlinkat e dirfd pname len flags =
     bind (read_name e pname len) (\<lambda>name.
     bind (lookup_fd dirfd) (\<lambda>f.
     bind (at_path dirfd name) (\<lambda>path.
     bind (on_host (os_unlinkat (os e) f path (c_int flags))) (sysret_errno e))))"

definition sys_mkdirat :: "('t, 'h) env \<Rightarrow> u64 \<Rightarrow> u64 \<Rightarrow> u64 \<Rightarrow> u64 \<Rightarrow> (('t, 'h) htif, u64) prog" where
  "sys_mkdirat e dirfd pname len mode =
     bind (read_name e pname len) (\<lambda>name.
     bind (lookup_fd dirfd) (\<lambda>f.
     bind (at_path dirfd name) (\<lambda>path.
     bind (on_host (os_mkdirat (os e) f path (ucast mode))) (sysret_errno e))))"

definition sys_getcwd :: "('t, 'h) env \<Rightarrow> u64 \<Rightarrow> u64 \<Rightarrow> (('t, 'h) htif, u64) prog" where
  "sys_getcwd e pbuf sz =
     bind (alloc_bytes sz) (\<lambda>_.
     bind (on_host (os_getcwd (os e) (unat sz))) (\<lambda>r.
     case r of
       None \<Rightarrow> sysret_errno e (- 1)
     | Some buf \<Rightarrow>
         bind (gets (\<lambda>s. undo_chroot (chroot s) buf)) (\<lambda>tmp.
         if unat sz \<le> length tmp then ret (word_of_int (- ENOMEM))
         else bind (mem_wr e pbuf (bytes_of tmp @ [0])) (\<lambda>_. ret (of_nat (length tmp + 1))))))"

text \<open>
  \<open>sys_getmainvars\<close>: \<open>argc\<close>, the pointers to the arguments, two null pointers, and the
  arguments themselves, copied to the offsets the pointers were computed from.
\<close>

fun argv_ptrs :: "u64 \<Rightarrow> nat \<Rightarrow> string list \<Rightarrow> u64 list" where
  "argv_ptrs pbuf sz [] = []"
| "argv_ptrs pbuf sz (a # as) = (of_nat sz + pbuf) # argv_ptrs pbuf (sz + length a + 1) as"

definition mainvars_words :: "u64 \<Rightarrow> string list \<Rightarrow> u64 list" where
  "mainvars_words pbuf args =
     of_nat (length args) # argv_ptrs pbuf ((length args + 3) * 8) args @ [0, 0]"

definition blit :: "nat \<Rightarrow> byte list \<Rightarrow> byte list \<Rightarrow> byte list" where
  "blit off bs xs = take off xs @ bs @ drop (off + length bs) xs"

definition mainvars_bytes :: "u64 \<Rightarrow> string list \<Rightarrow> byte list" where
  "mainvars_bytes pbuf args =
     (let words = mainvars_words pbuf args;
          sz = (length args + 3) * 8 + sum_list (map (\<lambda>a. length a + 1) args);
          bytes = blit 0 (concat (map (le_bytes 8) words)) (replicate sz 0) in
      fold (\<lambda>i bytes. blit (unat (words ! (i + 1) - pbuf)) (bytes_of (args ! i) @ [0]) bytes)
        [0..<length args] bytes)"

definition sys_getmainvars :: "('t, 'h) env \<Rightarrow> u64 \<Rightarrow> u64 \<Rightarrow> (('t, 'h) htif, u64) prog" where
  "sys_getmainvars e pbuf limit =
     bind (gets (\<lambda>s. mainvars_bytes pbuf (targs s))) (\<lambda>bytes.
     if length bytes > unat limit then ret (word_of_int (- ENOMEM))
     else bind (mem_wr e pbuf bytes) (\<lambda>_. ret 0))"

text \<open>\<open>sys_chdir\<close>: the two loops over the bytes of the path, which end at a zero.\<close>

partial_function (option) chdir_size ::
    "('t, 'h) env \<Rightarrow> u64 \<Rightarrow> nat \<Rightarrow> ('t, 'h) htif \<Rightarrow> (exn + nat \<times> ('t, 'h) htif) option" where
  "chdir_size e path sz s =
     (case on_target (read_uint8 (chunks e) (path + of_nat sz)) s of
        None \<Rightarrow> None
      | Some (Inl x) \<Rightarrow> Some (Inl x)
      | Some (Inr (b, s')) \<Rightarrow>
          if b \<noteq> 0 then chdir_size e path (sz + 1) s' else Some (Inr (sz + 1, s')))"

text \<open>The buffer has \<open>sz\<close> bytes; a path that has grown meanwhile is written past its end.\<close>

partial_function (option) chdir_copy ::
    "('t, 'h) env \<Rightarrow> u64 \<Rightarrow> nat \<Rightarrow> byte list \<Rightarrow> ('t, 'h) htif \<Rightarrow> (exn + byte list \<times> ('t, 'h) htif) option" where
  "chdir_copy e path sz buf s =
     (case on_target (read_uint8 (chunks e) (path + of_nat (length buf))) s of
        None \<Rightarrow> None
      | Some (Inl x) \<Rightarrow> Some (Inl x)
      | Some (Inr (b, s')) \<Rightarrow>
          if sz \<le> length buf then Some (Inl (Undefined ''buf[offset]''))
          else if b = 0 then Some (Inr (buf @ [b], s'))
          else chdir_copy e path sz (buf @ [b]) s')"

definition sys_chdir :: "('t, 'h) env \<Rightarrow> u64 \<Rightarrow> (('t, 'h) htif, u64) prog" where
  "sys_chdir e path =
     bind (chdir_size e path 0) (\<lambda>sz.
     bind (chdir_copy e path sz []) (\<lambda>buf.
     bind (on_host (os_chdir (os e) (cstring buf))) (sysret_errno e)))"

section \<open>Dispatch\<close>

definition syscall_table ::
    "('t, 'h) env \<Rightarrow> nat \<Rightarrow> (u64 list \<Rightarrow> (('t, 'h) htif, u64) prog) option" where
  "syscall_table e = map_of
     [(17, \<lambda>a. sys_getcwd e (a ! 0) (a ! 1)),
      (25, \<lambda>a. sys_fcntl e (a ! 0) (a ! 1) (a ! 2)),
      (34, \<lambda>a. sys_mkdirat e (a ! 0) (a ! 1) (a ! 2) (a ! 3)),
      (35, \<lambda>a. sys_unlinkat e (a ! 0) (a ! 1) (a ! 2) (a ! 3)),
      (37, \<lambda>a. sys_linkat e (a ! 0) (a ! 1) (a ! 2) (a ! 3) (a ! 4) (a ! 5) (a ! 6)),
      (38, \<lambda>a. sys_renameat e (a ! 0) (a ! 1) (a ! 2) (a ! 3) (a ! 4) (a ! 5)),
      (46, \<lambda>a. sys_ftruncate e (a ! 0) (a ! 1)),
      (48, \<lambda>a. sys_faccessat e (a ! 0) (a ! 1) (a ! 2) (a ! 3)),
      (49, \<lambda>a. sys_chdir e (a ! 0)),
      (56, \<lambda>a. sys_openat e (a ! 0) (a ! 1) (a ! 2) (a ! 3) (a ! 4)),
      (57, \<lambda>a. sys_close e (a ! 0)),
      (62, \<lambda>a. sys_lseek e (a ! 0) (a ! 1) (a ! 2)),
      (63, \<lambda>a. sys_read e (a ! 0) (a ! 1) (a ! 2)),
      (64, \<lambda>a. sys_write e (a ! 0) (a ! 1) (a ! 2)),
      (67, \<lambda>a. sys_pread e (a ! 0) (a ! 1) (a ! 2) (a ! 3)),
      (68, \<lambda>a. sys_pwrite e (a ! 0) (a ! 1) (a ! 2) (a ! 3)),
      (79, \<lambda>a. sys_fstatat e (a ! 0) (a ! 1) (a ! 2) (a ! 3) (a ! 4)),
      (80, \<lambda>a. sys_fstat e (a ! 0) (a ! 1)),
      (93, \<lambda>a. sys_exit (a ! 0)),
      (1039, \<lambda>a. sys_lstat e (a ! 0) (a ! 1) (a ! 2)),
      (2011, \<lambda>a. sys_getmainvars e (a ! 0) (a ! 1))]"

definition words_of :: "byte list \<Rightarrow> u64 list" where
  "words_of bs = map (\<lambda>i. le_word (take 8 (drop (8 * i) bs))) [0..<length bs div 8]"

definition dispatch :: "('t, 'h) env \<Rightarrow> u64 \<Rightarrow> (('t, 'h) htif, unit) prog" where
  "dispatch e mm =
     bind (mem_rd e mm 64) (\<lambda>bs.
     let magicmem = words_of bs; n = magicmem ! 0 in
     case (if unat n \<ge> 2048 then None else syscall_table e (unat n)) of
       None \<Rightarrow> raise (Runtime_Error ''bad syscall'')
     | Some f \<Rightarrow>
         bind (f (drop 1 magicmem)) (\<lambda>r.
         mem_wr e mm (concat (map (le_bytes 8) (magicmem[0 := r])))))"

definition handle_syscall :: "('t, 'h) env \<Rightarrow> command \<Rightarrow> (('t, 'h) htif, unit) prog" where
  "handle_syscall e cmd =
     (if cmd_payload cmd AND 1 \<noteq> 0
      then modify (\<lambda>s. s\<lparr>exitcode := ucast (cmd_payload cmd)\<rparr>)
      else bind (dispatch e (cmd_payload cmd)) (\<lambda>_. respond cmd 1))"

section \<open>Construction\<close>

definition set_chroot :: "('t, 'h) env \<Rightarrow> string \<Rightarrow> (('t, 'h) htif, unit) prog" where
  "set_chroot e where_dir =
     bind (on_host (os_getcwd (os e) 4096)) (\<lambda>buf1.
     bind (lift (case buf1 of None \<Rightarrow> Inl (Exit (- 1)) | Some b \<Rightarrow> Inr b)) (\<lambda>old.
     bind (on_host (os_chdir (os e) where_dir)) (\<lambda>r1.
     bind (check (r1 = 0) (Exit (- 1))) (\<lambda>_.
     bind (on_host (os_getcwd (os e) 4096)) (\<lambda>buf2.
     bind (lift (case buf2 of None \<Rightarrow> Inl (Exit (- 1)) | Some b \<Rightarrow> Inr b)) (\<lambda>new.
     bind (on_host (os_chdir (os e) old)) (\<lambda>r2.
     bind (check (r2 = 0) (Exit (- 1))) (\<lambda>_.
     modify (\<lambda>s. s\<lparr>chroot := new\<rparr>)))))))))"

definition alloc_fd :: "int \<Rightarrow> (('t, 'h) htif, unit) prog" where
  "alloc_fd fd = modify (\<lambda>s. s\<lparr>fds := snd (fds_alloc fd (fds s))\<rparr>)"

definition syscall_t :: "('t, 'h) env \<Rightarrow> (('t, 'h) htif, device) prog" where
  "syscall_t e =
     bind (make_device ''syscall_proxy'' Syscall_proxy [(0, Handle_syscall, ''syscall'')]) (\<lambda>d.
     bind (on_host (os_dup (os e) 0)) (\<lambda>stdin_fd.
     bind (on_host (os_dup (os e) 1)) (\<lambda>stdout_fd0.
     bind (on_host (os_dup (os e) 1)) (\<lambda>stdout_fd1.
     bind (check (\<not> (stdin_fd < 0 \<or> stdout_fd0 < 0 \<or> stdout_fd1 < 0))
       (Runtime_Error ''could not dup stdin/stdout'')) (\<lambda>_.
     bind (alloc_fd stdin_fd) (\<lambda>_.
     bind (alloc_fd stdout_fd0) (\<lambda>_.
     bind (alloc_fd stdout_fd1) (\<lambda>_. ret d))))))))"

section \<open>Descriptors are fresh\<close>

lemma free_fd_bounds: "free_fd fs \<le> length fs"
  by (induction fs) auto

lemma free_fd_free: "free_fd fs < length fs \<Longrightarrow> fs ! free_fd fs = - 1"
  by (induction fs) auto

lemma free_fd_least: "j < free_fd fs \<Longrightarrow> fs ! j \<noteq> - 1"
  by (induction fs arbitrary: j) (auto simp: nth_Cons split: if_splits nat.splits)

lemma c_int_of_nat:
  assumes "n < 2 ^ 31"
  shows "c_int (of_nat n) = int n"
proof -
  have "(ucast (of_nat n :: u64) :: u32) = of_nat n"
    using assms by (simp add: unsigned_of_nat take_bit_nat_eq_self)
  moreover have "sint (of_nat n :: u32) = int n"
    using assms by (simp add: signed_of_nat signed_take_bit_int_eq_self)
  ultimately show ?thesis by (simp add: c_int_def)
qed

text \<open>
  C19: \<open>fds_t::alloc\<close> gives the least descriptor that is free; looking it up gives the host
  descriptor, every other one is looked up as before, and after \<open>dealloc\<close> it is free again.
\<close>

theorem fds_alloc_fresh:
  assumes "length fs < 2 ^ 31" and "fds_alloc fd fs = (i, fs')"
  shows "(i < length fs \<longrightarrow> fs ! i = - 1) \<and> (\<forall>j<i. fs ! j \<noteq> - 1) \<and>
    fds_lookup (of_nat i) fs' = fd \<and>
    (\<forall>r. r \<noteq> of_nat i \<longrightarrow> fds_lookup r fs' = (if unat r < length fs \<or> c_int r = - 100 then fds_lookup r fs else - 1)) \<and>
    (\<exists>fs''. fds_dealloc (of_nat i) fs' = Inr fs'' \<and> fds_lookup (of_nat i) fs'' = - 1)"
proof -
  have i: "i = free_fd fs" "fs' = (if i = length fs then fs @ [fd] else fs[i := fd])"
    using assms(2) by (auto simp: fds_alloc_def Let_def)
  then have le: "i \<le> length fs" using free_fd_bounds by simp
  then have u: "unat (of_nat i :: u64) = i" using assms(1) by (intro unat_of_nat_addr) simp
  have not_cwd: "c_int (of_nat i) \<noteq> - 100" using c_int_of_nat [of i] le assms(1) by simp
  have "\<forall>r. r \<noteq> of_nat i \<longrightarrow> fds_lookup r fs' =
      (if unat r < length fs \<or> c_int r = - 100 then fds_lookup r fs else - 1)"
  proof (intro allI impI)
    fix r :: u64
    assume "r \<noteq> of_nat i"
    then have "unat r \<noteq> i" by auto
    then show "fds_lookup r fs' = (if unat r < length fs \<or> c_int r = - 100 then fds_lookup r fs else - 1)"
      using i(2) le by (auto simp: fds_lookup_def RISCV_AT_FDCWD_def nth_append)
  qed
  then show ?thesis
    using free_fd_free [of fs] free_fd_least [of _ fs] i le u not_cwd
    by (auto simp: fds_lookup_def fds_dealloc_def RISCV_AT_FDCWD_def)
qed

theorem fds_alloc_fresh_witness:
  "fds_lookup 1 [10, 12, 11] = 12 \<and> (\<exists>fs''. fds_dealloc 1 [10, 12, 11] = Inr fs'' \<and> fds_lookup 1 fs'' = - 1)"
  using fds_alloc_fresh [of "[10, - 1, 11]" 12 1 "[10, 12, 11]"] by (simp add: fds_alloc_def)

section \<open>Paths of a changed root\<close>

text \<open>
  C20: an absolute path that is mapped into the root and back is the same path, except for a second
  slash in front where the root ends in one; a relative path is left to the directory the host is
  in; and a host path that is not below the root is shown as \<open>/\<close>.
\<close>

theorem chroot_roundtrip:
  assumes "fn \<noteq> []"
  shows "(if hd fn = CHR ''/''
      then undo_chroot root (do_chroot root fn) = (if root \<noteq> [] \<and> last root = CHR ''/'' then CHR ''/'' # fn else fn)
      else do_chroot root fn = fn) \<and>
    (root \<noteq> [] \<longrightarrow> (\<nexists>p. fn = root @ p \<and> (last root = CHR ''/'' \<or> take 1 p = ''/'')) \<longrightarrow> undo_chroot root fn = ''/'')"
proof (intro conjI impI)
  obtain c p where fn: "fn = c # p" using assms by (cases fn) auto
  show "if hd fn = CHR ''/''
      then undo_chroot root (do_chroot root fn) = (if root \<noteq> [] \<and> last root = CHR ''/'' then CHR ''/'' # fn else fn)
      else do_chroot root fn = fn"
  proof (cases "root = []")
    case False
    then have "drop (length root - 1) root = [last root]" by (cases root rule: rev_cases) simp_all
    then show ?thesis using False by (simp add: fn undo_chroot_def do_chroot_def)
  qed (simp add: undo_chroot_def do_chroot_def)
next
  assume root: "root \<noteq> []" and none: "\<nexists>p. fn = root @ p \<and> (last root = CHR ''/'' \<or> take 1 p = ''/'')"
  show "undo_chroot root fn = ''/''"
  proof (rule ccontr)
    assume "undo_chroot root fn \<noteq> ''/''"
    then have at: "take (length root) fn = root" "last root = CHR ''/'' \<or> length root < length fn \<and> fn ! length root = CHR ''/''"
      using root by (auto simp: undo_chroot_def split: if_splits)
    then have "fn = root @ drop (length root) fn" by (metis append_take_drop_id)
    moreover have "length root < length fn \<Longrightarrow> take 1 (drop (length root) fn) = [fn ! length root]"
      by (simp add: take_Suc_conv_app_nth)
    ultimately show False using none at(2) by auto
  qed
qed

theorem chroot_roundtrip_witness:
  "undo_chroot ''/sysroot'' (do_chroot ''/sysroot'' ''/lib/a'') = ''/lib/a'' \<and>
    undo_chroot ''/'' (do_chroot ''/'' ''/lib'') = ''//lib'' \<and> do_chroot ''/sysroot'' ''lib'' = ''lib'' \<and>
    undo_chroot ''/sysroot'' ''/etc'' = ''/''"
  using chroot_roundtrip [of "''/lib/a''" "''/sysroot''"] chroot_roundtrip [of "''/lib''" "''/''"]
    chroot_roundtrip [of "''lib''" "''/sysroot''"] chroot_roundtrip [of "''/etc''" "''/sysroot''"] by simp

section \<open>The main arguments in target memory\<close>

abbreviation arg_bytes :: "string \<Rightarrow> byte list" where
  "arg_bytes a \<equiv> bytes_of a @ [0]"

definition args_offset :: "string list \<Rightarrow> nat \<Rightarrow> nat" where
  "args_offset args i = (length args + 3) * 8 + sum_list (map (\<lambda>a. length a + 1) (take i args))"

lemma length_argv_ptrs [simp]: "length (argv_ptrs p sz args) = length args"
  by (induction args arbitrary: sz) auto

lemma nth_argv_ptrs:
  "i < length args \<Longrightarrow>
    argv_ptrs p sz args ! i = of_nat (sz + sum_list (map (\<lambda>a. length a + 1) (take i args))) + p"
  by (induction args arbitrary: sz i) (auto simp: nth_Cons take_Cons split: nat.splits)

lemma length_mainvars_words [simp]: "length (mainvars_words p args) = length args + 3"
  by (simp add: mainvars_words_def)

lemma nth_mainvars_words:
  "i < length args \<Longrightarrow> mainvars_words p args ! (i + 1) = of_nat (args_offset args i) + p"
  by (simp add: mainvars_words_def nth_append nth_argv_ptrs args_offset_def)

lemma args_offset_Suc:
  "i < length args \<Longrightarrow> args_offset args (Suc i) = args_offset args i + length (args ! i) + 1"
  by (simp add: args_offset_def take_Suc_conv_app_nth)

lemma args_offset_mono: "i \<le> j \<Longrightarrow> args_offset args i \<le> args_offset args j"
proof -
  assume "i \<le> j"
  then have "take j args = take i args @ take (j - i) (drop i args)"
    by (metis le_add_diff_inverse take_add)
  then show ?thesis by (simp add: args_offset_def)
qed

lemma length_concat_args: "length (concat (map arg_bytes args)) = sum_list (map (\<lambda>a. length a + 1) args)"
  by (induction args) auto

lemma length_concat_words: "length (concat (map (le_bytes 8) ws)) = length ws * 8"
  by (induction ws) auto

text \<open>Copying every argument to its offset gives the words followed by the arguments.\<close>

lemma mainvars_fold:
  assumes "args_offset args (length args) < 2 ^ 64" and "k \<le> length args"
    and W: "W = concat (map (le_bytes 8) (mainvars_words p args))"
    and sz: "sz = args_offset args (length args)"
  shows "fold (\<lambda>i bytes. blit (unat (mainvars_words p args ! (i + 1) - p)) (arg_bytes (args ! i)) bytes)
      [0..<k] (blit 0 W (replicate sz 0)) =
    W @ concat (map arg_bytes (take k args)) @ replicate (sz - args_offset args k) 0"
  using assms(2)
proof (induction k)
  case 0
  have "length W = args_offset args 0" by (simp add: W length_concat_words args_offset_def)
  then show ?case by (simp add: blit_def)
next
  case (Suc k)
  let ?off = "args_offset args k" and ?B = "W @ concat (map arg_bytes (take k args))"
  have k: "k < length args" using Suc.prems by simp
  have le: "args_offset args (Suc k) \<le> sz" unfolding sz by (rule args_offset_mono) (use Suc.prems in simp)
  have "?off < 2 ^ 64" using args_offset_Suc [OF k] le assms(1) sz by simp
  then have ptr: "unat (mainvars_words p args ! (k + 1) - p) = ?off"
    using nth_mainvars_words [OF k] by simp
  have lenB: "length ?B = ?off"
    by (simp add: W length_concat_words length_concat_args args_offset_def)
  have "blit ?off (arg_bytes (args ! k)) (?B @ replicate (sz - ?off) 0) =
      ?B @ arg_bytes (args ! k) @ replicate (sz - ?off - (length (args ! k) + 1)) 0"
    unfolding blit_def using lenB by simp
  moreover have "sz - ?off - (length (args ! k) + 1) = sz - args_offset args (Suc k)"
    using args_offset_Suc [OF k] by simp
  moreover have "take (Suc k) args = take k args @ [args ! k]" using k by (rule take_Suc_conv_app_nth)
  ultimately show ?case using Suc k ptr by simp
qed

lemma mainvars_bytes_layout:
  assumes "args_offset args (length args) < 2 ^ 64"
  shows "mainvars_bytes p args =
    concat (map (le_bytes 8) (mainvars_words p args)) @ concat (map arg_bytes args)"
  using mainvars_fold [OF assms le_refl refl refl, of p]
  by (simp add: mainvars_bytes_def Let_def args_offset_def)

lemma concat_map_split: "xs = ys @ x # zs \<Longrightarrow> concat (map f xs) = concat (map f ys) @ f x @ concat (map f zs)"
  by simp

lemma drop_concat_args:
  assumes "i < length args"
  shows "drop (sum_list (map (\<lambda>a. length a + 1) (take i args))) (concat (map arg_bytes args)) =
    arg_bytes (args ! i) @ concat (map arg_bytes (drop (Suc i) args))"
proof -
  have "args = take i args @ args ! i # drop (Suc i) args" using assms by (rule id_take_nth_drop)
  then have "concat (map arg_bytes args) = concat (map arg_bytes (take i args)) @
      arg_bytes (args ! i) @ concat (map arg_bytes (drop (Suc i) args))"
    by (rule concat_map_split)
  then show ?thesis using length_concat_args [of "take i args"] by simp
qed

lemma take_word_concat:
  "i < length ws \<Longrightarrow> take 8 (drop (8 * i) (concat (map (le_bytes 8) ws) @ rest)) = le_bytes 8 (ws ! i)"
proof -
  assume i: "i < length ws"
  then have "ws = take i ws @ ws ! i # drop (Suc i) ws" by (rule id_take_nth_drop)
  then have "concat (map (le_bytes 8) ws) = concat (map (le_bytes 8) (take i ws)) @
      le_bytes 8 (ws ! i) @ concat (map (le_bytes 8) (drop (Suc i) ws))"
    by (rule concat_map_split)
  then show ?thesis using length_concat_words [of "take i ws"] i by simp
qed

text \<open>
  C13: the image \<open>sys_getmainvars\<close> writes at \<open>p\<close>, read as the target reads it: the word at
  0 is \<open>argc\<close>, word \<open>i + 1\<close> points at a C string inside the image that is argument
  \<open>i\<close>, and the two words after the pointers are null.
\<close>

theorem mainvars_image:
  assumes "args_offset args (length args) < 2 ^ 64" and "\<And>a. a \<in> set args \<Longrightarrow> CHR 0x00 \<notin> set a"
    and img: "img = mainvars_bytes p args" "\<And>i. word_at i = le_word (take 8 (drop (8 * i) img))"
  shows "length img = args_offset args (length args) \<and> word_at 0 = of_nat (length args) \<and>
    (\<forall>i<length args. unat (word_at (i + 1) - p) < length img \<and>
      cstring (drop (unat (word_at (i + 1) - p)) img) = args ! i) \<and>
    word_at (length args + 1) = 0 \<and> word_at (length args + 2) = 0"
proof -
  let ?ws = "mainvars_words p args"
  have img': "img = concat (map (le_bytes 8) ?ws) @ concat (map arg_bytes args)"
    unfolding img(1) by (rule mainvars_bytes_layout [OF assms(1)])
  have word: "word_at i = ?ws ! i" if "i < length args + 3" for i
    unfolding img(2) img' using take_word_concat [of i ?ws] that by (simp add: le_word_le_bytes)
  have len: "length img = args_offset args (length args)"
    unfolding img' by (simp add: length_concat_words length_concat_args args_offset_def)
  have "unat (word_at (i + 1) - p) < length img \<and>
      cstring (drop (unat (word_at (i + 1) - p)) img) = args ! i" if i: "i < length args" for i
  proof -
    let ?off = "args_offset args i"
    have lt: "?off < length img"
      using args_offset_mono [of "Suc i" "length args" args] args_offset_Suc [OF i] i len by simp
    have "word_at (i + 1) - p = of_nat ?off"
      using word [of "i + 1"] nth_mainvars_words [OF i] i by simp
    then have ptr: "unat (word_at (i + 1) - p) = ?off" using lt len assms(1) by simp
    have "drop ?off img = arg_bytes (args ! i) @ concat (map arg_bytes (drop (Suc i) args))"
      unfolding img' using drop_concat_args [OF i]
      by (simp add: length_concat_words args_offset_def)
    then have "cstring (drop ?off img) = args ! i"
      using cstring_bytes_of [of "args ! i"] assms(2) i by simp
    with ptr lt show ?thesis by simp
  qed
  moreover have "word_at 0 = of_nat (length args)" "word_at (length args + 1) = 0" "word_at (length args + 2) = 0"
    using word [of 0] word [of "length args + 1"] word [of "length args + 2"]
    by (simp_all add: mainvars_words_def nth_append)
  ultimately show ?thesis using len by simp
qed

theorem mainvars_image_witness:
  "let args = [''a'', ''bc'']; img = mainvars_bytes 0x1000 args;
       word_at = \<lambda>i. le_word (take 8 (drop (8 * i) img)) :: u64 in
    length img = args_offset args (length args) \<and> word_at 0 = of_nat (length args) \<and>
    (\<forall>i<length args. unat (word_at (i + 1) - 0x1000) < length img \<and>
      cstring (drop (unat (word_at (i + 1) - 0x1000)) img) = args ! i) \<and>
    word_at (length args + 1) = 0 \<and> word_at (length args + 2) = 0"
  unfolding Let_def by (rule mainvars_image) (auto simp: args_offset_def)

section \<open>Exit codes\<close>

lemma sint_odd_half: "sint (ucast (push_bit 1 c OR 1 :: u64) :: u32) div 2 = sint (ucast c :: 31 word)"
proof -
  have "drop_bit 1 (sint (ucast (push_bit 1 c OR 1 :: u64) :: u32)) = sint (ucast c :: 31 word)"
    by (rule bit_eqI) (auto simp: bit_simps min_def bit_double_word)
  then show ?thesis by (simp add: drop_bit_eq_div)
qed

lemma payload_exit_code:
  assumes "cmd_payload w AND 1 \<noteq> 0"
  shows "sint (ucast (cmd_payload w) :: u32) div 2 = sint (ucast (drop_bit 1 (cmd_payload w)) :: 31 word)"
proof -
  have odd: "push_bit 1 (drop_bit 1 p) OR 1 = p" if "p AND 1 \<noteq> 0" for p :: u64
  proof -
    have "odd p" using that by (simp add: and_one_eq even_iff_mod_2_eq_zero odd_iff_mod_2_eq_one)
    then show ?thesis by (intro bit_word_eqI) (auto simp: bit_simps bit_0 bit_double_word)
  qed
  show "sint (ucast (cmd_payload w) :: u32) div 2 = sint (ucast (drop_bit 1 (cmd_payload w)) :: 31 word)"
    using sint_odd_half [of "drop_bit 1 (cmd_payload w)"] unfolding odd [OF assms] .
qed

text \<open>
  The exit code the server reports for \<open>exit(code)\<close> is the low 31 bits of the code of
  the target, read as a signed number; a test that writes an odd word to \<open>tohost\<close> reports
  the low 31 bits above its lowest bit, and is not answered.
\<close>

theorem exit_code_bits:
  assumes "cmd_payload w AND 1 \<noteq> 0"
  shows "wp (sys_exit code) (\<lambda>r s'. r = 0 \<and> exit_code s' = sint (ucast code :: 31 word)) s \<and>
    wp (handle_syscall e w) (\<lambda>_ s'.
      exit_code s' = sint (ucast (drop_bit 1 (cmd_payload w)) :: 31 word) \<and>
      fromhost_queue s' = fromhost_queue s) s"
proof -
  have "wp (sys_exit code) (\<lambda>r s'. r = 0 \<and> exit_code s' = sint (ucast code :: 31 word)) s"
    unfolding sys_exit_def exit_code_def by (simp add: sint_odd_half [simplified])
  then show ?thesis using assms by (simp add: payload_exit_code handle_syscall_def exit_code_def)
qed

theorem exit_code_bits_witness:
  "wp (sys_exit 3) (\<lambda>r s'. r = 0 \<and> exit_code s' = 3) toy_htif \<and>
    wp (handle_syscall toy_env 5) (\<lambda>_ s'. exit_code s' = 2 \<and> fromhost_queue s' = []) toy_htif"
proof -
  have "sint (ucast (3 :: u64) :: 31 word) = 3" "sint (ucast (drop_bit 1 (cmd_payload 5)) :: 31 word) = 2"
    "cmd_payload 5 AND 1 \<noteq> 0" "fromhost_queue toy_htif = []"
    by (code_simp, code_simp, code_simp, simp add: toy_htif_def)
  then show ?thesis using exit_code_bits [of 5 3 toy_htif toy_env] by simp
qed

section \<open>Dispatch\<close>

lemma length_words_of [simp]: "length (words_of bs) = length bs div 8"
  by (simp add: words_of_def)

lemma words_of_Nil: "words_of [] = []"
  by (simp add: words_of_def)

lemma words_of_Cons:
  "length b = 8 \<Longrightarrow> words_of (b @ bs) = le_word b # words_of bs"
  by (rule nth_equalityI) (auto simp: words_of_def nth_Cons split: nat.splits)

lemma concat_words_of:
  "length bs = 8 * n \<Longrightarrow> concat (map (le_bytes 8) (words_of bs)) = bs"
proof (induction n arbitrary: bs)
  case 0
  then show ?case by (simp add: words_of_def)
next
  case (Suc n)
  let ?b = "take 8 bs" and ?r = "drop 8 bs"
  have len: "length ?b = 8" "length ?r = 8 * n" using Suc.prems by simp_all
  have "words_of bs = le_word ?b # words_of ?r" using words_of_Cons [OF len(1), of ?r] by simp
  moreover have "le_bytes 8 (le_word ?b :: u64) = ?b" using le_bytes_le_word [of ?b, where ?'a = 64] len(1) by simp
  ultimately show ?case using Suc.IH [OF len(2)] by simp
qed

lemma words_of_concat: "words_of (concat (map (le_bytes 8) ws)) = ws"
  by (induction ws) (simp_all add: words_of_Cons le_word_le_bytes words_of_Nil)

section \<open>A failed fstat writes to the target\<close>

text \<open>
  C37: when \<open>fstat\<close> fails with an \<open>errno\<close> other than 1, the status buffer, which the call
  has not filled, is written to target memory all the same: the result is compared with
  \<open>-1\<close> after it was replaced by \<open>-errno\<close>.
\<close>

theorem sys_fstat_failure_writes:
  assumes "os_fstat (os e) (fds_lookup fd (fds s)) (host s) = ((- 1, garbage), h)"
    and "os_errno (os e) h = n" and "1 < n" and "n < 4096"
  shows "sys_fstat e fd pbuf s =
    bind (mem_wr e pbuf (riscv_stat garbage)) (\<lambda>_. ret (word_of_int (- n))) (s\<lparr>host := h\<rparr>)"
proof -
  have "(word_of_int (- n) :: u64) \<noteq> word_of_int (- 1)"
  proof
    assume "(word_of_int (- n) :: u64) = word_of_int (- 1)"
    then have "(word_of_int (- n + 1) :: u64) = 0" by (simp add: of_int_add)
    then have "(of_nat (nat (n - 1)) :: u64) = 0" using assms(3) by (simp add: of_nat_nat)
    then have "unat (of_nat (nat (n - 1)) :: u64) = 0" by simp
    then show False using assms(3,4) by (subst (asm) unat_of_nat_addr) auto
  qed
  then show ?thesis
    using assms(1,2)
    by (simp add: sys_fstat_def lookup_fd_def write_stat_def sysret_errno_def run_simps)
qed

theorem sys_fstat_failure_writes_witness:
  "sys_fstat toy_env 7 0x1000 toy_htif =
    bind (mem_wr toy_env 0x1000 (riscv_stat toy_stat)) (\<lambda>_. ret (word_of_int (- 9)))
      (toy_htif\<lparr>host := (host toy_htif)\<lparr>toy_errno := 9\<rparr>\<rparr>)"
  by (rule sys_fstat_failure_writes) (simp_all add: toy_env_def toy_os_def)

end
