(* ===== verification/Rfb.thy ===== *)
theory Rfb
  imports Device
begin

text \<open>
  The remote frame buffer (\<open>tb/dpi/fesvr/rfb.cc\<close>): the two commands that set it up, the
  tick that copies the frame from target memory in pieces of 256 bytes, and the messages of
  the RFB protocol. The thread that serves the client runs at the same time as the ticks; its
  messages are programs over the connection, and whether it holds the lock at a tick is an
  answer of the host (\<open>os_rfb_trylock\<close>).
\<close>

section \<open>The frame\<close>

definition FB_ALIGN :: nat where "FB_ALIGN = 256"

definition fb_bytes :: "rfb \<Rightarrow> nat" where
  "fb_bytes r = unat (rfb_width r) * unat (rfb_height r) * unat (rfb_bpp r) div 8"

definition rfb_new :: "int \<Rightarrow> rfb" where
  "rfb_new display = \<lparr>rfb_sockfd = - 1, rfb_afd = - 1, rfb_memif = False, rfb_addr = 0, rfb_width = 0, rfb_height = 0,
     rfb_bpp = 0, rfb_display = display, rfb_fb1 = None, rfb_fb2 = [], rfb_read_pos = 0\<rparr>"

definition the_rfb :: "nat \<Rightarrow> (('t, 'h) htif, rfb) prog" where
  "the_rfb i = gets (\<lambda>s. rfbs s ! i)"

definition set_rfb :: "nat \<Rightarrow> rfb \<Rightarrow> (('t, 'h) htif, unit) prog" where
  "set_rfb i r = modify (\<lambda>s. s\<lparr>rfbs := (rfbs s)[i := r]\<rparr>)"

section \<open>Commands\<close>

definition rfb_handle_configure :: "('t, 'h) env \<Rightarrow> nat \<Rightarrow> command \<Rightarrow> (('t, 'h) htif, unit) prog" where
  "rfb_handle_configure e i cmd =
     bind (the_rfb i) (\<lambda>r0.
     bind (check (rfb_fb1 r0 = None) (Runtime_Error ''you must only set the rfb configuration once'')) (\<lambda>_.
     let r = r0\<lparr>rfb_width := ucast (cmd_payload cmd), rfb_height := ucast (drop_bit 16 (cmd_payload cmd)),
                rfb_bpp := ucast (drop_bit 32 (cmd_payload cmd))\<rparr> in
     bind (set_rfb i r) (\<lambda>_.
     bind (check (rfb_bpp r = 32) (Runtime_Error ''rfb requires 32 bpp true color'')) (\<lambda>_.
     bind (check (fb_bytes r mod FB_ALIGN = 0) (Runtime_Error ''rfb size must be a multiple of 256'')) (\<lambda>_.
     bind (gets (\<lambda>s. os_fresh (os e) (fb_bytes r) (host s))) (\<lambda>fresh.
     bind (set_rfb i (r\<lparr>rfb_fb1 := Some fresh, rfb_fb2 := fresh\<rparr>)) (\<lambda>_.
     respond cmd 1)))))))"

definition rfb_handle_set_address :: "nat \<Rightarrow> command \<Rightarrow> (('t, 'h) htif, unit) prog" where
  "rfb_handle_set_address i cmd =
     bind (the_rfb i) (\<lambda>r.
     bind (set_rfb i (r\<lparr>rfb_addr := cmd_payload cmd\<rparr>)) (\<lambda>_.
     bind (check (cmd_payload cmd mod of_nat FB_ALIGN = 0)
       (Runtime_Error ''rfb address must be 256-byte aligned'')) (\<lambda>_.
     bind (set_rfb i (r\<lparr>rfb_addr := cmd_payload cmd, rfb_memif := True\<rparr>)) (\<lambda>_.
     respond cmd 1))))"

section \<open>Messages\<close>

text \<open>\<open>str(htons(x))\<close> and \<open>str(htonl(x))\<close>: most significant byte first.\<close>

definition be16 :: "u16 \<Rightarrow> byte list" where
  "be16 x = rev (le_bytes 2 x)"

definition be32 :: "u32 \<Rightarrow> byte list" where
  "be32 x = rev (le_bytes 4 x)"

text \<open>\<open>while (bpp & (bpp-1)) bpp++\<close>: from 24 it takes eight steps.\<close>

fun round_bpp :: "nat \<Rightarrow> nat \<Rightarrow> nat" where
  "round_bpp 0 bpp = bpp"
| "round_bpp (Suc fuel) bpp = (if bpp AND (bpp - 1) \<noteq> 0 then round_bpp fuel (bpp + 1) else bpp)"

definition pixel_format :: "byte list" where
  "pixel_format =
     (let red_bits = 8; green_bits = 8; blue_bits = 8;
          bpp = round_bpp 64 (red_bits + green_bits + blue_bits) in
      [of_nat bpp, of_nat (red_bits + green_bits + blue_bits), 0, 1] @
      be16 (push_bit red_bits 1 - 1) @ be16 (push_bit green_bits 1 - 1) @ be16 (push_bit blue_bits 1 - 1) @
      [of_nat (blue_bits + green_bits), of_nat blue_bits, 0] @ le_bytes 2 (0 :: u16) @ [0])"

definition fb_update_msg :: "rfb \<Rightarrow> byte list \<Rightarrow> byte list" where
  "fb_update_msg r frame =
     [0, 0] @ be16 1 @ be16 0 @ be16 0 @ be16 (rfb_width r) @ be16 (rfb_height r) @ be32 0 @
     take (fb_bytes r) frame"

definition rfb_write :: "('t, 'h) env \<Rightarrow> rfb \<Rightarrow> byte list \<Rightarrow> (('t, 'h) htif, unit) prog" where
  "rfb_write e r bs =
     bind (on_host (os_write (os e) (rfb_afd r) bs)) (\<lambda>n.
     check (n = int (length bs)) (Runtime_Error ''could not write''))"

definition rfb_read :: "('t, 'h) env \<Rightarrow> rfb \<Rightarrow> (('t, 'h) htif, byte list) prog" where
  "rfb_read e r =
     bind (on_host (os_read (os e) (rfb_afd r) 2048)) (\<lambda>(n, bs).
     bind (check (0 \<le> n) (Runtime_Error ''could not read'')) (\<lambda>_.
     bind (check (n \<noteq> 2048) (Runtime_Error ''received oversized packet'')) (\<lambda>_.
     ret (take (nat n) bs))))"

text \<open>The exchange with a client that has connected, in \<open>thread_main\<close>.\<close>

definition rfb_serverinit :: "rfb \<Rightarrow> byte list" where
  "rfb_serverinit r =
     be16 (rfb_width r) @ be16 (rfb_height r) @ pixel_format @
     be32 (of_nat (length ''RISC-V'')) @ bytes_of ''RISC-V''"

definition rfb_version :: "byte list" where
  "rfb_version = bytes_of ''RFB 003.003'' @ [10]"

definition rfb_handshake :: "('t, 'h) env \<Rightarrow> rfb \<Rightarrow> (('t, 'h) htif, unit) prog" where
  "rfb_handshake e r =
     bind (rfb_write e r rfb_version) (\<lambda>_.
     bind (rfb_read e r) (\<lambda>v.
     bind (check (v = rfb_version) (Runtime_Error ''bad client version'')) (\<lambda>_.
     bind (rfb_write e r (be32 1)) (\<lambda>_.
     bind (rfb_read e r) (\<lambda>_.
     rfb_write e r (rfb_serverinit r))))))"

definition set_pixel_format :: "byte list \<Rightarrow> ('s, unit) prog" where
  "set_pixel_format s =
     check (length s = 20 \<and> take 16 (drop 4 s) = pixel_format) (Runtime_Error ''bad pixel format'')"

text \<open>\<open>fb_update\<close> catches the failure of its write.\<close>

definition fb_update :: "('t, 'h) env \<Rightarrow> rfb \<Rightarrow> byte list \<Rightarrow> (('t, 'h) htif, unit) prog" where
  "fb_update e r frame =
     bind (on_host (os_write (os e) (rfb_afd r) (fb_update_msg r frame))) (\<lambda>_. ret ())"

section \<open>The tick\<close>

definition rfb_tick :: "('t, 'h) env \<Rightarrow> nat \<Rightarrow> (('t, 'h) htif, unit) prog" where
  "rfb_tick e i =
     bind (the_rfb i) (\<lambda>r.
     if fb_bytes r = 0 \<or> \<not> rfb_memif r then ret ()
     else
       bind (mem_rd e (rfb_addr r + of_nat (rfb_read_pos r)) FB_ALIGN) (\<lambda>bs.
       let p = rfb_read_pos r;
           fb2 = take p (rfb_fb2 r) @ bs @ drop (p + FB_ALIGN) (rfb_fb2 r);
           p' = (p + FB_ALIGN) mod fb_bytes r in
       if p' \<noteq> 0 then set_rfb i (r\<lparr>rfb_fb2 := fb2, rfb_read_pos := p'\<rparr>)
       else
         bind (lift (case rfb_fb1 r of None \<Rightarrow> Inl (Undefined ''null frame'') | Some fb1 \<Rightarrow> Inr fb1)) (\<lambda>fb1.
         let r' = r\<lparr>rfb_fb1 := Some fb2, rfb_fb2 := fb1, rfb_read_pos := 0\<rparr> in
         bind (set_rfb i r') (\<lambda>_.
         bind (on_host (os_rfb_trylock (os e) i)) (\<lambda>free.
         if free then fb_update e r' fb2 else ret ())))))"

end
