(* ===== verification/Htif.thy ===== *)
theory Htif
  imports Syscall Rfb Elf
begin

text \<open>
  The host-target interface (\<open>tb/dpi/fesvr/htif.cc\<close>, and the dispatch of commands to
  devices of \<open>device.cc\<close>): the command line, loading the program, the main loop that serves
  \<open>tohost\<close> and \<open>fromhost\<close>, and the memory signature a test leaves.
\<close>

section \<open>Commands to devices\<close>

definition run_handler :: "('t, 'h) env \<Rightarrow> device \<Rightarrow> handler \<Rightarrow> command \<Rightarrow> (('t, 'h) htif, unit) prog" where
  "run_handler e d h cmd = (case h of
       Handle_null_command \<Rightarrow> ret ()
     | Handle_identify \<Rightarrow> handle_identify e d cmd
     | Handle_syscall \<Rightarrow> handle_syscall e cmd
     | Bcd_handle_read \<Rightarrow> bcd_handle_read cmd
     | Bcd_handle_write \<Rightarrow> bcd_handle_write e cmd
     | Disk_handle_read \<Rightarrow> (case body d of Disk fd n \<Rightarrow> disk_handle_read e fd cmd | _ \<Rightarrow> ret ())
     | Disk_handle_write \<Rightarrow> (case body d of Disk fd n \<Rightarrow> disk_handle_write e fd cmd | _ \<Rightarrow> ret ())
     | Rfb_handle_configure \<Rightarrow> (case body d of Rfb i \<Rightarrow> rfb_handle_configure e i cmd | _ \<Rightarrow> ret ())
     | Rfb_handle_set_address \<Rightarrow> (case body d of Rfb i \<Rightarrow> rfb_handle_set_address i cmd | _ \<Rightarrow> ret ()))"

definition device_handle_command :: "('t, 'h) env \<Rightarrow> device \<Rightarrow> command \<Rightarrow> (('t, 'h) htif, unit) prog" where
  "device_handle_command e d cmd = run_handler e d (command_handlers d ! unat (cmd_cmd cmd)) cmd"

definition list_handle_command :: "('t, 'h) env \<Rightarrow> command \<Rightarrow> (('t, 'h) htif, unit) prog" where
  "list_handle_command e cmd =
     bind (gets (\<lambda>s. devices s ! unat (cmd_device cmd))) (\<lambda>d. device_handle_command e d cmd)"

definition device_tick :: "('t, 'h) env \<Rightarrow> device \<Rightarrow> (('t, 'h) htif, unit) prog" where
  "device_tick e d = (case body d of
       Bcd \<Rightarrow> bcd_tick e
     | Rfb i \<Rightarrow> rfb_tick e i
     | _ \<Rightarrow> ret ())"

definition list_tick :: "('t, 'h) env \<Rightarrow> (('t, 'h) htif, unit) prog" where
  "list_tick e = bind (gets (\<lambda>s. take (num_devices s) (devices s))) (\<lambda>ds. for_each ds (device_tick e))"

definition register_devices :: "('t, 'h) env \<Rightarrow> device \<Rightarrow> (('t, 'h) htif, unit) prog" where
  "register_devices e syscall_proxy =
     bind (register_device syscall_proxy) (\<lambda>_.
     bind bcd_t (\<lambda>bcd.
     bind (register_device bcd) (\<lambda>_.
     bind (gets dynamic_devices) (\<lambda>ds. for_each ds register_device))))"

section \<open>Loading the program\<close>

text \<open>\<open>preload_aware_memif_t::write\<close>.\<close>

definition preload_aware_write :: "('t, 'h) env \<Rightarrow> addr \<Rightarrow> byte list \<Rightarrow> (('t, 'h) htif, unit) prog" where
  "preload_aware_write e taddr bs =
     bind (gets (\<lambda>s. is_address_preloaded e (target s) taddr (length bs))) (\<lambda>pre.
     if \<not> pre then mem_wr e taddr bs else ret ())"

definition program_path :: "('t, 'h) env \<Rightarrow> string \<Rightarrow> 'h \<Rightarrow> string" where
  "program_path e name h =
     (if os_exists (os e) name h then name
      else if CHR ''/'' \<notin> set name \<and> os_exists (os e) (target_dir e @ name) h then target_dir e @ name
      else '''')"

definition set_symbols :: "(string \<rightharpoonup> u64) \<Rightarrow> ('t, 'h) htif \<Rightarrow> ('t, 'h) htif" where
  "set_symbols symbols s =
     (let s1 = (case (symbols ''tohost'', symbols ''fromhost'') of
            (Some t, Some f) \<Rightarrow> s\<lparr>tohost_addr := t, fromhost_addr := f\<rparr>
          | _ \<Rightarrow> s) in
      case (symbols ''begin_signature'', symbols ''end_signature'') of
        (Some b, Some d) \<Rightarrow> s1\<lparr>sig_addr := b, sig_len := d - b\<rparr>
      | _ \<Rightarrow> s1)"

definition load_program :: "('t, 'h) env \<Rightarrow> (('t, 'h) htif, unit) prog" where
  "load_program e =
     bind (gets (\<lambda>s. program_path e (hd (targs s)) (host s))) (\<lambda>path.
     bind (check (path \<noteq> '''') (Runtime_Error ''could not open'')) (\<lambda>_.
     bind (gets (\<lambda>s. os_file (os e) path (host s))) (\<lambda>contents.
     bind (load_elf (preload_aware_write e) contents) (\<lambda>(symbols, ent).
     modify (\<lambda>s. set_symbols symbols (s\<lparr>entry := ent\<rparr>))))))"

definition start :: "('t, 'h) env \<Rightarrow> (('t, 'h) htif, unit) prog" where
  "start e =
     bind (gets targs) (\<lambda>args.
     bind (if args \<noteq> [] \<and> hd args \<noteq> ''none'' then load_program e else ret ()) (\<lambda>_.
     bind (gets entry) (\<lambda>ent. on_target (htif_reset e ent))))"

section \<open>The signature\<close>

text \<open>One line per 16 bytes, the last byte first.\<close>

definition signature_line :: "byte list \<Rightarrow> nat \<Rightarrow> string" where
  "signature_line buf i = concat (map (\<lambda>j. hex_byte (buf ! (i + j - 1))) (rev [1..<17]))"

definition signature_lines :: "byte list \<Rightarrow> string list" where
  "signature_lines buf = map (\<lambda>k. signature_line buf (16 * k)) [0..<length buf div 16]"

definition stop :: "('t, 'h) env \<Rightarrow> (('t, 'h) htif, unit) prog" where
  "stop e =
     bind (gets (\<lambda>s. (sig_file s, sig_addr s, sig_len s))) (\<lambda>(name, a, len).
     bind (if name \<noteq> '''' \<and> len \<noteq> 0 then
         bind (alloc_bytes len) (\<lambda>_.
         bind (mem_rd e a (unat len)) (\<lambda>buf.
         bind (on_host (os_create (os e) name (if unat len mod 16 = 0 then signature_lines buf else []))) (\<lambda>ok.
         bind (check ok (Assert_Failed ''can't open signature file!'')) (\<lambda>_.
         check (unat len mod 16 = 0) (Assert_Failed ''sig_len % incr == 0'')))))
       else ret ()) (\<lambda>_.
     modify (\<lambda>s. s\<lparr>stopped := True\<rparr>)))"

section \<open>The main loop\<close>

text \<open>Serving \<open>tohost\<close>: a word that is not zero is taken out and dispatched.\<close>

definition serve_tohost :: "('t, 'h) env \<Rightarrow> (('t, 'h) htif, unit) prog" where
  "serve_tohost e =
     bind (gets tohost_addr) (\<lambda>a.
     bind (on_target (read_uint64 (chunks e) a)) (\<lambda>tohost.
     if tohost \<noteq> 0 then
       bind (on_target (write_uint64 (chunks e) a 0)) (\<lambda>_. list_handle_command e tohost)
     else on_target (idle e)))"

text \<open>Serving \<open>fromhost\<close>: the oldest response, once the target has taken the last one.\<close>

definition serve_fromhost :: "('t, 'h) env \<Rightarrow> (('t, 'h) htif, unit) prog" where
  "serve_fromhost e =
     bind (gets (\<lambda>s. (fromhost_queue s, fromhost_addr s))) (\<lambda>(queue, a).
     case queue of
       [] \<Rightarrow> ret ()
     | x # rest \<Rightarrow>
         bind (on_target (read_uint64 (chunks e) a)) (\<lambda>v.
         if v = 0 then
           bind (on_target (write_uint64 (chunks e) a x)) (\<lambda>_.
           modify (\<lambda>s. s\<lparr>fromhost_queue := rest\<rparr>))
         else ret ()))"

definition run_body :: "('t, 'h) env \<Rightarrow> (('t, 'h) htif, unit) prog" where
  "run_body e = bind (serve_tohost e) (\<lambda>_. bind (list_tick e) (\<lambda>_. serve_fromhost e))"

text \<open>\<open>while (!signal_exit && exitcode == 0)\<close>, and the loop that idles for ever.\<close>

partial_function (option) run_loop ::
    "('t, 'h) env \<Rightarrow> ('t, 'h) htif \<Rightarrow> (exn + unit \<times> ('t, 'h) htif) option" where
  "run_loop e s =
     (case os_signal (os e) (host s) of (sig, h) \<Rightarrow>
        if \<not> sig \<and> exitcode s = 0
        then (case run_body e (s\<lparr>host := h\<rparr>) of
            None \<Rightarrow> None
          | Some (Inl x) \<Rightarrow> Some (Inl x)
          | Some (Inr (u, s')) \<Rightarrow> run_loop e s')
        else Some (Inr ((), s\<lparr>host := h\<rparr>)))"

partial_function (option) idle_loop ::
    "('t, 'h) env \<Rightarrow> ('t, 'h) htif \<Rightarrow> (exn + unit \<times> ('t, 'h) htif) option" where
  "idle_loop e s =
     (case on_target (idle e) s of
        None \<Rightarrow> None
      | Some (Inl x) \<Rightarrow> Some (Inl x)
      | Some (Inr (u, s')) \<Rightarrow> idle_loop e s')"

definition htif_run :: "('t, 'h) env \<Rightarrow> (('t, 'h) htif, int) prog" where
  "htif_run e =
     bind (start e) (\<lambda>_.
     bind (gets tohost_addr) (\<lambda>a.
     bind (if a = 0 then idle_loop e else ret ()) (\<lambda>_.
     bind (run_loop e) (\<lambda>_.
     bind (stop e) (\<lambda>_.
     gets exit_code)))))"

section \<open>The command line\<close>

text \<open>
  The options of \<open>HTIF_LONG_OPTIONS\<close>, as \<open>getopt_long\<close> reports them with the option
  string \<open>-h\<close>: an argument that is no option is reported in place.
\<close>

datatype opt_code = Opt_help | Opt_rfb | Opt_disk | Opt_signature | Opt_chroot

datatype has_arg = No_argument | Required_argument | Optional_argument

definition long_options :: "(string \<times> has_arg \<times> opt_code) list" where
  "long_options = [(''help'', No_argument, Opt_help), (''rfb'', Optional_argument, Opt_rfb),
     (''disk'', Required_argument, Opt_disk), (''signature'', Required_argument, Opt_signature),
     (''chroot'', Required_argument, Opt_chroot)]"

definition starts_with :: "string \<Rightarrow> string \<Rightarrow> bool" where
  "starts_with p s \<longleftrightarrow> take (length p) s = p"

text \<open>A long option by its name or an abbreviation of only one name.\<close>

definition find_long :: "string \<Rightarrow> (has_arg \<times> opt_code) option" where
  "find_long name =
     (case map_of long_options name of
        Some r \<Rightarrow> Some r
      | None \<Rightarrow> (case filter (\<lambda>(n, r). starts_with name n) long_options of
            [(n, r)] \<Rightarrow> Some r
          | _ \<Rightarrow> None))"

definition do_option :: "('t, 'h) env \<Rightarrow> opt_code \<Rightarrow> string option \<Rightarrow> (('t, 'h) htif, unit) prog" where
  "do_option e c optarg = (case c of
       Opt_help \<Rightarrow> raise (Invalid_Argument ''User quered htif_t help text'')
     | Opt_rfb \<Rightarrow>
         bind (gets (\<lambda>s. length (rfbs s))) (\<lambda>i.
         bind (rfb_t i) (\<lambda>d.
         modify (\<lambda>s. s\<lparr>rfbs := rfbs s @ [rfb_new (case optarg of None \<Rightarrow> 0 | Some a \<Rightarrow> atoi a)],
                        dynamic_devices := dynamic_devices s @ [d]\<rparr>)))
     | Opt_disk \<Rightarrow> raise (Invalid_Argument ''--disk/+disk unsupported (use a ramdisk)'')
     | Opt_signature \<Rightarrow> modify (\<lambda>s. s\<lparr>sig_file := (case optarg of None \<Rightarrow> '''' | Some a \<Rightarrow> a)\<rparr>)
     | Opt_chroot \<Rightarrow> set_chroot e (case optarg of None \<Rightarrow> '''' | Some a \<Rightarrow> a))"

definition unknown_option :: "bool \<Rightarrow> ('s, unit) prog" where
  "unknown_option opterr =
     (if opterr then raise (Invalid_Argument ''Unknown argument (did you mean to enable +permissive parsing?)'')
      else ret ())"

definition plus_option :: "string \<Rightarrow> (opt_code \<times> string option) option" where
  "plus_option arg =
     (if arg = ''+rfb'' then Some (Opt_rfb, None)
      else if starts_with ''+rfb='' arg then Some (Opt_rfb, Some (drop 5 arg))
      else if starts_with ''+disk='' arg then Some (Opt_disk, Some (drop 6 arg))
      else if starts_with ''+signature='' arg then Some (Opt_signature, Some (drop 11 arg))
      else if starts_with ''+chroot='' arg then Some (Opt_chroot, Some (drop 8 arg))
      else None)"

text \<open>
  The loop over the arguments, and what is left of them for the target. \<open>opterr\<close> is false
  between \<open>+permissive\<close> and \<open>+permissive-off\<close>.
\<close>

fun parse_options :: "('t, 'h) env \<Rightarrow> bool \<Rightarrow> string list \<Rightarrow> (('t, 'h) htif, string list) prog" where
  "parse_options e opterr [] = ret []"
| "parse_options e opterr (a # as) =
     (if a = ''--'' then ret as
      else if starts_with ''--'' a then
        (let name = takeWhile (\<lambda>c. c \<noteq> CHR ''='') (drop 2 a);
             val = (case dropWhile (\<lambda>c. c \<noteq> CHR ''='') (drop 2 a) of [] \<Rightarrow> None | _ # v \<Rightarrow> Some v) in
         case find_long name of
           None \<Rightarrow> bind (unknown_option opterr) (\<lambda>_. parse_options e opterr as)
         | Some (No_argument, c) \<Rightarrow>
             bind (case val of None \<Rightarrow> do_option e c None | Some v \<Rightarrow> unknown_option opterr)
               (\<lambda>_. parse_options e opterr as)
         | Some (Optional_argument, c) \<Rightarrow> bind (do_option e c val) (\<lambda>_. parse_options e opterr as)
         | Some (Required_argument, c) \<Rightarrow>
             (case (val, as) of
                (Some v, _) \<Rightarrow> bind (do_option e c (Some v)) (\<lambda>_. parse_options e opterr as)
              | (None, []) \<Rightarrow> bind (unknown_option opterr) (\<lambda>_. parse_options e opterr [])
              | (None, v # as') \<Rightarrow> bind (do_option e c (Some v)) (\<lambda>_. parse_options e opterr as')))
      else if starts_with ''-'' a \<and> a \<noteq> ''-'' then
        bind (for_each (drop 1 a) (\<lambda>c. if c = CHR ''h'' then do_option e Opt_help None else unknown_option opterr))
          (\<lambda>_. parse_options e opterr as)
      else (case plus_option a of
          Some (c, optarg) \<Rightarrow> bind (do_option e c optarg) (\<lambda>_. parse_options e opterr as)
        | None \<Rightarrow>
            if starts_with ''+permissive-off'' a then
              (if opterr then raise (Invalid_Argument ''Found +permissive-off when not parsing permissively'')
               else parse_options e True as)
            else if starts_with ''+permissive'' a then
              (if \<not> opterr then raise (Invalid_Argument ''Found +permissive when already parsing permissively'')
               else parse_options e False as)
            else if \<not> opterr then parse_options e opterr as
            else ret (a # as)))"

definition parse_arguments :: "('t, 'h) env \<Rightarrow> string list \<Rightarrow> (('t, 'h) htif, unit) prog" where
  "parse_arguments e args =
     bind (parse_options e True args) (\<lambda>rest.
     bind (modify (\<lambda>s. s\<lparr>targs := targs s @ rest\<rparr>)) (\<lambda>_.
     bind (gets targs) (\<lambda>ts.
     check (ts \<noteq> []) (Invalid_Argument ''No binary specified''))))"

section \<open>Construction\<close>

definition DRAM_BASE :: u64 where "DRAM_BASE = 0x80000000"

definition htif_init :: "'t \<Rightarrow> 'h \<Rightarrow> device \<Rightarrow> ('t, 'h) htif" where
  "htif_init t h null_device = \<lparr>target = t, host = h, entry = DRAM_BASE, targs = [], sig_file = '''',
     sig_addr = 0, sig_len = 0, tohost_addr = 0, fromhost_addr = 0, exitcode = 0, stopped = False,
     devices = replicate MAX_COMMANDS null_device, num_devices = 0, dynamic_devices = [], rfbs = [],
     pending_reads = [], fromhost_queue = [], fds = [], chroot = ''''\<rparr>"

definition htif_t :: "('t, 'h) env \<Rightarrow> string list \<Rightarrow> (('t, 'h) htif, unit) prog" where
  "htif_t e args =
     bind null_device_t (\<lambda>null_device.
     bind (modify (\<lambda>s. htif_init (target s) (host s) null_device)) (\<lambda>_.
     bind (syscall_t e) (\<lambda>syscall_proxy.
     bind (parse_arguments e args) (\<lambda>_.
     register_devices e syscall_proxy))))"

section \<open>The signature reads back\<close>

text \<open>
  Line \<open>k\<close> of the signature file, read as hexadecimal from its last byte to its first,
  is the \<open>k\<close>-th block of 16 bytes of the signature, and there is a line for every block.
\<close>

theorem signature_lines_roundtrip:
  "concat (map (\<lambda>l. rev (parse_hex l)) (signature_lines buf)) = take (16 * (length buf div 16)) buf"
proof -
  have line: "rev (parse_hex (signature_line buf (16 * k))) = take 16 (drop (16 * k) buf)"
    if "16 * k + 16 \<le> length buf" for k
  proof -
    have "signature_line buf (16 * k) = concat (map hex_byte (map (\<lambda>j. buf ! (16 * k + j - 1)) (rev [1..<17])))"
      by (simp add: signature_line_def comp_def del: upt_Suc)
    then have "rev (parse_hex (signature_line buf (16 * k))) = map (\<lambda>j. buf ! (16 * k + j - 1)) [1..<17]"
      by (simp only: parse_hex_bytes rev_map rev_rev_ident)
    also have "\<dots> = take 16 (drop (16 * k) buf)"
      by (rule nth_equalityI) (use that in \<open>simp_all del: upt_Suc\<close>)
    finally show ?thesis .
  qed
  have "concat (map (\<lambda>k. rev (parse_hex (signature_line buf (16 * k)))) [0..<n]) = take (16 * n) buf"
    if "16 * n \<le> length buf" for n
    using that
  proof (induction n)
    case (Suc n)
    then show ?case using line [of n] take_add [of "16 * n" 16 buf] by (simp add: add.commute)
  qed simp
  from this [of "length buf div 16"] show ?thesis
    by (simp add: signature_lines_def comp_def)
qed

section \<open>Arguments for the target\<close>

definition plain_arg :: "string \<Rightarrow> bool" where
  "plain_arg a \<longleftrightarrow> (case a of [] \<Rightarrow> True | c # _ \<Rightarrow> c \<noteq> CHR ''-'' \<and> c \<noteq> CHR ''+'')"

lemma plain_arg_simps [simp]:
  assumes "plain_arg a"
  shows "a \<noteq> ''--''" "\<not> starts_with ''--'' a" "\<not> starts_with ''-'' a" "plus_option a = None"
    "\<not> starts_with ''+permissive-off'' a" "\<not> starts_with ''+permissive'' a"
  using assms by (auto simp: plain_arg_def starts_with_def plus_option_def split: list.splits)

lemma parse_plain: "plain_arg a \<Longrightarrow> parse_options e True (a # as) = ret (a # as)"
  by simp

lemma parse_permissive: "list_all plain_arg junk \<Longrightarrow> parse_options e False (junk @ as) = parse_options e False as"
  by (induction junk) (simp_all del: parse_options.simps, simp add: parse_options.simps)

text \<open>
  C39: \<open>+signature=\<close> sets the signature file; the first argument that is no option is the binary,
  and everything from it on, options included, is for the target; whatever stands between \<open>+permissive\<close> and
  \<open>+permissive-off\<close> and is no option is skipped.
\<close>

theorem parse_arguments_binary:
  assumes "targs s = []" and "plain_arg binary" and "list_all plain_arg junk"
  shows "parse_arguments e ((''+signature='' @ f) # binary # args) s =
      Some (Inr ((), s\<lparr>sig_file := f, targs := binary # args\<rparr>)) \<and>
    parse_arguments e (''+permissive'' # junk @ ''+permissive-off'' # binary # args) s =
      Some (Inr ((), s\<lparr>targs := binary # args\<rparr>))"
proof -
  have "parse_options e True ((''+signature='' @ f) # as) =
      bind (do_option e Opt_signature (Some f)) (\<lambda>_. parse_options e True as)" for as
    by (simp add: starts_with_def plus_option_def)
  moreover have "parse_options e True (''+permissive'' # as) = parse_options e False as"
    "parse_options e False (''+permissive-off'' # as) = parse_options e True as" for as
    by (simp_all add: starts_with_def plus_option_def)
  moreover have "parse_options e True (binary # args) = ret (binary # args)"
    by (rule parse_plain [OF assms(2)])
  ultimately show ?thesis
    using assms(1,3)
    by (simp add: parse_arguments_def parse_permissive do_option_def run_simps del: parse_options.simps)
qed

theorem parse_arguments_binary_witness:
  "parse_arguments toy_env [''+permissive'', ''x'', ''y'', ''+permissive-off'', ''prog'', ''--help''] (toy_htif\<lparr>targs := []\<rparr>) =
    Some (Inr ((), toy_htif\<lparr>targs := [''prog'', ''--help'']\<rparr>))"
  using parse_arguments_binary [of "toy_htif\<lparr>targs := []\<rparr>" "''prog''" "[''x'', ''y'']" toy_env "''''" "[''--help'']"]
  by (simp add: plain_arg_def del: parse_options.simps)

end
