(* ===== verification/Htif_Chunks.thy ===== *)
theory Htif_Chunks
  imports Hexwriter
begin

text \<open>
  \<open>htif_t::clear_chunk\<close> (\<open>tb/dpi/fesvr/htif.cc\<close>), which every subclass that does not
  override it has: it writes zeros in pieces of the largest chunk size. Over any provider of
  chunks it makes a provider that clears every range.
\<close>

partial_function (option) htif_clear_loop ::
    "'s chunked_memif \<Rightarrow> addr \<Rightarrow> nat \<Rightarrow> nat \<Rightarrow> 's \<Rightarrow> (exn + unit \<times> 's) option" where
  "htif_clear_loop c taddr len pos s =
     (if pos < len
      then (case write_chunk c (taddr + of_nat pos) (replicate (min (len - pos) (chunk_max_size c s)) 0) s of
          None \<Rightarrow> None
        | Some (Inl e) \<Rightarrow> Some (Inl e)
        | Some (Inr (_, s')) \<Rightarrow> htif_clear_loop c taddr len (pos + chunk_max_size c s') s')
      else Some (Inr ((), s)))"

definition htif_clear_chunk :: "'s chunked_memif \<Rightarrow> addr \<Rightarrow> nat \<Rightarrow> ('s, unit) prog" where
  "htif_clear_chunk c taddr len = htif_clear_loop c taddr len 0"

definition with_htif_clear :: "'s chunked_memif \<Rightarrow> 's chunked_memif" where
  "with_htif_clear c = c\<lparr>clear_chunk := htif_clear_chunk c\<rparr>"

lemma with_htif_clear_simps [simp]:
  "read_chunk (with_htif_clear c) = read_chunk c"
  "write_chunk (with_htif_clear c) = write_chunk c"
  "clear_chunk (with_htif_clear c) = htif_clear_chunk c"
  "chunk_align (with_htif_clear c) = chunk_align c"
  "chunk_max_size (with_htif_clear c) = chunk_max_size c"
  by (simp_all add: with_htif_clear_def)

lemma with_htif_clear_shape [simp]:
  "same_shape (with_htif_clear c) D = same_shape c D"
  "chunk_request (with_htif_clear c) = chunk_request c"
  by (intro ext; simp add: same_shape_def chunk_request_def)+

context chunked_memory
begin

lemma clear_loop_eq:
  assumes "inv s" and "chunk_align c s dvd unat a" and "chunk_align c s dvd n"
    and "chunk_align c s dvd pos" and "range_in a n (D s)" and "n < 2 ^ 64" and "mx = chunk_max_size c s"
  shows "htif_clear_loop c a n pos s = write_loop c mx a (replicate n 0) pos s"
  using assms
proof (induction "n - pos" arbitrary: pos s rule: less_induct)
  case less
  note prems = less.prems
  show ?case
  proof (cases "pos < n")
    case False
    then show ?thesis by (simp add: htif_clear_loop.simps [of c a n pos s] write_loop.simps [of c mx a _ pos s])
  next
    case True
    let ?al = "chunk_align c s" and ?x = "a + of_nat pos"
    let ?bs = "replicate (min mx (n - pos)) 0 :: byte list"
    obtain k where k: "k < 64" "?al = 2 ^ k" using align_pow2 prems(1) by blast
    have mx: "0 < mx" "?al dvd mx" using max_size prems(1,7) by auto
    have "?al dvd length ?bs" using mx prems(3,4) by (simp add: min_def)
    moreover have "?al dvd unat ?x"
      using dvd_unat_add [OF k(1), of a pos] prems(2,4) k(2) by simp
    ultimately have "chunk_request c s ?x (length ?bs)"
      using True mx prems(7) by (simp add: chunk_request_def)
    moreover have "range_in ?x (length ?bs) (D s)"
      by (rule range_in_sub [OF prems(5)]) (use True in simp)
    ultimately have "wp (write_chunk c ?x ?bs) (\<lambda>_. wrote s ?x ?bs) s"
      using write_law [OF prems(1)] prems(6) by simp
    then obtain u s' where run: "write_chunk c ?x ?bs s = Some (Inr (u, s'))" and w: "wrote s ?x ?bs s'"
      by (rule wpE)
    have shape: "chunk_max_size c s' = mx" "chunk_align c s' = ?al" "D s' = D s"
      using w prems(7) by (auto simp: same_shape_def)
    have "htif_clear_loop c a n (pos + mx) s' = write_loop c mx a (replicate n 0) (pos + mx) s'"
      using True mx w prems shape by (intro less.hyps) (auto intro: dvd_add)
    then show ?thesis
      using True run shape prems(7)
      by (simp add: htif_clear_loop.simps [of c a n pos s] write_loop.simps [of c "chunk_max_size c s" a _ pos s] min.commute)
  qed
qed

lemma wp_htif_clear:
  assumes "inv s" and "chunk_align c s dvd unat a" and "chunk_align c s dvd n"
    and "n < 2 ^ 64" and "range_in a n (D s)"
  shows "wp (htif_clear_chunk c a n) (\<lambda>_. wrote s a (replicate n 0)) s"
  using wp_write_loop [of s a "replicate n 0" 0 "chunk_max_size c s"] clear_loop_eq [of s a n 0] assms
  by (simp add: wp_def htif_clear_chunk_def)

lemma htif_clears: "clearing_memory (with_htif_clear c) view D inv"
proof unfold_locales
  show "inv s \<Longrightarrow> \<exists>k<64. chunk_align (with_htif_clear c) s = 2 ^ k" for s
    using align_pow2 by simp
  show "inv s \<Longrightarrow> 0 < chunk_max_size (with_htif_clear c) s \<and>
      chunk_align (with_htif_clear c) s dvd chunk_max_size (with_htif_clear c) s" for s
    using max_size by simp
  show "inv s \<Longrightarrow> a \<in> D s \<Longrightarrow> i < chunk_align (with_htif_clear c) s \<Longrightarrow>
      align_down a (chunk_align (with_htif_clear c) s) + of_nat i \<in> D s" for s a i
    using whole_chunks by simp
  show "inv s \<Longrightarrow> chunk_request (with_htif_clear c) s a n \<Longrightarrow> n < 2 ^ 64 \<Longrightarrow> range_in a n (D s) \<Longrightarrow>
      wp (read_chunk (with_htif_clear c) a n) (\<lambda>bs s'. bs = mem_read (view s) a n \<and>
        view s' = view s \<and> inv s' \<and> same_shape (with_htif_clear c) D s s') s" for s a n
    using read_law by simp
  show "inv s \<Longrightarrow> chunk_request (with_htif_clear c) s a (length bs) \<Longrightarrow> length bs < 2 ^ 64 \<Longrightarrow>
      range_in a (length bs) (D s) \<Longrightarrow>
      wp (write_chunk (with_htif_clear c) a bs) (\<lambda>_ s'. view s' = mem_write (view s) a bs \<and>
        inv s' \<and> same_shape (with_htif_clear c) D s s') s" for s a bs
    using write_law by simp
  show "inv s \<Longrightarrow> chunk_align (with_htif_clear c) s dvd unat a \<Longrightarrow> chunk_align (with_htif_clear c) s dvd n \<Longrightarrow>
      0 < n \<Longrightarrow> n < 2 ^ 64 \<Longrightarrow> range_in a n (D s) \<Longrightarrow> True \<Longrightarrow>
      wp (clear_chunk (with_htif_clear c) a n) (\<lambda>_ s'. view s' = mem_write (view s) a (replicate n 0) \<and>
        inv s' \<and> same_shape (with_htif_clear c) D s s') s" for s a n
    using wp_htif_clear by simp
qed simp

end

end
