(* ===== verification/Debug_Defines.thy ===== *)
theory Debug_Defines
  imports Prelude
begin

text \<open>
  The registers of the debug module, of the debug transport and of the trigger unit in
  \<open>tb/dpi/fesvr/debug_defines.h\<close>, and the macros \<open>get_field\<close> and
  \<open>set_field\<close> of \<open>dtm.cc\<close> that access their fields. A field is its name, its offset,
  its length and its mask before the shift. The header uses two names it does not define,
  \<open>XLEN\<close> (the width of a register) and \<open>abits\<close> (the width of a DMI address): the
  registers with such fields are functions of them. A mask of \<open>XLEN\<close> ones is
  \<open>(1L << XLEN) - 1\<close> there, which C leaves undefined at a width of 64; the table has the ones.
\<close>

section \<open>Fields of the registers\<close>













































section \<open>Addresses of the registers\<close>

definition debug_registers :: "(string \<times> u32) list" where
  "debug_registers =
    [(''DTM_IDCODE'', 0x01), (''DTM_DTMCS'', 0x10), (''DTM_DMI'', 0x11), (''CSR_DCSR'', 0x7b0),
     (''CSR_DPC'', 0x7b1), (''CSR_DSCRATCH0'', 0x7b2), (''CSR_DSCRATCH1'', 0x7b3),
     (''CSR_TSELECT'', 0x7a0), (''CSR_TDATA1'', 0x7a1), (''CSR_TDATA2'', 0x7a2),
     (''CSR_TDATA3'', 0x7a3), (''CSR_MCONTROL'', 0x7a1), (''CSR_ICOUNT'', 0x7a1),
     (''DMI_DMSTATUS'', 0x11), (''DMI_DMCONTROL'', 0x10), (''DMI_HARTINFO'', 0x12),
     (''DMI_HALTSUM'', 0x13), (''DMI_HAWINDOWSEL'', 0x14), (''DMI_HAWINDOW'', 0x15),
     (''DMI_ABSTRACTCS'', 0x16), (''DMI_COMMAND'', 0x17), (''DMI_ABSTRACTAUTO'', 0x18),
     (''DMI_CFGSTRADDR0'', 0x19), (''DMI_CFGSTRADDR1'', 0x1a), (''DMI_CFGSTRADDR2'', 0x1b),
     (''DMI_CFGSTRADDR3'', 0x1c), (''DMI_DATA0'', 0x04), (''DMI_DATA11'', 0x0f),
     (''DMI_PROGBUF0'', 0x20), (''DMI_PROGBUF15'', 0x2f), (''DMI_AUTHDATA'', 0x30),
     (''DMI_SERCS'', 0x34), (''DMI_SERTX'', 0x35), (''DMI_SERRX'', 0x36), (''DMI_SBCS'', 0x38),
     (''DMI_SBADDRESS0'', 0x39), (''DMI_SBADDRESS1'', 0x3a), (''DMI_SBADDRESS2'', 0x3b),
     (''DMI_SBDATA0'', 0x3c), (''DMI_SBDATA1'', 0x3d), (''DMI_SBDATA2'', 0x3e),
     (''DMI_SBDATA3'', 0x3f), (''TRACE'', 0x728), (''TBUFSTART'', 0x729), (''TBUFEND'', 0x72a),
     (''TBUFWRITE'', 0x72b), (''SHORTNAME'', 0x123)]"

text \<open>The registers and masks that \<open>dtm.cc\<close> uses.\<close>

definition DMI_DMSTATUS :: u32 where "DMI_DMSTATUS = 0x11"

definition DMI_DMSTATUS_ALLRESUMEACK :: u32 where "DMI_DMSTATUS_ALLRESUMEACK = push_bit 17 0x1"

definition DMI_DMSTATUS_ANYNONEXISTENT :: u32 where "DMI_DMSTATUS_ANYNONEXISTENT = push_bit 14 0x1"

definition DMI_DMSTATUS_ALLHALTED :: u32 where "DMI_DMSTATUS_ALLHALTED = push_bit 9 0x1"

definition DMI_DMCONTROL :: u32 where "DMI_DMCONTROL = 0x10"

definition DMI_DMCONTROL_HALTREQ :: u32 where "DMI_DMCONTROL_HALTREQ = push_bit 31 0x1"

definition DMI_DMCONTROL_RESUMEREQ :: u32 where "DMI_DMCONTROL_RESUMEREQ = push_bit 30 0x1"

definition DMI_DMCONTROL_HARTSEL :: u32 where "DMI_DMCONTROL_HARTSEL = push_bit 16 0x3ff"

definition DMI_DMCONTROL_DMACTIVE :: u32 where "DMI_DMCONTROL_DMACTIVE = push_bit 0 0x1"

definition DMI_HARTINFO :: u32 where "DMI_HARTINFO = 0x12"

definition DMI_HARTINFO_NSCRATCH :: u32 where "DMI_HARTINFO_NSCRATCH = push_bit 20 0xf"

definition DMI_HARTINFO_DATAACCESS :: u32 where "DMI_HARTINFO_DATAACCESS = push_bit 16 0x1"

definition DMI_HARTINFO_DATAADDR :: u32 where "DMI_HARTINFO_DATAADDR = push_bit 0 0xfff"

definition DMI_ABSTRACTCS :: u32 where "DMI_ABSTRACTCS = 0x16"

definition DMI_ABSTRACTCS_PROGSIZE :: u32 where "DMI_ABSTRACTCS_PROGSIZE = push_bit 24 0x1f"

definition DMI_ABSTRACTCS_BUSY :: u32 where "DMI_ABSTRACTCS_BUSY = push_bit 12 0x1"

definition DMI_ABSTRACTCS_CMDERR :: u32 where "DMI_ABSTRACTCS_CMDERR = push_bit 8 0x7"

definition DMI_ABSTRACTCS_DATACOUNT :: u32 where "DMI_ABSTRACTCS_DATACOUNT = push_bit 0 0x1f"

definition DMI_COMMAND :: u32 where "DMI_COMMAND = 0x17"

definition DMI_ABSTRACTAUTO :: u32 where "DMI_ABSTRACTAUTO = 0x18"

definition DMI_DATA0 :: u32 where "DMI_DATA0 = 0x04"

definition DMI_PROGBUF0 :: u32 where "DMI_PROGBUF0 = 0x20"

definition AC_ACCESS_REGISTER_POSTEXEC :: u32 where "AC_ACCESS_REGISTER_POSTEXEC = push_bit 18 0x1"

definition AC_ACCESS_REGISTER_TRANSFER :: u32 where "AC_ACCESS_REGISTER_TRANSFER = push_bit 17 0x1"

definition AC_ACCESS_REGISTER_WRITE :: u32 where "AC_ACCESS_REGISTER_WRITE = push_bit 16 0x1"

section \<open>Reading and writing a field\<close>

text \<open>The macros work at the type of their arguments.\<close>

definition get_field :: "'w::len word \<Rightarrow> 'w word \<Rightarrow> 'w word" where
  "get_field r mk = (r AND mk) div (mk AND NOT (push_bit 1 mk))"

definition set_field :: "'w::len word \<Rightarrow> 'w word \<Rightarrow> 'w word \<Rightarrow> 'w word" where
  "set_field r mk v = (r AND NOT mk) OR ((v * (mk AND NOT (push_bit 1 mk))) AND mk)"

definition field_mask :: "nat \<Rightarrow> nat \<Rightarrow> 'w::len word" where
  "field_mask off len = push_bit off (mask len)"

lemma lowest_of_field:
  assumes "0 < len"
  shows "field_mask off len AND NOT (push_bit 1 (field_mask off len)) = (push_bit off 1 :: 'w::len word)"
  using assms by (intro bit_word_eqI) (auto simp: field_mask_def bit_simps bit_double_word)

lemma get_field_eq:
  assumes "0 < len" and "off + len \<le> LENGTH('w)"
  shows "get_field (r :: 'w::len word) (field_mask off len) = take_bit len (drop_bit off r)"
proof -
  have "get_field r (field_mask off len) = drop_bit off (r AND field_mask off len)"
    unfolding get_field_def lowest_of_field [OF assms(1)]
    by (simp add: drop_bit_eq_div)
  also have "\<dots> = take_bit len (drop_bit off r)"
    using assms by (intro bit_word_eqI) (auto simp: field_mask_def bit_simps)
  finally show ?thesis .
qed

lemma set_field_bit:
  assumes "0 < len" and "off + len \<le> LENGTH('w)" and "n < LENGTH('w)"
  shows "bit (set_field r (field_mask off len) (v :: 'w::len word)) n =
    (if off \<le> n \<and> n < off + len then bit v (n - off) else bit r n)"
proof -
  have "v * push_bit off 1 = push_bit off v" by (simp add: push_bit_eq_mult)
  then show ?thesis
    unfolding set_field_def lowest_of_field [OF assms(1)]
    using assms by (auto simp: field_mask_def bit_simps)
qed

lemma bits_of_fields_apart:
  assumes "off + len \<le> off' \<or> off' + len' \<le> off" and "0 < len \<and> off + len \<le> LENGTH('w)" and "0 < len' \<and> off' + len' \<le> LENGTH('w)"
  shows "get_field (set_field (r :: 'w::len word) (field_mask off len) v) (field_mask off len) = take_bit len v \<and>
    get_field (set_field r (field_mask off len) v) (field_mask off' len') = get_field r (field_mask off' len')"
proof -
  have i: "0 < len" "off + len \<le> LENGTH('w)" and j: "0 < len'" "off' + len' \<le> LENGTH('w)" using assms by simp_all
  show ?thesis
    unfolding get_field_eq [OF i] get_field_eq [OF j]
    using assms by (intro conjI bit_word_eqI) (auto simp: bit_simps set_field_bit)
qed

text \<open>
  C32: reading a field that was written gives the low bits of the value, and every other field
  apart from it reads as before.
\<close>

theorem set_get_field:
  assumes "0 < len" and "off + len \<le> LENGTH('w)" and "0 < len'" and "off' + len' \<le> LENGTH('w)"
    and "off + len \<le> off' \<or> off' + len' \<le> off"
  shows "get_field (set_field (r :: 'w::len word) (field_mask off len) v) (field_mask off len) = take_bit len v \<and>
    get_field (set_field r (field_mask off len) v) (field_mask off' len') = get_field r (field_mask off' len')"
  using assms by (intro bits_of_fields_apart) simp_all

theorem set_get_field_witness:
  "get_field (set_field (0x80000001 :: u32) (field_mask 16 10) 5) (field_mask 16 10) = take_bit 10 5 \<and>
    get_field (set_field (0x80000001 :: u32) (field_mask 16 10) 5) (field_mask 31 1) = get_field 0x80000001 (field_mask 31 1)"
  by (rule set_get_field) simp_all

section \<open>The fields of a register\<close>















end
