(* ===== verification/Dtm.thy ===== *)
theory Dtm
  imports Htif_Chunks Debug_Defines
begin

text \<open>
  The debug transport (\<open>tb/dpi/fesvr/dtm.h\<close>, \<open>dtm.cc\<close>): it drives the debug module of
  the target over the DMI, one register access at a time, and moves memory by abstract commands
  and short programs for the halted hart. The target is a parameter: \<open>dmi\<close> answers a
  request with a response, or never (\<open>None\<close>).
\<close>

section \<open>Instruction words\<close>

definition RV_X :: "u32 \<Rightarrow> nat \<Rightarrow> nat \<Rightarrow> u32" where
  "RV_X x s n = drop_bit s x AND (push_bit n 1 - 1)"

definition ENCODE_ITYPE_IMM :: "u32 \<Rightarrow> u32" where
  "ENCODE_ITYPE_IMM x = push_bit 20 (RV_X x 0 12)"

definition ENCODE_STYPE_IMM :: "u32 \<Rightarrow> u32" where
  "ENCODE_STYPE_IMM x = push_bit 7 (RV_X x 0 5) OR push_bit 25 (RV_X x 5 7)"

definition ENCODE_SBTYPE_IMM :: "u32 \<Rightarrow> u32" where
  "ENCODE_SBTYPE_IMM x = push_bit 8 (RV_X x 1 4) OR push_bit 25 (RV_X x 5 6) OR
     push_bit 7 (RV_X x 11 1) OR push_bit 31 (RV_X x 12 1)"

definition ENCODE_UTYPE_IMM :: "u32 \<Rightarrow> u32" where
  "ENCODE_UTYPE_IMM x = push_bit 12 (RV_X x 12 20)"

definition ENCODE_UJTYPE_IMM :: "u32 \<Rightarrow> u32" where
  "ENCODE_UJTYPE_IMM x = push_bit 21 (RV_X x 1 10) OR push_bit 20 (RV_X x 11 1) OR
     push_bit 12 (RV_X x 12 8) OR push_bit 31 (RV_X x 20 1)"

definition LOAD :: "nat \<Rightarrow> u32 \<Rightarrow> u32 \<Rightarrow> u32 \<Rightarrow> u32" where
  "LOAD xl dst base imm = (if xl = 64 then 0x00003003 else 0x00002003) OR
     push_bit 7 dst OR push_bit 15 base OR ENCODE_ITYPE_IMM imm"

definition STORE :: "nat \<Rightarrow> u32 \<Rightarrow> u32 \<Rightarrow> u32 \<Rightarrow> u32" where
  "STORE xl src base imm = (if xl = 64 then 0x00003023 else 0x00002023) OR
     push_bit 20 src OR push_bit 15 base OR ENCODE_STYPE_IMM imm"

definition JUMP :: "u32 \<Rightarrow> u32 \<Rightarrow> u32" where
  "JUMP there here = 0x6F OR ENCODE_UJTYPE_IMM (there - here)"

definition BNE :: "u32 \<Rightarrow> u32 \<Rightarrow> u32 \<Rightarrow> u32 \<Rightarrow> u32" where
  "BNE r1 r2 there here =
     0x1063 OR push_bit 15 r1 OR push_bit 20 r2 OR ENCODE_SBTYPE_IMM (there - here)"

definition ADDI :: "u32 \<Rightarrow> u32 \<Rightarrow> u32 \<Rightarrow> u32" where
  "ADDI dst src imm = 0x13 OR push_bit 7 dst OR push_bit 15 src OR ENCODE_ITYPE_IMM imm"

definition SRL :: "u32 \<Rightarrow> u32 \<Rightarrow> u32 \<Rightarrow> u32" where
  "SRL dst src sh = 0x5033 OR push_bit 7 dst OR push_bit 15 src OR push_bit 20 sh"

definition CSRRx :: "u32 \<Rightarrow> u32 \<Rightarrow> u32 \<Rightarrow> u32 \<Rightarrow> u32" where
  "CSRRx type dst csr src = 0x73 OR push_bit 12 type OR push_bit 7 dst OR push_bit 15 src OR push_bit 20 csr"

definition FENCE_I :: u32 where "FENCE_I = 0x100F"

definition EBREAK :: u32 where "EBREAK = 0x00100073"

definition X0 :: u32 where "X0 = 0"

definition S0 :: u32 where "S0 = 8"

definition S1 :: u32 where "S1 = 9"

definition CSR_DSCRATCH :: u32 where "CSR_DSCRATCH = 0x7B2"

definition AC_AR_REGNO :: "u32 \<Rightarrow> u32" where
  "AC_AR_REGNO x = 0x1000 OR x"

definition AC_AR_SIZE :: "nat \<Rightarrow> u32" where
  "AC_AR_SIZE x = push_bit 20 (if x = 128 then 4 else if x = 64 then 3 else 2)"

definition CSR_WRITE :: u32 where "CSR_WRITE = 1"

definition CSR_SET :: u32 where "CSR_SET = 2"

definition CSR_CLEAR :: u32 where "CSR_CLEAR = 3"

section \<open>State and requests\<close>

type_synonym 'd dmi = "u32 \<Rightarrow> u32 \<Rightarrow> u32 \<Rightarrow> 'd \<Rightarrow> ((u32 \<times> u32) \<times> 'd) option"

record 'd dtm =
  dtm_target :: 'd
  xlen :: nat
  ram_words :: nat
  data_words :: nat
  data_base :: u32
  num_harts :: nat
  current_hart :: u32

text \<open>\<open>do_command\<close>: the response must not be an error.\<close>

definition do_command :: "'d dmi \<Rightarrow> u32 \<Rightarrow> u32 \<Rightarrow> u32 \<Rightarrow> ('d dtm, u32) prog" where
  "do_command dmi a op d = (\<lambda>s. case dmi a op d (dtm_target s) of
       None \<Rightarrow> None
     | Some ((resp, data), t) \<Rightarrow>
         if resp = 0 then Some (Inr (data, s\<lparr>dtm_target := t\<rparr>))
         else Some (Inl (Assert_Failed ''resp_buf.resp == 0'')))"

definition dtm_read :: "'d dmi \<Rightarrow> u32 \<Rightarrow> ('d dtm, u32) prog" where
  "dtm_read dmi a = do_command dmi a 1 0"

definition dtm_write :: "'d dmi \<Rightarrow> u32 \<Rightarrow> u32 \<Rightarrow> ('d dtm, u32) prog" where
  "dtm_write dmi a d = do_command dmi a 2 d"

definition dtm_nop :: "'d dmi \<Rightarrow> ('d dtm, u32) prog" where
  "dtm_nop dmi = do_command dmi 0 0 0"

text \<open>A loop \<open>do x = read(a); while (again(x))\<close>: the value that ends it.\<close>

partial_function (option) read_until ::
    "'d dmi \<Rightarrow> u32 \<Rightarrow> (u32 \<Rightarrow> bool) \<Rightarrow> 'd dtm \<Rightarrow> (exn + u32 \<times> 'd dtm) option" where
  "read_until dmi a stop_at s =
     (case dtm_read dmi a s of
        None \<Rightarrow> None
      | Some (Inl e) \<Rightarrow> Some (Inl e)
      | Some (Inr (x, s')) \<Rightarrow>
          if stop_at x then Some (Inr (x, s')) else read_until dmi a stop_at s')"

section \<open>Harts\<close>

definition select_hart :: "'d dmi \<Rightarrow> u32 \<Rightarrow> ('d dtm, unit) prog" where
  "select_hart dmi hartsel =
     bind (dtm_read dmi DMI_DMCONTROL) (\<lambda>dmcontrol.
     bind (dtm_write dmi DMI_DMCONTROL (set_field dmcontrol DMI_DMCONTROL_HARTSEL hartsel)) (\<lambda>_.
     modify (\<lambda>s. s\<lparr>current_hart := hartsel\<rparr>)))"

partial_function (option) enumerate_harts ::
    "'d dmi \<Rightarrow> nat \<Rightarrow> 'd dtm \<Rightarrow> (exn + nat \<times> 'd dtm) option" where
  "enumerate_harts dmi hartsel s =
     (case bind (select_hart dmi (of_nat hartsel)) (\<lambda>_. dtm_read dmi DMI_DMSTATUS) s of
        None \<Rightarrow> None
      | Some (Inl e) \<Rightarrow> Some (Inl e)
      | Some (Inr (dmstatus, s')) \<Rightarrow>
          if get_field dmstatus DMI_DMSTATUS_ANYNONEXISTENT \<noteq> 0 then Some (Inr (hartsel, s'))
          else enumerate_harts dmi (hartsel + 1) s')"

definition halt :: "'d dmi \<Rightarrow> u32 \<Rightarrow> ('d dtm, unit) prog" where
  "halt dmi hartsel =
     (let dmcontrol = set_field (DMI_DMCONTROL_HALTREQ OR DMI_DMCONTROL_DMACTIVE) DMI_DMCONTROL_HARTSEL hartsel in
      bind (dtm_write dmi DMI_DMCONTROL dmcontrol) (\<lambda>_.
      bind (read_until dmi DMI_DMSTATUS (\<lambda>d. get_field d DMI_DMSTATUS_ALLHALTED \<noteq> 0)) (\<lambda>_.
      bind (dtm_write dmi DMI_DMCONTROL (dmcontrol AND NOT DMI_DMCONTROL_HALTREQ)) (\<lambda>_.
      bind (dtm_read dmi DMI_DMSTATUS) (\<lambda>_.
      modify (\<lambda>s. s\<lparr>current_hart := hartsel\<rparr>))))))"

definition resume :: "'d dmi \<Rightarrow> u32 \<Rightarrow> ('d dtm, unit) prog" where
  "resume dmi hartsel =
     (let dmcontrol = set_field (DMI_DMCONTROL_RESUMEREQ OR DMI_DMCONTROL_DMACTIVE) DMI_DMCONTROL_HARTSEL hartsel in
      bind (dtm_write dmi DMI_DMCONTROL dmcontrol) (\<lambda>_.
      bind (read_until dmi DMI_DMSTATUS (\<lambda>d. get_field d DMI_DMSTATUS_ALLRESUMEACK \<noteq> 0)) (\<lambda>_.
      bind (dtm_write dmi DMI_DMCONTROL (dmcontrol AND NOT DMI_DMCONTROL_RESUMEREQ)) (\<lambda>_.
      bind (dtm_read dmi DMI_DMSTATUS) (\<lambda>_.
      modify (\<lambda>s. s\<lparr>current_hart := hartsel\<rparr>))))))"

section \<open>Abstract commands\<close>

text \<open>
  The loops over \<open>program\<close> and \<open>data\<close>: they write or read consecutive DMI registers.
\<close>

primrec write_regs :: "'d dmi \<Rightarrow> u32 \<Rightarrow> u32 list \<Rightarrow> ('d dtm, unit) prog" where
  "write_regs dmi a [] = ret ()"
| "write_regs dmi a (d # ds) = bind (dtm_write dmi a d) (\<lambda>_. write_regs dmi (a + 1) ds)"

primrec read_regs :: "'d dmi \<Rightarrow> u32 \<Rightarrow> nat \<Rightarrow> ('d dtm, u32 list) prog" where
  "read_regs dmi a 0 = ret []"
| "read_regs dmi a (Suc n) =
     bind (dtm_read dmi a) (\<lambda>d. bind (read_regs dmi (a + 1) n) (\<lambda>ds. ret (d # ds)))"

text \<open>The error code, and what the data array holds afterwards.\<close>

definition run_abstract_command ::
    "'d dmi \<Rightarrow> u32 \<Rightarrow> u32 list \<Rightarrow> u32 list \<Rightarrow> ('d dtm, u32 \<times> u32 list) prog" where
  "run_abstract_command dmi command program data =
     bind (gets (\<lambda>s. (ram_words s, data_words s))) (\<lambda>(ram, dat).
     bind (check (length program \<le> ram) (Assert_Failed ''program_n <= ram_words'')) (\<lambda>_.
     bind (check (length data \<le> dat) (Assert_Failed ''data_n <= data_words'')) (\<lambda>_.
     bind (write_regs dmi DMI_PROGBUF0 program) (\<lambda>_.
     bind (if get_field command AC_ACCESS_REGISTER_WRITE \<noteq> 0 \<and>
              get_field command AC_ACCESS_REGISTER_TRANSFER \<noteq> 0
           then write_regs dmi DMI_DATA0 data else ret ()) (\<lambda>_.
     bind (dtm_write dmi DMI_COMMAND command) (\<lambda>_.
     bind (read_until dmi DMI_ABSTRACTCS (\<lambda>d. d AND DMI_ABSTRACTCS_BUSY = 0)) (\<lambda>abstractcs.
     bind (if get_field command AC_ACCESS_REGISTER_WRITE = 0 \<and>
              get_field command AC_ACCESS_REGISTER_TRANSFER \<noteq> 0
           then read_regs dmi DMI_DATA0 (length data) else ret data) (\<lambda>data'.
     ret (get_field abstractcs DMI_ABSTRACTCS_CMDERR, data')))))))))"

text \<open>\<open>die\<close> reports the error and clears it; the code goes on.\<close>

definition dtm_die :: "'d dmi \<Rightarrow> u32 \<Rightarrow> ('d dtm, unit) prog" where
  "dtm_die dmi cmderr = bind (dtm_write dmi DMI_ABSTRACTCS DMI_ABSTRACTCS_CMDERR) (\<lambda>_. ret ())"

definition RUN_AC_OR_DIE :: "'d dmi \<Rightarrow> u32 \<Rightarrow> u32 list \<Rightarrow> u32 list \<Rightarrow> ('d dtm, u32 list) prog" where
  "RUN_AC_OR_DIE dmi command program data =
     bind (run_abstract_command dmi command program data) (\<lambda>(cmderr, data').
     bind (if cmderr \<noteq> 0 then dtm_die dmi cmderr else ret ()) (\<lambda>_. ret data'))"

text \<open>A word of the target in \<open>xlen / 32\<close> words of data, low word first.\<close>

definition to_data :: "nat \<Rightarrow> u64 \<Rightarrow> u32 list" where
  "to_data xl v = (if xl > 32 then [ucast v, ucast (drop_bit 32 v)] else [ucast v])"

definition of_data :: "nat \<Rightarrow> u32 list \<Rightarrow> u64" where
  "of_data xl data = (if xl > 32 then ucast (data ! 0) OR push_bit 32 (ucast (data ! 1)) else ucast (data ! 0))"

definition save_reg :: "'d dmi \<Rightarrow> u32 \<Rightarrow> ('d dtm, u64) prog" where
  "save_reg dmi regno =
     bind (gets xlen) (\<lambda>xl.
     bind (RUN_AC_OR_DIE dmi (AC_ACCESS_REGISTER_TRANSFER OR AC_AR_SIZE xl OR AC_AR_REGNO regno) []
       (replicate (xl div 32) 0)) (\<lambda>data.
     ret (of_data xl data)))"

definition restore_reg :: "'d dmi \<Rightarrow> u32 \<Rightarrow> u64 \<Rightarrow> ('d dtm, unit) prog" where
  "restore_reg dmi regno val =
     bind (gets xlen) (\<lambda>xl.
     bind (RUN_AC_OR_DIE dmi (AC_ACCESS_REGISTER_TRANSFER OR AC_ACCESS_REGISTER_WRITE OR AC_AR_SIZE xl OR
         AC_AR_REGNO regno) [] (to_data xl val)) (\<lambda>_.
     ret ()))"

section \<open>Memory\<close>

text \<open>The arrays of the transfer functions have the sizes the debug module reported.\<close>

definition arrays_fit :: "nat \<Rightarrow> nat \<Rightarrow> ('d dtm, unit) prog" where
  "arrays_fit program_n data_n =
     bind (gets (\<lambda>s. program_n \<le> ram_words s \<and> data_n \<le> data_words s)) (\<lambda>fits.
     check fits (Undefined ''array bounds''))"

definition data_bytes :: "nat \<Rightarrow> u32 list \<Rightarrow> byte list" where
  "data_bytes xl data = take (xl div 8) (concat (map (le_bytes 4) data))"

definition bytes_data :: "nat \<Rightarrow> byte list \<Rightarrow> u32 list" where
  "bytes_data xl bs = map (\<lambda>i. le_word (take 4 (drop (4 * i) bs))) [0..<xl div 32]"

primrec read_words :: "'d dmi \<Rightarrow> nat \<Rightarrow> ('d dtm, byte list) prog" where
  "read_words dmi 0 = ret []"
| "read_words dmi (Suc n) =
     bind (gets xlen) (\<lambda>xl.
     bind (RUN_AC_OR_DIE dmi (AC_ACCESS_REGISTER_TRANSFER OR AC_AR_SIZE xl OR AC_AR_REGNO S1 OR
         (if n \<noteq> 0 then AC_ACCESS_REGISTER_POSTEXEC else 0)) [] (replicate (xl div 32) 0)) (\<lambda>data.
     bind (read_words dmi n) (\<lambda>rest.
     ret (data_bytes xl data @ rest))))"

definition dtm_read_chunk :: "'d dmi \<Rightarrow> addr \<Rightarrow> nat \<Rightarrow> ('d dtm, byte list) prog" where
  "dtm_read_chunk dmi taddr len =
     bind (gets (\<lambda>s. (xlen s, current_hart s))) (\<lambda>(xl, hart).
     bind (halt dmi hart) (\<lambda>_.
     bind (save_reg dmi S0) (\<lambda>s0.
     bind (save_reg dmi S1) (\<lambda>s1.
     bind (arrays_fit 3 (xl div 32)) (\<lambda>_.
     bind (RUN_AC_OR_DIE dmi (AC_ACCESS_REGISTER_TRANSFER OR AC_ACCESS_REGISTER_WRITE OR
         AC_ACCESS_REGISTER_POSTEXEC OR AC_AR_SIZE xl OR AC_AR_REGNO S0)
         [LOAD xl S1 S0 0, ADDI S0 S0 (of_nat (xl div 8)), EBREAK] (to_data xl taddr)) (\<lambda>_.
     bind (read_words dmi (len * 8 div xl)) (\<lambda>bs.
     bind (restore_reg dmi S0 s0) (\<lambda>_.
     bind (restore_reg dmi S1 s1) (\<lambda>_.
     bind (gets current_hart) (\<lambda>hart'.
     bind (resume dmi hart') (\<lambda>_. ret bs)))))))))))"

text \<open>
  The words after the first: writing \<open>data0\<close> runs the command again, once
  \<open>abstractauto\<close> is set.
\<close>

primrec write_words :: "'d dmi \<Rightarrow> nat \<Rightarrow> byte list \<Rightarrow> ('d dtm, unit) prog" where
  "write_words dmi 0 bs = ret ()"
| "write_words dmi (Suc n) bs =
     bind (gets xlen) (\<lambda>xl.
     let data = bytes_data xl (take (xl div 8) bs) in
     bind (if xl = 64 then dtm_write dmi (DMI_DATA0 + 1) (data ! 1) else ret 0) (\<lambda>_.
     bind (dtm_write dmi DMI_DATA0 (data ! 0)) (\<lambda>_.
     bind (read_until dmi DMI_ABSTRACTCS (\<lambda>d. d AND DMI_ABSTRACTCS_BUSY = 0)) (\<lambda>abstractcs.
     bind (if get_field abstractcs DMI_ABSTRACTCS_CMDERR \<noteq> 0
           then dtm_die dmi (get_field abstractcs DMI_ABSTRACTCS_CMDERR) else ret ()) (\<lambda>_.
     write_words dmi n (drop (xl div 8) bs))))))"

definition dtm_write_chunk :: "'d dmi \<Rightarrow> addr \<Rightarrow> byte list \<Rightarrow> ('d dtm, unit) prog" where
  "dtm_write_chunk dmi taddr bs =
     bind (gets (\<lambda>s. (xlen s, current_hart s))) (\<lambda>(xl, hart).
     bind (halt dmi hart) (\<lambda>_.
     bind (save_reg dmi S0) (\<lambda>s0.
     bind (save_reg dmi S1) (\<lambda>s1.
     bind (arrays_fit 3 (xl div 32)) (\<lambda>_.
     bind (RUN_AC_OR_DIE dmi (AC_ACCESS_REGISTER_TRANSFER OR AC_ACCESS_REGISTER_WRITE OR AC_AR_SIZE xl OR
         AC_AR_REGNO S0) [STORE xl S1 S0 0, ADDI S0 S0 (of_nat (xl div 8)), EBREAK] (to_data xl taddr)) (\<lambda>_.
     bind (RUN_AC_OR_DIE dmi (AC_ACCESS_REGISTER_TRANSFER OR AC_ACCESS_REGISTER_POSTEXEC OR
         AC_ACCESS_REGISTER_WRITE OR AC_AR_SIZE xl OR AC_AR_REGNO S1) []
         (bytes_data xl (take (xl div 8) bs))) (\<lambda>_.
     let n = length bs * 8 div xl in
     bind (if n > 1 then
         bind (dtm_write dmi DMI_ABSTRACTAUTO 1) (\<lambda>_.
         bind (write_words dmi (n - 1) (drop (xl div 8) bs)) (\<lambda>_.
         bind (dtm_write dmi DMI_ABSTRACTAUTO 0) (\<lambda>_. ret ())))
       else ret ()) (\<lambda>_.
     bind (restore_reg dmi S0 s0) (\<lambda>_.
     bind (restore_reg dmi S1 s1) (\<lambda>_.
     bind (gets current_hart) (resume dmi)))))))))))"

definition dtm_clear_chunk :: "'d dmi \<Rightarrow> addr \<Rightarrow> nat \<Rightarrow> ('d dtm, unit) prog" where
  "dtm_clear_chunk dmi taddr len =
     bind (gets (\<lambda>s. (xlen s, current_hart s))) (\<lambda>(xl, hart).
     bind (halt dmi hart) (\<lambda>_.
     bind (save_reg dmi S0) (\<lambda>s0.
     bind (save_reg dmi S1) (\<lambda>s1.
     bind (arrays_fit 4 2) (\<lambda>_.
     bind (RUN_AC_OR_DIE dmi (AC_ACCESS_REGISTER_TRANSFER OR AC_ACCESS_REGISTER_WRITE OR AC_AR_SIZE xl OR
         AC_AR_REGNO S0) [] (take (xl div 32) (to_data 64 taddr))) (\<lambda>_.
     bind (RUN_AC_OR_DIE dmi (AC_ACCESS_REGISTER_TRANSFER OR AC_ACCESS_REGISTER_WRITE OR AC_AR_SIZE xl OR
         AC_AR_REGNO S1 OR AC_ACCESS_REGISTER_POSTEXEC)
         [STORE xl X0 S0 0, ADDI S0 S0 (of_nat (xl div 8)), BNE S0 S1 (0 * 4) (2 * 4), EBREAK]
         (take (xl div 32) (to_data 64 (taddr + of_nat len)))) (\<lambda>_.
     bind (restore_reg dmi S0 s0) (\<lambda>_.
     bind (restore_reg dmi S1 s1) (\<lambda>_.
     bind (gets current_hart) (resume dmi))))))))))"

definition dtm_chunks :: "'d dmi \<Rightarrow> 'd dtm chunked_memif" where
  "dtm_chunks dmi = \<lparr>read_chunk = dtm_read_chunk dmi, write_chunk = dtm_write_chunk dmi,
     clear_chunk = dtm_clear_chunk dmi, chunk_align = (\<lambda>s. xlen s div 8), chunk_max_size = (\<lambda>s. 4096)\<rparr>"

section \<open>Control and status registers\<close>

definition modify_csr :: "'d dmi \<Rightarrow> u32 \<Rightarrow> u64 \<Rightarrow> u32 \<Rightarrow> ('d dtm, u64) prog" where
  "modify_csr dmi which data type =
     bind (gets (\<lambda>s. (xlen s, current_hart s))) (\<lambda>(xl, hart).
     bind (halt dmi hart) (\<lambda>_.
     bind (gets data_base) (\<lambda>db.
     bind (RUN_AC_OR_DIE dmi (AC_ACCESS_REGISTER_POSTEXEC OR AC_ACCESS_REGISTER_TRANSFER OR
         AC_ACCESS_REGISTER_WRITE OR AC_AR_SIZE xl OR AC_AR_REGNO X0)
         [CSRRx CSR_WRITE S0 CSR_DSCRATCH S0, LOAD xl S0 X0 db, CSRRx type S0 which S0,
          STORE xl S0 X0 db, CSRRx CSR_WRITE S0 CSR_DSCRATCH S0, EBREAK]
         (take (xl div 32) (to_data 64 data))) (\<lambda>_.
     bind (dtm_read dmi DMI_DATA0) (\<lambda>lo.
     bind (if xl = 64 then dtm_read dmi (DMI_DATA0 + 1) else ret 0) (\<lambda>hi.
     bind (gets current_hart) (\<lambda>hart'.
     bind (resume dmi hart') (\<lambda>_.
     ret (ucast lo OR ucast hi)))))))))"

definition write_csr :: "'d dmi \<Rightarrow> u32 \<Rightarrow> u64 \<Rightarrow> ('d dtm, u64) prog" where
  "write_csr dmi which data = modify_csr dmi which data CSR_WRITE"

definition set_csr :: "'d dmi \<Rightarrow> u32 \<Rightarrow> u64 \<Rightarrow> ('d dtm, u64) prog" where
  "set_csr dmi which data = modify_csr dmi which data CSR_SET"

definition clear_csr :: "'d dmi \<Rightarrow> u32 \<Rightarrow> u64 \<Rightarrow> ('d dtm, u64) prog" where
  "clear_csr dmi which data = modify_csr dmi which data CSR_CLEAR"

definition read_csr :: "'d dmi \<Rightarrow> u32 \<Rightarrow> ('d dtm, u64) prog" where
  "read_csr dmi which = set_csr dmi which 0"

definition fence_i :: "'d dmi \<Rightarrow> ('d dtm, unit) prog" where
  "fence_i dmi =
     bind (gets (\<lambda>s. (xlen s, current_hart s))) (\<lambda>(xl, hart).
     bind (halt dmi hart) (\<lambda>_.
     bind (RUN_AC_OR_DIE dmi (AC_ACCESS_REGISTER_POSTEXEC OR AC_ACCESS_REGISTER_TRANSFER OR
         AC_ACCESS_REGISTER_WRITE OR AC_AR_SIZE xl OR AC_AR_REGNO X0) [FENCE_I, EBREAK] []) (\<lambda>_.
     bind (gets current_hart) (resume dmi))))"

section \<open>The thread\<close>

definition get_xlen :: "'d dmi \<Rightarrow> ('d dtm, nat) prog" where
  "get_xlen dmi =
     (let command = AC_ACCESS_REGISTER_TRANSFER OR AC_AR_REGNO S0;
          try_size = (\<lambda>n. run_abstract_command dmi (command OR AC_AR_SIZE n) [] []) in
      bind (try_size 128) (\<lambda>(cmderr128, _).
      if cmderr128 = 0 then raise (Runtime_Error ''FESVR DTM Does not support 128-bit'')
      else
        bind (dtm_write dmi DMI_ABSTRACTCS DMI_ABSTRACTCS_CMDERR) (\<lambda>_.
        bind (try_size 64) (\<lambda>(cmderr64, _).
        if cmderr64 = 0 then ret 64
        else
          bind (dtm_write dmi DMI_ABSTRACTCS DMI_ABSTRACTCS_CMDERR) (\<lambda>_.
          bind (try_size 32) (\<lambda>(cmderr32, _).
          if cmderr32 = 0 then ret 32
          else raise (Runtime_Error ''FESVR DTM can't determine XLEN. Aborting'')))))))"

definition dtm_reset :: "'d dmi \<Rightarrow> u64 \<Rightarrow> ('d dtm, unit) prog" where
  "dtm_reset dmi entry_point =
     bind (gets num_harts) (\<lambda>n.
     bind (for_each [0..<n] (\<lambda>hartsel.
         bind (select_hart dmi (of_nat hartsel)) (\<lambda>_.
         bind (fence_i dmi) (\<lambda>_.
         bind (write_csr dmi 0x7B1 entry_point) (\<lambda>_. ret ()))))) (\<lambda>_.
     bind (select_hart dmi 0) (\<lambda>_.
     bind (dtm_read dmi DMI_DMSTATUS) (\<lambda>_. ret ()))))"

definition dtm_idle :: "'d dmi \<Rightarrow> ('d dtm, unit) prog" where
  "dtm_idle dmi = for_each [0..<10000] (\<lambda>_. bind (dtm_nop dmi) (\<lambda>_. ret ()))"

text \<open>The part of \<open>producer_thread\<close> before \<open>htif_t::run\<close>.\<close>

definition producer_setup :: "'d dmi \<Rightarrow> ('d dtm, unit) prog" where
  "producer_setup dmi =
     bind (dtm_read dmi DMI_ABSTRACTCS) (\<lambda>abstractcs.
     bind (modify (\<lambda>s. s\<lparr>ram_words := unat (get_field abstractcs DMI_ABSTRACTCS_PROGSIZE),
                         data_words := unat (get_field abstractcs DMI_ABSTRACTCS_DATACOUNT)\<rparr>)) (\<lambda>_.
     bind (dtm_read dmi DMI_HARTINFO) (\<lambda>hartinfo.
     bind (check (get_field hartinfo DMI_HARTINFO_NSCRATCH > 0) (Assert_Failed ''nscratch > 0'')) (\<lambda>_.
     bind (check (get_field hartinfo DMI_HARTINFO_DATAACCESS \<noteq> 0) (Assert_Failed ''dataaccess'')) (\<lambda>_.
     bind (modify (\<lambda>s. s\<lparr>data_base := get_field hartinfo DMI_HARTINFO_DATAADDR\<rparr>)) (\<lambda>_.
     bind (dtm_write dmi DMI_DMCONTROL DMI_DMCONTROL_DMACTIVE) (\<lambda>_.
     bind (enumerate_harts dmi 0) (\<lambda>n.
     bind (modify (\<lambda>s. s\<lparr>num_harts := n\<rparr>)) (\<lambda>_.
     bind (halt dmi 0) (\<lambda>_.
     bind (get_xlen dmi) (\<lambda>xl.
     bind (modify (\<lambda>s. s\<lparr>xlen := xl\<rparr>)) (\<lambda>_.
     resume dmi 0))))))))))))"

section \<open>The handshake with the simulation\<close>

text \<open>
  The simulation calls \<open>tick\<close> once per clock cycle with the ready and valid lines of the DMI.
  The host thread runs only while a response is delivered: it is a function from the response
  (the pair of \<open>resp\<close> and \<open>data\<close>) to its next request, over a state of its own.
\<close>

record req =
  req_addr :: u32
  req_op :: u32
  req_data :: u32

type_synonym 'h host_thread = "u32 \<times> u32 \<Rightarrow> 'h \<Rightarrow> req \<times> 'h"

record 'h handshake =
  req_wait :: bool
  resp_wait :: bool
  req_buf :: req
  resp_buf :: "u32 \<times> u32"
  thread :: 'h

text \<open>\<open>start_host_thread\<close>: the thread runs up to its first request, \<open>r\<close>.\<close>

definition start_host_thread :: "req \<Rightarrow> 'h \<Rightarrow> 'h handshake" where
  "start_host_thread r h =
     \<lparr>req_wait = False, resp_wait = False, req_buf = r, resp_buf = (0, 0), thread = h\<rparr>"

definition return_resp :: "'h host_thread \<Rightarrow> u32 \<times> u32 \<Rightarrow> ('h handshake, unit) prog" where
  "return_resp host resp_bits =
     modify (\<lambda>s. case host resp_bits (thread s) of
       (r, h) \<Rightarrow> s\<lparr>resp_buf := resp_bits, req_buf := r, thread := h\<rparr>)"

definition dtm_tick ::
    "'h host_thread \<Rightarrow> bool \<Rightarrow> bool \<Rightarrow> u32 \<times> u32 \<Rightarrow> ('h handshake, unit) prog" where
  "dtm_tick host req_ready resp_valid resp_bits =
     bind (modify (\<lambda>s.
       if \<not> resp_wait s then
         (if \<not> req_wait s then s\<lparr>req_wait := True\<rparr>
          else if req_ready then s\<lparr>req_wait := False, resp_wait := True\<rparr> else s)
       else s)) (\<lambda>_.
     if resp_valid then
       bind (gets resp_wait) (\<lambda>w.
       bind (check w (Assert_Failed ''resp_wait'')) (\<lambda>_.
       bind (modify (\<lambda>s. s\<lparr>resp_wait := False\<rparr>)) (\<lambda>_.
       return_resp host resp_bits)))
     else ret ())"

text \<open>
  What the simulation sees: the requests it accepted (it was ready while one was valid) and the
  responses it delivered, tick by tick.
\<close>

definition accepts :: "bool \<Rightarrow> 'h handshake \<Rightarrow> bool" where
  "accepts req_ready s \<longleftrightarrow> \<not> resp_wait s \<and> req_wait s \<and> req_ready"

inductive tick_step :: "'h host_thread \<Rightarrow> 'h handshake \<times> req list \<times> (u32 \<times> u32) list \<Rightarrow>
    'h handshake \<times> req list \<times> (u32 \<times> u32) list \<Rightarrow> bool" for host where
  tick: "dtm_tick host req_ready resp_valid bits s = Some (Inr ((), s')) \<Longrightarrow>
     tick_step host (s, reqs, resps)
       (s', reqs @ (if accepts req_ready s then [req_buf s] else []),
        resps @ (if resp_valid then [bits] else []))"

inductive_cases tick_stepE: "tick_step host (s, reqs, resps) t"

text \<open>The requests of the thread on its own, and its state, given the responses it receives.\<close>

primrec thread_requests :: "'h host_thread \<Rightarrow> req \<Rightarrow> 'h \<Rightarrow> (u32 \<times> u32) list \<Rightarrow> req list" where
  "thread_requests host r h [] = [r]"
| "thread_requests host r h (x # xs) =
     r # (case host x h of (r', h') \<Rightarrow> thread_requests host r' h' xs)"

primrec thread_after :: "'h host_thread \<Rightarrow> req \<Rightarrow> 'h \<Rightarrow> (u32 \<times> u32) list \<Rightarrow> req \<times> 'h" where
  "thread_after host r h [] = (r, h)"
| "thread_after host r h (x # xs) = (case host x h of (r', h') \<Rightarrow> thread_after host r' h' xs)"

lemma thread_after_append:
  "thread_after host r h (xs @ [x]) = (case thread_after host r h xs of (r', h') \<Rightarrow> host x h')"
  by (induction xs arbitrary: r h) (auto split: prod.splits)

lemma thread_requests_append:
  "thread_requests host r h (xs @ [x]) =
     thread_requests host r h xs @ [fst (thread_after host r h (xs @ [x]))]"
  by (induction xs arbitrary: r h) (auto split: prod.splits)

lemma last_thread_requests: "last (thread_requests host r h xs) = fst (thread_after host r h xs)"
proof (induction xs arbitrary: r h)
  case (Cons x xs)
  have "thread_requests host r' h' xs \<noteq> []" for r' h' by (cases xs) simp_all
  then show ?case by (auto simp: Cons split: prod.splits)
qed simp

lemma length_thread_requests: "length (thread_requests host r h xs) = Suc (length xs)"
  by (induction xs arbitrary: r h) (auto split: prod.splits)

lemma thread_requests_butlast:
  "butlast (thread_requests host r h xs) @ [fst (thread_after host r h xs)] = thread_requests host r h xs"
proof -
  have "thread_requests host r h xs \<noteq> []" by (cases xs) simp_all
  then show ?thesis by (simp flip: last_thread_requests)
qed

text \<open>
  The invariant: a request is valid or a response is awaited, never both; while one is awaited
  every request of the thread has been accepted, otherwise all but the last.
\<close>

definition tick_inv :: "'h host_thread \<Rightarrow> req \<Rightarrow> 'h \<Rightarrow> 'h handshake \<times> req list \<times> (u32 \<times> u32) list \<Rightarrow> bool" where
  "tick_inv host r h = (\<lambda>(s, reqs, resps).
     \<not> (req_wait s \<and> resp_wait s) \<and>
     (req_buf s, thread s) = thread_after host r h resps \<and>
     reqs = (if resp_wait s then thread_requests host r h resps
             else butlast (thread_requests host r h resps)))"

lemma tick_inv_step:
  assumes "tick_step host (s, reqs, resps) t" and "tick_inv host r h (s, reqs, resps)"
  shows "tick_inv host r h t"
  using assms(1)
proof (rule tick_stepE)
  fix req_ready resp_valid bits s'
  assume t: "t = (s', reqs @ (if accepts req_ready s then [req_buf s] else []),
      resps @ (if resp_valid then [bits] else []))"
    and run: "dtm_tick host req_ready resp_valid bits s = Some (Inr ((), s'))"
  have buf: "req_buf s = fst (thread_after host r h resps)" "thread s = snd (thread_after host r h resps)"
    using assms(2) by (auto simp: tick_inv_def split: prod.splits) (metis fst_conv snd_conv)+
  define reqs' where "reqs' = reqs @ (if accepts req_ready s then [req_buf s] else [])"
  have acc: "reqs' = (if resp_wait s \<or> accepts req_ready s then thread_requests host r h resps
      else butlast (thread_requests host r h resps))"
    using assms(2) buf thread_requests_butlast [of host r h resps]
    by (auto simp: tick_inv_def reqs'_def accepts_def)
  show "tick_inv host r h t"
    using run assms(2) buf acc thread_requests_butlast [of host r h resps]
    by (auto simp: t tick_inv_def dtm_tick_def return_resp_def run_simps accepts_def thread_after_append
      thread_requests_append butlast_append simp flip: reqs'_def split: if_splits prod.splits)
qed


lemma tick_inv_reachable:
  assumes "(tick_step host)\<^sup>*\<^sup>* (start_host_thread r h, [], []) t"
  shows "tick_inv host r h t"
  using assms
proof (induction rule: rtranclp_induct)
  case base
  then show ?case by (simp add: tick_inv_def start_host_thread_def)
next
  case (step u v)
  obtain s reqs resps where u: "u = (s, reqs, resps)" by (cases u)
  show ?case by (rule tick_inv_step) (use step u in simp_all)
qed

text \<open>
  C14: over any run of the simulation, the requests the debug module accepted are those the host
  thread issues one after the other for the responses delivered so far, in order, each once; at
  most the last of them is unanswered, and a valid request stays as it is until it is accepted.
\<close>

theorem tick_requests_in_order:
  assumes "(tick_step host)\<^sup>*\<^sup>* (start_host_thread r h, [], []) (s, reqs, resps)"
  shows "reqs = take (length reqs) (thread_requests host r h resps) \<and>
    length reqs = length resps + (if resp_wait s then 1 else 0) \<and>
    (resp_wait s \<or> req_buf s = thread_requests host r h resps ! length reqs)"
proof -
  have inv: "tick_inv host r h (s, reqs, resps)" by (rule tick_inv_reachable [OF assms])
  then have "reqs = take (length reqs) (thread_requests host r h resps)"
    by (auto simp: tick_inv_def length_thread_requests butlast_conv_take)
  moreover have len: "length reqs = length resps + (if resp_wait s then 1 else 0)"
    using inv by (auto simp: tick_inv_def length_thread_requests)
  moreover have "req_buf s = thread_requests host r h resps ! length reqs" if "\<not> resp_wait s"
  proof -
    have "thread_requests host r h resps \<noteq> []" by (cases resps) simp_all
    moreover have "thread_after host r h resps = (req_buf s, thread s)"
      using inv by (simp add: tick_inv_def)
    ultimately show ?thesis
      using that len last_thread_requests [of host r h resps]
      by (simp add: last_conv_nth length_thread_requests)
  qed
  ultimately show ?thesis by blast
qed

text \<open>A thread that reads the registers 0, 1, 2 and so on; the simulation answers the first.\<close>

definition example_thread :: "u32 host_thread" where
  "example_thread = (\<lambda>x a. (\<lparr>req_addr = a, req_op = 1, req_data = 0\<rparr>, a + 1))"

lemma example_ticks:
  "(tick_step example_thread)\<^sup>*\<^sup>* (start_host_thread \<lparr>req_addr = 0, req_op = 1, req_data = 0\<rparr> 1, [], [])
    (\<lparr>req_wait = False, resp_wait = False, req_buf = \<lparr>req_addr = 1, req_op = 1, req_data = 0\<rparr>,
      resp_buf = (0, 7), thread = 2\<rparr>, [\<lparr>req_addr = 0, req_op = 1, req_data = 0\<rparr>], [(0, 7)])"
proof -
  let ?r = "\<lambda>a :: u32. \<lparr>req_addr = a, req_op = 1, req_data = 0\<rparr>"
  let ?s = "\<lambda>w v. \<lparr>req_wait = w, resp_wait = v, req_buf = ?r 0, resp_buf = (0, 0), thread = 1 :: u32\<rparr>"
  have "tick_step example_thread (?s False False, [], []) (?s True False, [], [])"
    using tick_step.tick [of example_thread False False "(0, 0)" "?s False False" "?s True False" "[]" "[]"]
    by (simp add: dtm_tick_def run_simps accepts_def)
  moreover have "tick_step example_thread (?s True False, [], []) (?s False True, [?r 0], [])"
    using tick_step.tick [of example_thread True False "(0, 0)" "?s True False" "?s False True" "[]" "[]"]
    by (simp add: dtm_tick_def run_simps accepts_def)
  moreover have "tick_step example_thread (?s False True, [?r 0], [])
      (\<lparr>req_wait = False, resp_wait = False, req_buf = ?r 1, resp_buf = (0, 7), thread = 2\<rparr>, [?r 0], [(0, 7)])"
    using tick_step.tick [of example_thread False True "(0, 7)" "?s False True"
        "\<lparr>req_wait = False, resp_wait = False, req_buf = ?r 1, resp_buf = (0, 7), thread = 2\<rparr>" "[?r 0]" "[]"]
    by (simp add: dtm_tick_def return_resp_def example_thread_def run_simps accepts_def)
  ultimately show ?thesis
    unfolding start_host_thread_def by (meson rtranclp.rtrancl_refl rtranclp.rtrancl_into_rtrancl)
qed

lemma tick_requests_in_order_witness:
  "thread_requests example_thread \<lparr>req_addr = 0, req_op = 1, req_data = 0\<rparr> 1 [(0, 7)] ! 1 =
     \<lparr>req_addr = 1, req_op = 1, req_data = 0\<rparr>"
  using tick_requests_in_order [OF example_ticks] by simp

end
