(* ===== verification/Instructions.thy ===== *)
theory Instructions
  imports Dtm
begin

text \<open>
  The fields of a RISC-V instruction word, as the ISA manual defines them, and what they hold in
  the words that the macros of \<open>dtm.cc\<close> build.
\<close>

section \<open>Fields\<close>

definition insn_rd :: "u32 \<Rightarrow> u32" where
  "insn_rd w = take_bit 5 (drop_bit 7 w)"

definition insn_rs1 :: "u32 \<Rightarrow> u32" where
  "insn_rs1 w = take_bit 5 (drop_bit 15 w)"

definition insn_rs2 :: "u32 \<Rightarrow> u32" where
  "insn_rs2 w = take_bit 5 (drop_bit 20 w)"

definition insn_csr :: "u32 \<Rightarrow> u32" where
  "insn_csr w = drop_bit 20 w"

definition imm_i :: "u32 \<Rightarrow> 12 word" where
  "imm_i w = ucast (drop_bit 20 w)"

definition imm_s :: "u32 \<Rightarrow> 12 word" where
  "imm_s w = ucast (take_bit 5 (drop_bit 7 w)) OR push_bit 5 (ucast (drop_bit 25 w))"

definition imm_b :: "u32 \<Rightarrow> 13 word" where
  "imm_b w = push_bit 1 (ucast (take_bit 4 (drop_bit 8 w))) OR push_bit 5 (ucast (take_bit 6 (drop_bit 25 w))) OR
     push_bit 11 (ucast (take_bit 1 (drop_bit 7 w))) OR push_bit 12 (ucast (drop_bit 31 w))"

definition imm_j :: "u32 \<Rightarrow> 21 word" where
  "imm_j w = push_bit 1 (ucast (take_bit 10 (drop_bit 21 w))) OR push_bit 11 (ucast (take_bit 1 (drop_bit 20 w))) OR
     push_bit 12 (ucast (take_bit 8 (drop_bit 12 w))) OR push_bit 20 (ucast (drop_bit 31 w))"

lemmas insn_fields = insn_rd_def insn_rs1_def insn_rs2_def insn_csr_def imm_i_def imm_s_def imm_b_def imm_j_def

section \<open>Words bit by bit\<close>

lemma RV_X_take: "RV_X x s n = take_bit n (drop_bit s x)"
  by (simp add: RV_X_def take_bit_eq_mask mask_eq_exp_minus_1 push_bit_eq_mult)

lemma reg_high: "d < (32 :: u32) \<Longrightarrow> 5 \<le> n \<Longrightarrow> \<not> bit d n"
proof
  assume "d < 32" "5 \<le> n" "bit d n"
  then have "take_bit 5 d = d" by (simp add: take_bit_eq_mod word_mod_less_divisor unat_arith_simps)
  then show False using \<open>5 \<le> n\<close> \<open>bit d n\<close> by (metis bit_take_bit_iff not_less)
qed

lemma csr_high: "c < (4096 :: u32) \<Longrightarrow> 12 \<le> n \<Longrightarrow> \<not> bit c n"
proof
  assume "c < 4096" "12 \<le> n" "bit c n"
  then have "take_bit 12 c = c" by (simp add: take_bit_eq_mod word_mod_less_divisor unat_arith_simps)
  then show False using \<open>12 \<le> n\<close> \<open>bit c n\<close> by (metis bit_take_bit_iff not_less)
qed

lemma type_high: "t < (8 :: u32) \<Longrightarrow> 3 \<le> n \<Longrightarrow> \<not> bit t n"
proof
  assume "t < 8" "3 \<le> n" "bit t n"
  then have "take_bit 3 t = t" by (simp add: take_bit_eq_mod word_mod_less_divisor unat_arith_simps)
  then show False using \<open>3 \<le> n\<close> \<open>bit t n\<close> by (metis bit_take_bit_iff not_less)
qed

lemma bits32:
  "list_all (\<lambda>n. bit a n = bit (b :: u32) n)
     [0,1,2,3,4,5,6,7,8,9,10,11,12,13,14,15,16,17,18,19,20,21,22,23,24,25,26,27,28,29,30,31] \<Longrightarrow> a = b"
  by (rule bit_word_eqI) (auto simp: less_Suc_eq eval_nat_numeral)

lemma bits21:
  "list_all (\<lambda>n. bit a n = bit (b :: 21 word) n) [0,1,2,3,4,5,6,7,8,9,10,11,12,13,14,15,16,17,18,19,20] \<Longrightarrow> a = b"
  by (rule bit_word_eqI) (auto simp: less_Suc_eq eval_nat_numeral)

lemma bits13:
  "list_all (\<lambda>n. bit a n = bit (b :: 13 word) n) [0,1,2,3,4,5,6,7,8,9,10,11,12] \<Longrightarrow> a = b"
  by (rule bit_word_eqI) (auto simp: less_Suc_eq eval_nat_numeral)

lemma bits12:
  "list_all (\<lambda>n. bit a n = bit (b :: 12 word) n) [0,1,2,3,4,5,6,7,8,9,10,11] \<Longrightarrow> a = b"
  by (rule bit_word_eqI) (auto simp: less_Suc_eq eval_nat_numeral)

section \<open>The encoders\<close>

lemmas encoder_defs = LOAD_def STORE_def BNE_def ADDI_def SRL_def JUMP_def CSRRx_def
  ENCODE_ITYPE_IMM_def ENCODE_STYPE_IMM_def ENCODE_SBTYPE_IMM_def ENCODE_UJTYPE_IMM_def RV_X_take

lemmas encoder_bits = bit_simps reg_high csr_high type_high

lemma LOAD_fields:
  assumes "d < 32" and "b < 32"
  shows "LOAD xl d b i AND 0x707F = (if xl = 64 then 0x3003 else 0x2003)"
    and "insn_rd (LOAD xl d b i) = d" and "insn_rs1 (LOAD xl d b i) = b"
    and "imm_i (LOAD xl d b i) = ucast i"
  unfolding encoder_defs insn_fields
  by (-, (rule bits32 bits12, simp add: encoder_bits assms)+)

lemma STORE_fields:
  assumes "r < 32" and "b < 32"
  shows "STORE xl r b i AND 0x707F = (if xl = 64 then 0x3023 else 0x2023)"
    and "insn_rs2 (STORE xl r b i) = r" and "insn_rs1 (STORE xl r b i) = b"
    and "imm_s (STORE xl r b i) = ucast i"
  unfolding encoder_defs insn_fields
  by (-, (rule bits32 bits12, simp add: encoder_bits assms)+)

lemma ADDI_fields:
  assumes "d < 32" and "b < 32"
  shows "ADDI d b i AND 0x707F = 0x13"
    and "insn_rd (ADDI d b i) = d" and "insn_rs1 (ADDI d b i) = b" and "imm_i (ADDI d b i) = ucast i"
  unfolding encoder_defs insn_fields
  by (-, (rule bits32 bits12, simp add: encoder_bits assms)+)

lemma SRL_fields:
  assumes "d < 32" and "b < 32" and "r < 32"
  shows "SRL d b r AND 0xFE00707F = 0x5033"
    and "insn_rd (SRL d b r) = d" and "insn_rs1 (SRL d b r) = b" and "insn_rs2 (SRL d b r) = r"
  unfolding encoder_defs insn_fields
  by (-, (rule bits32, simp add: encoder_bits assms)+)

lemma CSRRx_fields:
  assumes "t < 8" and "d < 32" and "c < 4096" and "r < 32"
  shows "CSRRx t d c r AND 0x707F = 0x73 OR push_bit 12 t"
    and "insn_rd (CSRRx t d c r) = d" and "insn_rs1 (CSRRx t d c r) = r" and "insn_csr (CSRRx t d c r) = c"
  unfolding encoder_defs insn_fields
  by (-, (rule bits32, simp add: encoder_bits assms)+)

lemma BNE_fields:
  assumes "a < 32" and "b < 32"
  shows "BNE a b there here AND 0x707F = 0x1063"
    and "insn_rs1 (BNE a b there here) = a" and "insn_rs2 (BNE a b there here) = b"
  unfolding encoder_defs insn_fields
  by (-, (rule bits32, simp add: encoder_bits assms)+)

lemma BNE_offset:
  assumes "a < 32" and "b < 32" and "\<not> bit (there - here) 0"
  shows "imm_b (BNE a b there here) = ucast (there - here)"
  unfolding encoder_defs insn_fields using assms
  by (intro bits13) (simp add: encoder_bits bit_double_word numeral_2_eq_2 [symmetric] flip: bit_iff_odd_drop_bit)

lemma JUMP_fields:
  shows "JUMP there here AND 0x7F = 0x6F" and "insn_rd (JUMP there here) = 0"
  unfolding encoder_defs insn_fields by (-, (rule bits32, simp add: encoder_bits)+)

lemma JUMP_offset:
  assumes "\<not> bit (there - here) 0"
  shows "imm_j (JUMP there here) = ucast (there - here)"
  unfolding encoder_defs insn_fields using assms
  by (intro bits21) (simp add: encoder_bits bit_double_word numeral_2_eq_2 [symmetric] flip: bit_iff_odd_drop_bit)

end
