(* ===== verification/Debug_Module.thy ===== *)
theory Debug_Module
  imports Instructions
begin

text \<open>
  The target the debug transport is checked against: a debug module with one 64-bit hart, as the
  RISC-V debug specification describes it, with the parameters of this repository's hardware
  (\<open>debug/dm_pkg.sv\<close>: six program words, two data words, the data at address
  \<open>0x380\<close>). It answers DMI requests one by one; the hart works on what it was asked for
  between them, for as many requests as a latency says. The program the hart runs on its own
  while it is not halted is left out.
\<close>

section \<open>State\<close>

record dm =
  dm_control :: u32
  dm_cmderr :: u32
  dm_command :: u32
  dm_auto :: u32
  dm_progbuf :: "u32 list"
  dm_data :: "u32 list"
  dm_halted :: bool
  dm_resumeack :: bool
  dm_busy :: bool
  dm_count :: nat
  dm_regs :: "u32 \<Rightarrow> u64"
  dm_csrs :: "u32 \<Rightarrow> u64"
  dm_mem :: mem

definition DM_PROGBUF_SIZE :: nat where "DM_PROGBUF_SIZE = 6"

definition DM_DATA_COUNT :: nat where "DM_DATA_COUNT = 2"

definition DM_DATA_ADDR :: u64 where "DM_DATA_ADDR = 0x380"

section \<open>The hart\<close>

definition get_reg :: "dm \<Rightarrow> u32 \<Rightarrow> u64" where
  "get_reg t r = (if r = 0 then 0 else dm_regs t r)"

definition set_reg :: "u32 \<Rightarrow> u64 \<Rightarrow> dm \<Rightarrow> dm" where
  "set_reg r v t = (if r = 0 then t else t\<lparr>dm_regs := (dm_regs t)(r := v)\<rparr>)"

text \<open>The data registers are memory of the hart, too.\<close>

definition in_data :: "u64 \<Rightarrow> nat \<Rightarrow> bool" where
  "in_data a n \<longleftrightarrow> DM_DATA_ADDR \<le> a \<and> unat (a - DM_DATA_ADDR) + n \<le> 4 * DM_DATA_COUNT"

definition hart_load :: "dm \<Rightarrow> u64 \<Rightarrow> nat \<Rightarrow> byte list" where
  "hart_load t a n =
     (if in_data a n then take n (drop (unat (a - DM_DATA_ADDR)) (concat (map (le_bytes 4) (dm_data t))))
      else mem_read (dm_mem t) a n)"

definition data_of_bytes :: "byte list \<Rightarrow> u32 list" where
  "data_of_bytes bs = [le_word (take 4 bs), le_word (take 4 (drop 4 bs))]"

definition hart_store :: "u64 \<Rightarrow> byte list \<Rightarrow> dm \<Rightarrow> dm" where
  "hart_store a bs t =
     (if in_data a (length bs)
      then let off = unat (a - DM_DATA_ADDR); old = concat (map (le_bytes 4) (dm_data t)) in
        t\<lparr>dm_data := data_of_bytes (take off old @ bs @ drop (off + length bs) old)\<rparr>
      else t\<lparr>dm_mem := mem_write (dm_mem t) a bs\<rparr>)"

text \<open>
  An abstract command as six instruction words in front of the program buffer; \<open>nop\<close> is
  \<open>addi x0, x0, 0\<close> and the word 0 is illegal.
\<close>

definition NOP :: u32 where "NOP = ADDI X0 X0 0"

definition ac_regno :: "u32 \<Rightarrow> u32" where "ac_regno c = take_bit 16 c"

definition ac_write :: "u32 \<Rightarrow> bool" where "ac_write c = bit c 16"

definition ac_transfer :: "u32 \<Rightarrow> bool" where "ac_transfer c = bit c 17"

definition ac_postexec :: "u32 \<Rightarrow> bool" where "ac_postexec c = bit c 18"

definition ac_size :: "u32 \<Rightarrow> u32" where "ac_size c = take_bit 3 (drop_bit 20 c)"

definition ac_type :: "u32 \<Rightarrow> u32" where "ac_type c = drop_bit 24 c"

definition transfer_word :: "u32 \<Rightarrow> u32" where
  "transfer_word c =
     (let r = ac_regno c; xl = (if ac_size c = 3 then 64 else 32) in
      if (ac_size c = 2 \<or> ac_size c = 3) \<and> 0x1000 \<le> r \<and> r < 0x1020
      then (if ac_write c then LOAD xl (r - 0x1000) X0 0x380 else STORE xl (r - 0x1000) X0 0x380)
      else 0)"

definition abstract_words :: "u32 \<Rightarrow> u32 list" where
  "abstract_words c = [transfer_word c, NOP, NOP, NOP, NOP, if ac_postexec c then NOP else EBREAK]"

definition hart_fetch :: "dm \<Rightarrow> nat \<Rightarrow> u32" where
  "hart_fetch t pc = (let ws = abstract_words (dm_command t) @ dm_progbuf t in
     if pc < length ws then ws ! pc else 0)"

datatype outcome = Goto nat dm | Parked dm | Trapped dm

definition csr_op :: "(u64 \<Rightarrow> u64 \<Rightarrow> u64) \<Rightarrow> u32 \<Rightarrow> dm \<Rightarrow> dm" where
  "csr_op f w t =
     (let c = insn_csr w; old = dm_csrs t c; a = get_reg t (insn_rs1 w) in
      set_reg (insn_rd w) old (t\<lparr>dm_csrs := (dm_csrs t)(c := f old a)\<rparr>))"

definition hart_step :: "u32 \<Rightarrow> nat \<Rightarrow> dm \<Rightarrow> outcome" where
  "hart_step w pc t =
     (let k = w AND 0x707F; a = get_reg t (insn_rs1 w); b = get_reg t (insn_rs2 w) in
      if k = 0x3003 then Goto (pc + 1) (set_reg (insn_rd w) (le_word (hart_load t (a + scast (imm_i w)) 8)) t)
      else if k = 0x2003 then
        Goto (pc + 1) (set_reg (insn_rd w) (scast (le_word (hart_load t (a + scast (imm_i w)) 4) :: u32)) t)
      else if k = 0x3023 then Goto (pc + 1) (hart_store (a + scast (imm_s w)) (le_bytes 8 b) t)
      else if k = 0x2023 then Goto (pc + 1) (hart_store (a + scast (imm_s w)) (le_bytes 4 b) t)
      else if k = 0x13 then Goto (pc + 1) (set_reg (insn_rd w) (a + scast (imm_i w)) t)
      else if k = 0x1063 then Goto (if a \<noteq> b then nat (int pc + sint (imm_b w) div 4) else pc + 1) t
      else if k = 0x100F then Goto (pc + 1) t
      else if k = 0x1073 then Goto (pc + 1) (csr_op (\<lambda>old v. v) w t)
      else if k = 0x2073 then Goto (pc + 1) (csr_op (\<lambda>old v. old OR v) w t)
      else if k = 0x3073 then Goto (pc + 1) (csr_op (\<lambda>old v. old AND NOT v) w t)
      else if w = EBREAK then Parked t
      else Trapped t)"

text \<open>
  The hart runs until it comes back to the debug ROM, which it may never do. An exception is
  reported as the error 3; coming back, the ROM saves \<open>s0\<close> in \<open>dscratch\<close>.
\<close>

definition park :: "dm \<Rightarrow> dm" where
  "park t = t\<lparr>dm_csrs := (dm_csrs t)(CSR_DSCRATCH := get_reg t S0)\<rparr>"

partial_function (option) hart_run :: "nat \<Rightarrow> dm \<Rightarrow> dm option" where
  "hart_run pc t = (case hart_step (hart_fetch t pc) pc t of
       Goto pc' t' \<Rightarrow> hart_run pc' t'
     | Parked t' \<Rightarrow> Some (park t')
     | Trapped t' \<Rightarrow> Some (park (t'\<lparr>dm_cmderr := 3\<rparr>)))"

definition run_command :: "dm \<Rightarrow> dm option" where
  "run_command t =
     (if ac_type (dm_command t) \<noteq> 0 then Some (t\<lparr>dm_cmderr := 2\<rparr>)
      else hart_run (if ac_transfer (dm_command t) then 0 else 6) t)"

section \<open>What the hart was asked for\<close>

definition haltreq :: "dm \<Rightarrow> bool" where "haltreq t = bit (dm_control t) 31"

definition resumereq :: "dm \<Rightarrow> bool" where "resumereq t = bit (dm_control t) 30"

definition outstanding :: "dm \<Rightarrow> bool" where
  "outstanding t \<longleftrightarrow> dm_busy t \<or> (haltreq t \<and> \<not> dm_halted t) \<or>
     (resumereq t \<and> \<not> haltreq t \<and> dm_halted t \<and> \<not> dm_resumeack t)"

definition dm_progress :: "dm \<Rightarrow> dm option" where
  "dm_progress t =
     (if dm_busy t then map_option (\<lambda>t. t\<lparr>dm_busy := False\<rparr>) (run_command t)
      else if haltreq t \<and> \<not> dm_halted t then Some (park (t\<lparr>dm_halted := True\<rparr>))
      else Some (t\<lparr>dm_halted := False, dm_resumeack := True\<rparr>))"

definition dm_tick :: "dm \<Rightarrow> dm option" where
  "dm_tick t =
     (let t = (if resumereq t then t else t\<lparr>dm_resumeack := False\<rparr>) in
      if \<not> outstanding t then Some t
      else if dm_count t = 0 then dm_progress t
      else Some (t\<lparr>dm_count := dm_count t - 1\<rparr>))"

section \<open>Requests\<close>

definition hartsel :: "dm \<Rightarrow> u32" where "hartsel t = take_bit 20 (drop_bit 6 (dm_control t))"

definition dm_status :: "dm \<Rightarrow> u32" where
  "dm_status t = 0x82
     OR (if dm_halted t then 0x300 else 0xC00)
     OR (if hartsel t \<noteq> 0 then 0xC000 else 0)
     OR (if dm_resumeack t then 0x30000 else 0)"

definition dm_abstractcs :: "dm \<Rightarrow> u32" where
  "dm_abstractcs t = push_bit 24 6 OR (if dm_busy t then push_bit 12 1 else 0) OR push_bit 8 (dm_cmderr t) OR 2"

definition dm_hartinfo :: u32 where "dm_hartinfo = 0x212380"

definition dm_start :: "(dm \<Rightarrow> nat) \<Rightarrow> dm \<Rightarrow> dm" where
  "dm_start lat t =
     (if dm_halted t then t\<lparr>dm_busy := True, dm_count := lat t\<rparr> else t\<lparr>dm_cmderr := 4\<rparr>)"

definition dm_auto_start :: "(dm \<Rightarrow> nat) \<Rightarrow> nat \<Rightarrow> dm \<Rightarrow> dm" where
  "dm_auto_start lat i t = (if bit (dm_auto t) i then dm_start lat t else t)"

definition busy_error :: "dm \<Rightarrow> dm" where
  "busy_error t = (if dm_cmderr t = 0 then t\<lparr>dm_cmderr := 1\<rparr> else t)"

definition dm_read :: "(dm \<Rightarrow> nat) \<Rightarrow> u32 \<Rightarrow> dm \<Rightarrow> u32 \<times> dm" where
  "dm_read lat a t =
     (if 4 \<le> a \<and> a < 6 then
        (dm_data t ! unat (a - 4), if dm_busy t then t else dm_auto_start lat (unat (a - 4)) t)
      else if 0x20 \<le> a \<and> a < 0x26 then (dm_progbuf t ! unat (a - 0x20), t)
      else if a = 0x10 then (dm_control t, t)
      else if a = 0x11 then (dm_status t, t)
      else if a = 0x12 then (dm_hartinfo, t)
      else if a = 0x16 then (dm_abstractcs t, t)
      else if a = 0x18 then (dm_auto t, t)
      else (0, t))"

definition dm_write :: "(dm \<Rightarrow> nat) \<Rightarrow> u32 \<Rightarrow> u32 \<Rightarrow> dm \<Rightarrow> dm" where
  "dm_write lat a d t =
     (if a = 0x10 then
        (if bit (dm_control t) 0 then
           (let t = t\<lparr>dm_control := d AND 0xC3FFFFC3\<rparr> in if outstanding t \<and> \<not> dm_busy t then t\<lparr>dm_count := lat t\<rparr> else t)
         else t\<lparr>dm_control := d AND 1\<rparr>)
      else if \<not> bit (dm_control t) 0 then t
      else if 4 \<le> a \<and> a < 6 then
        (if dm_busy t then t
         else dm_auto_start lat (unat (a - 4)) (t\<lparr>dm_data := (dm_data t)[unat (a - 4) := d]\<rparr>))
      else if 0x20 \<le> a \<and> a < 0x26 then
        (if dm_busy t then t else t\<lparr>dm_progbuf := (dm_progbuf t)[unat (a - 0x20) := d]\<rparr>)
      else if a = 0x16 then
        (if dm_busy t then busy_error t else t\<lparr>dm_cmderr := NOT (take_bit 3 (drop_bit 8 d)) AND dm_cmderr t\<rparr>)
      else if a = 0x17 then
        (if dm_busy t then busy_error t else dm_start lat (t\<lparr>dm_command := d\<rparr>))
      else if a = 0x18 then
        (if dm_busy t then busy_error t else t\<lparr>dm_auto := d AND 0xFFFF0FFF\<rparr>)
      else t)"

definition dm_dmi :: "(dm \<Rightarrow> nat) \<Rightarrow> dm dmi" where
  "dm_dmi lat a op d t = (case dm_tick t of
       None \<Rightarrow> None
     | Some t' \<Rightarrow>
         if op = 1 then Some ((0, fst (dm_read lat a t')), snd (dm_read lat a t'))
         else if op = 2 then Some ((0, 0), dm_write lat a d t')
         else Some ((0, 0), t'))"

end
