(* ===== verification/Dtm_Commands.thy ===== *)
theory Dtm_Commands
  imports Debug_Module
begin

text \<open>
  What the operations of the debug transport do to the debug module: single requests, the
  polling loops, halting and resuming, and abstract commands with their programs.
\<close>

lemma wp_ret_eta [simp]: "wp (ret a) Q = Q a"
  by (rule ext) simp

section \<open>Fields of one bit\<close>

lemma get_flag:
  assumes "n < 32"
  shows "get_field r (push_bit n 1) \<noteq> (0 :: u32) \<longleftrightarrow> bit r n"
proof -
  have "push_bit n 1 = (field_mask n 1 :: u32)" by (simp add: field_mask_def)
  then have "get_field r (push_bit n 1) = take_bit 1 (drop_bit n r)"
    using assms get_field_eq [of 1 n r] by simp
  then show ?thesis by (simp add: bit_iff_odd_drop_bit odd_iff_mod_2_eq_one)
qed

lemma and_flag: "n < 32 \<Longrightarrow> (r AND push_bit n 1 = (0 :: u32)) \<longleftrightarrow> \<not> bit r n"
proof -
  assume "n < 32"
  then have "r AND push_bit n 1 = (if bit r n then push_bit n 1 else 0)"
    by (intro bit_word_eqI) (auto simp: bit_simps)
  moreover have "push_bit n (1 :: u32) \<noteq> 0" using \<open>n < 32\<close> by simp
  ultimately show ?thesis by simp
qed

lemma ac_write_flag: "get_field c AC_ACCESS_REGISTER_WRITE \<noteq> 0 \<longleftrightarrow> ac_write c"
  unfolding AC_ACCESS_REGISTER_WRITE_def ac_write_def by (rule get_flag) simp

lemma ac_transfer_flag: "get_field c AC_ACCESS_REGISTER_TRANSFER \<noteq> 0 \<longleftrightarrow> ac_transfer c"
  unfolding AC_ACCESS_REGISTER_TRANSFER_def ac_transfer_def by (rule get_flag) simp

section \<open>A halted hart with nothing to do\<close>

definition dm_parked :: "dm \<Rightarrow> bool" where
  "dm_parked t \<longleftrightarrow> dm_halted t \<and> \<not> dm_busy t \<and> dm_cmderr t = 0 \<and> dm_auto t = 0 \<and> dm_control t = 1 \<and>
     \<not> dm_resumeack t \<and> length (dm_progbuf t) = DM_PROGBUF_SIZE \<and> length (dm_data t) = DM_DATA_COUNT"

lemma no_requests [simp]: "dm_control t = 1 \<Longrightarrow> \<not> haltreq t" "dm_control t = 1 \<Longrightarrow> \<not> resumereq t"
  by (simp_all add: haltreq_def resumereq_def)

lemma resumeack_idem: "\<not> dm_resumeack t \<Longrightarrow> t\<lparr>dm_resumeack := False\<rparr> = t"
  by (cases t) simp

lemma tick_parked: "dm_parked t \<Longrightarrow> dm_tick t = Some t"
  by (simp add: dm_parked_def dm_tick_def outstanding_def resumeack_idem haltreq_def resumereq_def)

text \<open>One request.\<close>

lemma run_dtm_read:
  "dm_tick (dtm_target s) = Some t \<Longrightarrow>
   dtm_read (dm_dmi lat) a s = Some (Inr (fst (dm_read lat a t), s\<lparr>dtm_target := snd (dm_read lat a t)\<rparr>))"
  by (simp add: dtm_read_def do_command_def dm_dmi_def)

lemma run_dtm_write:
  "dm_tick (dtm_target s) = Some t \<Longrightarrow>
   dtm_write (dm_dmi lat) a d s = Some (Inr (0, s\<lparr>dtm_target := dm_write lat a d t\<rparr>))"
  by (simp add: dtm_write_def do_command_def dm_dmi_def)


section \<open>Registers of the debug module\<close>

lemma wp_dtm_write:
  "dm_tick (dtm_target s) = Some t \<Longrightarrow>
   wp (dtm_write (dm_dmi lat) a d) Q s = Q 0 (s\<lparr>dtm_target := dm_write lat a d t\<rparr>)"
  by (simp add: wp_run [OF run_dtm_write])

lemma wp_dtm_read:
  "dm_tick (dtm_target s) = Some t \<Longrightarrow>
   wp (dtm_read (dm_dmi lat) a) Q s =
     Q (fst (dm_read lat a t)) (s\<lparr>dtm_target := snd (dm_read lat a t)\<rparr>)"
  by (simp add: wp_run [OF run_dtm_read])

lemma of_nat_reg: "i < 8 \<Longrightarrow> unat ((b :: u32) + of_nat i - b) = i"
  by (simp add: unat_of_nat take_bit_nat_eq_self)

lemma write_progbuf:
  assumes "dm_parked t" and "i < 6"
  shows "dm_write lat (DMI_PROGBUF0 + of_nat i) d t = t\<lparr>dm_progbuf := (dm_progbuf t)[i := d]\<rparr>"
proof -
  from assms(2) have "i = 0 \<or> i = 1 \<or> i = 2 \<or> i = 3 \<or> i = 4 \<or> i = 5" by auto
  then show ?thesis using assms(1)
    by (elim disjE) (simp_all add: dm_write_def dm_parked_def DMI_PROGBUF0_def)
qed

lemma write_data:
  assumes "dm_parked t" and "i < 2"
  shows "dm_write lat (DMI_DATA0 + of_nat i) d t = t\<lparr>dm_data := (dm_data t)[i := d]\<rparr>"
proof -
  from assms(2) have "i = 0 \<or> i = 1" by auto
  then show ?thesis using assms(1)
    by (elim disjE) (simp_all add: dm_write_def dm_parked_def DMI_DATA0_def dm_auto_start_def)
qed

lemma read_data:
  assumes "dm_parked t" and "i < 2"
  shows "dm_read lat (DMI_DATA0 + of_nat i) t = (dm_data t ! i, t)"
proof -
  from assms(2) have "i = 0 \<or> i = 1" by auto
  then show ?thesis using assms(1)
    by (elim disjE) (simp_all add: dm_read_def dm_parked_def DMI_DATA0_def dm_auto_start_def)
qed

lemma write_command:
  "dm_parked t \<Longrightarrow> dm_write lat DMI_COMMAND c t =
     t\<lparr>dm_command := c, dm_busy := True, dm_count := lat (t\<lparr>dm_command := c\<rparr>)\<rparr>"
  by (simp add: dm_write_def dm_parked_def DMI_COMMAND_def dm_start_def)

lemma wp_write_progbuf:
  assumes "dm_parked (dtm_target s)" and "k + length ws \<le> 6"
  shows "wp (write_regs (dm_dmi lat) (DMI_PROGBUF0 + of_nat k) ws) Q s =
    Q () (s\<lparr>dtm_target := (dtm_target s)\<lparr>dm_progbuf :=
      take k (dm_progbuf (dtm_target s)) @ ws @ drop (k + length ws) (dm_progbuf (dtm_target s))\<rparr>\<rparr>)"
  using assms
proof (induction ws arbitrary: k s)
  case Nil
  then show ?case by simp
next
  case (Cons w ws)
  let ?t = "dtm_target s"
  let ?t' = "?t\<lparr>dm_progbuf := (dm_progbuf ?t)[k := w]\<rparr>"
  have len: "length (dm_progbuf ?t) = 6" using Cons.prems by (simp add: dm_parked_def DM_PROGBUF_SIZE_def)
  have "dm_parked ?t'" using Cons.prems(1) by (simp add: dm_parked_def)
  then have "wp (write_regs (dm_dmi lat) (DMI_PROGBUF0 + of_nat (Suc k)) ws) Q (s\<lparr>dtm_target := ?t'\<rparr>) =
      Q () (s\<lparr>dtm_target := ?t'\<lparr>dm_progbuf := take (Suc k) ((dm_progbuf ?t)[k := w]) @ ws @
        drop (Suc k + length ws) ((dm_progbuf ?t)[k := w])\<rparr>\<rparr>)"
    using Cons.IH [of "s\<lparr>dtm_target := ?t'\<rparr>" "Suc k"] Cons.prems(2) by simp
  also have "take (Suc k) ((dm_progbuf ?t)[k := w]) = take k (dm_progbuf ?t) @ [w]"
    using Cons.prems(2) len by (simp add: take_Suc_conv_app_nth)
  finally show ?case
    using Cons.prems tick_parked write_progbuf
    by (simp add: wp_dtm_write [of s ?t] ac_simps)
qed

lemma wp_write_data:
  assumes "dm_parked (dtm_target s)" and "k + length ws \<le> 2"
  shows "wp (write_regs (dm_dmi lat) (DMI_DATA0 + of_nat k) ws) Q s =
    Q () (s\<lparr>dtm_target := (dtm_target s)\<lparr>dm_data :=
      take k (dm_data (dtm_target s)) @ ws @ drop (k + length ws) (dm_data (dtm_target s))\<rparr>\<rparr>)"
  using assms
proof (induction ws arbitrary: k s)
  case Nil
  then show ?case by simp
next
  case (Cons w ws)
  let ?t = "dtm_target s"
  let ?t' = "?t\<lparr>dm_data := (dm_data ?t)[k := w]\<rparr>"
  have len: "length (dm_data ?t) = 2" using Cons.prems by (simp add: dm_parked_def DM_DATA_COUNT_def)
  have "dm_parked ?t'" using Cons.prems(1) by (simp add: dm_parked_def)
  then have "wp (write_regs (dm_dmi lat) (DMI_DATA0 + of_nat (Suc k)) ws) Q (s\<lparr>dtm_target := ?t'\<rparr>) =
      Q () (s\<lparr>dtm_target := ?t'\<lparr>dm_data := take (Suc k) ((dm_data ?t)[k := w]) @ ws @
        drop (Suc k + length ws) ((dm_data ?t)[k := w])\<rparr>\<rparr>)"
    using Cons.IH [of "s\<lparr>dtm_target := ?t'\<rparr>" "Suc k"] Cons.prems(2) by simp
  also have "take (Suc k) ((dm_data ?t)[k := w]) = take k (dm_data ?t) @ [w]"
    using Cons.prems(2) len by (simp add: take_Suc_conv_app_nth)
  finally show ?case
    using Cons.prems tick_parked write_data
    by (simp add: wp_dtm_write [of s ?t] ac_simps)
qed

lemma wp_read_data:
  assumes "dm_parked (dtm_target s)" and "k + n \<le> 2"
  shows "wp (read_regs (dm_dmi lat) (DMI_DATA0 + of_nat k) n) Q s =
    Q (take n (drop k (dm_data (dtm_target s)))) s"
  using assms
proof (induction n arbitrary: k Q)
  case 0
  then show ?case by simp
next
  case (Suc n)
  let ?t = "dtm_target s"
  have len: "length (dm_data ?t) = 2" using Suc.prems by (simp add: dm_parked_def DM_DATA_COUNT_def)
  have "drop k (dm_data ?t) = dm_data ?t ! k # drop (Suc k) (dm_data ?t)"
    using Suc.prems(2) len by (simp add: Cons_nth_drop_Suc)
  moreover have "wp (read_regs (dm_dmi lat) (DMI_DATA0 + of_nat (Suc k)) n) R s =
      R (take n (drop (Suc k) (dm_data ?t))) s" for R
    using Suc.IH [of "Suc k"] Suc.prems by simp
  ultimately show ?case
    using Suc.prems tick_parked read_data by (simp add: wp_dtm_read [of s ?t] ac_simps)
qed


section \<open>Polling\<close>

lemma wp_read_until:
  "wp (read_until dmi a stop_at) Q s =
   wp (dtm_read dmi a) (\<lambda>x. if stop_at x then Q x else wp (read_until dmi a stop_at) Q) s"
  by (subst wp_def, subst read_until.simps)
    (simp add: wp_def split: option.splits sum.splits prod.splits)

lemma read_status:
  "dm_read lat DMI_ABSTRACTCS t = (dm_abstractcs t, t)" "dm_read lat DMI_DMSTATUS t = (dm_status t, t)"
  by (simp_all add: dm_read_def DMI_ABSTRACTCS_def DMI_DMSTATUS_def)

lemma abstractcs_busy: "dm_cmderr t = 0 \<or> dm_cmderr t = 3 \<Longrightarrow> (dm_abstractcs t AND DMI_ABSTRACTCS_BUSY = 0) = (\<not> dm_busy t)"
  by (auto simp: dm_abstractcs_def DMI_ABSTRACTCS_BUSY_def)

lemma abstractcs_cmderr: "dm_cmderr t = 0 \<Longrightarrow> get_field (dm_abstractcs t) DMI_ABSTRACTCS_CMDERR = 0"
  by (simp add: dm_abstractcs_def DMI_ABSTRACTCS_CMDERR_def get_field_def)

lemma status_halted: "get_field (dm_status t) DMI_DMSTATUS_ALLHALTED \<noteq> 0 \<longleftrightarrow> dm_halted t"
  by (simp add: dm_status_def DMI_DMSTATUS_ALLHALTED_def get_field_def)

lemma status_resumeack: "get_field (dm_status t) DMI_DMSTATUS_ALLRESUMEACK \<noteq> 0 \<longleftrightarrow> dm_resumeack t"
  by (simp add: dm_status_def DMI_DMSTATUS_ALLRESUMEACK_def get_field_def)

lemma status_nonexistent: "get_field (dm_status t) DMI_DMSTATUS_ANYNONEXISTENT \<noteq> 0 \<longleftrightarrow> hartsel t \<noteq> 0"
  by (simp add: dm_status_def DMI_DMSTATUS_ANYNONEXISTENT_def get_field_def)

text \<open>A command in execution: the loop on \<open>abstractcs\<close> ends when the hart is back.\<close>

definition dm_executing :: "dm \<Rightarrow> bool" where
  "dm_executing t \<longleftrightarrow> dm_busy t \<and> dm_halted t \<and> dm_control t = 1 \<and> \<not> dm_resumeack t \<and> dm_cmderr t = 0"

lemma tick_executing:
  assumes "dm_executing t"
  shows "dm_tick t = (if dm_count t = 0 then map_option (\<lambda>t. t\<lparr>dm_busy := False\<rparr>) (run_command t)
    else Some (t\<lparr>dm_count := dm_count t - 1\<rparr>))"
  using assms by (simp add: dm_executing_def dm_tick_def outstanding_def resumeack_idem dm_progress_def)

lemma wp_poll_command:
  assumes "dm_executing (dtm_target s)"
    and "run_command ((dtm_target s)\<lparr>dm_count := 0\<rparr>) = Some u" and "dm_cmderr u = 0 \<or> dm_cmderr u = 3"
  shows "wp (read_until (dm_dmi lat) DMI_ABSTRACTCS (\<lambda>d. d AND DMI_ABSTRACTCS_BUSY = 0)) Q s =
    Q (dm_abstractcs (u\<lparr>dm_busy := False\<rparr>)) (s\<lparr>dtm_target := u\<lparr>dm_busy := False\<rparr>\<rparr>)"
  using assms
proof (induction "dm_count (dtm_target s)" arbitrary: s)
  case 0
  then have same: "(dtm_target s)\<lparr>dm_count := 0\<rparr> = dtm_target s" by simp
  have "dm_tick (dtm_target s) = Some (u\<lparr>dm_busy := False\<rparr>)"
    using 0 tick_executing same by simp
  then show ?case
    using 0(4) by (simp add: wp_read_until [of _ _ _ _ s] wp_dtm_read read_status abstractcs_busy)
next
  case (Suc n)
  let ?t = "(dtm_target s)\<lparr>dm_count := n\<rparr>"
  have "dm_tick (dtm_target s) = Some ?t"
    using Suc.prems(1) Suc.hyps(2) tick_executing by (simp flip: Suc.hyps(2))
  moreover have "dm_executing ?t" using Suc.prems(1) by (simp add: dm_executing_def)
  moreover have "wp (read_until (dm_dmi lat) DMI_ABSTRACTCS (\<lambda>d. d AND DMI_ABSTRACTCS_BUSY = 0)) Q (s\<lparr>dtm_target := ?t\<rparr>) =
      Q (dm_abstractcs (u\<lparr>dm_busy := False\<rparr>)) (s\<lparr>dtm_target := u\<lparr>dm_busy := False\<rparr>\<rparr>)"
    using Suc.hyps(1) [of "s\<lparr>dtm_target := ?t\<rparr>"] Suc.prems \<open>dm_executing ?t\<close> by simp
  ultimately show ?case
    by (simp add: wp_read_until [of _ _ _ _ s] wp_dtm_read read_status abstractcs_busy dm_executing_def)
qed

section \<open>Abstract commands\<close>

lemma wp_run_abstract_command:
  assumes "dm_parked (dtm_target s)" and "ram_words s = 6" and "data_words s = 2"
    and "length program \<le> 6" and "length data \<le> 2"
    and "run_command ((dtm_target s)\<lparr>
        dm_progbuf := program @ drop (length program) (dm_progbuf (dtm_target s)),
        dm_data := (if ac_write c \<and> ac_transfer c then data @ drop (length data) (dm_data (dtm_target s))
          else dm_data (dtm_target s)),
        dm_command := c, dm_busy := True, dm_count := 0\<rparr>) = Some u"
    and "dm_parked (u\<lparr>dm_busy := False\<rparr>)"
  shows "wp (run_abstract_command (dm_dmi lat) c program data) Q s =
    Q (0, if \<not> ac_write c \<and> ac_transfer c then take (length data) (dm_data u) else data)
      (s\<lparr>dtm_target := u\<lparr>dm_busy := False\<rparr>\<rparr>)"
proof -
  let ?t = "dtm_target s"
  let ?t1 = "?t\<lparr>dm_progbuf := program @ drop (length program) (dm_progbuf ?t)\<rparr>"
  let ?t2 = "?t1\<lparr>dm_data := (if ac_write c \<and> ac_transfer c then data @ drop (length data) (dm_data ?t) else dm_data ?t)\<rparr>"
  let ?t3 = "?t2\<lparr>dm_command := c, dm_busy := True, dm_count := lat (?t2\<lparr>dm_command := c\<rparr>)\<rparr>"
  let ?u = "u\<lparr>dm_busy := False\<rparr>"
  have progbuf: "wp (write_regs (dm_dmi lat) DMI_PROGBUF0 program) R s = R () (s\<lparr>dtm_target := ?t1\<rparr>)" for R
    using wp_write_progbuf [of s 0 program lat R] assms(1,4) by simp
  have p1: "dm_parked ?t1" using assms(1,4) by (simp add: dm_parked_def DM_PROGBUF_SIZE_def)
  have data: "wp (if ac_write c \<and> ac_transfer c then write_regs (dm_dmi lat) DMI_DATA0 data else ret ()) R
      (s\<lparr>dtm_target := ?t1\<rparr>) = R () (s\<lparr>dtm_target := ?t2\<rparr>)" for R
    using wp_write_data [of "s\<lparr>dtm_target := ?t1\<rparr>" 0 data lat R] p1 assms(5) by simp
  have p2: "dm_parked ?t2" using p1 assms(5) by (simp add: dm_parked_def DM_DATA_COUNT_def)
  have "dm_executing ?t3" using p2 by (simp add: dm_executing_def dm_parked_def)
  moreover have "?t3\<lparr>dm_count := 0\<rparr> = ?t2\<lparr>dm_command := c, dm_busy := True, dm_count := 0\<rparr>" by simp
  moreover have "dm_cmderr u = 0" using assms(7) by (simp add: dm_parked_def)
  ultimately have poll: "wp (read_until (dm_dmi lat) DMI_ABSTRACTCS (\<lambda>d. d AND DMI_ABSTRACTCS_BUSY = 0)) R
      (s\<lparr>dtm_target := ?t3\<rparr>) = R (dm_abstractcs ?u) (s\<lparr>dtm_target := ?u\<rparr>)" for R
    using wp_poll_command [of "s\<lparr>dtm_target := ?t3\<rparr>" u lat R] assms(6) by simp
  have reads: "wp (if \<not> ac_write c \<and> ac_transfer c then read_regs (dm_dmi lat) DMI_DATA0 (length data) else ret data) R
      (s\<lparr>dtm_target := ?u\<rparr>) =
      R (if \<not> ac_write c \<and> ac_transfer c then take (length data) (dm_data u) else data) (s\<lparr>dtm_target := ?u\<rparr>)" for R
    using wp_read_data [of "s\<lparr>dtm_target := ?u\<rparr>" 0 "length data" lat R] assms(5,7) by simp
  have flags: "get_field c AC_ACCESS_REGISTER_WRITE \<noteq> 0 \<longleftrightarrow> ac_write c"
      "get_field c AC_ACCESS_REGISTER_WRITE = 0 \<longleftrightarrow> \<not> ac_write c"
      "get_field c AC_ACCESS_REGISTER_TRANSFER \<noteq> 0 \<longleftrightarrow> ac_transfer c"
    using ac_write_flag ac_transfer_flag by auto
  have "dm_cmderr ?u = 0" using assms(7) by (simp add: dm_parked_def)
  then have "get_field (dm_abstractcs ?u) DMI_ABSTRACTCS_CMDERR = 0" by (rule abstractcs_cmderr)
  then show ?thesis
    unfolding run_abstract_command_def flags
    using assms(2-5) tick_parked [OF p2] write_command [OF p2]
    by (simp add: progbuf data poll reads wp_dtm_write)
qed


lemma wp_RUN_AC_OR_DIE:
  assumes "\<And>R. wp (run_abstract_command dmi c program data) R s = R (0, data') s'"
  shows "wp (RUN_AC_OR_DIE dmi c program data) Q s = Q data' s'"
  by (simp add: RUN_AC_OR_DIE_def assms)

section \<open>Halting and resuming\<close>

definition dm_running :: "dm \<Rightarrow> bool" where
  "dm_running t \<longleftrightarrow> \<not> dm_halted t \<and> \<not> dm_busy t \<and> dm_cmderr t = 0 \<and> dm_auto t = 0 \<and> dm_control t = 1 \<and>
     \<not> dm_resumeack t \<and> length (dm_progbuf t) = DM_PROGBUF_SIZE \<and> length (dm_data t) = DM_DATA_COUNT"

lemma tick_running: "dm_running t \<Longrightarrow> dm_tick t = Some t"
  by (simp add: dm_running_def dm_tick_def outstanding_def resumeack_idem haltreq_def resumereq_def)

lemma wp_poll_halted:
  assumes "\<not> dm_halted (dtm_target s)" and "\<not> dm_busy (dtm_target s)" and "\<not> dm_resumeack (dtm_target s)"
    and "haltreq (dtm_target s)" and "\<not> resumereq (dtm_target s)"
  shows "wp (read_until (dm_dmi lat) DMI_DMSTATUS (\<lambda>d. get_field d DMI_DMSTATUS_ALLHALTED \<noteq> 0)) Q s =
    (let u = park ((dtm_target s)\<lparr>dm_count := 0, dm_halted := True\<rparr>) in Q (dm_status u) (s\<lparr>dtm_target := u\<rparr>))"
  using assms
proof (induction "dm_count (dtm_target s)" arbitrary: s)
  case 0
  have same: "(dtm_target s)\<lparr>dm_count := 0\<rparr> = dtm_target s" using 0(1) by simp
  have "dm_tick (dtm_target s) = Some (park ((dtm_target s)\<lparr>dm_halted := True\<rparr>))"
    using 0 by (simp add: dm_tick_def Let_def outstanding_def resumeack_idem dm_progress_def)
  then show ?case
    by (subst wp_read_until) (simp add: wp_dtm_read read_status status_halted park_def same Let_def)
next
  case (Suc n)
  let ?t = "(dtm_target s)\<lparr>dm_count := n\<rparr>"
  have "dm_tick (dtm_target s) = Some ?t"
    using Suc.prems Suc.hyps(2) by (simp add: dm_tick_def Let_def outstanding_def resumeack_idem flip: Suc.hyps(2))
  then show ?case
    using Suc.hyps(1) [of "s\<lparr>dtm_target := ?t\<rparr>"] Suc.prems
    by (subst wp_read_until) (simp add: wp_dtm_read read_status status_halted Let_def haltreq_def resumereq_def)
qed

lemma wp_poll_resumed:
  assumes "dm_halted (dtm_target s)" and "\<not> dm_busy (dtm_target s)" and "\<not> dm_resumeack (dtm_target s)"
    and "\<not> haltreq (dtm_target s)" and "resumereq (dtm_target s)"
  shows "wp (read_until (dm_dmi lat) DMI_DMSTATUS (\<lambda>d. get_field d DMI_DMSTATUS_ALLRESUMEACK \<noteq> 0)) Q s =
    (let u = (dtm_target s)\<lparr>dm_count := 0, dm_halted := False, dm_resumeack := True\<rparr> in
      Q (dm_status u) (s\<lparr>dtm_target := u\<rparr>))"
  using assms
proof (induction "dm_count (dtm_target s)" arbitrary: s)
  case 0
  have same: "(dtm_target s)\<lparr>dm_count := 0\<rparr> = dtm_target s" using 0(1) by simp
  have "dm_tick (dtm_target s) = Some ((dtm_target s)\<lparr>dm_halted := False, dm_resumeack := True\<rparr>)"
    using 0 by (simp add: dm_tick_def Let_def outstanding_def resumeack_idem dm_progress_def)
  then show ?case
    by (subst wp_read_until) (simp add: wp_dtm_read read_status status_resumeack same Let_def)
next
  case (Suc n)
  let ?t = "(dtm_target s)\<lparr>dm_count := n\<rparr>"
  have "dm_tick (dtm_target s) = Some ?t"
    using Suc.prems Suc.hyps(2) by (simp add: dm_tick_def Let_def outstanding_def resumeack_idem flip: Suc.hyps(2))
  then show ?case
    using Suc.hyps(1) [of "s\<lparr>dtm_target := ?t\<rparr>"] Suc.prems
    by (subst wp_read_until) (simp add: wp_dtm_read read_status status_resumeack Let_def haltreq_def resumereq_def)
qed

lemma write_control:
  "bit (dm_control t) 0 \<Longrightarrow> dm_write lat DMI_DMCONTROL d t =
     (let t = t\<lparr>dm_control := d AND 0xC3FFFFC3\<rparr> in if outstanding t \<and> \<not> dm_busy t then t\<lparr>dm_count := lat t\<rparr> else t)"
  by (simp add: dm_write_def DMI_DMCONTROL_def)

lemma halt_words:
  "set_field (DMI_DMCONTROL_HALTREQ OR DMI_DMCONTROL_DMACTIVE) DMI_DMCONTROL_HARTSEL 0 = 0x80000001"
  "set_field (DMI_DMCONTROL_RESUMEREQ OR DMI_DMCONTROL_DMACTIVE) DMI_DMCONTROL_HARTSEL 0 = 0x40000001"
  "(0x80000001 :: u32) AND NOT DMI_DMCONTROL_HALTREQ = 1"
  "(0x40000001 :: u32) AND NOT DMI_DMCONTROL_RESUMEREQ = 1"
  by (simp_all add: set_field_def DMI_DMCONTROL_HALTREQ_def DMI_DMCONTROL_RESUMEREQ_def
      DMI_DMCONTROL_DMACTIVE_def DMI_DMCONTROL_HARTSEL_def)

lemma wp_halt:
  assumes "dm_running (dtm_target s)"
  shows "wp (halt (dm_dmi lat) 0) Q s = Q () (s\<lparr>dtm_target := park ((dtm_target s)\<lparr>dm_halted := True, dm_count := 0\<rparr>),
    current_hart := 0\<rparr>)"
proof -
  let ?t = "dtm_target s"
  let ?t1 = "?t\<lparr>dm_control := 0x80000001\<rparr>"
  let ?t2 = "?t1\<lparr>dm_count := lat ?t1\<rparr>"
  let ?u = "park (?t2\<lparr>dm_count := 0, dm_halted := True\<rparr>)"
  have run: "\<not> dm_halted ?t" "\<not> dm_busy ?t" "dm_control ?t = 1" "\<not> dm_resumeack ?t"
    using assms by (simp_all add: dm_running_def)
  have "dm_write lat DMI_DMCONTROL 0x80000001 ?t = ?t2"
    using run by (simp add: write_control Let_def outstanding_def haltreq_def resumereq_def)
  moreover have "wp (read_until (dm_dmi lat) DMI_DMSTATUS (\<lambda>d. get_field d DMI_DMSTATUS_ALLHALTED \<noteq> 0)) R
      (s\<lparr>dtm_target := ?t2\<rparr>) = R (dm_status ?u) (s\<lparr>dtm_target := ?u\<rparr>)" for R
    using wp_poll_halted [of "s\<lparr>dtm_target := ?t2\<rparr>" lat R] run by (simp add: Let_def haltreq_def resumereq_def)
  moreover have "dm_tick ?u = Some ?u"
    using run by (simp add: dm_tick_def Let_def outstanding_def haltreq_def resumereq_def park_def resumeack_idem)
  moreover have "dm_write lat DMI_DMCONTROL 1 ?u = park (?t\<lparr>dm_halted := True, dm_count := 0\<rparr>)"
    using run by (simp add: write_control Let_def outstanding_def haltreq_def resumereq_def park_def get_reg_def)
  moreover have "dm_tick (park (?t\<lparr>dm_halted := True, dm_count := 0\<rparr>)) = Some (park (?t\<lparr>dm_halted := True, dm_count := 0\<rparr>))"
    using run by (simp add: dm_tick_def Let_def outstanding_def haltreq_def resumereq_def park_def resumeack_idem)
  ultimately show ?thesis
    by (simp add: halt_def halt_words Let_def wp_dtm_write [OF tick_running [OF assms]] wp_dtm_write wp_dtm_read read_status)
qed

lemma wp_resume:
  assumes "dm_parked (dtm_target s)"
  shows "wp (resume (dm_dmi lat) 0) Q s =
    Q () (s\<lparr>dtm_target := (dtm_target s)\<lparr>dm_halted := False, dm_count := 0\<rparr>, current_hart := 0\<rparr>)"
proof -
  let ?t = "dtm_target s"
  let ?t1 = "?t\<lparr>dm_control := 0x40000001\<rparr>"
  let ?t2 = "?t1\<lparr>dm_count := lat ?t1\<rparr>"
  let ?u = "?t2\<lparr>dm_count := 0, dm_halted := False, dm_resumeack := True\<rparr>"
  let ?v = "?t\<lparr>dm_halted := False, dm_count := 0\<rparr>"
  have park: "dm_halted ?t" "\<not> dm_busy ?t" "dm_control ?t = 1" "\<not> dm_resumeack ?t"
    using assms by (simp_all add: dm_parked_def)
  have "dm_write lat DMI_DMCONTROL 0x40000001 ?t = ?t2"
    using park by (simp add: write_control Let_def outstanding_def haltreq_def resumereq_def)
  moreover have "wp (read_until (dm_dmi lat) DMI_DMSTATUS (\<lambda>d. get_field d DMI_DMSTATUS_ALLRESUMEACK \<noteq> 0)) R
      (s\<lparr>dtm_target := ?t2\<rparr>) = R (dm_status ?u) (s\<lparr>dtm_target := ?u\<rparr>)" for R
    using wp_poll_resumed [of "s\<lparr>dtm_target := ?t2\<rparr>" lat R] park by (simp add: Let_def haltreq_def resumereq_def)
  moreover have "dm_tick ?u = Some ?u"
    using park by (simp add: dm_tick_def Let_def outstanding_def haltreq_def resumereq_def)
  moreover have "dm_write lat DMI_DMCONTROL 1 ?u = ?v\<lparr>dm_resumeack := True\<rparr>"
    using park by (simp add: write_control Let_def outstanding_def haltreq_def resumereq_def)
  moreover have "dm_tick (?v\<lparr>dm_resumeack := True\<rparr>) = Some ?v"
    using park by (cases "?t") (simp add: dm_tick_def Let_def outstanding_def haltreq_def resumereq_def)
  ultimately show ?thesis
    by (simp add: resume_def halt_words Let_def wp_dtm_write [OF tick_parked [OF assms]] wp_dtm_write wp_dtm_read read_status)
qed

end
