(* ===== verification/Hart_Programs.thy ===== *)
theory Hart_Programs
  imports Dtm_Commands
begin

text \<open>
  What the halted hart does with an abstract command, and with the three programs the debug
  transport puts behind one: load a word and advance, store a word and advance, and store zeros
  up to an address.
\<close>

section \<open>Registers and data\<close>

lemma get_set_reg [simp]:
  "get_reg (set_reg r v t) r' = (if r' = r \<and> r \<noteq> 0 then v else get_reg t r')"
  by (simp add: get_reg_def set_reg_def)

lemma set_reg_simps [simp]:
  "dm_control (set_reg r v t) = dm_control t" "dm_cmderr (set_reg r v t) = dm_cmderr t"
  "dm_command (set_reg r v t) = dm_command t" "dm_auto (set_reg r v t) = dm_auto t"
  "dm_progbuf (set_reg r v t) = dm_progbuf t" "dm_data (set_reg r v t) = dm_data t"
  "dm_halted (set_reg r v t) = dm_halted t" "dm_resumeack (set_reg r v t) = dm_resumeack t"
  "dm_busy (set_reg r v t) = dm_busy t" "dm_count (set_reg r v t) = dm_count t"
  "dm_csrs (set_reg r v t) = dm_csrs t" "dm_mem (set_reg r v t) = dm_mem t"
  "set_reg 0 v t = t"
  by (simp_all add: set_reg_def)

lemma get_reg_0 [simp]: "get_reg t 0 = 0"
  by (simp add: get_reg_def)

lemma get_reg_update [simp]:
  "get_reg (t\<lparr>dm_mem := m\<rparr>) r = get_reg t r" "get_reg (t\<lparr>dm_data := d\<rparr>) r = get_reg t r"
  "get_reg (t\<lparr>dm_command := c\<rparr>) r = get_reg t r" "get_reg (t\<lparr>dm_progbuf := p\<rparr>) r = get_reg t r"
  "get_reg (t\<lparr>dm_busy := b\<rparr>) r = get_reg t r" "get_reg (t\<lparr>dm_count := n\<rparr>) r = get_reg t r"
  "get_reg (t\<lparr>dm_halted := b\<rparr>) r = get_reg t r" "get_reg (t\<lparr>dm_csrs := cs\<rparr>) r = get_reg t r"
  by (simp_all add: get_reg_def)

lemma park_simps [simp]:
  "dm_control (park t) = dm_control t" "dm_cmderr (park t) = dm_cmderr t"
  "dm_command (park t) = dm_command t" "dm_auto (park t) = dm_auto t"
  "dm_progbuf (park t) = dm_progbuf t" "dm_data (park t) = dm_data t"
  "dm_halted (park t) = dm_halted t" "dm_resumeack (park t) = dm_resumeack t"
  "dm_busy (park t) = dm_busy t" "dm_count (park t) = dm_count t"
  "dm_regs (park t) = dm_regs t" "dm_mem (park t) = dm_mem t" "get_reg (park t) r = get_reg t r"
  by (simp_all add: park_def get_reg_def)

lemma reg_numbers [simp]: "X0 = 0" "S0 = 8" "S1 = 9"
  by (simp_all add: X0_def S0_def S1_def)

lemma le_word_append:
  "le_word (xs @ ys) = (le_word xs OR push_bit (8 * length xs) (le_word ys) :: 'a::len word)"
  by (induction xs) (simp_all add: push_bit_or or.assoc)

lemma le_word_ucast: "(le_word (le_bytes 4 (w :: u32)) :: u64) = ucast w"
proof (rule bit_word_eqI)
  fix n :: nat
  assume "n < LENGTH(64)"
  then have n: "n < 64" by simp
  have split: "8 * (n div 8) + n mod 8 = n" by simp
  consider "n div 8 < 4" | "\<not> n div 8 < 4" "32 \<le> n" by fastforce
  then show "bit (le_word (le_bytes 4 w) :: u64) n = bit (ucast w :: u64) n"
  proof cases
    case 1
    then have "le_bytes 4 w ! (n div 8) = ucast (drop_bit (8 * (n div 8)) w)" by (rule nth_le_bytes)
    then show ?thesis using 1 n split by (simp add: bit_le_word bit_simps)
  next
    case 2
    then show ?thesis using n by (auto simp: bit_le_word bit_ucast_iff dest: bit_imp_le_length)
  qed
qed

lemma two_words:
  "le_word (le_bytes 4 (lo :: u32) @ le_bytes 4 (hi :: u32)) = (ucast lo OR push_bit 32 (ucast hi) :: u64)"
  by (simp add: le_word_append le_word_ucast)

lemma to_data_64: "to_data 64 v = [ucast v, ucast (drop_bit 32 v)]"
  by (simp add: to_data_def)

lemma halves: "(ucast (ucast v :: u32) OR push_bit 32 (ucast (ucast (drop_bit 32 v) :: u32)) :: u64) = v"
  by (rule bit_word_eqI) (auto simp: bit_simps)

lemma of_to_data [simp]: "of_data 64 (to_data 64 v) = v"
  by (simp add: of_data_def to_data_64 halves)

lemma load_data: "dm_data t = to_data 64 v \<Longrightarrow> le_word (hart_load t 0x380 8) = v"
  by (simp add: hart_load_def in_data_def DM_DATA_ADDR_def DM_DATA_COUNT_def to_data_64 two_words halves)

lemma data_of_le_bytes: "data_of_bytes (le_bytes 8 (v :: u64)) = to_data 64 v"
proof -
  have low: "take 4 (le_bytes 8 v) = le_bytes 4 (ucast v :: u32)"
    by (rule nth_equalityI) (auto intro!: bit_word_eqI simp: bit_simps)
  have high: "take 4 (drop 4 (le_bytes 8 v)) = le_bytes 4 (ucast (drop_bit 32 v) :: u32)"
    by (rule nth_equalityI) (auto intro!: bit_word_eqI simp: bit_simps algebra_simps)
  show ?thesis by (simp add: data_of_bytes_def to_data_64 low high le_word_le_bytes)
qed

lemma store_data:
  "length (dm_data t) = 2 \<Longrightarrow> hart_store 0x380 (le_bytes 8 v) t = t\<lparr>dm_data := to_data 64 v\<rparr>"
  by (auto simp: hart_store_def in_data_def DM_DATA_ADDR_def DM_DATA_COUNT_def Let_def numeral_2_eq_2
      length_Suc_conv data_of_le_bytes)


section \<open>Single instructions\<close>

lemma hart_run_goto: "hart_step (hart_fetch t pc) pc t = Goto pc' t' \<Longrightarrow> hart_run pc t = hart_run pc' t'"
  by (subst hart_run.simps) simp

lemma hart_run_parked: "hart_step (hart_fetch t pc) pc t = Parked t' \<Longrightarrow> hart_run pc t = Some (park t')"
  by (subst hart_run.simps) simp

lemma step_load:
  "d < 32 \<Longrightarrow> b < 32 \<Longrightarrow> hart_step (LOAD 64 d b i) pc t =
     Goto (pc + 1) (set_reg d (le_word (hart_load t (get_reg t b + scast (ucast i :: 12 word)) 8)) t)"
  by (simp add: hart_step_def Let_def LOAD_fields)

lemma step_store:
  "r < 32 \<Longrightarrow> b < 32 \<Longrightarrow> hart_step (STORE 64 r b i) pc t =
     Goto (pc + 1) (hart_store (get_reg t b + scast (ucast i :: 12 word)) (le_bytes 8 (get_reg t r)) t)"
  by (simp add: hart_step_def Let_def STORE_fields)

lemma step_addi:
  "d < 32 \<Longrightarrow> b < 32 \<Longrightarrow> hart_step (ADDI d b i) pc t =
     Goto (pc + 1) (set_reg d (get_reg t b + scast (ucast i :: 12 word)) t)"
  by (simp add: hart_step_def Let_def ADDI_fields)

lemma step_nop: "hart_step NOP pc t = Goto (pc + 1) t"
  by (simp add: NOP_def step_addi)

lemma step_bne:
  "a < 32 \<Longrightarrow> b < 32 \<Longrightarrow> \<not> bit (there - here) 0 \<Longrightarrow> hart_step (BNE a b there here) pc t =
     Goto (if get_reg t a \<noteq> get_reg t b
       then nat (int pc + sint (ucast (there - here) :: 13 word) div 4) else pc + 1) t"
  by (simp add: hart_step_def Let_def BNE_fields BNE_offset)

lemma step_ebreak: "hart_step EBREAK pc t = Parked t"
  by (simp add: hart_step_def Let_def EBREAK_def)

lemmas steps = step_load step_store step_addi step_nop step_bne step_ebreak

text \<open>Where the words are.\<close>

lemma fetch_abstract:
  "hart_fetch t 0 = transfer_word (dm_command t)" "hart_fetch t (Suc 0) = NOP" "hart_fetch t 2 = NOP"
  "hart_fetch t 3 = NOP" "hart_fetch t 4 = NOP"
  "hart_fetch t 5 = (if ac_postexec (dm_command t) then NOP else EBREAK)"
  by (simp_all add: hart_fetch_def abstract_words_def Let_def)

lemma fetch_program:
  "i < length (dm_progbuf t) \<Longrightarrow> hart_fetch t (6 + i) = dm_progbuf t ! i"
  by (simp add: hart_fetch_def abstract_words_def Let_def nth_append)

section \<open>Abstract commands\<close>

lemma run_nops:
  "hart_run 1 t = (if ac_postexec (dm_command t) then hart_run 6 t else Some (park t))"
proof -
  have "hart_run 1 t = hart_run 2 t" "hart_run 2 t = hart_run 3 t" "hart_run 3 t = hart_run 4 t"
      "hart_run 4 t = hart_run 5 t"
    by (rule hart_run_goto, simp add: fetch_abstract step_nop)+
  then show ?thesis
    using hart_run_goto [of t 5] hart_run_parked [of t 5]
    by (simp add: fetch_abstract step_nop step_ebreak)
qed

text \<open>A command that moves a 64-bit general register.\<close>

definition moves_reg :: "u32 \<Rightarrow> u32 \<Rightarrow> bool" where
  "moves_reg c r \<longleftrightarrow> ac_type c = 0 \<and> ac_transfer c \<and> ac_size c = 3 \<and> ac_regno c = 0x1000 + r \<and> r < 32"

lemma transfer_words:
  assumes "moves_reg c r"
  shows "transfer_word c = (if ac_write c then LOAD 64 r X0 0x380 else STORE 64 r X0 0x380)"
proof -
  have r: "r < 32" using assms by (simp add: moves_reg_def)
  then have "0x1000 \<le> 0x1000 + r \<and> 0x1000 + r < 0x1020"
    by (simp add: word_le_nat_alt word_less_nat_alt unat_word_ariths)
  then show ?thesis using assms by (simp add: transfer_word_def moves_reg_def Let_def)
qed

lemma run_write_reg:
  assumes "moves_reg (dm_command t) r" and "ac_write (dm_command t)" and "dm_data t = to_data 64 v"
  shows "run_command t = (if ac_postexec (dm_command t) then hart_run 6 (set_reg r v t)
    else Some (park (set_reg r v t)))"
proof -
  have r: "r < 32" using assms(1) by (simp add: moves_reg_def)
  have "hart_step (hart_fetch t 0) 0 t = Goto 1 (set_reg r v t)"
    using assms(2,3) r by (simp add: fetch_abstract transfer_words [OF assms(1)] step_load get_reg_def load_data)
  from hart_run_goto [OF this] show ?thesis
    using assms(1) run_nops [of "set_reg r v t"] by (simp add: run_command_def moves_reg_def)
qed

lemma run_read_reg:
  assumes "moves_reg (dm_command t) r" and "\<not> ac_write (dm_command t)" and "length (dm_data t) = 2"
  shows "run_command t =
    (let t' = t\<lparr>dm_data := to_data 64 (get_reg t r)\<rparr> in
     if ac_postexec (dm_command t) then hart_run 6 t' else Some (park t'))"
proof -
  let ?t' = "t\<lparr>dm_data := to_data 64 (get_reg t r)\<rparr>"
  have r: "r < 32" using assms(1) by (simp add: moves_reg_def)
  have "hart_step (hart_fetch t 0) 0 t = Goto 1 ?t'"
    using assms(2,3) r by (simp add: fetch_abstract transfer_words [OF assms(1)] step_store store_data)
  from hart_run_goto [OF this] show ?thesis
    using assms(1) run_nops [of ?t'] by (simp add: run_command_def moves_reg_def Let_def)
qed

section \<open>Programs\<close>

lemma program_words:
  "dm_progbuf t = ws @ rest \<Longrightarrow> i < length ws \<Longrightarrow> hart_fetch t (6 + i) = ws ! i"
  by (simp add: fetch_program nth_append)

definition load_program_words :: "u32 list" where
  "load_program_words = [LOAD 64 S1 S0 0, ADDI S0 S0 8, EBREAK]"

definition store_program_words :: "u32 list" where
  "store_program_words = [STORE 64 S1 S0 0, ADDI S0 S0 8, EBREAK]"

definition clear_program_words :: "u32 list" where
  "clear_program_words = [STORE 64 X0 S0 0, ADDI S0 S0 8, BNE S0 S1 0 8, EBREAK]"

lemma run_load_program:
  assumes "dm_progbuf t = load_program_words @ rest"
  shows "hart_run 6 t = Some (park (set_reg S0 (get_reg t S0 + 8)
    (set_reg S1 (le_word (hart_load t (get_reg t S0) 8)) t)))"
proof -
  let ?t1 = "set_reg S1 (le_word (hart_load t (get_reg t S0) 8)) t"
  let ?t2 = "set_reg S0 (get_reg t S0 + 8) ?t1"
  have i6: "hart_step (hart_fetch t 6) 6 t = Goto 7 ?t1"
    using program_words [of t load_program_words rest 0] assms
    by (simp add: load_program_words_def steps)
  have i7: "hart_step (hart_fetch ?t1 7) 7 ?t1 = Goto 8 ?t2"
    using program_words [of ?t1 load_program_words rest 1] assms
    by (simp add: load_program_words_def steps)
  have i8: "hart_step (hart_fetch ?t2 8) 8 ?t2 = Parked ?t2"
    using program_words [of ?t2 load_program_words rest 2] assms
    by (simp add: load_program_words_def steps)
  show ?thesis
    by (simp only: hart_run_goto [OF i6] hart_run_goto [OF i7] hart_run_parked [OF i8])
qed

lemma hart_store_simps [simp]:
  "dm_progbuf (hart_store a bs t) = dm_progbuf t" "get_reg (hart_store a bs t) r = get_reg t r"
  "dm_command (hart_store a bs t) = dm_command t"
  by (simp_all add: hart_store_def Let_def get_reg_def)

lemma run_store_program:
  assumes "dm_progbuf t = store_program_words @ rest"
  shows "hart_run 6 t = Some (park (set_reg S0 (get_reg t S0 + 8)
    (hart_store (get_reg t S0) (le_bytes 8 (get_reg t S1)) t)))"
proof -
  let ?t1 = "hart_store (get_reg t S0) (le_bytes 8 (get_reg t S1)) t"
  let ?t2 = "set_reg S0 (get_reg t S0 + 8) ?t1"
  have i6: "hart_step (hart_fetch t 6) 6 t = Goto 7 ?t1"
    using program_words [of t store_program_words rest 0] assms
    by (simp add: store_program_words_def steps)
  have i7: "hart_step (hart_fetch ?t1 7) 7 ?t1 = Goto 8 ?t2"
    using program_words [of ?t1 store_program_words rest 1] assms
    by (simp add: store_program_words_def steps)
  have i8: "hart_step (hart_fetch ?t2 8) 8 ?t2 = Parked ?t2"
    using program_words [of ?t2 store_program_words rest 2] assms
    by (simp add: store_program_words_def steps)
  show ?thesis
    by (simp only: hart_run_goto [OF i6] hart_run_goto [OF i7] hart_run_parked [OF i8])
qed


text \<open>
  The loop that clears: with \<open>s1\<close> a number of words above \<open>s0\<close>, it returns, and
  every one of those words is zero. The addresses must not be those of the data registers.
\<close>

definition no_data :: "u64 \<Rightarrow> nat \<Rightarrow> bool" where
  "no_data a n \<longleftrightarrow> (\<forall>k<n. \<not> in_data (a + of_nat (8 * k)) 8)"

lemma no_dataD: "no_data a n \<Longrightarrow> k < n \<Longrightarrow> \<not> in_data (a + of_nat (8 * k)) 8"
  by (simp add: no_data_def)

lemma no_data_first: "no_data a (Suc n) \<Longrightarrow> \<not> in_data a 8"
  using no_dataD [of a "Suc n" 0] by simp

lemma no_data_rest: "no_data a (Suc n) \<Longrightarrow> no_data (a + 8) n"
proof -
  assume "no_data a (Suc n)"
  then have "\<not> in_data (a + of_nat (8 * Suc k)) 8" if "k < n" for k
    using that by (intro no_dataD [of a "Suc n"]) simp_all
  then show ?thesis by (simp add: no_data_def ac_simps)
qed

lemma le_bytes_0: "le_bytes n (0 :: u64) = replicate n 0"
  by (rule nth_equalityI) simp_all

lemma hart_store_memory:
  "\<not> in_data a (length bs) \<Longrightarrow> hart_store a bs t = t\<lparr>dm_mem := mem_write (dm_mem t) a bs\<rparr>"
  by (simp add: hart_store_def)

lemma hart_load_memory: "\<not> in_data a n \<Longrightarrow> hart_load t a n = mem_read (dm_mem t) a n"
  by (simp add: hart_load_def)

lemma set_reg_mem: "set_reg r v ((set_reg r w t)\<lparr>dm_mem := m\<rparr>) = set_reg r v (t\<lparr>dm_mem := m\<rparr>)"
  by (simp add: set_reg_def)

lemma run_clear_program:
  assumes "dm_progbuf t = clear_program_words @ rest"
    and "get_reg t S1 = get_reg t S0 + of_nat (8 * Suc n)" and "8 * Suc n < 2 ^ 64"
    and "no_data (get_reg t S0) (Suc n)"
  shows "hart_run 6 t = Some (park (set_reg S0 (get_reg t S1)
    (t\<lparr>dm_mem := mem_write (dm_mem t) (get_reg t S0) (replicate (8 * Suc n) 0)\<rparr>)))"
  using assms
proof (induction n arbitrary: t)
  case 0
  let ?a = "get_reg t S0"
  let ?t1 = "t\<lparr>dm_mem := mem_write (dm_mem t) ?a (replicate 8 0)\<rparr>"
  let ?t2 = "set_reg S0 (?a + 8) ?t1"
  have i6: "hart_step (hart_fetch t 6) 6 t = Goto 7 ?t1"
    using program_words [of t clear_program_words rest 0] 0 no_data_first [of ?a]
    by (simp add: clear_program_words_def steps hart_store_memory le_bytes_0)
  have i7: "hart_step (hart_fetch ?t1 7) 7 ?t1 = Goto 8 ?t2"
    using program_words [of ?t1 clear_program_words rest 1] 0
    by (simp add: clear_program_words_def steps)
  have i8: "hart_step (hart_fetch ?t2 8) 8 ?t2 = Goto 9 ?t2"
    using program_words [of ?t2 clear_program_words rest 2] 0
    by (simp add: clear_program_words_def steps)
  have i9: "hart_step (hart_fetch ?t2 9) 9 ?t2 = Parked ?t2"
    using program_words [of ?t2 clear_program_words rest 3] 0
    by (simp add: clear_program_words_def steps)
  have "hart_run 6 t = Some (park ?t2)"
    by (simp only: hart_run_goto [OF i6] hart_run_goto [OF i7] hart_run_goto [OF i8] hart_run_parked [OF i9])
  then show ?case using 0(2) by simp
next
  case (Suc n)
  let ?a = "get_reg t S0"
  let ?t1 = "t\<lparr>dm_mem := mem_write (dm_mem t) ?a (replicate 8 0)\<rparr>"
  let ?t2 = "set_reg S0 (?a + 8) ?t1"
  have "get_reg t S1 - (?a + 8) = of_nat (8 * Suc n)" using Suc.prems(2) by simp
  moreover have "(of_nat (8 * Suc n) :: u64) \<noteq> 0"
    using Suc.prems(3) unat_of_nat_addr [of "8 * Suc n"] by fastforce
  ultimately have differ: "?a + 8 \<noteq> get_reg t S1" by (metis diff_self)
  have i6: "hart_step (hart_fetch t 6) 6 t = Goto 7 ?t1"
    using program_words [of t clear_program_words rest 0] Suc.prems no_data_first [of ?a]
    by (simp add: clear_program_words_def steps hart_store_memory le_bytes_0)
  have i7: "hart_step (hart_fetch ?t1 7) 7 ?t1 = Goto 8 ?t2"
    using program_words [of ?t1 clear_program_words rest 1] Suc.prems
    by (simp add: clear_program_words_def steps)
  have i8: "hart_step (hart_fetch ?t2 8) 8 ?t2 = Goto 6 ?t2"
    using program_words [of ?t2 clear_program_words rest 2] Suc.prems(1) differ
    by (simp add: clear_program_words_def steps)
  have "hart_run 6 t = hart_run 6 ?t2"
    by (simp only: hart_run_goto [OF i6] hart_run_goto [OF i7] hart_run_goto [OF i8])
  also have "\<dots> = Some (park (set_reg S0 (get_reg ?t2 S1)
      (?t2\<lparr>dm_mem := mem_write (dm_mem ?t2) (get_reg ?t2 S0) (replicate (8 * Suc n) 0)\<rparr>)))"
    by (rule Suc.IH) (use Suc.prems no_data_rest in simp_all)
  also have "\<dots> = Some (park (set_reg S0 (get_reg t S1)
      (t\<lparr>dm_mem := mem_write (dm_mem t) ?a (replicate (8 * Suc (Suc n)) 0)\<rparr>)))"
  proof -
    have "replicate (8 * Suc (Suc n)) (0 :: byte) = replicate 8 0 @ replicate (8 * Suc n) 0"
      by (simp flip: replicate_add)
    then show ?thesis by (simp add: mem_write_append set_reg_mem)
  qed
  finally show ?case .
qed

end
