(* ===== verification/Dtm_Hart.thy ===== *)
theory Dtm_Hart
  imports Hart_Programs
begin

text \<open>
  What the transport relies on while the hart is halted: the values of its registers and its
  memory, and what a command, the three programs and the register transfers make of them.
\<close>

section \<open>What a halted hart holds\<close>

text \<open>
  The general registers, the control registers except \<open>dscratch\<close>, which the debug ROM uses,
  the memory, the words at the start of the program buffer, and \<open>abstractauto\<close>.
\<close>

definition dm_holds :: "u32 \<Rightarrow> (u32 \<Rightarrow> u64) \<Rightarrow> (u32 \<Rightarrow> u64) \<Rightarrow> mem \<Rightarrow> u32 list \<Rightarrow> dm \<Rightarrow> bool" where
  "dm_holds A R C M ws t \<longleftrightarrow> dm_halted t \<and> dm_cmderr t = 0 \<and> dm_auto t = A \<and> dm_control t = 1 \<and>
     \<not> dm_resumeack t \<and> length (dm_progbuf t) = DM_PROGBUF_SIZE \<and> length (dm_data t) = DM_DATA_COUNT \<and>
     (\<forall>r. get_reg t r = R r) \<and> (\<forall>c. c \<noteq> CSR_DSCRATCH \<longrightarrow> dm_csrs t c = C c) \<and> dm_mem t = M \<and>
     take (length ws) (dm_progbuf t) = ws"

text \<open>The transport has learnt the sizes of the module and works on hart 0.\<close>

definition dtm_at :: "dm dtm \<Rightarrow> bool" where
  "dtm_at s \<longleftrightarrow> xlen s = 64 \<and> ram_words s = 6 \<and> data_words s = 2 \<and> current_hart s = 0 \<and>
     data_base s = 0x380 \<and> num_harts s = 1"

definition dtm_holds :: "(u32 \<Rightarrow> u64) \<Rightarrow> (u32 \<Rightarrow> u64) \<Rightarrow> mem \<Rightarrow> u32 list \<Rightarrow> dm dtm \<Rightarrow> bool" where
  "dtm_holds R C M ws s \<longleftrightarrow> dm_holds 0 R C M ws (dtm_target s) \<and> \<not> dm_busy (dtm_target s) \<and> dtm_at s"

lemma holds_parked: "dm_holds 0 R C M ws t \<Longrightarrow> \<not> dm_busy t \<Longrightarrow> dm_parked t"
  by (simp add: dm_holds_def dm_parked_def)

lemma holds_program: "dm_holds A R C M ws t \<Longrightarrow> \<exists>rest. dm_progbuf t = ws @ rest"
  by (metis append_take_drop_id dm_holds_def)

lemma holds_park: "dm_holds A R C M ws (park t) = dm_holds A R C M ws t"
  by (auto simp: dm_holds_def) (simp_all add: park_def)

lemma holds_set_reg:
  "dm_holds A R C M ws t \<Longrightarrow> r \<noteq> 0 \<Longrightarrow> dm_holds A (R(r := v)) C M ws (set_reg r v t)"
  by (simp add: dm_holds_def)

lemma holds_data:
  "dm_holds A R C M ws t \<Longrightarrow> length d = 2 \<Longrightarrow> dm_holds A R C M ws (t\<lparr>dm_data := d\<rparr>)"
  by (simp add: dm_holds_def DM_DATA_COUNT_def)

lemma holds_mem: "dm_holds A R C M ws t \<Longrightarrow> dm_holds A R C M' ws (t\<lparr>dm_mem := M'\<rparr>)"
  by (simp add: dm_holds_def)

lemma length_to_data [simp]: "length (to_data 64 v) = 2"
  by (simp add: to_data_64)

text \<open>The hart does not write the command register.\<close>

lemma step_command:
  "hart_step w pc t = Goto pc' t' \<Longrightarrow> dm_command t' = dm_command t"
  "hart_step w pc t = Parked t' \<Longrightarrow> dm_command t' = dm_command t"
  "hart_step w pc t = Trapped t' \<Longrightarrow> dm_command t' = dm_command t"
  by (auto simp: hart_step_def csr_op_def Let_def set_reg_def split: if_splits)

lemma run_keeps_command:
  assumes "hart_run pc t = Some u"
  shows "dm_command u = dm_command t"
proof (rule hart_run.raw_induct [OF _ assms, where P = "\<lambda>pc t u. dm_command u = dm_command t"])
  fix run :: "nat \<Rightarrow> dm \<Rightarrow> dm option" and pc t u
  assume IH: "\<And>pc t u. run pc t = Some u \<Longrightarrow> dm_command u = dm_command t"
    and run: "(case hart_step (hart_fetch t pc) pc t of Goto pc' t' \<Rightarrow> run pc' t'
      | Parked t' \<Rightarrow> Some (park t') | Trapped t' \<Rightarrow> Some (park (t'\<lparr>dm_cmderr := 3\<rparr>))) = Some u"
  show "dm_command u = dm_command t"
  proof (cases "hart_step (hart_fetch t pc) pc t")
    case (Goto pc' t')
    then show ?thesis using run IH step_command(1) by simp
  next
    case (Parked t')
    then show ?thesis using run step_command(2) by (auto simp: park_def)
  next
    case (Trapped t')
    then show ?thesis using run step_command(3) by (auto simp: park_def)
  qed
qed

lemma command_kept: "run_command t = Some u \<Longrightarrow> dm_command u = dm_command t"
  by (auto simp: run_command_def run_keeps_command split: if_splits)

text \<open>A command of the transport, from what the hart does with it.\<close>

lemma wp_command_kept:
  assumes "dtm_holds R C M ws s" and "length program \<le> 6" and "length data \<le> 2"
    and run: "\<And>t. dm_holds 0 R C M (if program = [] then ws else program) t \<Longrightarrow> dm_command t = c \<Longrightarrow>
      (ac_write c \<and> ac_transfer c \<Longrightarrow> take (length data) (dm_data t) = data) \<Longrightarrow>
      \<exists>u. run_command t = Some u \<and> dm_holds 0 R' C' M' ws' u \<and> (\<not> ac_write c \<longrightarrow> dm_data u = d) \<and> P (dm_data u)"
  shows "wp (RUN_AC_OR_DIE (dm_dmi lat) c program data)
    (\<lambda>x s'. x = (if \<not> ac_write c \<and> ac_transfer c then take (length data) d else data) \<and>
      dtm_holds R' C' M' ws' s' \<and> dm_command (dtm_target s') = c \<and> P (dm_data (dtm_target s'))) s"
proof -
  have s: "dm_holds 0 R C M ws (dtm_target s)" "\<not> dm_busy (dtm_target s)" "dtm_at s"
    using assms(1) by (simp_all add: dtm_holds_def)
  let ?t = "dtm_target s"
  let ?t1 = "?t\<lparr>dm_progbuf := program @ drop (length program) (dm_progbuf ?t),
      dm_data := (if ac_write c \<and> ac_transfer c then data @ drop (length data) (dm_data ?t) else dm_data ?t),
      dm_command := c, dm_busy := True, dm_count := 0\<rparr>"
  have "dm_holds 0 R C M (if program = [] then ws else program) ?t1"
    using s(1) assms(2,3) by (simp add: dm_holds_def DM_PROGBUF_SIZE_def DM_DATA_COUNT_def)
  then obtain u where u: "run_command ?t1 = Some u" "dm_holds 0 R' C' M' ws' u" "\<not> ac_write c \<longrightarrow> dm_data u = d"
      "P (dm_data u)"
    using run [of ?t1] by auto
  have holds: "dm_holds 0 R' C' M' ws' (u\<lparr>dm_busy := False\<rparr>)" using u(2) by (simp add: dm_holds_def)
  then have "dm_parked (u\<lparr>dm_busy := False\<rparr>)" by (rule holds_parked) simp
  then have "wp (RUN_AC_OR_DIE (dm_dmi lat) c program data) Q s =
      Q (if \<not> ac_write c \<and> ac_transfer c then take (length data) (dm_data u) else data)
        (s\<lparr>dtm_target := u\<lparr>dm_busy := False\<rparr>\<rparr>)" for Q
    using s(3) assms(2,3) u(1) holds_parked [OF s(1,2)]
    by (intro wp_RUN_AC_OR_DIE wp_run_abstract_command) (simp_all add: dtm_at_def)
  then show ?thesis using holds u(3,4) s(3) command_kept [OF u(1)] by (simp add: dtm_holds_def dtm_at_def)
qed

lemma wp_command:
  assumes "dtm_holds R C M ws s" and "length program \<le> 6" and "length data \<le> 2"
    and run: "\<And>t. dm_holds 0 R C M (if program = [] then ws else program) t \<Longrightarrow> dm_command t = c \<Longrightarrow>
      (ac_write c \<and> ac_transfer c \<Longrightarrow> take (length data) (dm_data t) = data) \<Longrightarrow>
      \<exists>u. run_command t = Some u \<and> dm_holds 0 R' C M' ws' u \<and> (\<not> ac_write c \<longrightarrow> dm_data u = d)"
  shows "wp (RUN_AC_OR_DIE (dm_dmi lat) c program data)
    (\<lambda>x s'. x = (if \<not> ac_write c \<and> ac_transfer c then take (length data) d else data) \<and>
      dtm_holds R' C M' ws' s') s"
  by (rule wp_mono [OF wp_command_kept [OF assms(1-3), where P = "\<lambda>_. True" and d = d and R' = R' and C' = C and M' = M' and ws' = ws']]) (use run in simp_all)

section \<open>What the hart does\<close>

lemmas ac_words = AC_ACCESS_REGISTER_TRANSFER_def AC_ACCESS_REGISTER_WRITE_def AC_ACCESS_REGISTER_POSTEXEC_def
  AC_AR_SIZE_def AC_AR_REGNO_def moves_reg_def ac_type_def ac_transfer_def ac_write_def ac_postexec_def
  ac_size_def ac_regno_def

lemma moved_data: "take (length (to_data 64 v)) (dm_data t) = to_data 64 v \<Longrightarrow> length (dm_data t) = 2 \<Longrightarrow> dm_data t = to_data 64 v"
  by simp

lemma holds_lengths: "dm_holds A R C M ws t \<Longrightarrow> length (dm_data t) = 2" "dm_holds A R C M ws t \<Longrightarrow> get_reg t r = R r"
    "dm_holds A R C M ws t \<Longrightarrow> dm_mem t = M"
  by (simp_all add: dm_holds_def DM_DATA_COUNT_def)

lemma hart_write_reg:
  assumes "dm_holds A R C M ws t" and "moves_reg (dm_command t) r" and "r \<noteq> 0" and "ac_write (dm_command t)"
    and "\<not> ac_postexec (dm_command t)" and "dm_data t = to_data 64 v"
  shows "\<exists>u. run_command t = Some u \<and> dm_holds A (R(r := v)) C M ws u"
  using run_write_reg [OF assms(2,4,6)] assms holds_set_reg by (simp add: holds_park)

lemma hart_read_reg:
  assumes "dm_holds A R C M ws t" and "moves_reg (dm_command t) r" and "\<not> ac_write (dm_command t)"
    and "\<not> ac_postexec (dm_command t)"
  shows "\<exists>u. run_command t = Some u \<and> dm_holds A R C M ws u \<and> dm_data u = to_data 64 (R r)"
  using run_read_reg [OF assms(2,3)] assms holds_lengths [OF assms(1)] holds_data
  by (simp add: holds_park Let_def)

definition word_at :: "mem \<Rightarrow> addr \<Rightarrow> u64" where
  "word_at M a = le_word (mem_read M a 8)"

text \<open>The load program: \<open>s1\<close> is the word at \<open>s0\<close>, which advances.\<close>

lemma hart_load_program:
  assumes "dm_holds A R C M (load_program_words @ ws) t" and "\<not> in_data (R S0) 8"
  shows "\<exists>u. hart_run 6 t = Some u \<and> dm_data u = dm_data t \<and>
    dm_holds A (R(S1 := word_at M (R S0), S0 := R S0 + 8)) C M (load_program_words @ ws) u"
proof -
  obtain rest where "dm_progbuf t = load_program_words @ ws @ rest" using holds_program [OF assms(1)] by auto
  from run_load_program [OF this] show ?thesis
    using assms holds_lengths [OF assms(1)]
    by (simp add: holds_park holds_set_reg hart_load_memory word_at_def)
qed

lemma hart_store_program:
  assumes "dm_holds A R C M (store_program_words @ ws) t" and "\<not> in_data (R S0) 8"
  shows "\<exists>u. hart_run 6 t = Some u \<and> dm_data u = dm_data t \<and>
    dm_holds A (R(S0 := R S0 + 8)) C (mem_write M (R S0) (le_bytes 8 (R S1))) (store_program_words @ ws) u"
proof -
  obtain rest where "dm_progbuf t = store_program_words @ ws @ rest" using holds_program [OF assms(1)] by auto
  from run_store_program [OF this] show ?thesis
    using assms holds_lengths [OF assms(1)] holds_mem [OF assms(1)]
    by (simp add: holds_park holds_set_reg hart_store_memory)
qed

lemma hart_clear_program:
  assumes "dm_holds A R C M (clear_program_words @ ws) t" and "R S1 = R S0 + of_nat (8 * Suc n)"
    and "8 * Suc n < 2 ^ 64" and "no_data (R S0) (Suc n)"
  shows "\<exists>u. hart_run 6 t = Some u \<and>
    dm_holds A (R(S0 := R S1)) C (mem_write M (R S0) (replicate (8 * Suc n) 0)) (clear_program_words @ ws) u"
proof -
  obtain rest where "dm_progbuf t = clear_program_words @ ws @ rest" using holds_program [OF assms(1)] by auto
  from run_clear_program [OF this, of n] show ?thesis
    using assms holds_lengths [OF assms(1)] holds_mem [OF assms(1)]
    by (simp add: holds_park holds_set_reg)
qed


section \<open>Saving and restoring registers\<close>

lemma holds_at: "dtm_holds R C M ws s \<Longrightarrow> xlen s = 64" "dtm_holds R C M ws s \<Longrightarrow> current_hart s = 0"
    "dtm_holds R C M ws s \<Longrightarrow> ram_words s = 6" "dtm_holds R C M ws s \<Longrightarrow> data_words s = 2"
    "dtm_holds R C M ws s \<Longrightarrow> data_base s = 0x380"
  by (simp_all add: dtm_holds_def dtm_at_def)

lemma of_data_reg [simp]: "of_data 64 (take 2 (to_data 64 v)) = v"
  by (simp add: of_to_data)

lemma saved_regs:
  "moves_reg (AC_ACCESS_REGISTER_TRANSFER OR AC_AR_SIZE 64 OR AC_AR_REGNO S0) S0"
  "moves_reg (AC_ACCESS_REGISTER_TRANSFER OR AC_AR_SIZE 64 OR AC_AR_REGNO S1) S1"
  "moves_reg (AC_ACCESS_REGISTER_TRANSFER OR AC_ACCESS_REGISTER_WRITE OR AC_AR_SIZE 64 OR AC_AR_REGNO S0) S0"
  "moves_reg (AC_ACCESS_REGISTER_TRANSFER OR AC_ACCESS_REGISTER_WRITE OR AC_AR_SIZE 64 OR AC_AR_REGNO S1) S1"
  by (simp_all add: ac_words)

lemma wp_save_reg:
  assumes "dtm_holds R C M ws s" and "r = S0 \<or> r = S1"
  shows "wp (save_reg (dm_dmi lat) r) (\<lambda>v s'. v = R r \<and> dtm_holds R C M ws s') s"
proof -
  let ?c = "AC_ACCESS_REGISTER_TRANSFER OR AC_AR_SIZE 64 OR AC_AR_REGNO r"
  have c: "moves_reg ?c r" "\<not> ac_write ?c" "\<not> ac_postexec ?c" "ac_transfer ?c"
    using assms(2) by (auto simp: ac_words)
  have "wp (RUN_AC_OR_DIE (dm_dmi lat) ?c [] (replicate 2 0))
      (\<lambda>x s'. x = (if \<not> ac_write ?c \<and> ac_transfer ?c then take (length (replicate 2 (0 :: u32))) (to_data 64 (R r)) else replicate 2 0) \<and>
        dtm_holds R C M ws s') s"
  proof (rule wp_command [OF assms(1)])
    fix t
    assume t: "dm_holds 0 R C M (if [] = [] then ws else []) t" "dm_command t = ?c"
    then show "\<exists>u. run_command t = Some u \<and> dm_holds 0 R C M ws u \<and> (\<not> ac_write ?c \<longrightarrow> dm_data u = to_data 64 (R r))"
      using hart_read_reg [of 0 R C M ws t r] c by simp
  qed simp_all
  then have "wp (RUN_AC_OR_DIE (dm_dmi lat) ?c [] (replicate 2 0))
      (\<lambda>x s'. of_data 64 x = R r \<and> dtm_holds R C M ws s') s"
    by (rule wp_mono) (use c in simp)
  then show ?thesis
    using holds_at [OF assms(1)] by (simp add: save_reg_def)
qed

lemma wp_write_reg:
  assumes "dtm_holds R C M ws s" and "moves_reg c r" and "r \<noteq> 0" and "ac_write c" and "\<not> ac_postexec c"
    and "length program \<le> 6"
  shows "wp (RUN_AC_OR_DIE (dm_dmi lat) c program (to_data 64 v))
    (\<lambda>x. dtm_holds (R(r := v)) C M (if program = [] then ws else program)) s"
proof -
  let ?ws = "if program = [] then ws else program"
  have "wp (RUN_AC_OR_DIE (dm_dmi lat) c program (to_data 64 v))
      (\<lambda>x s'. x = (if \<not> ac_write c \<and> ac_transfer c then take (length (to_data 64 v)) [] else to_data 64 v) \<and>
        dtm_holds (R(r := v)) C M ?ws s') s"
  proof (rule wp_command [OF assms(1,6)])
    fix t
    assume t: "dm_holds 0 R C M ?ws t" "dm_command t = c"
      and data: "ac_write c \<and> ac_transfer c \<Longrightarrow> take (length (to_data 64 v)) (dm_data t) = to_data 64 v"
    have "dm_data t = to_data 64 v"
      using data holds_lengths(1) [OF t(1)] assms(2,4) by (simp add: moves_reg_def)
    then show "\<exists>u. run_command t = Some u \<and> dm_holds 0 (R(r := v)) C M ?ws u \<and> (\<not> ac_write c \<longrightarrow> dm_data u = [])"
      using hart_write_reg [OF t(1), of r v] assms t(2) by simp
  qed simp
  then show ?thesis by (rule wp_mono) simp
qed

lemma wp_restore_reg:
  assumes "dtm_holds R C M ws s" and "r = S0 \<or> r = S1"
  shows "wp (restore_reg (dm_dmi lat) r v) (\<lambda>_. dtm_holds (R(r := v)) C M ws) s"
proof -
  let ?c = "AC_ACCESS_REGISTER_TRANSFER OR AC_ACCESS_REGISTER_WRITE OR AC_AR_SIZE 64 OR AC_AR_REGNO r"
  have "moves_reg ?c r" "r \<noteq> 0" "ac_write ?c" "\<not> ac_postexec ?c"
    using assms(2) by (auto simp: ac_words)
  from wp_write_reg [OF assms(1) this, of "[]"] show ?thesis
    using holds_at [OF assms(1)] by (simp add: restore_reg_def)
qed

end
