(* ===== verification/Dtm_Memory.thy ===== *)
theory Dtm_Memory
  imports Dtm_Hart
begin

text \<open>
  The memory operations of the debug transport, against the debug module with its hart: each
  halts the hart, moves the words with abstract commands and programs, puts the registers back
  and lets the hart run. The result is a provider of chunks that clears every range, so the whole
  of \<open>memif_t\<close> works over it.
\<close>

section \<open>Reading\<close>

text \<open>The transfers use \<open>s0\<close> and \<open>s1\<close> only.\<close>

definition same_regs :: "(u32 \<Rightarrow> u64) \<Rightarrow> (u32 \<Rightarrow> u64) \<Rightarrow> bool" where
  "same_regs R R' \<longleftrightarrow> (\<forall>r. r \<noteq> S0 \<longrightarrow> r \<noteq> S1 \<longrightarrow> R' r = R r)"

lemma same_regs_upd [simp]: "same_regs R (R'(8 := v)) = same_regs R R'" "same_regs R (R'(9 := v)) = same_regs R R'"
    "same_regs R R"
  by (auto simp: same_regs_def)

lemma same_regs_restore: "same_regs R R' \<Longrightarrow> R'(8 := R 8, 9 := R 9) = R"
  by (rule ext) (simp add: same_regs_def)

lemma data_bytes_64: "data_bytes 64 (to_data 64 v) = le_bytes 8 v"
proof -
  have "le_bytes 4 (le_word bs :: u32) = bs" if "length bs = 4" for bs
    using le_bytes_le_word [of bs, where ?'a = 32] that by simp
  from this [of "take 4 (le_bytes 8 v)"] this [of "take 4 (drop 4 (le_bytes 8 v))"]
  have "data_bytes 64 (data_of_bytes (le_bytes 8 v)) =
      take 4 (le_bytes 8 v) @ take 4 (drop 4 (le_bytes 8 v))"
    by (simp add: data_bytes_def data_of_bytes_def)
  also have "\<dots> = take (4 + 4) (le_bytes 8 v)" by (simp only: take_add)
  finally show ?thesis by (simp add: data_of_le_bytes)
qed

lemma word_bytes: "data_bytes 64 (to_data 64 (word_at M a)) = mem_read M a 8"
  using le_bytes_le_word [of "mem_read M a 8", where ?'a = 64] by (simp add: data_bytes_64 word_at_def)

lemma wp_read_s1:
  assumes "dtm_holds R C M load_program_words s"
  shows "wp (RUN_AC_OR_DIE (dm_dmi lat) (AC_ACCESS_REGISTER_TRANSFER OR AC_AR_SIZE 64 OR AC_AR_REGNO S1 OR 0) []
      (replicate 2 0)) (\<lambda>x s'. x = to_data 64 (R S1) \<and> dtm_holds R C M load_program_words s') s"
proof -
  let ?c = "AC_ACCESS_REGISTER_TRANSFER OR AC_AR_SIZE 64 OR AC_AR_REGNO S1 OR 0"
  have c: "moves_reg ?c S1" "\<not> ac_write ?c" "\<not> ac_postexec ?c" "ac_transfer ?c" by (simp_all add: ac_words)
  have "wp (RUN_AC_OR_DIE (dm_dmi lat) ?c [] (replicate 2 0))
      (\<lambda>x s'. x = (if \<not> ac_write ?c \<and> ac_transfer ?c then take (length (replicate 2 (0 :: u32))) (to_data 64 (R S1)) else replicate 2 0) \<and>
        dtm_holds R C M load_program_words s') s"
  proof (rule wp_command [OF assms])
    fix t
    assume "dm_holds 0 R C M (if [] = [] then load_program_words else []) t" "dm_command t = ?c"
    then show "\<exists>u. run_command t = Some u \<and> dm_holds 0 R C M load_program_words u \<and>
        (\<not> ac_write ?c \<longrightarrow> dm_data u = to_data 64 (R S1))"
      using hart_read_reg [of 0 R C M load_program_words t S1] c by simp
  qed simp_all
  then show ?thesis by (rule wp_mono) (use c in simp)
qed

lemma wp_read_s1_load:
  assumes "dtm_holds R C M load_program_words s" and "\<not> in_data (R S0) 8"
  shows "wp (RUN_AC_OR_DIE (dm_dmi lat) (AC_ACCESS_REGISTER_TRANSFER OR AC_AR_SIZE 64 OR AC_AR_REGNO S1 OR
      AC_ACCESS_REGISTER_POSTEXEC) [] (replicate 2 0))
    (\<lambda>x s'. x = to_data 64 (R S1) \<and>
      dtm_holds (R(S1 := word_at M (R S0), S0 := R S0 + 8)) C M load_program_words s') s"
proof -
  let ?c = "AC_ACCESS_REGISTER_TRANSFER OR AC_AR_SIZE 64 OR AC_AR_REGNO S1 OR AC_ACCESS_REGISTER_POSTEXEC"
  let ?R = "R(S1 := word_at M (R S0), S0 := R S0 + 8)"
  have c: "moves_reg ?c S1" "\<not> ac_write ?c" "ac_postexec ?c" "ac_transfer ?c" by (simp_all add: ac_words)
  have "wp (RUN_AC_OR_DIE (dm_dmi lat) ?c [] (replicate 2 0))
      (\<lambda>x s'. x = (if \<not> ac_write ?c \<and> ac_transfer ?c then take (length (replicate 2 (0 :: u32))) (to_data 64 (R S1)) else replicate 2 0) \<and>
        dtm_holds ?R C M load_program_words s') s"
  proof (rule wp_command [OF assms(1)])
    fix t
    assume t: "dm_holds 0 R C M (if [] = [] then load_program_words else []) t" "dm_command t = ?c"
    let ?t = "t\<lparr>dm_data := to_data 64 (R S1)\<rparr>"
    have "run_command t = hart_run 6 ?t"
      using run_read_reg [of t S1] c t(2) holds_lengths [of 0 R C M load_program_words t] t(1) by (simp add: Let_def)
    moreover have "dm_holds 0 R C M load_program_words ?t" using t(1) holds_data by simp
    ultimately show "\<exists>u. run_command t = Some u \<and> dm_holds 0 ?R C M load_program_words u \<and>
        (\<not> ac_write ?c \<longrightarrow> dm_data u = to_data 64 (R S1))"
      using hart_load_program [of 0 R C M "[]" ?t] assms(2) by auto
  qed simp_all
  then show ?thesis by (rule wp_mono) (use c in simp)
qed

lemma wp_read_words:
  assumes "dtm_holds R C M load_program_words s" and "R S1 = word_at M b" and "R S0 = b + 8" and "no_data b (Suc n)"
  shows "wp (read_words (dm_dmi lat) (Suc n)) (\<lambda>bs s'. bs = mem_read M b (8 * Suc n) \<and>
    (\<exists>R'. same_regs R R' \<and> dtm_holds R' C M load_program_words s')) s"
  using assms
proof (induction n arbitrary: R b s)
  case 0
  have "wp (RUN_AC_OR_DIE (dm_dmi lat) (AC_ACCESS_REGISTER_TRANSFER OR AC_AR_SIZE 64 OR AC_AR_REGNO S1 OR 0) []
      (replicate 2 0)) (\<lambda>x s'. data_bytes 64 x = mem_read M b 8 \<and>
        (\<exists>R'. same_regs R R' \<and> dtm_holds R' C M load_program_words s')) s"
    by (rule wp_mono [OF wp_read_s1 [OF 0(1)]]) (use 0(2) in \<open>auto simp: word_bytes intro: same_regs_upd(3)\<close>)
  then show ?case using holds_at(1) [OF 0(1)] by simp
next
  case (Suc n)
  let ?R = "R(S1 := word_at M (R S0), S0 := R S0 + 8)"
  let ?Q = "\<lambda>b n bs s'. bs = mem_read M b (8 * n) \<and> (\<exists>R'. same_regs R R' \<and> dtm_holds R' C M load_program_words s')"
  have data: "\<not> in_data (R S0) 8"
    using no_dataD [OF Suc.prems(4), of 1] Suc.prems(3) by simp
  have rest: "wp (read_words (dm_dmi lat) (Suc n)) (?Q (b + 8) (Suc n)) s'"
    if "dtm_holds ?R C M load_program_words s'" for s'
  proof -
    have "same_regs ?R = same_regs R" by (intro ext) (auto simp: same_regs_def)
    moreover have "?R S1 = word_at M (b + 8)" "?R S0 = b + 8 + 8" using Suc.prems(3) by simp_all
    from Suc.IH [OF that this no_data_rest [OF Suc.prems(4)]]
    have "wp (read_words (dm_dmi lat) (Suc n)) (\<lambda>bs s'. bs = mem_read M (b + 8) (8 * Suc n) \<and>
        (\<exists>R'. same_regs ?R R' \<and> dtm_holds R' C M load_program_words s')) s'" .
    ultimately show ?thesis by (simp only:)
  qed
  have split: "mem_read M b (8 * Suc (Suc n)) = mem_read M b 8 @ mem_read M (b + 8) (8 * Suc n)"
    using mem_read_append [of M b 8 "8 * Suc n"] by simp
  have "wp (bind (RUN_AC_OR_DIE (dm_dmi lat) (AC_ACCESS_REGISTER_TRANSFER OR AC_AR_SIZE 64 OR AC_AR_REGNO S1 OR
      AC_ACCESS_REGISTER_POSTEXEC) [] (replicate 2 0)) (\<lambda>x. bind (read_words (dm_dmi lat) (Suc n))
        (\<lambda>rest. ret (data_bytes 64 x @ rest)))) (?Q b (Suc (Suc n))) s"
    unfolding wp_bind
  proof (rule wp_mono [OF wp_read_s1_load [OF Suc.prems(1) data]])
    fix x s'
    assume x: "x = to_data 64 (R S1) \<and> dtm_holds ?R C M load_program_words s'"
    show "wp (read_words (dm_dmi lat) (Suc n)) (\<lambda>rest. wp (ret (data_bytes 64 x @ rest)) (?Q b (Suc (Suc n)))) s'"
      by (rule wp_mono [OF rest]) (use x Suc.prems(2) in \<open>simp_all only: split wp_ret word_bytes simp_thms\<close>)
  qed
  then show ?case
    using holds_at(1) [OF Suc.prems(1)] by (simp only: read_words.simps(2) [of _ "Suc n"]) simp
qed

lemma wp_write_reg_run:
  assumes "dtm_holds R C M ws s" and "moves_reg c r" and "r \<noteq> 0" and "ac_write c" and "ac_postexec c"
    and "length program \<le> 6"
    and run: "\<And>t. dm_holds 0 (R(r := v)) C M (if program = [] then ws else program) t \<Longrightarrow>
      \<exists>u. hart_run 6 t = Some u \<and> dm_holds 0 R' C M' ws' u"
  shows "wp (RUN_AC_OR_DIE (dm_dmi lat) c program (to_data 64 v)) (\<lambda>_. dtm_holds R' C M' ws') s"
proof -
  let ?ws = "if program = [] then ws else program"
  have "wp (RUN_AC_OR_DIE (dm_dmi lat) c program (to_data 64 v))
      (\<lambda>x s'. x = (if \<not> ac_write c \<and> ac_transfer c then take (length (to_data 64 v)) [] else to_data 64 v) \<and>
        dtm_holds R' C M' ws' s') s"
  proof (rule wp_command [OF assms(1,6)])
    fix t
    assume t: "dm_holds 0 R C M ?ws t" "dm_command t = c"
      and data: "ac_write c \<and> ac_transfer c \<Longrightarrow> take (length (to_data 64 v)) (dm_data t) = to_data 64 v"
    have "dm_data t = to_data 64 v"
      using data holds_lengths(1) [OF t(1)] assms(2,4) by (simp add: moves_reg_def)
    then have "run_command t = hart_run 6 (set_reg r v t)"
      using run_write_reg [of t r v] t(2) assms(2,4,5) by simp
    then show "\<exists>u. run_command t = Some u \<and> dm_holds 0 R' C M' ws' u \<and> (\<not> ac_write c \<longrightarrow> dm_data u = [])"
      using run [OF holds_set_reg [OF t(1) assms(3), of v]] assms(4) by simp
  qed simp
  then show ?thesis by (rule wp_mono) simp
qed

section \<open>Halting and resuming\<close>

text \<open>The same state with the hart running.\<close>

definition dm_runs :: "(u32 \<Rightarrow> u64) \<Rightarrow> (u32 \<Rightarrow> u64) \<Rightarrow> mem \<Rightarrow> dm \<Rightarrow> bool" where
  "dm_runs R C M t \<longleftrightarrow> dm_running t \<and> (\<forall>r. get_reg t r = R r) \<and>
     (\<forall>c. c \<noteq> CSR_DSCRATCH \<longrightarrow> dm_csrs t c = C c) \<and> dm_mem t = M"

definition dtm_runs :: "(u32 \<Rightarrow> u64) \<Rightarrow> (u32 \<Rightarrow> u64) \<Rightarrow> mem \<Rightarrow> dm dtm \<Rightarrow> bool" where
  "dtm_runs R C M s \<longleftrightarrow> dm_runs R C M (dtm_target s) \<and> dtm_at s"

lemma runs_at: "dtm_runs R C M s \<Longrightarrow> xlen s = 64" "dtm_runs R C M s \<Longrightarrow> current_hart s = 0"
  by (simp_all add: dtm_runs_def dtm_at_def)

lemma wp_halt_runs:
  assumes "dtm_runs R C M s"
  shows "wp (halt (dm_dmi lat) 0) (\<lambda>_. dtm_holds R C M []) s"
proof -
  have "dm_running (dtm_target s)" using assms by (simp add: dtm_runs_def dm_runs_def)
  then show ?thesis
    using assms by (auto simp: wp_halt dtm_runs_def dm_runs_def dm_running_def dtm_holds_def dm_holds_def
      dtm_at_def holds_park) (auto simp: park_def get_reg_def)
qed

lemma get_reg_resumed: "get_reg (t\<lparr>dm_halted := h, dm_count := n\<rparr>) r = get_reg t r"
  by (simp add: get_reg_def)

lemma wp_resume_holds:
  assumes "dtm_holds R C M ws s"
  shows "wp (resume (dm_dmi lat) 0) (\<lambda>_. dtm_runs R C M) s"
proof -
  have "dm_parked (dtm_target s)" using assms by (auto simp: dtm_holds_def intro: holds_parked)
  then show ?thesis
    using assms by (auto simp: wp_resume dtm_runs_def dm_runs_def dm_running_def dtm_holds_def dm_holds_def
      dtm_at_def get_reg_resumed)
qed

section \<open>Transfers\<close>

text \<open>Every transfer starts with a halt and two saved registers, and ends by undoing both.\<close>

lemma wp_save:
  assumes "dtm_runs R C M s" and "\<And>s'. dtm_holds R C M [] s' \<Longrightarrow> wp (f (R S0) (R S1)) Q s'"
  shows "wp (bind (halt (dm_dmi lat) 0) (\<lambda>_. bind (save_reg (dm_dmi lat) S0) (\<lambda>s0.
    bind (save_reg (dm_dmi lat) S1) (\<lambda>s1. f s0 s1)))) Q s"
proof (rule wp_seq [OF wp_halt_runs [OF assms(1)]])
  fix u s1 assume h1: "dtm_holds R C M [] s1"
  show "wp (bind (save_reg (dm_dmi lat) S0) (\<lambda>s0. bind (save_reg (dm_dmi lat) S1) (\<lambda>s1. f s0 s1))) Q s1"
  proof (rule wp_seq [OF wp_save_reg [OF h1 disjI1 [OF refl]]])
    fix s0 s2 assume h2: "s0 = R S0 \<and> dtm_holds R C M [] s2"
    show "wp (bind (save_reg (dm_dmi lat) S1) (\<lambda>s1. f s0 s1)) Q s2"
      by (rule wp_seq [OF wp_save_reg [OF conjunct2 [OF h2] disjI2 [OF refl]]]) (use h2 assms(2) in simp)
  qed
qed

lemma wp_restore:
  assumes "dtm_holds R' C M ws s" and "same_regs R R'"
    and "\<And>s'. dtm_holds R C M ws s' \<Longrightarrow> wp (k 0) Q s'"
  shows "wp (bind (restore_reg (dm_dmi lat) S0 (R S0)) (\<lambda>_. bind (restore_reg (dm_dmi lat) S1 (R S1)) (\<lambda>_.
    bind (gets current_hart) k))) Q s"
proof (rule wp_seq [OF wp_restore_reg [OF assms(1) disjI1 [OF refl], of lat "R S0"]])
  fix u s1 assume h1: "dtm_holds (R'(S0 := R S0)) C M ws s1"
  have R: "R'(S0 := R S0, S1 := R S1) = R" using same_regs_restore [OF assms(2)] by simp
  have h2: "wp (restore_reg (dm_dmi lat) S1 (R S1)) (\<lambda>_. dtm_holds R C M ws) s1"
    using wp_restore_reg [OF h1 disjI2 [OF refl], of lat "R S1"] by (simp only: R)
  show "wp (bind (restore_reg (dm_dmi lat) S1 (R S1)) (\<lambda>_. bind (gets current_hart) k)) Q s1"
    by (rule wp_seq [OF h2]) (simp add: holds_at assms(3))
qed

lemma transfer_commands:
  "moves_reg (AC_ACCESS_REGISTER_TRANSFER OR AC_ACCESS_REGISTER_WRITE OR AC_ACCESS_REGISTER_POSTEXEC OR
     AC_AR_SIZE 64 OR AC_AR_REGNO S0) S0"
  "moves_reg (AC_ACCESS_REGISTER_TRANSFER OR AC_ACCESS_REGISTER_POSTEXEC OR AC_ACCESS_REGISTER_WRITE OR
     AC_AR_SIZE 64 OR AC_AR_REGNO S1) S1"
  "moves_reg (AC_ACCESS_REGISTER_TRANSFER OR AC_ACCESS_REGISTER_WRITE OR AC_AR_SIZE 64 OR AC_AR_REGNO S1 OR
     AC_ACCESS_REGISTER_POSTEXEC) S1"
  by (simp_all add: ac_words)

lemma wp_arrays_fit:
  "dtm_holds R C M ws s \<Longrightarrow> p \<le> 6 \<Longrightarrow> d \<le> 2 \<Longrightarrow> wp (arrays_fit p d) Q s = Q () s"
  by (simp add: arrays_fit_def holds_at)

lemma program_lengths:
  "length load_program_words \<le> 6" "length store_program_words \<le> 6" "length clear_program_words \<le> 6"
  "load_program_words \<noteq> []" "store_program_words \<noteq> []" "clear_program_words \<noteq> []"
  by (simp_all add: load_program_words_def store_program_words_def clear_program_words_def)

lemma wp_start_reads:
  assumes "dtm_holds R C M ws s" and "\<not> in_data a 8"
  shows "wp (RUN_AC_OR_DIE (dm_dmi lat) (AC_ACCESS_REGISTER_TRANSFER OR AC_ACCESS_REGISTER_WRITE OR
      AC_ACCESS_REGISTER_POSTEXEC OR AC_AR_SIZE 64 OR AC_AR_REGNO S0) load_program_words (to_data 64 a))
    (\<lambda>_. dtm_holds (R(S0 := a + 8, S1 := word_at M a)) C M load_program_words) s"
proof (rule wp_write_reg_run [OF assms(1) transfer_commands(1)])
  let ?R = "R(S0 := a)"
  fix t assume "dm_holds 0 ?R C M (if load_program_words = [] then ws else load_program_words) t"
  then have "dm_holds 0 ?R C M (load_program_words @ []) t" by (simp add: program_lengths)
  from hart_load_program [OF this]
  have "\<exists>u. hart_run 6 t = Some u \<and> dm_holds 0 (?R(S1 := word_at M a, S0 := a + 8)) C M load_program_words u"
    using assms(2) by auto
  moreover have "?R(S1 := word_at M a, S0 := a + 8) = R(S0 := a + 8, S1 := word_at M a)" by (rule ext) simp
  ultimately show "\<exists>u. hart_run 6 t = Some u \<and>
      dm_holds 0 (R(S0 := a + 8, S1 := word_at M a)) C M load_program_words u"
    by (simp only:)
qed (simp_all add: program_lengths ac_words)

lemma wp_dtm_read_chunk:
  assumes "dtm_runs R C M s" and "no_data a (Suc n)"
  shows "wp (dtm_read_chunk (dm_dmi lat) a (8 * Suc n))
    (\<lambda>bs s'. bs = mem_read M a (8 * Suc n) \<and> dtm_runs R C M s') s"
proof -
  have words: "[LOAD 64 S1 S0 0, ADDI S0 S0 (of_nat (64 div 8)), EBREAK] = load_program_words"
    by (simp add: load_program_words_def)
  have count: "8 * Suc n * 8 div 64 = Suc n" by simp
  let ?Q = "\<lambda>bs s'. bs = mem_read M a (8 * Suc n) \<and> dtm_runs R C M s'"
  show ?thesis
    unfolding dtm_read_chunk_def wp_bind [of "gets _"] wp_gets prod.case runs_at [OF assms(1)] words count
  proof (rule wp_save [OF assms(1)])
    fix s1 assume h1: "dtm_holds R C M [] s1"
    show "wp (bind (arrays_fit 3 (64 div 32)) (\<lambda>_. bind (RUN_AC_OR_DIE (dm_dmi lat)
        (AC_ACCESS_REGISTER_TRANSFER OR AC_ACCESS_REGISTER_WRITE OR AC_ACCESS_REGISTER_POSTEXEC OR
          AC_AR_SIZE 64 OR AC_AR_REGNO S0) load_program_words (to_data 64 a)) (\<lambda>_.
        bind (read_words (dm_dmi lat) (Suc n)) (\<lambda>bs.
        bind (restore_reg (dm_dmi lat) S0 (R S0)) (\<lambda>_. bind (restore_reg (dm_dmi lat) S1 (R S1)) (\<lambda>_.
        bind (gets current_hart) (\<lambda>hart'. bind (resume (dm_dmi lat) hart') (\<lambda>_. ret bs)))))))) ?Q s1"
      unfolding wp_bind [of "arrays_fit _ _"]
    proof (subst wp_arrays_fit [OF h1], simp, simp, rule wp_seq [OF wp_start_reads [OF h1 no_data_first [OF assms(2)]]])
      let ?R = "R(S0 := a + 8, S1 := word_at M a)"
      fix u s2 assume h2: "dtm_holds ?R C M load_program_words s2"
      have regs: "?R S1 = word_at M a" "?R S0 = a + 8" by simp_all
      show "wp (bind (read_words (dm_dmi lat) (Suc n)) (\<lambda>bs.
          bind (restore_reg (dm_dmi lat) S0 (R S0)) (\<lambda>_. bind (restore_reg (dm_dmi lat) S1 (R S1)) (\<lambda>_.
          bind (gets current_hart) (\<lambda>hart'. bind (resume (dm_dmi lat) hart') (\<lambda>_. ret bs)))))) ?Q s2"
      proof (rule wp_seq [OF wp_read_words [OF h2 regs assms(2)]])
        fix bs s3 assume "bs = mem_read M a (8 * Suc n) \<and> (\<exists>R'. same_regs ?R R' \<and> dtm_holds R' C M load_program_words s3)"
        then obtain R' where bs: "bs = mem_read M a (8 * Suc n)" and R': "same_regs R R'"
            and h3: "dtm_holds R' C M load_program_words s3"
          by (auto simp: same_regs_def)
        show "wp (bind (restore_reg (dm_dmi lat) S0 (R S0)) (\<lambda>_. bind (restore_reg (dm_dmi lat) S1 (R S1)) (\<lambda>_.
            bind (gets current_hart) (\<lambda>hart'. bind (resume (dm_dmi lat) hart') (\<lambda>_. ret bs))))) ?Q s3"
          by (rule wp_restore [OF h3 R'], rule wp_seq [OF wp_resume_holds]) (use bs in simp_all)
      qed
    qed
  qed
qed

end
