(* ===== verification/Dtm_Writes.thy ===== *)
theory Dtm_Writes
  imports Dtm_Memory
begin

text \<open>
  Writing and clearing memory through the debug module. After its first word a write only
  changes the data registers: with \<open>abstractauto\<close> set, each write of \<open>data0\<close>
  runs the last command again.
\<close>

section \<open>Words of a write\<close>

definition store_command :: u32 where
  "store_command = AC_ACCESS_REGISTER_TRANSFER OR AC_ACCESS_REGISTER_POSTEXEC OR AC_ACCESS_REGISTER_WRITE OR
     AC_AR_SIZE 64 OR AC_AR_REGNO S1"

definition dtm_storing :: "(u32 \<Rightarrow> u64) \<Rightarrow> (u32 \<Rightarrow> u64) \<Rightarrow> mem \<Rightarrow> dm dtm \<Rightarrow> bool" where
  "dtm_storing R C M s \<longleftrightarrow> dm_holds 1 R C M store_program_words (dtm_target s) \<and>
     dm_command (dtm_target s) = store_command \<and> \<not> dm_busy (dtm_target s) \<and> dtm_at s"

lemma store_command_fields:
  "moves_reg store_command S1" "ac_write store_command" "ac_postexec store_command"
  by (simp_all add: store_command_def ac_words)

lemma bytes_data_64:
  assumes "length bs = 8"
  shows "bytes_data 64 bs = to_data 64 (le_word bs)"
proof -
  have "le_bytes 8 (le_word bs :: u64) = bs"
    using le_bytes_le_word [of bs, where ?'a = 64] assms by simp
  then have "to_data 64 (le_word bs) = data_of_bytes bs"
    using data_of_le_bytes [of "le_word bs"] by simp
  then show ?thesis by (simp add: bytes_data_def data_of_bytes_def upt_rec)
qed

text \<open>The command on a hart that holds the address in \<open>s0\<close> and the word in the data registers.\<close>

lemma hart_store_command:
  assumes "dm_holds A R C M store_program_words t" and "dm_command t = store_command"
    and "dm_data t = to_data 64 v" and "\<not> in_data (R S0) 8"
  shows "\<exists>u. run_command t = Some u \<and>
    dm_holds A (R(S1 := v, S0 := R S0 + 8)) C (mem_write M (R S0) (le_bytes 8 v)) store_program_words u"
proof -
  have "dm_holds A (R(S1 := v)) C M (store_program_words @ []) (set_reg S1 v t)"
    using holds_set_reg [OF assms(1), of S1] by simp
  from hart_store_program [OF this] show ?thesis
    using run_write_reg [of t S1 v] assms(2-4) store_command_fields by auto
qed

lemma tick_storing: "dtm_storing R C M s \<Longrightarrow> dm_tick (dtm_target s) = Some (dtm_target s)"
  by (simp add: dtm_storing_def dm_holds_def dm_tick_def outstanding_def resumeack_idem)

lemma wp_store_word:
  assumes "dtm_storing R C M s" and "length bs = 8" and "\<not> in_data (R S0) 8"
    and "\<And>s'. dtm_storing (R(S1 := le_word bs, S0 := R S0 + 8)) C (mem_write M (R S0) bs) s' \<Longrightarrow> wp k Q s'"
  shows "wp (bind (dtm_write (dm_dmi lat) (DMI_DATA0 + 1) (bytes_data 64 bs ! 1)) (\<lambda>_.
     bind (dtm_write (dm_dmi lat) DMI_DATA0 (bytes_data 64 bs ! 0)) (\<lambda>_.
     bind (read_until (dm_dmi lat) DMI_ABSTRACTCS (\<lambda>d. d AND DMI_ABSTRACTCS_BUSY = 0)) (\<lambda>abstractcs.
     bind (if get_field abstractcs DMI_ABSTRACTCS_CMDERR \<noteq> 0
           then dtm_die (dm_dmi lat) (get_field abstractcs DMI_ABSTRACTCS_CMDERR) else ret ()) (\<lambda>_. k))))) Q s"
proof -
  let ?v = "le_word bs :: u64" and ?t = "dtm_target s"
  have t: "dm_holds 1 R C M store_program_words ?t" "dm_command ?t = store_command" "\<not> dm_busy ?t" "dtm_at s"
    using assms(1) by (simp_all add: dtm_storing_def)
  have flags: "dm_halted ?t" "dm_cmderr ?t = 0" "dm_auto ?t = 1" "dm_control ?t = 1" "\<not> dm_resumeack ?t"
    using t(1) by (simp_all add: dm_holds_def)
  obtain x y where old: "dm_data ?t = [x, y]"
    using holds_lengths(1) [OF t(1)] by (auto simp: numeral_2_eq_2 length_Suc_conv)
  let ?lo = "ucast ?v :: u32" and ?hi = "ucast (drop_bit 32 ?v) :: u32"
  have halves: "bytes_data 64 bs ! 1 = ?hi" "bytes_data 64 bs ! 0 = ?lo"
    by (simp_all add: bytes_data_64 [OF assms(2)] to_data_64)
  let ?t1 = "?t\<lparr>dm_data := [x, ?hi]\<rparr>"
  let ?t2 = "?t\<lparr>dm_data := to_data 64 ?v, dm_busy := True, dm_count := lat (?t\<lparr>dm_data := to_data 64 ?v\<rparr>)\<rparr>"
  have w1: "dm_write lat (DMI_DATA0 + 1) ?hi ?t = ?t1"
    using flags t(3) old by (simp add: dm_write_def DMI_DATA0_def dm_auto_start_def)
  have w2: "dm_write lat DMI_DATA0 ?lo ?t1 = ?t2"
    using flags t(3) by (simp add: dm_write_def DMI_DATA0_def dm_auto_start_def dm_start_def to_data_64)
  have tick1: "dm_tick ?t1 = Some ?t1"
    using flags t(3) by (simp add: dm_tick_def outstanding_def resumeack_idem)
  have exec: "dm_executing ?t2" using flags by (simp add: dm_executing_def)
  let ?R = "R(S1 := ?v, S0 := R S0 + 8)" and ?M = "mem_write M (R S0) bs"
  have "dm_holds 1 R C M store_program_words (?t2\<lparr>dm_count := 0\<rparr>)"
    using t(1) by (simp add: dm_holds_def DM_DATA_COUNT_def)
  then obtain u where u: "run_command (?t2\<lparr>dm_count := 0\<rparr>) = Some u"
      "dm_holds 1 ?R C (mem_write M (R S0) (le_bytes 8 ?v)) store_program_words u"
    using hart_store_command [of 1 R C M "?t2\<lparr>dm_count := 0\<rparr>" ?v] t(2) assms(3) by auto
  let ?u = "u\<lparr>dm_busy := False\<rparr>"
  have "le_bytes 8 ?v = bs" using le_bytes_le_word [of bs, where ?'a = 64] assms(2) by simp
  then have "dm_holds 1 ?R C ?M store_program_words ?u" using u(2) by (simp add: dm_holds_def)
  moreover have "dm_command ?u = store_command" using command_kept [OF u(1)] t(2) by simp
  ultimately have "dtm_storing ?R C ?M (s\<lparr>dtm_target := ?u\<rparr>)" using t(4) by (simp add: dtm_storing_def dtm_at_def)
  then have k: "wp k Q (s\<lparr>dtm_target := ?u\<rparr>)" by (rule assms(4))
  have ok: "dm_cmderr u = 0" "get_field (dm_abstractcs ?u) DMI_ABSTRACTCS_CMDERR = 0"
    using u(2) by (simp_all add: dm_holds_def abstractcs_cmderr)
  have poll: "wp (read_until (dm_dmi lat) DMI_ABSTRACTCS (\<lambda>d. d AND DMI_ABSTRACTCS_BUSY = 0)) P
      (s\<lparr>dtm_target := ?t2\<rparr>) = P (dm_abstractcs ?u) (s\<lparr>dtm_target := ?u\<rparr>)" for P
    using wp_poll_command [of "s\<lparr>dtm_target := ?t2\<rparr>" u lat P] exec u(1) ok(1) by simp
  show ?thesis
    unfolding halves
    by (simp add: wp_dtm_write [OF tick_storing [OF assms(1)]] wp_dtm_write w1 w2 tick1 poll ok k)
qed

lemma wp_write_words:
  assumes "dtm_storing R C M s" and "length bs = 8 * n" and "no_data (R S0) n"
  shows "wp (write_words (dm_dmi lat) n bs) (\<lambda>_ s'. \<exists>R'. same_regs R R' \<and>
    dtm_storing R' C (mem_write M (R S0) bs) s') s"
  using assms
proof (induction n arbitrary: R M bs s)
  case 0
  then show ?case by (auto intro: same_regs_upd(3))
next
  case (Suc n)
  let ?R = "R(S1 := le_word (take 8 bs), S0 := R S0 + 8)" and ?M = "mem_write M (R S0) (take 8 bs)"
  have len: "length (take 8 bs) = 8" "length (drop 8 bs) = 8 * n" using Suc.prems(2) by simp_all
  have xl: "xlen s = 64" using Suc.prems(1) by (simp add: dtm_storing_def dtm_at_def)
  have mem: "mem_write ?M (?R S0) (drop 8 bs) = mem_write M (R S0) bs"
    using mem_write_append [of M "R S0" "take 8 bs" "drop 8 bs"] len(1) by simp
  have rest: "wp (write_words (dm_dmi lat) n (drop 8 bs)) (\<lambda>_ s'. \<exists>R'. same_regs R R' \<and>
      dtm_storing R' C (mem_write M (R S0) bs) s') s'" if "dtm_storing ?R C ?M s'" for s'
  proof -
    have "same_regs ?R = same_regs R" by (intro ext) (auto simp: same_regs_def)
    moreover have "no_data (?R S0) n" using no_data_rest [OF Suc.prems(3)] by simp
    from Suc.IH [OF that len(2) this]
    have "wp (write_words (dm_dmi lat) n (drop 8 bs)) (\<lambda>_ s'. \<exists>R'. same_regs ?R R' \<and>
        dtm_storing R' C (mem_write ?M (?R S0) (drop 8 bs)) s') s'" .
    ultimately show ?thesis by (simp only: mem)
  qed
  from wp_store_word [OF Suc.prems(1) len(1) no_data_first [OF Suc.prems(3)] rest, of lat]
  show ?case using xl by (simp add: Let_def)
qed


section \<open>Writes\<close>

text \<open>The first word goes through the command itself.\<close>

lemma wp_first_word:
  assumes "dtm_holds R C M store_program_words s" and "length bs = 8" and "\<not> in_data (R S0) 8"
  shows "wp (RUN_AC_OR_DIE (dm_dmi lat) store_command [] (bytes_data 64 bs))
    (\<lambda>_ s'. dtm_holds (R(S1 := le_word bs, S0 := R S0 + 8)) C (mem_write M (R S0) bs) store_program_words s' \<and>
      dm_command (dtm_target s') = store_command) s"
proof -
  let ?v = "le_word bs :: u64"
  let ?R = "R(S1 := ?v, S0 := R S0 + 8)"
  have v: "le_bytes 8 ?v = bs" using le_bytes_le_word [of bs, where ?'a = 64] assms(2) by simp
  have "wp (RUN_AC_OR_DIE (dm_dmi lat) store_command [] (to_data 64 ?v))
      (\<lambda>x s'. x = (if \<not> ac_write store_command \<and> ac_transfer store_command then take (length (to_data 64 ?v)) [] else to_data 64 ?v) \<and>
        dtm_holds ?R C (mem_write M (R S0) bs) store_program_words s' \<and>
        dm_command (dtm_target s') = store_command \<and> True) s"
  proof (rule wp_command_kept [OF assms(1)])
    fix t
    assume t: "dm_holds 0 R C M (if [] = [] then store_program_words else []) t" "dm_command t = store_command"
      and data: "ac_write store_command \<and> ac_transfer store_command \<Longrightarrow> take (length (to_data 64 ?v)) (dm_data t) = to_data 64 ?v"
    have held: "dm_holds 0 R C M store_program_words t" using t(1) by simp
    have "dm_data t = to_data 64 ?v"
      using data holds_lengths(1) [OF held] store_command_fields by (simp add: moves_reg_def)
    from hart_store_command [OF held t(2) this assms(3)]
    show "\<exists>u. run_command t = Some u \<and> dm_holds 0 ?R C (mem_write M (R S0) bs) store_program_words u \<and>
        (\<not> ac_write store_command \<longrightarrow> dm_data u = []) \<and> True"
      using store_command_fields(2) v by simp
  qed simp_all
  then show ?thesis unfolding bytes_data_64 [OF assms(2)] by (rule wp_mono) simp
qed

text \<open>The words after it.\<close>

lemma get_reg_auto: "get_reg (t\<lparr>dm_auto := x\<rparr>) r = get_reg t r"
  by (simp add: get_reg_def)

lemma wp_auto_on:
  assumes "dtm_holds R C M store_program_words s" and "dm_command (dtm_target s) = store_command"
    and "\<And>s'. dtm_storing R C M s' \<Longrightarrow> wp k Q s'"
  shows "wp (bind (dtm_write (dm_dmi lat) DMI_ABSTRACTAUTO 1) (\<lambda>_. k)) Q s"
proof -
  let ?t = "dtm_target s"
  have t: "dm_holds 0 R C M store_program_words ?t" "\<not> dm_busy ?t" "dtm_at s"
    using assms(1) by (simp_all add: dtm_holds_def)
  have "dm_write lat DMI_ABSTRACTAUTO 1 ?t = ?t\<lparr>dm_auto := 1\<rparr>"
    using t by (simp add: dm_write_def DMI_ABSTRACTAUTO_def dm_holds_def)
  moreover have "dtm_storing R C M (s\<lparr>dtm_target := ?t\<lparr>dm_auto := 1\<rparr>\<rparr>)"
    using t assms(2) by (simp add: dtm_storing_def dtm_at_def dm_holds_def get_reg_auto)
  ultimately show ?thesis
    using assms(3) by (simp add: wp_dtm_write [OF tick_parked [OF holds_parked [OF t(1,2)]]])
qed

lemma wp_auto_off:
  assumes "dtm_storing R C M s"
  shows "wp (dtm_write (dm_dmi lat) DMI_ABSTRACTAUTO 0) (\<lambda>_. dtm_holds R C M store_program_words) s"
proof -
  let ?t = "dtm_target s"
  have "dm_write lat DMI_ABSTRACTAUTO 0 ?t = ?t\<lparr>dm_auto := 0\<rparr>"
    using assms by (simp add: dm_write_def DMI_ABSTRACTAUTO_def dtm_storing_def dm_holds_def)
  moreover have "dtm_holds R C M store_program_words (s\<lparr>dtm_target := ?t\<lparr>dm_auto := 0\<rparr>\<rparr>)"
    using assms by (simp add: dtm_storing_def dtm_holds_def dtm_at_def dm_holds_def get_reg_auto)
  ultimately show ?thesis by (simp add: wp_dtm_write [OF tick_storing [OF assms]])
qed

lemma wp_more_words:
  assumes "dtm_holds R C M store_program_words s" and "dm_command (dtm_target s) = store_command"
    and "length bs = 8 * n" and "no_data (R S0) n"
  shows "wp (if Suc n > 1 then
      bind (dtm_write (dm_dmi lat) DMI_ABSTRACTAUTO 1) (\<lambda>_.
      bind (write_words (dm_dmi lat) n bs) (\<lambda>_.
      bind (dtm_write (dm_dmi lat) DMI_ABSTRACTAUTO 0) (\<lambda>_. ret ())))
    else ret ())
    (\<lambda>_ s'. \<exists>R'. same_regs R R' \<and> dtm_holds R' C (mem_write M (R S0) bs) store_program_words s') s"
proof (cases "n = 0")
  case True
  then show ?thesis using assms(1,3) by (auto intro: same_regs_upd(3))
next
  case False
  let ?Q = "\<lambda>s'. \<exists>R'. same_regs R R' \<and> dtm_holds R' C (mem_write M (R S0) bs) store_program_words s'"
  have "wp (bind (write_words (dm_dmi lat) n bs) (\<lambda>_. bind (dtm_write (dm_dmi lat) DMI_ABSTRACTAUTO 0) (\<lambda>_. ret ())))
      (\<lambda>_. ?Q) s'" if "dtm_storing R C M s'" for s'
  proof (rule wp_seq [OF wp_write_words [OF that assms(3,4)]])
    fix u s2 assume "\<exists>R'. same_regs R R' \<and> dtm_storing R' C (mem_write M (R S0) bs) s2"
    then obtain R' where R': "same_regs R R'" "dtm_storing R' C (mem_write M (R S0) bs) s2" by blast
    show "wp (bind (dtm_write (dm_dmi lat) DMI_ABSTRACTAUTO 0) (\<lambda>_. ret ())) (\<lambda>_. ?Q) s2"
      by (rule wp_seq [OF wp_auto_off [OF R'(2)]]) (use R'(1) in auto)
  qed
  from wp_auto_on [OF assms(1,2) this] show ?thesis using False by simp
qed

lemma wp_start_writes:
  assumes "dtm_holds R C M ws s"
  shows "wp (RUN_AC_OR_DIE (dm_dmi lat) (AC_ACCESS_REGISTER_TRANSFER OR AC_ACCESS_REGISTER_WRITE OR
      AC_AR_SIZE 64 OR AC_AR_REGNO S0) store_program_words (to_data 64 a))
    (\<lambda>_. dtm_holds (R(S0 := a)) C M store_program_words) s"
proof -
  let ?c = "AC_ACCESS_REGISTER_TRANSFER OR AC_ACCESS_REGISTER_WRITE OR AC_AR_SIZE 64 OR AC_AR_REGNO S0"
  have "S0 \<noteq> 0" "ac_write ?c" "\<not> ac_postexec ?c" by (simp_all add: ac_words)
  from wp_write_reg [OF assms saved_regs(3) this program_lengths(2), of lat a]
  show ?thesis by (simp only: program_lengths if_False)
qed

lemma wp_dtm_write_chunk:
  assumes "dtm_runs R C M s" and "length bs = 8 * Suc n" and "no_data a (Suc n)"
  shows "wp (dtm_write_chunk (dm_dmi lat) a bs) (\<lambda>_. dtm_runs R C (mem_write M a bs)) s"
proof -
  have program: "[STORE 64 S1 S0 0, ADDI S0 S0 (of_nat (64 div 8)), EBREAK] = store_program_words"
    by (simp add: store_program_words_def)
  have count: "length bs * 8 div 64 = Suc n" "64 div 8 = (8 :: nat)" "Suc n - 1 = n" using assms(2) by simp_all
  have command: "AC_ACCESS_REGISTER_TRANSFER OR AC_ACCESS_REGISTER_POSTEXEC OR AC_ACCESS_REGISTER_WRITE OR
      AC_AR_SIZE 64 OR AC_AR_REGNO S1 = store_command" by (simp add: store_command_def)
  have len: "length (take 8 bs) = 8" "length (drop 8 bs) = 8 * n" using assms(2) by simp_all
  let ?R = "(R(S0 := a))(S1 := le_word (take 8 bs), S0 := (R(S0 := a)) S0 + 8)"
  let ?M = "mem_write M ((R(S0 := a)) S0) (take 8 bs)"
  have mem: "mem_write ?M (?R S0) (drop 8 bs) = mem_write M a bs"
    using mem_write_append [of M a "take 8 bs" "drop 8 bs"] len(1) by simp
  have first: "\<not> in_data ((R(S0 := a)) S0) 8" using no_data_first [OF assms(3)] by simp
  have rest: "no_data (?R S0) n" using no_data_rest [OF assms(3)] by simp
  let ?finish = "bind (restore_reg (dm_dmi lat) S0 (R S0)) (\<lambda>_. bind (restore_reg (dm_dmi lat) S1 (R S1)) (\<lambda>_.
      bind (gets current_hart) (resume (dm_dmi lat))))"
  let ?more = "bind (if 1 < Suc n then
        bind (dtm_write (dm_dmi lat) DMI_ABSTRACTAUTO 1) (\<lambda>_.
        bind (write_words (dm_dmi lat) n (drop 8 bs)) (\<lambda>_.
        bind (dtm_write (dm_dmi lat) DMI_ABSTRACTAUTO 0) (\<lambda>_. ret ())))
      else ret ()) (\<lambda>_. ?finish)"
  let ?words = "bind (RUN_AC_OR_DIE (dm_dmi lat) store_command [] (bytes_data 64 (take 8 bs))) (\<lambda>_. ?more)"
  let ?Q = "\<lambda>_. dtm_runs R C (mem_write M a bs)"
  have end_ok: "wp ?finish ?Q s'" if "dtm_holds R' C (mem_write M a bs) store_program_words s'" "same_regs ?R R'" for R' s'
  proof (rule wp_restore [OF that(1)])
    show "same_regs R R'" using that(2) by (auto simp: same_regs_def)
  qed (rule wp_resume_holds)
  have more_ok: "wp ?more ?Q s'" if "dtm_holds ?R C ?M store_program_words s'"
      "dm_command (dtm_target s') = store_command" for s'
    by (rule wp_seq [OF wp_more_words [OF that len(2) rest, of lat, unfolded mem]]) (use end_ok in blast)
  have words_ok: "wp ?words ?Q s'" if "dtm_holds (R(S0 := a)) C M store_program_words s'" for s'
    by (rule wp_seq [OF wp_first_word [OF that len(1) first]]) (use more_ok in blast)
  show ?thesis
    unfolding dtm_write_chunk_def wp_bind [of "gets _"] wp_gets prod.case runs_at [OF assms(1)] program
    unfolding count command Let_def
  proof (rule wp_save [OF assms(1)])
    fix s1 assume h1: "dtm_holds R C M [] s1"
    show "wp (bind (arrays_fit 3 (64 div 32)) (\<lambda>_.
        bind (RUN_AC_OR_DIE (dm_dmi lat) (AC_ACCESS_REGISTER_TRANSFER OR AC_ACCESS_REGISTER_WRITE OR
          AC_AR_SIZE 64 OR AC_AR_REGNO S0) store_program_words (to_data 64 a)) (\<lambda>_. ?words))) ?Q s1"
      unfolding wp_bind [of "arrays_fit _ _"]
      by (subst wp_arrays_fit [OF h1], simp, simp, rule wp_seq [OF wp_start_writes [OF h1] words_ok])
  qed
qed

section \<open>Clearing\<close>

lemma wp_clear_program:
  assumes "dtm_holds (R(S0 := a)) C M ws s" and "8 * Suc n < 2 ^ 64" and "no_data a (Suc n)"
  shows "wp (RUN_AC_OR_DIE (dm_dmi lat) (AC_ACCESS_REGISTER_TRANSFER OR AC_ACCESS_REGISTER_WRITE OR
      AC_AR_SIZE 64 OR AC_AR_REGNO S1 OR AC_ACCESS_REGISTER_POSTEXEC) clear_program_words
      (to_data 64 (a + of_nat (8 * Suc n))))
    (\<lambda>_ s'. \<exists>R'. same_regs R R' \<and>
      dtm_holds R' C (mem_write M a (replicate (8 * Suc n) 0)) clear_program_words s') s"
proof -
  let ?R = "R(S0 := a, S1 := a + of_nat (8 * Suc n))"
  let ?R' = "?R(S0 := ?R S1)" and ?M = "mem_write M a (replicate (8 * Suc n) 0)"
  have "wp (RUN_AC_OR_DIE (dm_dmi lat) (AC_ACCESS_REGISTER_TRANSFER OR AC_ACCESS_REGISTER_WRITE OR
      AC_AR_SIZE 64 OR AC_AR_REGNO S1 OR AC_ACCESS_REGISTER_POSTEXEC) clear_program_words
      (to_data 64 (a + of_nat (8 * Suc n)))) (\<lambda>_. dtm_holds ?R' C ?M clear_program_words) s"
  proof (rule wp_write_reg_run [OF assms(1) transfer_commands(3)])
    fix t assume "dm_holds 0 ?R C M (if clear_program_words = [] then ws else clear_program_words) t"
    then have "dm_holds 0 ?R C M (clear_program_words @ []) t" by (simp add: program_lengths)
    from hart_clear_program [OF this _ assms(2)]
    show "\<exists>u. hart_run 6 t = Some u \<and> dm_holds 0 ?R' C ?M clear_program_words u"
      using assms(3) by simp
  qed (simp_all add: program_lengths ac_words)
  then show ?thesis
  proof (rule wp_mono)
    have "same_regs R ?R'" by (auto simp: same_regs_def)
    then show "\<exists>R'. same_regs R R' \<and> dtm_holds R' C ?M clear_program_words s'"
      if "dtm_holds ?R' C ?M clear_program_words s'" for s' using that by blast
  qed
qed

lemma wp_dtm_clear_chunk:
  assumes "dtm_runs R C M s" and "8 * Suc n < 2 ^ 64" and "no_data a (Suc n)"
  shows "wp (dtm_clear_chunk (dm_dmi lat) a (8 * Suc n))
    (\<lambda>_. dtm_runs R C (mem_write M a (replicate (8 * Suc n) 0))) s"
proof -
  have program: "[STORE 64 X0 S0 0, ADDI S0 S0 (of_nat (64 div 8)), BNE S0 S1 (0 * 4) (2 * 4), EBREAK] = clear_program_words"
    by (simp add: clear_program_words_def)
  have data: "take (64 div 32) (to_data 64 v) = to_data 64 v" for v by (simp add: to_data_64)
  let ?M = "mem_write M a (replicate (8 * Suc n) 0)"
  let ?finish = "bind (restore_reg (dm_dmi lat) S0 (R S0)) (\<lambda>_. bind (restore_reg (dm_dmi lat) S1 (R S1)) (\<lambda>_.
      bind (gets current_hart) (resume (dm_dmi lat))))"
  let ?clear = "bind (RUN_AC_OR_DIE (dm_dmi lat) (AC_ACCESS_REGISTER_TRANSFER OR AC_ACCESS_REGISTER_WRITE OR
      AC_AR_SIZE 64 OR AC_AR_REGNO S1 OR AC_ACCESS_REGISTER_POSTEXEC) clear_program_words
      (to_data 64 (a + of_nat (8 * Suc n)))) (\<lambda>_. ?finish)"
  have end_ok: "wp ?finish (\<lambda>_. dtm_runs R C ?M) s'" if "same_regs R R'" "dtm_holds R' C ?M clear_program_words s'" for R' s'
    using that by (intro wp_restore wp_resume_holds)
  have clear_ok: "wp ?clear (\<lambda>_. dtm_runs R C ?M) s'" if "dtm_holds (R(S0 := a)) C M ws s'" for ws s'
    by (rule wp_seq [OF wp_clear_program [OF that assms(2,3)]]) (use end_ok in blast)
  have addr_ok: "wp (RUN_AC_OR_DIE (dm_dmi lat) (AC_ACCESS_REGISTER_TRANSFER OR AC_ACCESS_REGISTER_WRITE OR
      AC_AR_SIZE 64 OR AC_AR_REGNO S0) [] (to_data 64 a)) (\<lambda>_. dtm_holds (R(S0 := a)) C M []) s'"
    if "dtm_holds R C M [] s'" for s'
    using wp_write_reg [OF that saved_regs(3), of "[]" lat a] by (simp add: ac_words)
  show ?thesis
    unfolding dtm_clear_chunk_def wp_bind [of "gets _"] wp_gets prod.case runs_at [OF assms(1)] program data
  proof (rule wp_save [OF assms(1)])
    fix s1 assume h1: "dtm_holds R C M [] s1"
    show "wp (bind (arrays_fit 4 2) (\<lambda>_.
        bind (RUN_AC_OR_DIE (dm_dmi lat) (AC_ACCESS_REGISTER_TRANSFER OR AC_ACCESS_REGISTER_WRITE OR
          AC_AR_SIZE 64 OR AC_AR_REGNO S0) [] (to_data 64 a)) (\<lambda>_. ?clear))) (\<lambda>_. dtm_runs R C ?M) s1"
      unfolding wp_bind [of "arrays_fit _ _"]
      by (subst wp_arrays_fit [OF h1], simp, simp, rule wp_seq [OF addr_ok [OF h1] clear_ok])
  qed
qed

end
