(* ===== verification/Dtm_Target.thy ===== *)
theory Dtm_Target
  imports Dtm_Writes
begin

text \<open>
  The chunks of the debug transport on the debug module: a provider of memory that clears every
  range, with the registers of the hart unchanged by every operation. The addresses of the debug
  module itself, the first page, are left out.
\<close>

definition dm_dom :: "addr set" where
  "dm_dom = {a. 0x1000 \<le> a}"

text \<open>The hart runs, with the registers \<open>fst p\<close> and the control registers \<open>snd p\<close>.\<close>

definition dm_ready :: "(u32 \<Rightarrow> u64) \<times> (u32 \<Rightarrow> u64) \<Rightarrow> dm dtm \<Rightarrow> bool" where
  "dm_ready p s \<longleftrightarrow> dtm_runs (fst p) (snd p) (dm_mem (dtm_target s)) s"

lemma dtm_chunks_simps [simp]:
  "read_chunk (dtm_chunks dmi) = dtm_read_chunk dmi" "write_chunk (dtm_chunks dmi) = dtm_write_chunk dmi"
  "clear_chunk (dtm_chunks dmi) = dtm_clear_chunk dmi"
  "chunk_align (dtm_chunks dmi) s = xlen s div 8" "chunk_max_size (dtm_chunks dmi) s = 4096"
  by (simp_all add: dtm_chunks_def)

lemma runs_mem: "dtm_runs R C M s \<Longrightarrow> dm_mem (dtm_target s) = M"
  by (simp add: dtm_runs_def dm_runs_def)

lemma dom_no_data:
  assumes "range_in a (8 * n) dm_dom"
  shows "no_data a n"
proof -
  have "\<not> in_data (a + of_nat (8 * k)) 8" if "k < n" for k
  proof
    let ?x = "a + of_nat (8 * k)"
    assume data: "in_data ?x 8"
    then have "unat (?x - 0x380) = 0" by (simp add: in_data_def DM_DATA_ADDR_def DM_DATA_COUNT_def)
    then have "?x = 0x380" by (simp only: unat_eq_0 right_minus_eq)
    moreover have "8 * k < 8 * n" using that by simp
    then have "?x \<in> dm_dom" using assms unfolding range_in_def by blast
    ultimately show False by (simp add: dm_dom_def)
  qed
  then show ?thesis by (simp add: no_data_def)
qed

lemma words_of_request: "8 dvd n \<Longrightarrow> 0 < n \<Longrightarrow> \<exists>m. n = 8 * Suc m"
  by (metis dvd_def gr0_conv_Suc mult_is_0 not_gr_zero)

lemma dom_whole_chunks:
  assumes "a \<in> dm_dom" and "i < 8"
  shows "align_down a 8 + of_nat i \<in> dm_dom"
proof -
  let ?b = "align_down a 8" and ?q = "unat a div 8"
  have "unat ?b = unat a - unat a mod 8" using unat_align_down [of a 3] by simp
  then have b: "unat ?b = 8 * ?q" by (simp only: minus_mod_eq_mult_div)
  have "?q < 2 ^ 61" using unat_addr_less [of a] by (simp add: less_mult_imp_div_less)
  then have less: "8 * ?q + i < 2 ^ 64" using assms(2) by simp
  have "0x1000 \<le> unat a" using assms(1) by (simp add: dm_dom_def word_le_nat_alt)
  then have "0x1000 div 8 \<le> ?q" by (rule div_le_mono)
  then have low: "0x1000 \<le> 8 * ?q + i" by simp
  have "?b + of_nat i = of_nat (8 * ?q + i)"
    using arg_cong [OF b, of "of_nat :: nat \<Rightarrow> addr"] by (simp only: of_nat_unat ucast_id of_nat_add)
  then have "unat (?b + of_nat i) = 8 * ?q + i" using unat_of_nat_addr [OF less] by (simp only:)
  with low show ?thesis by (simp add: dm_dom_def word_le_nat_alt)
qed

interpretation dtm: clearing_memory "dtm_chunks (dm_dmi lat)" "\<lambda>s. dm_mem (dtm_target s)" "\<lambda>_. dm_dom" "dm_ready p"
  for lat p
proof unfold_locales
  let ?view = "\<lambda>s :: dm dtm. dm_mem (dtm_target s)"
  have shape: "same_shape (dtm_chunks (dm_dmi lat)) (\<lambda>_. dm_dom) s s'" if "dm_ready p s" "dm_ready p s'" for s s'
    using that runs_at(1) by (simp add: same_shape_def dm_ready_def)
  have xl: "xlen s div 8 = 8" if "dm_ready p s" for s
    using that runs_at(1) by (simp add: dm_ready_def)
  have next_ready: "?view s' = M \<and> dm_ready p s' \<and> same_shape (dtm_chunks (dm_dmi lat)) (\<lambda>_. dm_dom) s s'"
    if "dm_ready p s" "dtm_runs (fst p) (snd p) M s'" for s s' M
    using that runs_mem [OF that(2)] shape by (simp add: dm_ready_def)
  show "\<exists>k<64. chunk_align (dtm_chunks (dm_dmi lat)) s = 2 ^ k" if "dm_ready p s" for s
    using xl [OF that] by (intro exI [of _ 3]) simp
  show "0 < chunk_max_size (dtm_chunks (dm_dmi lat)) s \<and>
      chunk_align (dtm_chunks (dm_dmi lat)) s dvd chunk_max_size (dtm_chunks (dm_dmi lat)) s" if "dm_ready p s" for s
    using xl [OF that] by simp
  show "align_down a (chunk_align (dtm_chunks (dm_dmi lat)) s) + of_nat i \<in> dm_dom"
    if "dm_ready p s" "a \<in> dm_dom" "i < chunk_align (dtm_chunks (dm_dmi lat)) s" for s a i
    using xl [OF that(1)] that(2,3) dom_whole_chunks by simp
  show "wp (read_chunk (dtm_chunks (dm_dmi lat)) a n) (\<lambda>bs s'. bs = mem_read (?view s) a n \<and>
      ?view s' = ?view s \<and> dm_ready p s' \<and> same_shape (dtm_chunks (dm_dmi lat)) (\<lambda>_. dm_dom) s s') s"
    if ready: "dm_ready p s" and req: "chunk_request (dtm_chunks (dm_dmi lat)) s a n" and dom: "range_in a n dm_dom" for s a n
  proof -
    obtain m where n: "n = 8 * Suc m"
      using req xl [OF ready] words_of_request by (auto simp: chunk_request_def)
    from ready have "dtm_runs (fst p) (snd p) (?view s) s" by (simp add: dm_ready_def)
    from wp_dtm_read_chunk [OF this dom_no_data [OF dom [unfolded n]], of lat]
    show ?thesis unfolding n dtm_chunks_simps by (rule wp_mono) (use next_ready [OF ready] in blast)
  qed
  show "wp (write_chunk (dtm_chunks (dm_dmi lat)) a bs) (\<lambda>_ s'. ?view s' = mem_write (?view s) a bs \<and>
      dm_ready p s' \<and> same_shape (dtm_chunks (dm_dmi lat)) (\<lambda>_. dm_dom) s s') s"
    if ready: "dm_ready p s" and req: "chunk_request (dtm_chunks (dm_dmi lat)) s a (length bs)"
      and dom: "range_in a (length bs) dm_dom" for s a bs
  proof -
    obtain m where n: "length bs = 8 * Suc m"
      using req xl [OF ready] words_of_request by (auto simp: chunk_request_def)
    from ready have "dtm_runs (fst p) (snd p) (?view s) s" by (simp add: dm_ready_def)
    from wp_dtm_write_chunk [OF this n dom_no_data [OF dom [unfolded n]], of lat]
    show ?thesis unfolding dtm_chunks_simps by (rule wp_mono) (use next_ready [OF ready] in blast)
  qed
  show "wp (clear_chunk (dtm_chunks (dm_dmi lat)) a n) (\<lambda>_ s'. ?view s' = mem_write (?view s) a (replicate n 0) \<and>
      dm_ready p s' \<and> same_shape (dtm_chunks (dm_dmi lat)) (\<lambda>_. dm_dom) s s') s"
    if ready: "dm_ready p s" and dvd: "chunk_align (dtm_chunks (dm_dmi lat)) s dvd n" and pos: "0 < n" and less: "n < 2 ^ 64"
      and dom: "range_in a n dm_dom" for s a n
  proof -
    obtain m where n: "n = 8 * Suc m"
      using dvd pos xl [OF ready] words_of_request by auto
    from ready have "dtm_runs (fst p) (snd p) (?view s) s" by (simp add: dm_ready_def)
    from wp_dtm_clear_chunk [OF this less [unfolded n] dom_no_data [OF dom [unfolded n]], of lat]
    show ?thesis unfolding n dtm_chunks_simps by (rule wp_mono) (use next_ready [OF ready] in blast)
  qed
qed (rule refl)

end
