(* ===== verification/Dtm_Control.thy ===== *)
theory Dtm_Control
  imports Dtm_Target
begin

text \<open>
  Control and status registers, the instruction fence and the reset through the debug module, and
  how the transport learns what it is connected to.
\<close>

section \<open>The program of \<open>modify_csr\<close>\<close>

definition csr_fun :: "u32 \<Rightarrow> u64 \<Rightarrow> u64 \<Rightarrow> u64" where
  "csr_fun type old v = (if type = CSR_WRITE then v else if type = CSR_SET then old OR v else old AND NOT v)"

definition csr_program_words :: "u32 \<Rightarrow> u32 \<Rightarrow> u32 list" where
  "csr_program_words which type =
     [CSRRx CSR_WRITE S0 CSR_DSCRATCH S0, LOAD 64 S0 X0 0x380, CSRRx type S0 which S0,
      STORE 64 S0 X0 0x380, CSRRx CSR_WRITE S0 CSR_DSCRATCH S0, EBREAK]"

definition csr_type :: "u32 \<Rightarrow> bool" where
  "csr_type type \<longleftrightarrow> type = CSR_WRITE \<or> type = CSR_SET \<or> type = CSR_CLEAR"

lemma step_csr:
  assumes "csr_type type" and "c < 4096"
  shows "hart_step (CSRRx type S0 c S0) pc t = Goto (pc + 1)
    (set_reg S0 (dm_csrs t c) (t\<lparr>dm_csrs := (dm_csrs t)(c := csr_fun type (dm_csrs t c) (get_reg t S0))\<rparr>))"
proof -
  have "type = 1 \<or> type = 2 \<or> type = 3"
    using assms(1) by (simp add: csr_type_def CSR_WRITE_def CSR_SET_def CSR_CLEAR_def)
  then show ?thesis
    using assms(2) CSRRx_fields [of type 8 c 8]
    by (elim disjE) (simp_all add: hart_step_def Let_def csr_op_def csr_fun_def CSR_WRITE_def CSR_SET_def)
qed

lemma csr_swap:
  "hart_step (CSRRx CSR_WRITE S0 CSR_DSCRATCH S0) pc t = Goto (pc + 1)
    (set_reg S0 (dm_csrs t CSR_DSCRATCH) (t\<lparr>dm_csrs := (dm_csrs t)(CSR_DSCRATCH := get_reg t S0)\<rparr>))"
  by (simp add: step_csr csr_type_def CSR_DSCRATCH_def csr_fun_def del: reg_numbers)

lemma get_reg_zero: "get_reg t 0 = 0"
  by (simp add: get_reg_def)

lemma csr_upd_simps [simp]:
  "get_reg (t\<lparr>dm_csrs := x\<rparr>) r = get_reg t r" "get_reg (t\<lparr>dm_data := d\<rparr>) r = get_reg t r"
  by (simp_all add: get_reg_def)

lemma hart_csr_program:
  assumes held: "dm_holds A R C M (csr_program_words which type) t" and data: "dm_data t = to_data 64 v"
    and type: "csr_type type" and which: "which < 4096" "which \<noteq> CSR_DSCRATCH"
  shows "\<exists>u. hart_run 6 t = Some u \<and> dm_data u = to_data 64 (C which) \<and>
    dm_holds A R (C(which := csr_fun type (C which) v)) M (csr_program_words which type) u"
proof -
  let ?ws = "csr_program_words which type"
  obtain rest where prog: "dm_progbuf t = ?ws @ rest" using holds_program [OF held] by auto
  let ?r = "get_reg t S0" and ?old = "C which"
  have old: "dm_csrs t which = ?old" using held which(2) by (simp add: dm_holds_def)
  let ?t1 = "set_reg S0 (dm_csrs t CSR_DSCRATCH) (t\<lparr>dm_csrs := (dm_csrs t)(CSR_DSCRATCH := ?r)\<rparr>)"
  let ?t2 = "set_reg S0 v ?t1"
  let ?c3 = "(dm_csrs ?t2)(which := csr_fun type ?old v)"
  let ?t3 = "set_reg S0 ?old (?t2\<lparr>dm_csrs := ?c3\<rparr>)"
  let ?t4 = "?t3\<lparr>dm_data := to_data 64 ?old\<rparr>"
  let ?t5 = "set_reg S0 ?r (?t4\<lparr>dm_csrs := ?c3(CSR_DSCRATCH := ?old)\<rparr>)"
  have words: "hart_fetch u (6 + i) = ?ws ! i" if "dm_progbuf u = dm_progbuf t" "i < 6" for u i
    using program_words [of u ?ws rest i] that prog by (simp add: csr_program_words_def)
  have i6: "hart_step (hart_fetch t 6) 6 t = Goto 7 ?t1"
    using words [of t 0] by (simp add: csr_program_words_def csr_swap del: reg_numbers)
  have i7: "hart_step (hart_fetch ?t1 7) 7 ?t1 = Goto 8 ?t2"
    using words [of ?t1 1] data by (simp add: csr_program_words_def step_load get_reg_def load_data)
  have i8: "hart_step (hart_fetch ?t2 8) 8 ?t2 = Goto 9 ?t3"
    using words [of ?t2 2] step_csr [OF type which(1), of 8 ?t2] old which(2)
    by (simp add: csr_program_words_def get_set_reg)
  have i9: "hart_step (hart_fetch ?t3 9) 9 ?t3 = Goto 10 ?t4"
    using words [of ?t3 3] holds_lengths(1) [OF held]
    by (simp add: csr_program_words_def step_store get_set_reg get_reg_zero store_data)
  have i10: "hart_step (hart_fetch ?t4 10) 10 ?t4 = Goto 11 ?t5"
    using words [of ?t4 4] csr_swap [of 10 ?t4] which(2)
    by (simp add: csr_program_words_def get_set_reg)
  have i11: "hart_step (hart_fetch ?t5 11) 11 ?t5 = Parked ?t5"
    using words [of ?t5 5] by (simp add: csr_program_words_def steps)
  have "hart_run 6 t = Some (park ?t5)"
    by (simp only: hart_run_goto [OF i6] hart_run_goto [OF i7] hart_run_goto [OF i8] hart_run_goto [OF i9]
        hart_run_goto [OF i10] hart_run_parked [OF i11])
  moreover have "dm_data (park ?t5) = to_data 64 ?old" by (simp add: park_def)
  moreover have "dm_holds A R (C(which := csr_fun type ?old v)) M ?ws (park ?t5)"
    using held by (auto simp: holds_park) (auto simp: dm_holds_def get_set_reg DM_DATA_COUNT_def)
  ultimately show ?thesis by blast
qed

lemma x0_commands:
  "moves_reg (AC_ACCESS_REGISTER_POSTEXEC OR AC_ACCESS_REGISTER_TRANSFER OR AC_ACCESS_REGISTER_WRITE OR
     AC_AR_SIZE 64 OR AC_AR_REGNO X0) 0"
  "ac_write (AC_ACCESS_REGISTER_POSTEXEC OR AC_ACCESS_REGISTER_TRANSFER OR AC_ACCESS_REGISTER_WRITE OR
     AC_AR_SIZE 64 OR AC_AR_REGNO X0)"
  "ac_postexec (AC_ACCESS_REGISTER_POSTEXEC OR AC_ACCESS_REGISTER_TRANSFER OR AC_ACCESS_REGISTER_WRITE OR
     AC_AR_SIZE 64 OR AC_AR_REGNO X0)"
  by (simp_all add: ac_words)

lemma set_reg_zero: "set_reg 0 v t = t"
  by (simp add: set_reg_def)

lemma data_word: "length d = 2 \<Longrightarrow> \<exists>v. d = to_data 64 v"
proof -
  assume "length d = 2"
  then obtain x y where d: "d = [x, y]" by (auto simp: numeral_2_eq_2 length_Suc_conv)
  have "[x, y] = to_data 64 (ucast x OR push_bit 32 (ucast y))"
    by (auto simp: to_data_64 intro!: bit_word_eqI) (auto simp: bit_simps dest: bit_imp_le_length)
  then show ?thesis using d by blast
qed

text \<open>A command that writes \<open>x0\<close> and runs a program.\<close>

lemma wp_run_program:
  assumes "dtm_holds R C M ws s" and "program \<noteq> []" and "length program \<le> 6" and "length data \<le> 2"
    and run: "\<And>t. dm_holds 0 R C M program t \<Longrightarrow> take (length data) (dm_data t) = data \<Longrightarrow>
      \<exists>u. hart_run 6 t = Some u \<and> dm_holds 0 R C' M program u \<and> P (dm_data u)"
  shows "wp (RUN_AC_OR_DIE (dm_dmi lat) (AC_ACCESS_REGISTER_POSTEXEC OR AC_ACCESS_REGISTER_TRANSFER OR
      AC_ACCESS_REGISTER_WRITE OR AC_AR_SIZE 64 OR AC_AR_REGNO X0) program data)
    (\<lambda>_ s'. dtm_holds R C' M program s' \<and> P (dm_data (dtm_target s'))) s"
proof -
  let ?c = "AC_ACCESS_REGISTER_POSTEXEC OR AC_ACCESS_REGISTER_TRANSFER OR AC_ACCESS_REGISTER_WRITE OR
      AC_AR_SIZE 64 OR AC_AR_REGNO X0"
  note c = x0_commands
  have "wp (RUN_AC_OR_DIE (dm_dmi lat) ?c program data)
      (\<lambda>x s'. x = (if \<not> ac_write ?c \<and> ac_transfer ?c then take (length data) [] else data) \<and>
        dtm_holds R C' M program s' \<and> dm_command (dtm_target s') = ?c \<and> P (dm_data (dtm_target s'))) s"
  proof (rule wp_command_kept [OF assms(1,3,4)])
    fix t
    assume t: "dm_holds 0 R C M (if program = [] then ws else program) t" "dm_command t = ?c"
      and data: "ac_write ?c \<and> ac_transfer ?c \<Longrightarrow> take (length data) (dm_data t) = data"
    have held: "dm_holds 0 R C M program t" using t(1) assms(2) by simp
    obtain v where "dm_data t = to_data 64 v" using data_word [OF holds_lengths(1) [OF held]] by blast
    then have "run_command t = hart_run 6 t"
      using run_write_reg [of t 0 v] t(2) c by (simp add: set_reg_zero)
    moreover have "ac_transfer ?c" using c(1) by (simp add: moves_reg_def)
    ultimately show "\<exists>u. run_command t = Some u \<and> dm_holds 0 R C' M program u \<and>
        (\<not> ac_write ?c \<longrightarrow> dm_data u = []) \<and> P (dm_data u)"
      using run [OF held] data c(2) by auto
  qed
  then show ?thesis by (rule wp_mono) simp
qed

section \<open>Control and status registers\<close>

text \<open>Reading the data registers of a halted hart.\<close>

lemma wp_read_data_reg:
  assumes "dtm_holds R C M ws s" and "i < 2"
  shows "wp (dtm_read (dm_dmi lat) (DMI_DATA0 + of_nat i)) Q s = Q (dm_data (dtm_target s) ! i) s"
proof -
  have parked: "dm_parked (dtm_target s)" using assms(1) holds_parked by (auto simp: dtm_holds_def)
  show ?thesis by (simp add: wp_dtm_read [OF tick_parked [OF parked]] read_data [OF parked assms(2)])
qed

definition csr_result :: "u64 \<Rightarrow> u64" where
  "csr_result v = take_bit 32 v OR drop_bit 32 v"

lemma wp_modify_csr:
  assumes "dtm_runs R C M s" and "csr_type type" and "which < 4096" and "which \<noteq> CSR_DSCRATCH"
  shows "wp (modify_csr (dm_dmi lat) which v type)
    (\<lambda>r s'. r = csr_result (C which) \<and> dtm_runs R (C(which := csr_fun type (C which) v)) M s') s"
proof -
  let ?C = "C(which := csr_fun type (C which) v)" and ?ws = "csr_program_words which type"
  let ?finish = "bind (dtm_read (dm_dmi lat) DMI_DATA0) (\<lambda>lo.
     bind (if (64 :: nat) = 64 then dtm_read (dm_dmi lat) (DMI_DATA0 + 1) else ret 0) (\<lambda>hi.
     bind (gets current_hart) (\<lambda>hart'. bind (resume (dm_dmi lat) hart') (\<lambda>_. ret (ucast lo OR ucast hi :: u64)))))"
  let ?Q = "\<lambda>r s'. r = csr_result (C which) \<and> dtm_runs R ?C M s'"
  have data: "take (64 div 32) (to_data 64 v) = to_data 64 v" by (simp add: to_data_64)
  have program: "length ?ws \<le> 6" "?ws \<noteq> []" by (simp_all add: csr_program_words_def)
  have result: "ucast (ucast w :: u32) OR ucast (ucast (drop_bit 32 w) :: u32) = csr_result w" for w :: u64
    unfolding csr_result_def by (rule bit_word_eqI) (auto simp: bit_simps dest: bit_imp_le_length)
  have end_ok: "wp ?finish ?Q s'" if h: "dtm_holds R ?C M ?ws s'" and d: "dm_data (dtm_target s') = to_data 64 (C which)" for s'
    using wp_read_data_reg [OF h, of 0 lat] wp_read_data_reg [OF h, of 1 lat] d
    by (simp add: to_data_64 result holds_at [OF h] wp_mono [OF wp_resume_holds [OF h]])
  have run: "wp (RUN_AC_OR_DIE (dm_dmi lat) (AC_ACCESS_REGISTER_POSTEXEC OR AC_ACCESS_REGISTER_TRANSFER OR
      AC_ACCESS_REGISTER_WRITE OR AC_AR_SIZE 64 OR AC_AR_REGNO X0) ?ws (to_data 64 v))
    (\<lambda>_ s'. dtm_holds R ?C M ?ws s' \<and> dm_data (dtm_target s') = to_data 64 (C which)) s'"
    if h: "dtm_holds R C M [] s'" for s'
  proof (rule wp_run_program [OF h program(2,1), where P = "\<lambda>d. d = to_data 64 (C which)"])
    fix t assume t: "dm_holds 0 R C M ?ws t" "take (length (to_data 64 v)) (dm_data t) = to_data 64 v"
    then have "dm_data t = to_data 64 v" using holds_lengths(1) [OF t(1)] by simp
    from hart_csr_program [OF t(1) this assms(2-4)]
    show "\<exists>u. hart_run 6 t = Some u \<and> dm_holds 0 R ?C M ?ws u \<and> dm_data u = to_data 64 (C which)" by blast
  qed simp
  show ?thesis
    unfolding modify_csr_def wp_bind [of "gets _"] wp_gets prod.case runs_at [OF assms(1)] data
  proof (rule wp_seq [OF wp_halt_runs [OF assms(1)]])
    fix u s1 assume h1: "dtm_holds R C M [] s1"
    have words: "[CSRRx CSR_WRITE S0 CSR_DSCRATCH S0, LOAD 64 S0 X0 (data_base s1), CSRRx type S0 which S0,
        STORE 64 S0 X0 (data_base s1), CSRRx CSR_WRITE S0 CSR_DSCRATCH S0, EBREAK] = ?ws"
      using holds_at(5) [OF h1] by (simp add: csr_program_words_def)
    show "wp (bind (gets data_base) (\<lambda>db. bind (RUN_AC_OR_DIE (dm_dmi lat) (AC_ACCESS_REGISTER_POSTEXEC OR
        AC_ACCESS_REGISTER_TRANSFER OR AC_ACCESS_REGISTER_WRITE OR AC_AR_SIZE 64 OR AC_AR_REGNO X0)
        [CSRRx CSR_WRITE S0 CSR_DSCRATCH S0, LOAD 64 S0 X0 db, CSRRx type S0 which S0, STORE 64 S0 X0 db,
          CSRRx CSR_WRITE S0 CSR_DSCRATCH S0, EBREAK] (to_data 64 v)) (\<lambda>_. ?finish))) ?Q s1"
      unfolding wp_bind [of "gets data_base"] wp_gets words
      by (rule wp_seq [OF run [OF h1]]) (use end_ok in blast)
  qed
qed

section \<open>The fence and the reset\<close>

lemma wp_fence_i:
  assumes "dtm_runs R C M s"
  shows "wp (fence_i (dm_dmi lat)) (\<lambda>_. dtm_runs R C M) s"
proof -
  let ?ws = "[FENCE_I, EBREAK]"
  have run: "wp (RUN_AC_OR_DIE (dm_dmi lat) (AC_ACCESS_REGISTER_POSTEXEC OR AC_ACCESS_REGISTER_TRANSFER OR
      AC_ACCESS_REGISTER_WRITE OR AC_AR_SIZE 64 OR AC_AR_REGNO X0) ?ws [])
    (\<lambda>_ s'. dtm_holds R C M ?ws s' \<and> True) s'" if h: "dtm_holds R C M [] s'" for s'
  proof (rule wp_run_program [OF h, where P = "\<lambda>_. True"])
    fix t assume t: "dm_holds 0 R C M ?ws t"
    obtain rest where prog: "dm_progbuf t = ?ws @ rest" using holds_program [OF t] by auto
    have i6: "hart_step (hart_fetch t 6) 6 t = Goto 7 t"
      using program_words [OF prog, of 0] by (simp add: hart_step_def Let_def FENCE_I_def)
    have i7: "hart_step (hart_fetch t 7) 7 t = Parked t"
      using program_words [OF prog, of 1] by (simp add: steps)
    have "hart_run 6 t = Some (park t)" by (simp only: hart_run_goto [OF i6] hart_run_parked [OF i7])
    then show "\<exists>u. hart_run 6 t = Some u \<and> dm_holds 0 R C M ?ws u \<and> True" using t by (simp add: holds_park)
  qed simp_all
  show ?thesis
    unfolding fence_i_def wp_bind [of "gets _"] wp_gets prod.case runs_at [OF assms]
  proof (rule wp_seq [OF wp_halt_runs [OF assms]], rule wp_seq [OF run], assumption)
    fix s' assume "dtm_holds R C M ?ws s' \<and> True"
    then have h: "dtm_holds R C M ?ws s'" by simp
    show "wp (bind (gets current_hart) (resume (dm_dmi lat))) (\<lambda>_. dtm_runs R C M) s'"
      by (simp add: holds_at [OF h] wp_resume_holds [OF h])
  qed
qed

lemma wp_select_hart:
  assumes "dtm_runs R C M s"
  shows "wp (select_hart (dm_dmi lat) 0) (\<lambda>_. dtm_runs R C M) s"
proof -
  let ?t = "dtm_target s"
  have run: "dm_running ?t" using assms by (simp add: dtm_runs_def dm_runs_def)
  then have control: "dm_control ?t = 1" by (simp add: dm_running_def)
  have "dm_read lat DMI_DMCONTROL ?t = (1, ?t)" using control by (simp add: dm_read_def DMI_DMCONTROL_def)
  moreover have "set_field 1 DMI_DMCONTROL_HARTSEL 0 = 1" by (simp add: set_field_def DMI_DMCONTROL_HARTSEL_def)
  moreover have "?t\<lparr>dm_control := 1\<rparr> = ?t" using control by (cases ?t) simp
  then have "dm_write lat DMI_DMCONTROL 1 ?t = ?t"
    using run by (simp add: write_control Let_def outstanding_def dm_running_def)
  moreover have "dtm_runs R C M (s\<lparr>current_hart := 0\<rparr>)" using assms by (simp add: dtm_runs_def dtm_at_def)
  ultimately show ?thesis
    by (simp add: select_hart_def wp_dtm_read [OF tick_running [OF run]] wp_dtm_write [OF tick_running [OF run]])
qed

lemma wp_dtm_reset:
  assumes "dtm_runs R C M s"
  shows "wp (dtm_reset (dm_dmi lat) entry_point) (\<lambda>_. dtm_runs R (C(0x7B1 := entry_point)) M) s"
proof -
  define C' where "C' = C(0x7B1 := entry_point)"
  have csr: "wp (write_csr (dm_dmi lat) 0x7B1 entry_point) (\<lambda>_. dtm_runs R C' M) s'"
    if "dtm_runs R C M s'" for s'
    using wp_modify_csr [OF that, of CSR_WRITE "0x7B1" lat entry_point]
    by (auto simp: C'_def write_csr_def csr_type_def CSR_DSCRATCH_def csr_fun_def elim: wp_mono)
  have status: "wp (dtm_read (dm_dmi lat) DMI_DMSTATUS) (\<lambda>_. dtm_runs R C' M) s'" if "dtm_runs R C' M s'" for s'
  proof -
    have "dm_running (dtm_target s')" using that by (simp add: dtm_runs_def dm_runs_def)
    then show ?thesis using that by (simp add: wp_dtm_read [OF tick_running] read_status)
  qed
  have "num_harts s = 1" using assms by (simp add: dtm_runs_def dtm_at_def)
  then have harts: "[0..<num_harts s] = [0]" by simp
  have hart: "wp (bind (select_hart (dm_dmi lat) 0) (\<lambda>_. bind (fence_i (dm_dmi lat)) (\<lambda>_.
      bind (write_csr (dm_dmi lat) 0x7B1 entry_point) (\<lambda>_. ret ())))) (\<lambda>_. dtm_runs R C' M) s"
    by (rule wp_seq [OF wp_select_hart [OF assms]], rule wp_seq [OF wp_fence_i], assumption,
        rule wp_seq [OF csr], assumption) simp
  have last: "wp (bind (select_hart (dm_dmi lat) 0) (\<lambda>_. bind (dtm_read (dm_dmi lat) DMI_DMSTATUS) (\<lambda>_. ret ())))
      (\<lambda>_. dtm_runs R C' M) s'" if "dtm_runs R C' M s'" for s'
    by (rule wp_seq [OF wp_select_hart [OF that]], rule wp_seq [OF status], assumption) simp
  show ?thesis
    unfolding C'_def [symmetric] dtm_reset_def wp_bind [of "gets _"] wp_gets harts
    by (rule wp_seq [OF _ last]) (use hart in simp_all)
qed

section \<open>Setting up\<close>

text \<open>
  The debug module out of reset, its hart running: the registers and the memory are anything.
\<close>

definition dm_boots :: "(u32 \<Rightarrow> u64) \<Rightarrow> (u32 \<Rightarrow> u64) \<Rightarrow> mem \<Rightarrow> dm \<Rightarrow> bool" where
  "dm_boots R C M t \<longleftrightarrow> dm_runs R C M (t\<lparr>dm_control := 1\<rparr>) \<and> dm_control t = 0"

text \<open>A command without data that may fail.\<close>

lemma wp_try_size:
  assumes "dm_parked (dtm_target s)" and "\<not> ac_write c" and "ac_transfer c"
    and u: "run_command ((dtm_target s)\<lparr>dm_command := c, dm_busy := True, dm_count := 0\<rparr>) = Some u"
    and err: "dm_cmderr u = 0 \<or> dm_cmderr u = 3"
  shows "wp (run_abstract_command (dm_dmi lat) c [] []) Q s =
    Q (dm_cmderr u, []) (s\<lparr>dtm_target := u\<lparr>dm_busy := False\<rparr>\<rparr>)"
proof -
  let ?t = "dtm_target s"
  let ?t1 = "?t\<lparr>dm_command := c, dm_busy := True, dm_count := lat (?t\<lparr>dm_command := c\<rparr>)\<rparr>"
  have "dm_executing ?t1" using assms(1) by (simp add: dm_executing_def dm_parked_def)
  then have poll: "wp (read_until (dm_dmi lat) DMI_ABSTRACTCS (\<lambda>d. d AND DMI_ABSTRACTCS_BUSY = 0)) P
      (s\<lparr>dtm_target := ?t1\<rparr>) = P (dm_abstractcs (u\<lparr>dm_busy := False\<rparr>)) (s\<lparr>dtm_target := u\<lparr>dm_busy := False\<rparr>\<rparr>)" for P
    using wp_poll_command [of "s\<lparr>dtm_target := ?t1\<rparr>" u lat P] u err by simp
  have flags: "get_field c AC_ACCESS_REGISTER_WRITE = 0" "get_field c AC_ACCESS_REGISTER_TRANSFER \<noteq> 0"
    using ac_write_flag [of c] ac_transfer_flag [of c] assms(2,3) by auto
  have "get_field (dm_abstractcs (u\<lparr>dm_busy := False\<rparr>)) DMI_ABSTRACTCS_CMDERR = dm_cmderr u"
    using err by (auto simp: dm_abstractcs_def DMI_ABSTRACTCS_CMDERR_def get_field_def)
  then show ?thesis
    using flags by (simp add: run_abstract_command_def wp_dtm_write [OF tick_parked [OF assms(1)]]
      write_command [OF assms(1)] poll)
qed

end
