(* ===== verification/Dtm_Setup.thy ===== *)
theory Dtm_Setup
  imports Dtm_Control
begin

text \<open>
  The set-up of the host thread on a debug module out of reset, and what the operations of the
  transport do once it is set up: memory, control registers, reset.
\<close>

lemma get_reg_updates:
  "get_reg (t\<lparr>dm_control := c\<rparr>) r = get_reg t r" "get_reg (t\<lparr>dm_cmderr := c\<rparr>) r = get_reg t r"
  "get_reg (t\<lparr>dm_command := c\<rparr>) r = get_reg t r" "get_reg (t\<lparr>dm_busy := b\<rparr>) r = get_reg t r"
  "get_reg (t\<lparr>dm_count := n\<rparr>) r = get_reg t r" "get_reg (t\<lparr>dm_halted := b\<rparr>) r = get_reg t r"
  "get_reg (t\<lparr>dm_csrs := x\<rparr>) r = get_reg t r" "get_reg (t\<lparr>dm_resumeack := b\<rparr>) r = get_reg t r"
  by (simp_all add: get_reg_def)

section \<open>The size of the registers\<close>

definition size_command :: "nat \<Rightarrow> u32" where
  "size_command n = (AC_ACCESS_REGISTER_TRANSFER OR AC_AR_REGNO S0) OR AC_AR_SIZE n"

lemma size_command_fields:
  "\<not> ac_write (size_command n)" "ac_transfer (size_command n)" "ac_type (size_command n) = 0"
  "\<not> ac_postexec (size_command n)" "moves_reg (size_command 64) S0" "ac_size (size_command 128) = 4"
  by (simp_all add: size_command_def ac_words)

text \<open>A size the hart does not have is an exception.\<close>

lemma run_size_128: "dm_command t = size_command 128 \<Longrightarrow> run_command t = Some (park (t\<lparr>dm_cmderr := 3\<rparr>))"
proof -
  assume c: "dm_command t = size_command 128"
  have "transfer_word (size_command 128) = 0"
    by (simp add: transfer_word_def Let_def size_command_fields)
  then have "hart_step (hart_fetch t 0) 0 t = Trapped t"
    using c by (simp add: fetch_abstract hart_step_def Let_def EBREAK_def)
  then show ?thesis
    using c by (subst run_command_def, subst hart_run.simps) (simp add: size_command_fields)
qed

lemma wp_get_xlen:
  assumes "dtm_holds R C M ws (s\<lparr>xlen := 64\<rparr>)"
  shows "wp (get_xlen (dm_dmi lat)) (\<lambda>x s'. x = 64 \<and> xlen s' = xlen s \<and> dtm_holds R C M ws (s'\<lparr>xlen := 64\<rparr>)) s"
proof -
  let ?t = "dtm_target s"
  have held: "dm_holds 0 R C M ws ?t" "\<not> dm_busy ?t" "dtm_at (s\<lparr>xlen := 64\<rparr>)"
    using assms by (simp_all add: dtm_holds_def)
  note parked = holds_parked [OF held(1,2)]
  let ?u = "park (?t\<lparr>dm_command := size_command 128, dm_busy := True, dm_count := 0, dm_cmderr := 3\<rparr>)\<lparr>dm_busy := False\<rparr>"
  have try128: "wp (run_abstract_command (dm_dmi lat) (size_command 128) [] []) Q s =
      Q (3, []) (s\<lparr>dtm_target := ?u\<rparr>)" for Q
    using wp_try_size [of s "size_command 128" _ lat Q] parked run_size_128 size_command_fields
    by (simp add: park_def)
  let ?v = "?u\<lparr>dm_cmderr := 0\<rparr>"
  have tick: "dm_tick ?u = Some ?u"
    using held(1) by (simp add: dm_tick_def outstanding_def dm_holds_def park_def resumeack_idem)
  have clear: "dm_write lat DMI_ABSTRACTCS DMI_ABSTRACTCS_CMDERR ?u = ?v"
    using held(1) by (simp add: dm_write_def DMI_ABSTRACTCS_def DMI_ABSTRACTCS_CMDERR_def dm_holds_def park_def)
  have v: "dm_holds 0 R C M ws ?v" "\<not> dm_busy ?v"
    using held(1) by (simp_all add: dm_holds_def park_def get_reg_updates)
  note parked_v = holds_parked [OF v]
  let ?v1 = "?v\<lparr>dm_command := size_command 64, dm_busy := True, dm_count := 0\<rparr>"
  have "dm_holds 0 R C M ws ?v1" using v(1) by (simp add: dm_holds_def get_reg_updates)
  then obtain w where w: "run_command ?v1 = Some w" "dm_holds 0 R C M ws w"
    using hart_read_reg [of 0 R C M ws ?v1 S0] size_command_fields by auto
  have "dm_cmderr w = 0" using w(2) by (simp add: dm_holds_def)
  then have try64: "wp (run_abstract_command (dm_dmi lat) (size_command 64) [] []) Q (s\<lparr>dtm_target := ?v\<rparr>) =
      Q (0, []) (s\<lparr>dtm_target := w\<lparr>dm_busy := False\<rparr>\<rparr>)" for Q
    using wp_try_size [of "s\<lparr>dtm_target := ?v\<rparr>" "size_command 64" w lat Q] parked_v w(1) size_command_fields by simp
  have "dm_holds 0 R C M ws (w\<lparr>dm_busy := False\<rparr>)" using w(2) by (simp add: dm_holds_def)
  then have end_ok: "dtm_holds R C M ws (s\<lparr>dtm_target := w\<lparr>dm_busy := False\<rparr>, xlen := 64\<rparr>)"
    using held(3) by (simp add: dtm_holds_def dtm_at_def)
  show ?thesis
    unfolding get_xlen_def Let_def size_command_def [symmetric]
    using try128 try64 end_ok by (simp add: wp_dtm_write tick clear)
qed

section \<open>The harts and the debug module\<close>

text \<open>The transport once it knows the sizes, with any control word that only selects a hart.\<close>

definition dtm_found :: "(u32 \<Rightarrow> u64) \<Rightarrow> (u32 \<Rightarrow> u64) \<Rightarrow> mem \<Rightarrow> u32 \<Rightarrow> dm dtm \<Rightarrow> bool" where
  "dtm_found R C M c s \<longleftrightarrow> dm_control (dtm_target s) = c \<and>
     dm_runs R C M ((dtm_target s)\<lparr>dm_control := 1\<rparr>) \<and>
     ram_words s = 6 \<and> data_words s = 2 \<and> data_base s = 0x380"

lemma running_flags:
  assumes "dm_running (t\<lparr>dm_control := 1\<rparr>)"
  shows "\<not> dm_halted t" "\<not> dm_busy t" "dm_cmderr t = 0" "\<not> dm_resumeack t"
  using assms by (simp_all add: dm_running_def)

lemma tick_no_requests:
  assumes "dm_running (t\<lparr>dm_control := 1\<rparr>)" and "\<not> bit (dm_control t) 31"
  shows "dm_tick t = Some t"
  using running_flags [OF assms(1)] assms(2) by (simp add: dm_tick_def outstanding_def haltreq_def resumeack_idem)

lemma wp_select:
  assumes "dtm_found R C M c s" and "bit c 0" and "\<not> bit c 31"
    and "set_field c DMI_DMCONTROL_HARTSEL h AND 0xC3FFFFC3 = c'" and "\<not> bit c' 31"
  shows "wp (select_hart (dm_dmi lat) h) (\<lambda>_. dtm_found R C M c') s"
proof -
  let ?t = "dtm_target s"
  have run: "dm_running (?t\<lparr>dm_control := 1\<rparr>)" and c: "dm_control ?t = c"
    using assms(1) by (simp_all add: dtm_found_def dm_runs_def)
  have tick: "dm_tick ?t = Some ?t" using tick_no_requests [OF run] c assms(3) by simp
  have "dm_read lat DMI_DMCONTROL ?t = (c, ?t)" using c by (simp add: dm_read_def DMI_DMCONTROL_def)
  moreover have "dm_write lat DMI_DMCONTROL (set_field c DMI_DMCONTROL_HARTSEL h) ?t = ?t\<lparr>dm_control := c'\<rparr>"
    using running_flags [OF run] assms(2,4,5) c by (simp add: write_control outstanding_def haltreq_def)
  moreover have "dtm_found R C M c' (s\<lparr>dtm_target := ?t\<lparr>dm_control := c'\<rparr>, current_hart := h\<rparr>)"
    using assms(1) by (simp add: dtm_found_def)
  ultimately show ?thesis
    by (simp add: select_hart_def wp_dtm_read [OF tick] wp_dtm_write [OF tick])
qed

lemma wp_found_status:
  assumes "dtm_found R C M c s" and "\<not> bit c 31"
  shows "wp (dtm_read (dm_dmi lat) DMI_DMSTATUS) Q s = Q (dm_status (dtm_target s)) s"
proof -
  have "dm_running ((dtm_target s)\<lparr>dm_control := 1\<rparr>)" using assms(1) by (simp add: dtm_found_def dm_runs_def)
  from tick_no_requests [OF this] show ?thesis
    using assms by (simp add: wp_dtm_read read_status dtm_found_def)
qed

lemma wp_enumerate:
  "wp (enumerate_harts dmi n) Q s =
   wp (bind (select_hart dmi (of_nat n)) (\<lambda>_. dtm_read dmi DMI_DMSTATUS))
     (\<lambda>d. if get_field d DMI_DMSTATUS_ANYNONEXISTENT \<noteq> 0 then Q n else wp (enumerate_harts dmi (n + 1)) Q) s"
  by (subst wp_def, subst enumerate_harts.simps)
    (simp add: wp_def split: option.splits sum.splits prod.splits)

lemma wp_enumerate_harts:
  assumes "dtm_found R C M 1 s"
  shows "wp (enumerate_harts (dm_dmi lat) 0) (\<lambda>n s'. n = 1 \<and> dtm_found R C M 0x10001 s') s"
proof -
  let ?Q = "\<lambda>n s'. n = 1 \<and> dtm_found R C M 0x10001 s'"
  have words: "set_field 1 DMI_DMCONTROL_HARTSEL 0 AND 0xC3FFFFC3 = 1"
      "set_field 1 DMI_DMCONTROL_HARTSEL 1 AND 0xC3FFFFC3 = 0x10001"
    by (simp_all add: set_field_def DMI_DMCONTROL_HARTSEL_def)
  have second: "wp (enumerate_harts (dm_dmi lat) 1) ?Q s'" if s': "dtm_found R C M 1 s'" for s'
  proof (subst wp_enumerate, rule wp_seq)
    show "wp (select_hart (dm_dmi lat) (of_nat 1)) (\<lambda>_. dtm_found R C M 0x10001) s'"
      by (rule wp_select [OF s']) (use words in simp_all)
    fix u t assume t: "dtm_found R C M 0x10001 t"
    then have "get_field (dm_status (dtm_target t)) DMI_DMSTATUS_ANYNONEXISTENT \<noteq> 0"
      by (simp only: status_nonexistent) (simp add: dtm_found_def hartsel_def)
    then show "wp (dtm_read (dm_dmi lat) DMI_DMSTATUS) (\<lambda>d. if get_field d DMI_DMSTATUS_ANYNONEXISTENT \<noteq> 0
        then ?Q 1 else wp (enumerate_harts (dm_dmi lat) (1 + 1)) ?Q) t"
      using t by (simp add: wp_found_status [OF t])
  qed
  show ?thesis
  proof (subst wp_enumerate, rule wp_seq)
    show "wp (select_hart (dm_dmi lat) (of_nat 0)) (\<lambda>_. dtm_found R C M 1) s"
      by (rule wp_select [OF assms]) (use words in simp_all)
    fix u t assume t: "dtm_found R C M 1 t"
    then have "get_field (dm_status (dtm_target t)) DMI_DMSTATUS_ANYNONEXISTENT = 0"
      using status_nonexistent [of "dtm_target t"] by (simp add: dtm_found_def hartsel_def)
    then show "wp (dtm_read (dm_dmi lat) DMI_DMSTATUS) (\<lambda>d. if get_field d DMI_DMSTATUS_ANYNONEXISTENT \<noteq> 0
        then ?Q 0 else wp (enumerate_harts (dm_dmi lat) (0 + 1)) ?Q) t"
      using t second [OF t] by (simp add: wp_found_status [OF t])
  qed
qed

text \<open>Halting overwrites the control word.\<close>

lemma wp_halt_found:
  assumes "dtm_found R C M c s" and "bit c 0" and "\<not> bit c 31"
  shows "wp (halt (dm_dmi lat) 0) (\<lambda>_ s'. num_harts s' = num_harts s \<and>
    (num_harts s = 1 \<longrightarrow> dtm_holds R C M [] (s'\<lparr>xlen := 64\<rparr>))) s"
proof -
  let ?t = "dtm_target s"
  let ?t1 = "?t\<lparr>dm_control := 1\<rparr>"
  have run: "dm_running ?t1" and c: "dm_control ?t = c" using assms(1) by (simp_all add: dtm_found_def dm_runs_def)
  have same: "wp (halt (dm_dmi lat) 0) Q s = wp (halt (dm_dmi lat) 0) Q (s\<lparr>dtm_target := ?t1\<rparr>)" for Q
    using tick_no_requests [OF run] tick_running [OF run] c assms(2,3)
    by (simp add: halt_def wp_dtm_write write_control Let_def outstanding_def haltreq_def resumereq_def)
  have "dm_holds 0 R C M [] (park (?t1\<lparr>dm_halted := True, dm_count := 0\<rparr>))"
    using assms(1) by (simp add: holds_park) (simp add: dtm_found_def dm_runs_def dm_running_def dm_holds_def get_reg_updates)
  then show ?thesis
    unfolding same using run assms(1)
    by (simp add: wp_halt dtm_holds_def dtm_at_def dtm_found_def dm_running_def park_def)
qed

lemma wp_discover:
  assumes "dm_boots R C M (dtm_target s)"
    and "\<And>s'. dtm_found R C M 1 s' \<Longrightarrow> wp k Q s'"
  shows "wp (bind (dtm_read (dm_dmi lat) DMI_ABSTRACTCS) (\<lambda>abstractcs.
     bind (modify (\<lambda>s. s\<lparr>ram_words := unat (get_field abstractcs DMI_ABSTRACTCS_PROGSIZE),
                         data_words := unat (get_field abstractcs DMI_ABSTRACTCS_DATACOUNT)\<rparr>)) (\<lambda>_.
     bind (dtm_read (dm_dmi lat) DMI_HARTINFO) (\<lambda>hartinfo.
     bind (check (get_field hartinfo DMI_HARTINFO_NSCRATCH > 0) (Assert_Failed ''nscratch > 0'')) (\<lambda>_.
     bind (check (get_field hartinfo DMI_HARTINFO_DATAACCESS \<noteq> 0) (Assert_Failed ''dataaccess'')) (\<lambda>_.
     bind (modify (\<lambda>s. s\<lparr>data_base := get_field hartinfo DMI_HARTINFO_DATAADDR\<rparr>)) (\<lambda>_.
     bind (dtm_write (dm_dmi lat) DMI_DMCONTROL DMI_DMCONTROL_DMACTIVE) (\<lambda>_. k)))))))) Q s"
proof -
  let ?t = "dtm_target s"
  have run: "dm_running (?t\<lparr>dm_control := 1\<rparr>)" and c: "dm_control ?t = 0"
    using assms(1) by (simp_all add: dm_boots_def dm_runs_def)
  note flags = running_flags [OF run]
  have tick: "dm_tick ?t = Some ?t" using tick_no_requests [OF run] c by simp
  have sizes: "get_field (dm_abstractcs ?t) DMI_ABSTRACTCS_PROGSIZE = 6"
      "get_field (dm_abstractcs ?t) DMI_ABSTRACTCS_DATACOUNT = 2"
    using flags by (simp_all add: dm_abstractcs_def get_field_def DMI_ABSTRACTCS_PROGSIZE_def DMI_ABSTRACTCS_DATACOUNT_def)
  have info: "dm_read lat DMI_HARTINFO ?t = (dm_hartinfo, ?t)" by (simp add: dm_read_def DMI_HARTINFO_def)
  have fields: "get_field dm_hartinfo DMI_HARTINFO_NSCRATCH = 2" "get_field dm_hartinfo DMI_HARTINFO_DATAACCESS = 1"
      "get_field dm_hartinfo DMI_HARTINFO_DATAADDR = 0x380"
    by (simp_all add: dm_hartinfo_def get_field_def DMI_HARTINFO_NSCRATCH_def DMI_HARTINFO_DATAACCESS_def DMI_HARTINFO_DATAADDR_def)
  have activate: "dm_write lat DMI_DMCONTROL DMI_DMCONTROL_DMACTIVE ?t = ?t\<lparr>dm_control := 1\<rparr>"
    using c by (simp add: dm_write_def DMI_DMCONTROL_def DMI_DMCONTROL_DMACTIVE_def)
  show ?thesis
    using assms(1)
    by (simp add: wp_dtm_read wp_dtm_write tick read_status info sizes fields activate)
      (rule assms(2), simp add: dm_boots_def dtm_found_def)
qed

lemma wp_set_harts:
  "dtm_found R C M c s \<Longrightarrow> dtm_found R C M c (s\<lparr>num_harts := n\<rparr>)"
  by (simp add: dtm_found_def)

lemma wp_producer_setup:
  assumes "dm_boots R C M (dtm_target s)"
  shows "wp (producer_setup (dm_dmi lat)) (\<lambda>_. dtm_runs R C M) s"
proof -
  let ?size = "bind (get_xlen (dm_dmi lat)) (\<lambda>xl. bind (modify (\<lambda>s. s\<lparr>xlen := xl\<rparr>)) (\<lambda>_. resume (dm_dmi lat) 0))"
  let ?rest = "bind (enumerate_harts (dm_dmi lat) 0) (\<lambda>n. bind (modify (\<lambda>s. s\<lparr>num_harts := n\<rparr>)) (\<lambda>_.
      bind (halt (dm_dmi lat) 0) (\<lambda>_. ?size)))"
  have size: "wp ?size (\<lambda>_. dtm_runs R C M) s'" if "dtm_holds R C M [] (s'\<lparr>xlen := 64\<rparr>)" for s'
  proof (rule wp_seq [OF wp_get_xlen [OF that]])
    fix x :: nat and t assume "x = 64 \<and> xlen t = xlen s' \<and> dtm_holds R C M [] (t\<lparr>xlen := 64\<rparr>)"
    then show "wp (bind (modify (\<lambda>s. s\<lparr>xlen := x\<rparr>)) (\<lambda>_. resume (dm_dmi lat) 0)) (\<lambda>_. dtm_runs R C M) t"
      by (auto intro: wp_resume_holds)
  qed
  have halted: "wp (bind (halt (dm_dmi lat) 0) (\<lambda>_. ?size)) (\<lambda>_. dtm_runs R C M) s'"
    if "dtm_found R C M 0x10001 s'" "num_harts s' = 1" for s'
    by (rule wp_seq [OF wp_halt_found [OF that(1)]]) (use that(2) size in simp_all)
  have "wp ?rest (\<lambda>_. dtm_runs R C M) s'" if s': "dtm_found R C M 1 s'" for s'
  proof (rule wp_seq [OF wp_enumerate_harts [OF s']])
    fix n :: nat and t assume "n = 1 \<and> dtm_found R C M 0x10001 t"
    then show "wp (bind (modify (\<lambda>s. s\<lparr>num_harts := n\<rparr>)) (\<lambda>_. bind (halt (dm_dmi lat) 0) (\<lambda>_. ?size)))
        (\<lambda>_. dtm_runs R C M) t"
      unfolding wp_bind [of "modify _"] wp_modify by (intro halted) (simp_all add: wp_set_harts)
  qed
  then show ?thesis unfolding producer_setup_def by (rule wp_discover [OF assms])
qed

section \<open>Properties of the transport\<close>

lemma runs_ready: "dtm_runs R C M s \<longleftrightarrow> dm_ready (R, C) s \<and> dm_mem (dtm_target s) = M"
  by (auto simp: dm_ready_def runs_mem)

text \<open>
  C24: on a debug module out of reset, whatever its latency, the set-up of the host thread
  returns: it has found one 64-bit hart, six program words and two data words, and leaves the
  hart running with its registers and its memory as they were.
\<close>

theorem producer_setup_finds_hart:
  assumes "dm_boots R C M (dtm_target s)"
  shows "wp (producer_setup (dm_dmi lat)) (\<lambda>_ s'. dm_ready (R, C) s' \<and> dm_mem (dtm_target s') = M \<and>
    xlen s' = 64 \<and> num_harts s' = 1 \<and> ram_words s' = 6 \<and> data_words s' = 2) s"
  by (rule wp_mono [OF wp_producer_setup [OF assms]])
    (simp add: dtm_runs_def dtm_at_def dm_ready_def dm_runs_def)

text \<open>
  C3: bytes written over the debug transport, at any alignment and of any length, are in the
  memory of the target, no other byte of it changes, they read back as they are, and the hart
  runs on with the registers it had.
\<close>

theorem dtm_write_read:
  assumes "dm_ready p s" and "range_in a (length bs) dm_dom" and "length bs < 2 ^ 64"
  shows "wp (bind (memif_write (dtm_chunks (dm_dmi lat)) a bs)
      (\<lambda>_. memif_read (dtm_chunks (dm_dmi lat)) a (length bs)))
    (\<lambda>r s'. r = bs \<and> dm_mem (dtm_target s') = mem_write (dm_mem (dtm_target s)) a bs \<and> dm_ready p s') s"
  by (rule wp_mono [OF dtm.wp_write_read [OF assms]]) simp

text \<open>
  C22: \<open>modify_csr\<close> writes, sets or clears the bits of the register and nothing else, but the
  value it returns is the low half of the old value or-ed with its high half.
\<close>

theorem modify_csr_halves:
  assumes "dm_ready (R, C) s" and "type \<in> {CSR_WRITE, CSR_SET, CSR_CLEAR}"
    and "which < 4096" and "which \<noteq> CSR_DSCRATCH"
  shows "wp (modify_csr (dm_dmi lat) which v type)
    (\<lambda>r s'. r = take_bit 32 (C which) OR drop_bit 32 (C which) \<and> dm_mem (dtm_target s') = dm_mem (dtm_target s) \<and>
      dm_ready (R, C(which := if type = CSR_WRITE then v else if type = CSR_SET then C which OR v
        else C which AND NOT v)) s') s"
proof -
  have "dtm_runs R C (dm_mem (dtm_target s)) s" using assms(1) by (simp add: runs_ready)
  moreover have "csr_type type" using assms(2) by (auto simp: csr_type_def)
  ultimately show ?thesis
    by (rule wp_mono [OF wp_modify_csr [OF _ _ assms(3,4)]])
      (simp add: runs_ready csr_result_def csr_fun_def)
qed

text \<open>
  C23: the reset of the transport makes the hart go on at the entry point: it is in \<open>dpc\<close>,
  and the other registers and the memory are unchanged.
\<close>

theorem dtm_reset_entry:
  assumes "dm_ready (R, C) s"
  shows "wp (dtm_reset (dm_dmi lat) entry_point) (\<lambda>_ s'. dm_ready (R, C(0x7B1 := entry_point)) s' \<and>
    dm_mem (dtm_target s') = dm_mem (dtm_target s)) s"
proof -
  have "dtm_runs R C (dm_mem (dtm_target s)) s" using assms by (simp add: runs_ready)
  from wp_mono [OF wp_dtm_reset [OF this, of lat entry_point]] show ?thesis by (simp add: runs_ready)
qed

text \<open>A debug module out of reset, every register and byte zero, and the transport set up on it.\<close>

definition dm_zero :: dm where
  "dm_zero = \<lparr>dm_control = 0, dm_cmderr = 0, dm_command = 0, dm_auto = 0,
     dm_progbuf = replicate 6 0, dm_data = [0, 0], dm_halted = False, dm_resumeack = False,
     dm_busy = False, dm_count = 0, dm_regs = (\<lambda>_. 0), dm_csrs = (\<lambda>_. 0x100000002), dm_mem = (\<lambda>_. 0)\<rparr>"

definition dtm_zero :: "dm dtm" where
  "dtm_zero = \<lparr>dtm_target = dm_zero, xlen = 0, ram_words = 0, data_words = 0, data_base = 0,
     num_harts = 0, current_hart = 0\<rparr>"

definition dtm_started :: "dm dtm" where
  "dtm_started = \<lparr>dtm_target = dm_zero\<lparr>dm_control := 1\<rparr>, xlen = 64, ram_words = 6, data_words = 2,
     data_base = 0x380, num_harts = 1, current_hart = 0\<rparr>"

lemma dm_zero_boots: "dm_boots (\<lambda>_. 0) (\<lambda>_. 0x100000002) (\<lambda>_. 0) (dtm_target dtm_zero)"
  by (simp add: dm_boots_def dm_runs_def dm_running_def dm_zero_def dtm_zero_def DM_PROGBUF_SIZE_def
      DM_DATA_COUNT_def get_reg_def)

lemma dtm_started_ready: "dm_ready (\<lambda>_. 0, \<lambda>_. 0x100000002) dtm_started"
  by (simp add: dm_ready_def dtm_runs_def dm_runs_def dm_running_def dm_zero_def dtm_started_def dtm_at_def
      DM_PROGBUF_SIZE_def DM_DATA_COUNT_def get_reg_def)

lemma producer_setup_finds_hart_witness:
  "wp (producer_setup (dm_dmi (\<lambda>_. 3))) (\<lambda>_ s'. xlen s' = 64 \<and> num_harts s' = 1) dtm_zero"
  using producer_setup_finds_hart [OF dm_zero_boots, of "\<lambda>_. 3"] by (rule wp_mono) simp

lemma dtm_write_read_witness:
  "wp (bind (memif_write (dtm_chunks (dm_dmi (\<lambda>_. 2))) 0x80000003 [1, 2, 3])
      (\<lambda>_. memif_read (dtm_chunks (dm_dmi (\<lambda>_. 2))) 0x80000003 3)) (\<lambda>r s'. r = [1, 2, 3]) dtm_started"
proof -
  have "range_in 0x80000003 (length [1, 2, 3 :: byte]) dm_dom"
    by (simp add: range_in_def dm_dom_def less_Suc_eq numeral_3_eq_3)
  from wp_mono [OF dtm_write_read [OF dtm_started_ready this, of "\<lambda>_. 2"], of "\<lambda>r s'. r = [1, 2, 3]"]
  show ?thesis by (simp add: numeral_3_eq_3)
qed

lemma modify_csr_halves_witness:
  "wp (modify_csr (dm_dmi (\<lambda>_. 1)) 0x300 8 CSR_SET) (\<lambda>r s'. r = 3) dtm_started"
  by (rule wp_mono [OF modify_csr_halves [OF dtm_started_ready]])
    (simp_all add: CSR_DSCRATCH_def take_bit_eq_mask mask_eq_exp_minus_1)

lemma dtm_reset_entry_witness:
  "wp (dtm_reset (dm_dmi (\<lambda>_. 1)) 0x80000000) (\<lambda>_ s'. dm_csrs (dtm_target s') 0x7B1 = 0x80000000) dtm_started"
  using dtm_reset_entry [OF dtm_started_ready, of "\<lambda>_. 1" "0x80000000"]
  by (rule wp_mono) (simp add: dm_ready_def dtm_runs_def dm_runs_def CSR_DSCRATCH_def)

end
