(* ===== verification/Htif_Serve.thy ===== *)
theory Htif_Serve
  imports Htif Dtm_Setup Elf2hex
begin

text \<open>
  The server (\<open>tb/dpi/fesvr/htif.cc\<close>) over any memory that keeps the contract
  \<open>clearing_memory\<close>: \<open>served_memory\<close> is that contract for the chunks of the server's
  environment. It is interpreted on the debug transport, whose hart runs between the accesses of
  the server, and on a plain memory; the properties hold for every such memory.
\<close>

section \<open>The server's accesses\<close>

locale served_memory = clearing_memory c view D inv
  for c :: "'t chunked_memif" and view :: "'t \<Rightarrow> mem" and D :: "'t \<Rightarrow> addr set" and inv :: "'t \<Rightarrow> bool" +
  fixes e :: "('t, 'h) env"
  assumes served: "chunks e = c"
begin

lemma wp_read_word:
  assumes "inv (target s)" and "range_in a 8 (D (target s))" and "a AND 7 = 0"
  shows "wp (on_target (read_uint64 (chunks e) a)) (\<lambda>w s'. w = le_word (mem_read (view (target s)) a 8) \<and>
    (\<exists>t. s' = s\<lparr>target := t\<rparr> \<and> ok (target s) t)) s"
proof -
  have "wp (memif_read c a 8) (\<lambda>bs t. bs = mem_read (view (target s)) a 8 \<and> ok (target s) t) (target s)"
    by (rule wp_memif_read) (use assms in simp_all)
  then show ?thesis
    using assms(3) by (auto simp: on_target_def read_uint64_def memif_read_val_def served elim: wp_mono)
qed

lemma wp_write_word:
  assumes "inv (target s)" and "range_in a 8 (D (target s))" and "a AND 7 = 0"
  shows "wp (on_target (write_uint64 (chunks e) a x)) (\<lambda>_ s'.
    \<exists>t. s' = s\<lparr>target := t\<rparr> \<and> wrote (target s) a (le_bytes 8 x) t) s"
proof -
  have "wp (memif_write c a (le_bytes 8 x)) (\<lambda>_. wrote (target s) a (le_bytes 8 x)) (target s)"
    by (rule wp_write) (use assms in simp_all)
  then show ?thesis
    using assms(3) by (auto simp: on_target_def write_uint64_def memif_write_val_def served elim: wp_mono)
qed

lemma misaligned_read: "a AND 7 \<noteq> 0 \<Longrightarrow> on_target (read_uint64 (chunks e) a) s = Some (Inl (Runtime_Error ''misaligned address''))"
  by (simp add: on_target_def read_uint64_def memif_read_val_def run_simps)

end

section \<open>Responses reach the target in order\<close>

text \<open>
  The server and the target take turns in any order: a device queues a response, the server
  serves \<open>fromhost\<close>, the target takes the word there and clears it, and either does anything
  else that leaves the word and the queue alone. The other components of a state are the words
  taken and the responses queued so far.
\<close>

definition mailbox :: "('t \<Rightarrow> mem) \<Rightarrow> ('t, 'h) htif \<Rightarrow> u64" where
  "mailbox view s = le_word (mem_read (view (target s)) (fromhost_addr s) 8)"

definition mail_ok :: "('t \<Rightarrow> addr set) \<Rightarrow> ('t \<Rightarrow> bool) \<Rightarrow> ('t, 'h) htif \<Rightarrow> bool" where
  "mail_ok D I s \<longleftrightarrow> I (target s) \<and> range_in (fromhost_addr s) 8 (D (target s))"

inductive mail_step :: "('t, 'h) env \<Rightarrow> ('t \<Rightarrow> mem) \<Rightarrow> ('t \<Rightarrow> addr set) \<Rightarrow> ('t \<Rightarrow> bool) \<Rightarrow>
    ('t, 'h) htif \<times> u64 list \<times> u64 list \<Rightarrow> ('t, 'h) htif \<times> u64 list \<times> u64 list \<Rightarrow> bool"
  for e view D I where
  serve: "serve_fromhost e s = Some (Inr ((), s')) \<Longrightarrow>
     mail_step e view D I (s, taken, sent) (s', taken, sent)"
| queue: "mail_step e view D I (s, taken, sent)
    (s\<lparr>fromhost_queue := fromhost_queue s @ [cmd_response cmd r]\<rparr>, taken, sent @ [cmd_response cmd r])"
| take_word: "mailbox view s \<noteq> 0 \<Longrightarrow> mailbox view (s\<lparr>target := t\<rparr>) = 0 \<Longrightarrow> I t \<Longrightarrow> D t = D (target s) \<Longrightarrow>
     mail_step e view D I (s, taken, sent) (s\<lparr>target := t\<rparr>, taken @ [mailbox view s], sent)"
| other: "mailbox view s' = mailbox view s \<Longrightarrow> fromhost_queue s' = fromhost_queue s \<Longrightarrow>
     mail_ok D I s' \<Longrightarrow> mail_step e view D I (s, taken, sent) (s', taken, sent)"

definition mail_inv :: "('t \<Rightarrow> mem) \<Rightarrow> ('t, 'h) htif \<times> u64 list \<times> u64 list \<Rightarrow> bool" where
  "mail_inv view = (\<lambda>(s, taken, sent). filter (\<lambda>w. w \<noteq> 0) sent =
     taken @ (if mailbox view s \<noteq> 0 then [mailbox view s] else []) @ filter (\<lambda>w. w \<noteq> 0) (fromhost_queue s))"

context served_memory
begin

text \<open>Serving \<open>fromhost\<close> leaves the word and the queue, or moves the oldest response into an empty word.\<close>

lemma serve_fromhost_effect:
  assumes ok: "mail_ok D inv s" and run: "serve_fromhost e s = Some (Inr ((), s'))"
  shows "mail_ok D inv s'" and "fromhost_queue s' = fromhost_queue s \<and> mailbox view s' = mailbox view s \<or>
    (\<exists>x. fromhost_queue s = x # fromhost_queue s' \<and> mailbox view s = 0 \<and> mailbox view s' = x)"
proof -
  let ?a = "fromhost_addr s"
  have s: "inv (target s)" "range_in ?a 8 (D (target s))" using ok by (simp_all add: mail_ok_def)
  have "mail_ok D inv s' \<and> (fromhost_queue s' = fromhost_queue s \<and> mailbox view s' = mailbox view s \<or>
    (\<exists>x. fromhost_queue s = x # fromhost_queue s' \<and> mailbox view s = 0 \<and> mailbox view s' = x))"
  proof (cases "fromhost_queue s")
    case Nil
    then show ?thesis using run ok by (simp add: serve_fromhost_def run_simps)
  next
    case (Cons x rest)
    have aligned: "?a AND 7 = 0"
    proof (rule ccontr)
      assume "?a AND 7 \<noteq> 0"
      from misaligned_read [OF this, of s] show False using run Cons by (simp add: serve_fromhost_def run_simps)
    qed
    from wp_runs [OF wp_read_word [OF s aligned]] obtain t where
      rd: "on_target (read_uint64 (chunks e) ?a) s = Some (Inr (mailbox view s, s\<lparr>target := t\<rparr>))"
      and t: "view t = view (target s)" "inv t" "same_shape c D (target s) t"
      by (auto simp: mailbox_def)
    have dom: "D t = D (target s)" using t(3) by (simp add: same_shape_def)
    show ?thesis
    proof (cases "mailbox view s = 0")
      case False
      then have "s' = s\<lparr>target := t\<rparr>" using run Cons rd by (simp add: serve_fromhost_def run_simps)
      then show ?thesis using s t dom by (simp add: mail_ok_def mailbox_def)
    next
      case True
      from wp_runs [OF wp_write_word [of "s\<lparr>target := t\<rparr>" ?a x]] t s dom aligned obtain t' where
        wr: "on_target (write_uint64 (chunks e) ?a x) (s\<lparr>target := t\<rparr>) = Some (Inr ((), s\<lparr>target := t'\<rparr>))"
        and t': "view t' = mem_write (view t) ?a (le_bytes 8 x)" "inv t'" "same_shape c D t t'"
        by auto
      have s': "s' = s\<lparr>target := t', fromhost_queue := rest\<rparr>"
        using run Cons rd wr True by (simp add: serve_fromhost_def run_simps)
      have "mailbox view s' = x"
        using mem_read_write [of "le_bytes 8 x" "view t" ?a] by (simp add: s' t' mailbox_def le_word_le_bytes)
      then show ?thesis using s s' t' dom Cons True by (simp add: mail_ok_def same_shape_def)
    qed
  qed
  then show "mail_ok D inv s'" and "fromhost_queue s' = fromhost_queue s \<and> mailbox view s' = mailbox view s \<or>
    (\<exists>x. fromhost_queue s = x # fromhost_queue s' \<and> mailbox view s = 0 \<and> mailbox view s' = x)" by simp_all
qed

lemma mail_inv_step:
  assumes "mail_step e view D inv (s, taken, sent) (s', taken', sent')"
    and "mail_ok D inv s" and "mail_inv view (s, taken, sent)"
  shows "mail_ok D inv s' \<and> mail_inv view (s', taken', sent')"
  using assms(1)
proof cases
  case serve
  from serve_fromhost_effect [OF assms(2) serve(3)] show ?thesis
    using serve assms(3) by (auto simp: mail_inv_def)
next
  case (queue cmd r)
  then show ?thesis using assms(2,3) by (auto simp: mail_inv_def mail_ok_def mailbox_def)
next
  case (take_word t)
  then show ?thesis using assms(2,3) by (auto simp: mail_inv_def mail_ok_def)
next
  case other
  then show ?thesis using assms(3) by (simp add: mail_inv_def)
qed

lemma responses_kept:
  assumes "(mail_step e view D inv)\<^sup>*\<^sup>* (s, [], []) (s', taken, sent)" and "mail_ok D inv s"
    and "fromhost_queue s = []" and "mailbox view s = 0"
  shows "mail_inv view (s', taken, sent)"
proof -
  have "(\<lambda>(s, taken, sent). mail_ok D inv s \<and> mail_inv view (s, taken, sent)) (s', taken, sent)"
    using assms(1)
  proof (induction rule: rtranclp_induct)
    case base
    then show ?case using assms(2-4) by (simp add: mail_inv_def)
  next
    case (step y z)
    then show ?case using mail_inv_step by (cases y; cases z) blast
  qed
  then show ?thesis by simp
qed

end

text \<open>The debug transport, with a hart whose registers may be anything.\<close>

interpretation dtm_any: clearing_memory "dtm_chunks (dm_dmi lat)" "\<lambda>s. dm_mem (dtm_target s)" "\<lambda>_. dm_dom"
  "\<lambda>s. \<exists>p. dm_ready p s" for lat
proof (unfold_locales, goal_cases)
  case (1 s)
  then show ?case using dtm.align_pow2 by blast
next
  case (2 s)
  then show ?case using dtm.max_size by blast
next
  case (3 s a i)
  then show ?case using dtm.whole_chunks by blast
next
  case (4 s a n)
  then obtain p where "dm_ready p s" by blast
  from dtm.read_law [OF this 4(2-4)] show ?case by (rule wp_mono) blast
next
  case (5 s a bs)
  then obtain p where "dm_ready p s" by blast
  from dtm.write_law [OF this 5(2-4)] show ?case by (rule wp_mono) blast
next
  case (6 s a n)
  then obtain p where "dm_ready p s" by blast
  from dtm.clear_law [OF this 6(2-7)] show ?case by (rule wp_mono) blast
qed simp

text \<open>The debug transport as the server's subclass (\<open>dtm.h\<close>): \<open>dtm_t\<close> overrides these members of \<open>htif_t\<close>.\<close>

definition dtm_env :: "'d dmi \<Rightarrow> 'h host_os \<Rightarrow> string \<Rightarrow> ('d dtm, 'h) env" where
  "dtm_env dmi host_calls dir = \<lparr>chunks = dtm_chunks dmi, idle = dtm_idle dmi, htif_reset = dtm_reset dmi,
     is_address_preloaded = (\<lambda>_ _ _. False), os = host_calls, target_dir = dir\<rparr>"

interpretation dtm_served: served_memory "dtm_chunks (dm_dmi lat)" "\<lambda>s. dm_mem (dtm_target s)" "\<lambda>_. dm_dom"
  "\<lambda>s. \<exists>p. dm_ready p s" "dtm_env (dm_dmi lat) host_calls dir" for lat host_calls dir
  by unfold_locales (simp add: dtm_env_def)

interpretation plain_served: served_memory plain_ops id "\<lambda>_. UNIV" "\<lambda>_. True" "e\<lparr>chunks := plain_ops\<rparr>"
  for e :: "(mem, 'h) env"
  by unfold_locales simp

section \<open>The properties of the server\<close>

text \<open>
  C8: over any memory that keeps the contract, and any interleaving of the server, its devices
  and the target, the words the target has taken from \<open>fromhost\<close>, then the one waiting there,
  then the queue, are exactly the responses that are not zero, in the order the devices gave
  them: none is lost, doubled or overtaken.
\<close>

theorem responses_in_order:
  assumes "served_memory (chunks e) view D I e" and "(mail_step e view D I)\<^sup>*\<^sup>* (s, [], []) (s', taken, sent)"
    and "mail_ok D I s" and "fromhost_queue s = []" and "mailbox view s = 0"
  shows "filter (\<lambda>w. w \<noteq> 0) sent = taken @ (if mailbox view s' \<noteq> 0 then [mailbox view s'] else []) @
    filter (\<lambda>w. w \<noteq> 0) (fromhost_queue s')"
  using served_memory.responses_kept [OF assms] by (simp add: mail_inv_def)

text \<open>A server over the debug transport, with the word 7 in \<open>tohost\<close>.\<close>

definition dtm_holding :: "mem \<Rightarrow> dm dtm" where
  "dtm_holding m = dtm_started\<lparr>dtm_target := (dtm_target dtm_started)\<lparr>dm_mem := m\<rparr>\<rparr>"

definition dtm_server :: "mem \<Rightarrow> (dm dtm, toy_host) htif" where
  "dtm_server m = \<lparr>target = dtm_holding m, host = \<lparr>toy_errno = 0, toy_in = [], toy_out = []\<rparr>,
     entry = 0x80000000, targs = [], sig_file = '''', sig_addr = 0, sig_len = 0,
     tohost_addr = 0x80001000, fromhost_addr = 0x80001040, exitcode = 0, stopped = False,
     devices = [(blank_device ''syscall_proxy'' Syscall_proxy)\<lparr>command_handlers := [Handle_syscall]\<rparr>],
     num_devices = 0, dynamic_devices = [], rfbs = [], pending_reads = [], fromhost_queue = [], fds = [], chroot = ''''\<rparr>"

definition dtm_toy_env :: "(dm dtm, toy_host) env" where
  "dtm_toy_env = dtm_env (dm_dmi (\<lambda>_. 3)) toy_os ''''"

lemma dtm_holding_ready: "dm_ready (\<lambda>_. 0, \<lambda>_. 0x100000002) (dtm_holding m) \<and> dm_mem (dtm_target (dtm_holding m)) = m"
  using dtm_started_ready
  by (simp add: dtm_holding_def dm_ready_def dtm_runs_def dm_runs_def dm_running_def dtm_at_def)

lemma dtm_toy_served: "served_memory (chunks dtm_toy_env) (\<lambda>s. dm_mem (dtm_target s)) (\<lambda>_. dm_dom) (\<lambda>s. \<exists>p. dm_ready p s) dtm_toy_env"
  using dtm_served.served_memory_axioms [of "\<lambda>_. 3" toy_os "''''"] by (simp add: dtm_toy_env_def dtm_env_def)

lemma words_in_dom: "range_in 0x80001000 8 dm_dom" "range_in 0x80001040 8 dm_dom"
proof -
  have "a + of_nat i \<in> dm_dom" if i: "i < 8" and a: "a \<in> {0x80001000, 0x80001040}" for i and a :: addr
  proof -
    have "i = 0 \<or> i = 1 \<or> i = 2 \<or> i = 3 \<or> i = 4 \<or> i = 5 \<or> i = 6 \<or> i = 7" using i by arith
    then show ?thesis using a by (auto simp: dm_dom_def)
  qed
  then show "range_in 0x80001000 8 dm_dom" "range_in 0x80001040 8 dm_dom" by (simp_all add: range_in_def)
qed

theorem responses_in_order_witness:
  "\<exists>s'. (mail_step dtm_toy_env (\<lambda>s. dm_mem (dtm_target s)) (\<lambda>_. dm_dom) (\<lambda>s. \<exists>p. dm_ready p s))\<^sup>*\<^sup>*
      (dtm_server (\<lambda>_. 0), [], []) (s', [], [cmd_response 0 1]) \<and>
    filter (\<lambda>w. w \<noteq> 0) [cmd_response 0 1] =
      [] @ (if mailbox (\<lambda>s. dm_mem (dtm_target s)) s' \<noteq> 0 then [mailbox (\<lambda>s. dm_mem (dtm_target s)) s'] else []) @
      filter (\<lambda>w. w \<noteq> 0) (fromhost_queue s')"
proof -
  let ?v = "\<lambda>s. dm_mem (dtm_target s)" and ?I = "\<lambda>s. \<exists>p. dm_ready p s"
  let ?s = "dtm_server (\<lambda>_. 0)"
  let ?s' = "?s\<lparr>fromhost_queue := fromhost_queue ?s @ [cmd_response 0 1]\<rparr>"
  have steps: "(mail_step dtm_toy_env ?v (\<lambda>_. dm_dom) ?I)\<^sup>*\<^sup>* (?s, [], []) (?s', [], [] @ [cmd_response 0 1])"
    by (rule r_into_rtranclp, rule mail_step.queue)
  have "mail_ok (\<lambda>_. dm_dom) ?I ?s"
    using dtm_holding_ready words_in_dom by (auto simp: mail_ok_def dtm_server_def)
  moreover have "fromhost_queue ?s = []" "mailbox ?v ?s = 0"
    using dtm_holding_ready [of "\<lambda>_. 0"] by (simp_all add: dtm_server_def mailbox_def mem_read_def upt_rec)
  ultimately show ?thesis
    using responses_in_order [OF dtm_toy_served steps] steps unfolding append_Nil by blast
qed

end
