(* ===== verification/Tsi.thy ===== *)
theory Tsi
  imports Htif_Chunks
begin

text \<open>
  The tethered serial interface (\<open>tb/dpi/fesvr/tsi.h\<close>, \<open>tsi.cc\<close>): target memory
  as commands of 32-bit words through two queues. A switch to the target is its turn: it takes
  words, sends words and switches back, or never does (\<open>None\<close>).
\<close>

section \<open>State and queues\<close>

definition SAI_CMD_READ :: u32 where "SAI_CMD_READ = 0"

definition SAI_CMD_WRITE :: u32 where "SAI_CMD_WRITE = 1"

definition SAI_ADDR_CHUNKS :: nat where "SAI_ADDR_CHUNKS = 2"

definition SAI_LEN_CHUNKS :: nat where "SAI_LEN_CHUNKS = 2"

definition MSIP_BASE :: addr where "MSIP_BASE = 0x2000000"

record 't tsi =
  in_data :: "u32 list"
  out_data :: "u32 list"
  tsi_target :: 't

type_synonym 't turn = "'t tsi \<Rightarrow> 't tsi option"

definition data_available :: "'t tsi \<Rightarrow> bool" where
  "data_available s \<longleftrightarrow> in_data s \<noteq> []"

definition send_word :: "u32 \<Rightarrow> ('t tsi, unit) prog" where
  "send_word w = modify (\<lambda>s. s\<lparr>out_data := out_data s @ [w]\<rparr>)"

definition recv_word :: "('t tsi, u32) prog" where
  "recv_word = bind (gets in_data) (\<lambda>ws. case ws of
       [] \<Rightarrow> raise (Undefined ''front of an empty deque'')
     | w # rest \<Rightarrow> bind (modify (\<lambda>s. s\<lparr>in_data := rest\<rparr>)) (\<lambda>_. ret w))"

definition in_valid :: "'t tsi \<Rightarrow> bool" where
  "in_valid s \<longleftrightarrow> in_data s \<noteq> []"

definition out_ready :: "'t tsi \<Rightarrow> bool" where
  "out_ready s \<longleftrightarrow> True"

definition tsi_tick :: "bool \<Rightarrow> u32 \<Rightarrow> bool \<Rightarrow> ('t tsi, unit) prog" where
  "tsi_tick out_valid out_bits in_ready =
     bind (modify (\<lambda>s. if out_valid \<and> out_ready s then s\<lparr>out_data := out_data s @ [out_bits]\<rparr> else s)) (\<lambda>_.
     modify (\<lambda>s. if in_valid s \<and> in_ready then s\<lparr>in_data := drop 1 (in_data s)\<rparr> else s))"

section \<open>Chunks\<close>

definition push_in :: "u32 list \<Rightarrow> ('t tsi, unit) prog" where
  "push_in ws = modify (\<lambda>s. s\<lparr>in_data := in_data s @ ws\<rparr>)"

primrec push_chunks :: "nat \<Rightarrow> u64 \<Rightarrow> ('t tsi, unit) prog" where
  "push_chunks 0 v = ret ()"
| "push_chunks (Suc n) v =
     bind (push_in [ucast (v AND 0xffffffff)]) (\<lambda>_. push_chunks n (drop_bit 32 v))"

definition push_addr :: "addr \<Rightarrow> ('t tsi, unit) prog" where
  "push_addr a = push_chunks SAI_ADDR_CHUNKS a"

definition push_len :: "u64 \<Rightarrow> ('t tsi, unit) prog" where
  "push_len n = push_chunks SAI_LEN_CHUNKS n"

text \<open>The words of a buffer and back; bytes after the last whole word are left out.\<close>

fun bytes_words :: "byte list \<Rightarrow> u32 list" where
  "bytes_words (a # b # c # d # bs) = le_word [a, b, c, d] # bytes_words bs"
| "bytes_words _ = []"

definition words_bytes :: "u32 list \<Rightarrow> byte list" where
  "words_bytes ws = concat (map (le_bytes 4) ws)"

text \<open>\<open>while (out_data.empty()) switch_to_target()\<close>, and the word that came.\<close>

partial_function (option) wait_word :: "'t turn \<Rightarrow> 't tsi \<Rightarrow> (exn + u32 \<times> 't tsi) option" where
  "wait_word turn s = (case out_data s of
       w # ws \<Rightarrow> Some (Inr (w, s\<lparr>out_data := ws\<rparr>))
     | [] \<Rightarrow> (case turn s of None \<Rightarrow> None | Some s' \<Rightarrow> wait_word turn s'))"

primrec read_result :: "'t turn \<Rightarrow> nat \<Rightarrow> ('t tsi, u32 list) prog" where
  "read_result turn 0 = ret []"
| "read_result turn (Suc n) =
     bind (wait_word turn) (\<lambda>w. bind (read_result turn n) (\<lambda>ws. ret (w # ws)))"

definition tsi_read_chunk :: "'t turn \<Rightarrow> addr \<Rightarrow> nat \<Rightarrow> ('t tsi, byte list) prog" where
  "tsi_read_chunk turn taddr nbytes =
     (let len = nbytes div 4 in
      bind (push_in [SAI_CMD_READ]) (\<lambda>_.
      bind (push_addr taddr) (\<lambda>_.
      bind (push_len (of_nat len - 1)) (\<lambda>_.
      bind (read_result turn len) (\<lambda>ws. ret (words_bytes ws))))))"

definition tsi_write_chunk :: "addr \<Rightarrow> byte list \<Rightarrow> ('t tsi, unit) prog" where
  "tsi_write_chunk taddr src =
     (let len = length src div 4 in
      bind (push_in [SAI_CMD_WRITE]) (\<lambda>_.
      bind (push_addr taddr) (\<lambda>_.
      bind (push_len (of_nat len - 1)) (\<lambda>_.
      push_in (bytes_words src)))))"

text \<open>Core 0 is interrupted, so that it starts the program.\<close>

definition tsi_reset :: "('t tsi, unit) prog" where
  "tsi_reset = tsi_write_chunk MSIP_BASE (le_bytes 4 (1 :: u32))"

text \<open>The chunks, with the \<open>clear_chunk\<close> of \<open>htif_t\<close>, which is not overridden.\<close>

definition tsi_raw :: "'t turn \<Rightarrow> 't tsi chunked_memif" where
  "tsi_raw turn = \<lparr>read_chunk = tsi_read_chunk turn, write_chunk = tsi_write_chunk,
     clear_chunk = (\<lambda>_ _. ret ()), chunk_align = (\<lambda>_. 4), chunk_max_size = (\<lambda>_. 1024)\<rparr>"

definition tsi_chunks :: "'t turn \<Rightarrow> 't tsi chunked_memif" where
  "tsi_chunks turn = with_htif_clear (tsi_raw turn)"

end
