(* ===== verification/Tsi_Target.thy ===== *)
theory Tsi_Target
  imports Tsi
begin

text \<open>
  The target the serial interface is checked against: an adapter that carries out the commands
  word by word, as many words a turn as it likes. Because writes are only queued, the memory the
  host sees is the one the adapter will have once it has taken everything in the queue.
\<close>

section \<open>The adapter\<close>

record sai =
  sai_words :: "u32 list"
  sai_mem :: mem

definition sai_addr :: "u32 list \<Rightarrow> addr" where
  "sai_addr ws = ucast (ws ! 1) OR push_bit 32 (ucast (ws ! 2))"

definition sai_len :: "u32 list \<Rightarrow> nat" where
  "sai_len ws = unat (ucast (ws ! 3) OR push_bit 32 (ucast (ws ! 4)) :: u64) + 1"

text \<open>A command is complete with its five words, and a write with its data.\<close>

definition sai_complete :: "u32 list \<Rightarrow> bool" where
  "sai_complete ws \<longleftrightarrow> 5 \<le> length ws \<and> (ws ! 0 = SAI_CMD_READ \<or> length ws = 5 + sai_len ws)"

definition sai_take :: "u32 \<Rightarrow> sai \<Rightarrow> u32 list \<times> sai" where
  "sai_take w t =
     (let ws = sai_words t @ [w] in
      if \<not> sai_complete ws then ([], t\<lparr>sai_words := ws\<rparr>)
      else if ws ! 0 = SAI_CMD_READ
      then (bytes_words (mem_read (sai_mem t) (sai_addr ws) (4 * sai_len ws)), t\<lparr>sai_words := []\<rparr>)
      else ([], t\<lparr>sai_words := [], sai_mem := mem_write (sai_mem t) (sai_addr ws) (words_bytes (drop 5 ws))\<rparr>))"

primrec sai_feed :: "u32 list \<Rightarrow> sai \<Rightarrow> u32 list \<times> sai" where
  "sai_feed [] t = ([], t)"
| "sai_feed (w # ws) t =
     (case sai_take w t of (o1, t1) \<Rightarrow> case sai_feed ws t1 of (o2, t2) \<Rightarrow> (o1 @ o2, t2))"

text \<open>A turn takes the next words, at least one if there is one, and sends what they ask for.\<close>

definition sai_turn :: "(sai \<Rightarrow> nat) \<Rightarrow> sai turn" where
  "sai_turn rate s =
     (let n = Suc (rate (tsi_target s)) in
      case sai_feed (take n (in_data s)) (tsi_target s) of
        (out, t) \<Rightarrow> Some (s\<lparr>in_data := drop n (in_data s), out_data := out_data s @ out, tsi_target := t\<rparr>))"

section \<open>Words and bytes\<close>

lemma length_words_bytes [simp]: "length (words_bytes ws) = 4 * length ws"
  by (induction ws) (simp_all add: words_bytes_def)

lemma words_bytes_simps [simp]:
  "words_bytes [] = []" "words_bytes (w # ws) = le_bytes 4 w @ words_bytes ws"
  by (simp_all add: words_bytes_def)

lemma bytes_words_inv: "4 dvd length bs \<Longrightarrow> words_bytes (bytes_words bs) = bs"
proof (induction bs rule: bytes_words.induct)
  case (1 a b c d bs)
  have four: "length [a, b, c, d] = 4" by simp
  have "le_bytes (length [a, b, c, d]) (le_word [a, b, c, d] :: u32) = [a, b, c, d]"
    by (rule le_bytes_le_word) simp
  then have "le_bytes 4 (le_word [a, b, c, d] :: u32) = [a, b, c, d]" by (simp only: four)
  moreover have "4 dvd length bs" using 1(2) by (simp add: dvd_eq_mod_eq_0)
  ultimately show ?case using 1(1) by simp
qed (simp_all add: dvd_eq_mod_eq_0)

lemma length_bytes_words [simp]: "length (bytes_words bs) = length bs div 4"
  by (induction bs rule: bytes_words.induct) simp_all

section \<open>Commands as a whole\<close>

lemma sai_feed_append:
  "sai_feed (xs @ ys) t =
     (case sai_feed xs t of (o1, t1) \<Rightarrow> case sai_feed ys t1 of (o2, t2) \<Rightarrow> (o1 @ o2, t2))"
  by (induction xs arbitrary: t) (simp_all split: prod.splits)

text \<open>Words that do not complete a command pile up.\<close>

lemma sai_feed_pending:
  "(\<And>k. k < length ws \<Longrightarrow> \<not> sai_complete (sai_words t @ take (Suc k) ws)) \<Longrightarrow>
    sai_feed ws t = ([], t\<lparr>sai_words := sai_words t @ ws\<rparr>)"
proof (induction ws arbitrary: t)
  case Nil
  then show ?case by (cases t) simp
next
  case (Cons w ws)
  let ?t = "t\<lparr>sai_words := sai_words t @ [w]\<rparr>"
  have "sai_take w t = ([], ?t)" using Cons.prems [of 0] by (simp add: sai_take_def Let_def)
  moreover have "sai_feed ws ?t = ([], ?t\<lparr>sai_words := sai_words ?t @ ws\<rparr>)"
    by (rule Cons.IH) (use Cons.prems [of "Suc _"] in simp)
  ultimately show ?case by simp
qed

lemma sai_take_complete:
  "sai_words t @ [w] = ws \<Longrightarrow> sai_complete ws \<Longrightarrow> sai_take w t =
    (if ws ! 0 = SAI_CMD_READ
     then (bytes_words (mem_read (sai_mem t) (sai_addr ws) (4 * sai_len ws)), t\<lparr>sai_words := []\<rparr>)
     else ([], t\<lparr>sai_words := [], sai_mem := mem_write (sai_mem t) (sai_addr ws) (words_bytes (drop 5 ws))\<rparr>))"
  by (simp add: sai_take_def Let_def)

text \<open>A whole command.\<close>

definition sai_command :: "u32 \<Rightarrow> addr \<Rightarrow> nat \<Rightarrow> u32 list" where
  "sai_command c a n = [c, ucast a, ucast (drop_bit 32 a), ucast (of_nat n - 1 :: u64),
     ucast (drop_bit 32 (of_nat n - 1 :: u64))]"

lemma halves_64: "(ucast (ucast v :: u32) OR push_bit 32 (ucast (ucast (drop_bit 32 v) :: u32)) :: u64) = v"
  by (rule bit_word_eqI) (auto simp: bit_simps)

lemma sai_command_fields:
  assumes "0 < n" and "n < 2 ^ 64"
  shows "sai_addr (sai_command c a n @ ws) = a" and "sai_len (sai_command c a n @ ws) = n"
    and "(sai_command c a n @ ws) ! 0 = c"
proof -
  obtain k where k: "n = Suc k" using assms(1) gr0_conv_Suc by blast
  then have "unat (of_nat n - 1 :: u64) = k" using assms(2) by (simp add: unat_of_nat_addr)
  then show "sai_len (sai_command c a n @ ws) = n" by (simp add: sai_len_def sai_command_def halves_64 k)
qed (simp_all add: sai_addr_def sai_command_def halves_64)

lemma length_sai_command [simp]: "length (sai_command c a n) = 5"
  by (simp add: sai_command_def)

lemma sai_command_pending:
  assumes "sai_words t = []"
  shows "sai_feed (butlast (sai_command c a n)) t = ([], t\<lparr>sai_words := butlast (sai_command c a n)\<rparr>)"
proof -
  have "sai_feed (butlast (sai_command c a n)) t =
      ([], t\<lparr>sai_words := sai_words t @ butlast (sai_command c a n)\<rparr>)"
    by (rule sai_feed_pending) (simp add: assms sai_complete_def sai_command_def)
  then show ?thesis by (simp add: assms)
qed

lemma sai_feed_read:
  assumes "sai_words t = []" and "0 < n" and "n < 2 ^ 64"
  shows "sai_feed (sai_command SAI_CMD_READ a n) t = (bytes_words (mem_read (sai_mem t) a (4 * n)), t)"
proof -
  let ?c = "sai_command SAI_CMD_READ a n"
  have c: "?c = butlast ?c @ [last ?c]" by (simp add: sai_command_def)
  have "sai_complete ?c" by (simp add: sai_complete_def sai_command_def)
  moreover have "t\<lparr>sai_words := []\<rparr> = t" using assms(1) by (cases t) simp
  ultimately have "sai_take (last ?c) (t\<lparr>sai_words := butlast ?c\<rparr>) =
      (bytes_words (mem_read (sai_mem t) a (4 * n)), t)"
    using sai_command_fields [OF assms(2,3), of SAI_CMD_READ a "[]"] c
    by (simp add: sai_take_def Let_def flip: c)
  then show ?thesis
    by (subst c, subst sai_feed_append) (simp add: sai_command_pending [OF assms(1)])
qed

lemma sai_feed_write:
  assumes "sai_words t = []" and "0 < length ws" and "length ws < 2 ^ 64"
  shows "sai_feed (sai_command SAI_CMD_WRITE a (length ws) @ ws) t =
    ([], t\<lparr>sai_mem := mem_write (sai_mem t) a (words_bytes ws)\<rparr>)"
proof -
  let ?c = "sai_command SAI_CMD_WRITE a (length ws) @ ws"
  note fields = sai_command_fields [OF assms(2,3), of SAI_CMD_WRITE a]
  have is_write: "SAI_CMD_WRITE \<noteq> SAI_CMD_READ" by (simp add: SAI_CMD_WRITE_def SAI_CMD_READ_def)
  obtain xs x where ws: "ws = xs @ [x]" using assms(2) by (cases ws rule: rev_cases) auto
  let ?p = "sai_command SAI_CMD_WRITE a (length ws) @ xs"
  have "sai_feed ?p t = ([], t\<lparr>sai_words := sai_words t @ ?p\<rparr>)"
  proof (rule sai_feed_pending)
    fix k assume k: "k < length ?p"
    show "\<not> sai_complete (sai_words t @ take (Suc k) ?p)"
    proof (cases "k < 4")
      case True
      then show ?thesis by (simp add: assms(1) sai_complete_def)
    next
      case False
      then have "take (Suc k) ?p = sai_command SAI_CMD_WRITE a (length ws) @ take (k - 4) xs"
        by simp
      then show ?thesis
        using fields [of "take (k - 4) xs"] k is_write ws by (simp add: assms(1) sai_complete_def)
    qed
  qed
  then have pending: "sai_feed ?p t = ([], t\<lparr>sai_words := ?p\<rparr>)" by (simp add: assms(1))
  have all_words: "?p @ [x] = ?c" by (simp add: ws)
  have "sai_complete ?c" using fields [of ws] by (simp add: sai_complete_def)
  moreover have "drop 5 ?c = ws" by simp
  moreover have "t\<lparr>sai_words := []\<rparr> = t" using assms(1) by (cases t) simp
  ultimately have "sai_take x (t\<lparr>sai_words := ?p\<rparr>) = ([], t\<lparr>sai_mem := mem_write (sai_mem t) a (words_bytes ws)\<rparr>)"
    using sai_take_complete [of "t\<lparr>sai_words := ?p\<rparr>" x ?c] fields [of ws] is_write all_words
    by (cases t) (simp add: assms(1))
  then show ?thesis
    using sai_feed_append [of ?p "[x]" t] pending all_words by simp
qed

section \<open>What the host sees\<close>

text \<open>The words still to come to the host, and the adapter once the queue is empty.\<close>

definition tsi_pending :: "sai tsi \<Rightarrow> u32 list" where
  "tsi_pending s = out_data s @ fst (sai_feed (in_data s) (tsi_target s))"

definition tsi_final :: "sai tsi \<Rightarrow> sai" where
  "tsi_final s = snd (sai_feed (in_data s) (tsi_target s))"

definition tsi_view :: "sai tsi \<Rightarrow> mem" where
  "tsi_view s = sai_mem (tsi_final s)"

definition tsi_quiet :: "sai tsi \<Rightarrow> bool" where
  "tsi_quiet s \<longleftrightarrow> tsi_pending s = [] \<and> sai_words (tsi_final s) = []"

text \<open>A turn changes neither, and makes progress.\<close>

lemma sai_turn_result:
  obtains s' where "sai_turn rate s = Some s'" and "tsi_pending s' = tsi_pending s"
    and "tsi_final s' = tsi_final s" and "in_data s \<noteq> [] \<longrightarrow> length (in_data s') < length (in_data s)"
proof -
  let ?n = "Suc (rate (tsi_target s))"
  obtain out t where feed: "sai_feed (take ?n (in_data s)) (tsi_target s) = (out, t)" by (rule prod.exhaust)
  have "sai_feed (in_data s) (tsi_target s) =
      (case sai_feed (drop ?n (in_data s)) t of (o2, t2) \<Rightarrow> (out @ o2, t2))"
    using sai_feed_append [of "take ?n (in_data s)" "drop ?n (in_data s)" "tsi_target s"] feed by simp
  then show ?thesis
    using feed by (intro that) (auto simp: sai_turn_def Let_def tsi_pending_def tsi_final_def split: prod.splits)
qed

lemma wp_wait_word:
  assumes "tsi_pending s = w # ws"
  shows "wp (wait_word (sai_turn rate)) (\<lambda>x s'. x = w \<and> tsi_pending s' = ws \<and> tsi_final s' = tsi_final s) s"
  using assms
proof (induction "length (in_data s)" arbitrary: s rule: less_induct)
  case less
  show ?case
  proof (cases "out_data s")
    case (Cons x xs)
    then show ?thesis
      using less.prems by (subst wp_def, subst wait_word.simps) (auto simp: tsi_pending_def tsi_final_def)
  next
    case Nil
    then have "in_data s \<noteq> []" using less.prems by (auto simp: tsi_pending_def)
    obtain s' where s': "sai_turn rate s = Some s'" "tsi_pending s' = tsi_pending s"
        "tsi_final s' = tsi_final s" "in_data s \<noteq> [] \<longrightarrow> length (in_data s') < length (in_data s)"
      by (rule sai_turn_result)
    have "wait_word (sai_turn rate) s = wait_word (sai_turn rate) s'"
      using Nil s'(1) by (subst wait_word.simps) simp
    then show ?thesis using less.hyps [of s'] s' less.prems \<open>in_data s \<noteq> []\<close> by (simp add: wp_def)
  qed
qed

lemma wp_read_result:
  assumes "tsi_pending s = ws"
  shows "wp (read_result (sai_turn rate) (length ws))
    (\<lambda>r s'. r = ws \<and> tsi_pending s' = [] \<and> tsi_final s' = tsi_final s) s"
  using assms
proof (induction ws arbitrary: s)
  case (Cons w ws)
  let ?Q = "\<lambda>r u. r = w # ws \<and> tsi_pending u = [] \<and> tsi_final u = tsi_final s"
  show ?case
    unfolding list.size read_result.simps add_0_right add_Suc_right
  proof (rule wp_seq [OF wp_wait_word [OF Cons.prems]])
    fix x s' assume s': "x = w \<and> tsi_pending s' = ws \<and> tsi_final s' = tsi_final s"
    then have "tsi_pending s' = ws" by simp
    show "wp (bind (read_result (sai_turn rate) (length ws)) (\<lambda>ws. ret (x # ws))) ?Q s'"
      by (rule wp_seq [OF Cons.IH [OF \<open>tsi_pending s' = ws\<close>]]) (use s' in simp)
  qed
qed simp

text \<open>What the host pushes.\<close>

lemma wp_push_in: "wp (push_in ws) Q s = Q () (s\<lparr>in_data := in_data s @ ws\<rparr>)"
  by (simp add: push_in_def)

lemma wp_push_command:
  "wp (bind (push_in [c]) (\<lambda>_. bind (push_addr a) (\<lambda>_. bind (push_len (of_nat n - 1)) (\<lambda>_. k)))) Q s =
    wp k Q (s\<lparr>in_data := in_data s @ sai_command c a n\<rparr>)"
proof -
  have "v AND 0xffffffff = take_bit 32 v" for v :: u64 by (simp add: take_bit_eq_mask mask_eq_exp_minus_1)
  then have low: "ucast (v AND 0xffffffff :: u64) = (ucast v :: u32)" for v
    by (intro bit_word_eqI) (auto simp: bit_simps)
  show ?thesis
    by (simp add: wp_push_in push_addr_def push_len_def SAI_ADDR_CHUNKS_def SAI_LEN_CHUNKS_def
        numeral_2_eq_2 low sai_command_def)
qed


section \<open>The chunks of the interface\<close>

lemma quiet_append:
  assumes "tsi_quiet s" and "sai_feed ws (tsi_final s) = (out, t)"
  shows "tsi_pending (s\<lparr>in_data := in_data s @ ws\<rparr>) = out" and "tsi_final (s\<lparr>in_data := in_data s @ ws\<rparr>) = t"
  using assms sai_feed_append [of "in_data s" ws "tsi_target s"]
  by (auto simp: tsi_quiet_def tsi_pending_def tsi_final_def split: prod.splits)

lemma wp_tsi_write_chunk:
  assumes "tsi_quiet s" and "4 dvd length bs" and "0 < length bs" and "length bs < 2 ^ 64"
  shows "wp (tsi_write_chunk a bs) (\<lambda>_ s'. tsi_view s' = mem_write (tsi_view s) a bs \<and> tsi_quiet s') s"
proof -
  let ?ws = "bytes_words bs" and ?n = "length bs div 4"
  obtain k where "length bs = 4 * k" using assms(2) by (rule dvdE)
  then have n: "0 < length ?ws" "length ?ws < 2 ^ 64" using assms(3,4) by simp_all
  let ?u = "s\<lparr>in_data := in_data s @ sai_command SAI_CMD_WRITE a (length ?ws) @ ?ws\<rparr>"
  have "sai_words (tsi_final s) = []" using assms(1) by (simp add: tsi_quiet_def)
  from quiet_append [OF assms(1) sai_feed_write [OF this n]]
  have "tsi_pending ?u = []" "tsi_final ?u = (tsi_final s)\<lparr>sai_mem := mem_write (sai_mem (tsi_final s)) a bs\<rparr>"
    by (simp_all add: bytes_words_inv [OF assms(2)])
  then have "tsi_view ?u = mem_write (tsi_view s) a bs \<and> tsi_quiet ?u"
    using assms(1) by (simp add: tsi_view_def tsi_quiet_def)
  then show ?thesis by (simp add: tsi_write_chunk_def Let_def wp_push_command wp_push_in del: wp_bind)
qed

lemma wp_tsi_read_chunk:
  assumes "tsi_quiet s" and "4 dvd n" and "0 < n" and "n < 2 ^ 64"
  shows "wp (tsi_read_chunk (sai_turn rate) a n)
    (\<lambda>bs s'. bs = mem_read (tsi_view s) a n \<and> tsi_view s' = tsi_view s \<and> tsi_quiet s') s"
proof -
  obtain k where k: "n = 4 * k" "0 < k" "k < 2 ^ 64" using assms(2-4) by (auto simp: dvd_def)
  let ?bs = "mem_read (tsi_view s) a n"
  let ?u = "s\<lparr>in_data := in_data s @ sai_command SAI_CMD_READ a k\<rparr>"
  have "sai_words (tsi_final s) = []" using assms(1) by (simp add: tsi_quiet_def)
  from quiet_append [OF assms(1) sai_feed_read [OF this k(2,3)]]
  have u: "tsi_pending ?u = bytes_words ?bs" "tsi_final ?u = tsi_final s"
    by (simp_all add: tsi_view_def k(1))
  have len: "length (bytes_words ?bs) = k" by (simp add: k(1))
  have "wp (read_result (sai_turn rate) k) (\<lambda>ws s'. words_bytes ws = ?bs \<and> tsi_view s' = tsi_view s \<and> tsi_quiet s') ?u"
    using wp_read_result [OF u(1), of rate] unfolding len
    by (rule wp_mono) (use assms(1) u(2) in \<open>simp add: bytes_words_inv k(1) tsi_view_def tsi_quiet_def\<close>)
  then have "wp (bind (read_result (sai_turn rate) k) (\<lambda>ws. ret (words_bytes ws)))
      (\<lambda>bs s'. bs = ?bs \<and> tsi_view s' = tsi_view s \<and> tsi_quiet s') ?u"
    unfolding wp_bind by (rule wp_mono) simp
  moreover have "n div 4 = k" by (simp add: k(1))
  ultimately show ?thesis unfolding tsi_read_chunk_def Let_def wp_push_command by (simp only:)
qed

lemma tsi_raw_simps [simp]:
  "read_chunk (tsi_raw turn) = tsi_read_chunk turn" "write_chunk (tsi_raw turn) = tsi_write_chunk"
  "chunk_align (tsi_raw turn) s = 4" "chunk_max_size (tsi_raw turn) s = 1024"
  by (simp_all add: tsi_raw_def)

interpretation tsi_raw: chunked_memory "tsi_raw (sai_turn rate)" tsi_view "\<lambda>_. UNIV" tsi_quiet "\<lambda>_ _ _. False" for rate
proof unfold_locales
  show "\<exists>k<64. chunk_align (tsi_raw (sai_turn rate)) s = 2 ^ k" for s by (intro exI [of _ 2]) simp
  show "wp (read_chunk (tsi_raw (sai_turn rate)) a n) (\<lambda>bs s'. bs = mem_read (tsi_view s) a n \<and>
      tsi_view s' = tsi_view s \<and> tsi_quiet s' \<and> same_shape (tsi_raw (sai_turn rate)) (\<lambda>_. UNIV) s s') s"
    if "tsi_quiet s" "chunk_request (tsi_raw (sai_turn rate)) s a n" "n < 2 ^ 64" for s a n
    using wp_tsi_read_chunk [OF that(1), of n rate a] that(2,3) by (simp add: chunk_request_def same_shape_def)
  show "wp (write_chunk (tsi_raw (sai_turn rate)) a bs) (\<lambda>_ s'. tsi_view s' = mem_write (tsi_view s) a bs \<and>
      tsi_quiet s' \<and> same_shape (tsi_raw (sai_turn rate)) (\<lambda>_. UNIV) s s') s"
    if "tsi_quiet s" "chunk_request (tsi_raw (sai_turn rate)) s a (length bs)" "length bs < 2 ^ 64" for s a bs
    using wp_tsi_write_chunk [OF that(1), of bs a] that(2,3) by (simp add: chunk_request_def same_shape_def)
qed simp_all

interpretation tsi: clearing_memory "tsi_chunks (sai_turn rate)" tsi_view "\<lambda>_. UNIV" tsi_quiet for rate
  unfolding tsi_chunks_def by (rule tsi_raw.htif_clears)

section \<open>Properties\<close>

text \<open>
  C7: over the serial interface, whatever the pace of the adapter, bytes written at any
  alignment and of any length read back as they are, and the memory the target ends with
  differs from before in those bytes only; a write returns before the target has done it.
\<close>

theorem tsi_write_read:
  assumes "tsi_quiet s" and "length bs < 2 ^ 64"
  shows "wp (bind (memif_write (tsi_chunks (sai_turn rate)) a bs)
      (\<lambda>_. memif_read (tsi_chunks (sai_turn rate)) a (length bs)))
    (\<lambda>r s'. r = bs \<and> tsi_view s' = mem_write (tsi_view s) a bs \<and> tsi_quiet s') s"
  by (rule wp_mono [OF tsi.wp_write_read [OF assms(1) _ assms(2)]]) (simp_all add: range_in_def)

text \<open>
  C6: over any provider of chunks that keeps the contract, \<open>htif_t::clear_chunk\<close> returns, and has
  written zeros to every byte of an aligned range, whatever its length against the largest chunk,
  and to no other byte. The serial interface inherits the method.
\<close>

theorem htif_clear_chunk_clears:
  assumes "chunked_memory c view D I clears" and "I s" and "chunk_align c s dvd unat a" and "chunk_align c s dvd n"
    and "n < 2 ^ 64" and "range_in a n (D s)"
  shows "wp (htif_clear_chunk c a n) (\<lambda>_ s'. view s' = mem_write (view s) a (replicate n 0) \<and> I s' \<and> D s' = D s) s"
  using chunked_memory.wp_htif_clear [OF assms] by (auto simp: same_shape_def elim: wp_mono)

text \<open>
  The reset only queues the six words of a write of 1 to the software interrupt register
  of core 0; that register is then 1 and the rest of memory as it was.
\<close>

theorem tsi_reset_interrupts:
  assumes "tsi_quiet s"
  shows "wp tsi_reset (\<lambda>_ s'. tsi_view s' = mem_write (tsi_view s) MSIP_BASE [1, 0, 0, 0] \<and> tsi_quiet s' \<and>
    in_data s' = in_data s @ [SAI_CMD_WRITE, 0x2000000, 0, 0, 0, 1]) s"
proof -
  have one: "le_bytes 4 (1 :: u32) = [1, 0, 0, 0]" by code_simp
  have "wp tsi_reset (\<lambda>_ s'. tsi_view s' = mem_write (tsi_view s) MSIP_BASE [1, 0, 0, 0] \<and> tsi_quiet s') s"
    unfolding tsi_reset_def one by (rule wp_tsi_write_chunk [OF assms]) (simp_all add: dvd_eq_mod_eq_0)
  moreover have "wp tsi_reset (\<lambda>_ s'. in_data s' = in_data s @ [SAI_CMD_WRITE, 0x2000000, 0, 0, 0, 1]) s"
    unfolding tsi_reset_def one tsi_write_chunk_def Let_def wp_push_command wp_push_in
    by (simp add: sai_command_def MSIP_BASE_def)
  ultimately show ?thesis by (rule wp_mono [OF wp_conj]) simp
qed

definition tsi_example :: "sai tsi" where
  "tsi_example = \<lparr>in_data = [], out_data = [], tsi_target = \<lparr>sai_words = [], sai_mem = (\<lambda>_. 0xAA)\<rparr>\<rparr>"

lemma tsi_example_quiet: "tsi_quiet tsi_example"
  by (simp add: tsi_quiet_def tsi_pending_def tsi_final_def tsi_example_def)

lemma tsi_write_read_witness:
  "wp (bind (memif_write (tsi_chunks (sai_turn (\<lambda>_. 1))) 0x80000001 [1, 2])
      (\<lambda>_. memif_read (tsi_chunks (sai_turn (\<lambda>_. 1))) 0x80000001 (length [1, 2 :: byte])))
    (\<lambda>r s'. r = [1, 2]) tsi_example"
  by (rule wp_mono [OF tsi_write_read [OF tsi_example_quiet]]) simp_all

text \<open>Five thousand bytes: five requests, the last one shorter.\<close>

lemma htif_clear_chunk_clears_witness:
  "wp (htif_clear_chunk (tsi_raw (sai_turn (\<lambda>_. 1))) 0x80000000 5000)
    (\<lambda>_ s'. tsi_view s' = mem_write (tsi_view tsi_example) 0x80000000 (replicate 5000 0)) tsi_example"
  by (rule wp_mono [OF htif_clear_chunk_clears [OF tsi_raw.chunked_memory_axioms tsi_example_quiet]])
    (simp_all add: range_in_def)

lemma tsi_reset_interrupts_witness:
  "wp tsi_reset (\<lambda>_ s'. tsi_view s' 0x2000000 = 1 \<and> tsi_view s' 0x2000004 = 0xAA) tsi_example"
proof -
  have "tsi_view tsi_example = (\<lambda>_. 0xAA)" by (simp add: tsi_view_def tsi_final_def tsi_example_def)
  then show ?thesis
    by (intro wp_mono [OF tsi_reset_interrupts [OF tsi_example_quiet]]) (simp add: MSIP_BASE_def)
qed

end
