(* ===== verification/Htif_Pthread.thy ===== *)
theory Htif_Pthread
  imports Prelude
begin

text \<open>
  The host thread with byte queues (\<open>tb/dpi/fesvr/htif_pthread.h\<close>, \<open>htif_pthread.cc\<close>):
  \<open>th_data\<close> carries bytes from target to host, \<open>ht_data\<close> from host to target. The
  other side of a queue is a coroutine: a switch to it is its turn on the queues, which ends when
  it switches back, or never does (\<open>None\<close>).
\<close>

section \<open>State and operations\<close>

record 'p htif_pthread =
  th_data :: "byte list"
  ht_data :: "byte list"
  peer :: 'p

type_synonym 'p peer_turn = "'p htif_pthread \<Rightarrow> 'p htif_pthread option"

text \<open>The host's side.\<close>

partial_function (option) wait_th ::
    "'p peer_turn \<Rightarrow> 'p htif_pthread \<Rightarrow> (exn + unit \<times> 'p htif_pthread) option" where
  "wait_th turn s =
     (if th_data s \<noteq> [] then Some (Inr ((), s))
      else (case turn s of None \<Rightarrow> None | Some s' \<Rightarrow> wait_th turn s'))"

definition take_th :: "nat \<Rightarrow> ('p htif_pthread, byte list) prog" where
  "take_th max_size =
     bind (gets th_data) (\<lambda>d. let n = min max_size (length d) in
     bind (modify (\<lambda>s. s\<lparr>th_data := drop n d\<rparr>)) (\<lambda>_. ret (take n d)))"

definition pthread_read :: "'p peer_turn \<Rightarrow> nat \<Rightarrow> ('p htif_pthread, byte list) prog" where
  "pthread_read turn max_size = bind (wait_th turn) (\<lambda>_. take_th max_size)"

definition pthread_write :: "byte list \<Rightarrow> ('p htif_pthread, nat) prog" where
  "pthread_write buf = bind (modify (\<lambda>s. s\<lparr>ht_data := ht_data s @ buf\<rparr>)) (\<lambda>_. ret (length buf))"

text \<open>The target's side.\<close>

definition pthread_send :: "byte list \<Rightarrow> ('p htif_pthread, unit) prog" where
  "pthread_send buf = modify (\<lambda>s. s\<lparr>th_data := th_data s @ buf\<rparr>)"

definition recv_nonblocking :: "'p peer_turn \<Rightarrow> nat \<Rightarrow> 'p htif_pthread \<Rightarrow> (byte list option \<times> 'p htif_pthread) option" where
  "recv_nonblocking turn n s =
     (if length (ht_data s) < n
      then (case turn s of None \<Rightarrow> None | Some s' \<Rightarrow> Some (None, s'))
      else Some (Some (take n (ht_data s)), s\<lparr>ht_data := drop n (ht_data s)\<rparr>))"

partial_function (option) pthread_recv ::
    "'p peer_turn \<Rightarrow> nat \<Rightarrow> 'p htif_pthread \<Rightarrow> (exn + byte list \<times> 'p htif_pthread) option" where
  "pthread_recv turn n s = (case recv_nonblocking turn n s of
       None \<Rightarrow> None
     | Some (Some bs, s') \<Rightarrow> Some (Inr (bs, s'))
     | Some (None, s') \<Rightarrow> pthread_recv turn n s')"

section \<open>Both sides at once\<close>

text \<open>
  Any interleaving of the two sides, with what each has put in and what it has got so far.
\<close>

record 'p traffic =
  queues :: "'p htif_pthread"
  th_sent :: "byte list"
  th_got :: "byte list"
  ht_sent :: "byte list"
  ht_got :: "byte list"

inductive traffic_step :: "'p traffic \<Rightarrow> 'p traffic \<Rightarrow> bool" where
  send: "pthread_send buf (queues t) = Some (Inr ((), q)) \<Longrightarrow>
     traffic_step t (t\<lparr>queues := q, th_sent := th_sent t @ buf\<rparr>)"
| hread: "th_data (queues t) \<noteq> [] \<Longrightarrow> take_th n (queues t) = Some (Inr (bs, q)) \<Longrightarrow>
     traffic_step t (t\<lparr>queues := q, th_got := th_got t @ bs\<rparr>)"
| hwrite: "pthread_write buf (queues t) = Some (Inr (n, q)) \<Longrightarrow>
     traffic_step t (t\<lparr>queues := q, ht_sent := ht_sent t @ buf\<rparr>)"
| recv: "n \<le> length (ht_data (queues t)) \<Longrightarrow> recv_nonblocking (\<lambda>_. None) n (queues t) = Some (Some bs, q) \<Longrightarrow>
     traffic_step t (t\<lparr>queues := q, ht_got := ht_got t @ bs\<rparr>)"

definition traffic_start :: "'p \<Rightarrow> 'p traffic" where
  "traffic_start p = \<lparr>queues = \<lparr>th_data = [], ht_data = [], peer = p\<rparr>, th_sent = [], th_got = [],
     ht_sent = [], ht_got = []\<rparr>"

lemma traffic_step_inv:
  assumes "traffic_step t u"
    and "th_got t @ th_data (queues t) = th_sent t \<and> ht_got t @ ht_data (queues t) = ht_sent t"
  shows "th_got u @ th_data (queues u) = th_sent u \<and> ht_got u @ ht_data (queues u) = ht_sent u"
  using assms
proof cases
  case (send buf q)
  then show ?thesis using assms(2) by (auto simp: pthread_send_def run_simps)
next
  case (hread n bs q)
  then show ?thesis using assms(2) by (auto simp: take_th_def run_simps Let_def append_take_drop_id)
next
  case (hwrite buf n q)
  then show ?thesis using assms(2) by (auto simp: pthread_write_def run_simps)
next
  case (recv n bs q)
  then show ?thesis using assms(2) by (auto simp: recv_nonblocking_def)
qed

text \<open>
  C28: whatever the sizes of the transfers and the order in which host and target act, each side
  gets the bytes the other has put in, in order, and those not got yet are in the queue.
\<close>

theorem pthread_queues_fifo:
  assumes "traffic_step\<^sup>*\<^sup>* (traffic_start p) t"
  shows "th_got t @ th_data (queues t) = th_sent t \<and> ht_got t @ ht_data (queues t) = ht_sent t"
  using assms
proof (induction rule: rtranclp_induct)
  case base
  then show ?case by (simp add: traffic_start_def)
next
  case (step t u)
  show ?case by (rule traffic_step_inv [OF step.hyps(2) step.IH])
qed

lemma traffic_example:
  "traffic_step\<^sup>*\<^sup>* (traffic_start ()) \<lparr>queues = \<lparr>th_data = [2, 3], ht_data = [], peer = ()\<rparr>, th_sent = [1, 2, 3],
     th_got = [1], ht_sent = [], ht_got = []\<rparr>"
proof -
  let ?t = "\<lparr>queues = \<lparr>th_data = [1, 2, 3], ht_data = [], peer = ()\<rparr>, th_sent = [1, 2, 3],
     th_got = [], ht_sent = [], ht_got = []\<rparr>"
  have "traffic_step (traffic_start ()) ?t"
    using traffic_step.send [of "[1, 2, 3]" "traffic_start ()"] by (simp add: traffic_start_def pthread_send_def run_simps)
  moreover have "traffic_step ?t \<lparr>queues = \<lparr>th_data = [2, 3], ht_data = [], peer = ()\<rparr>, th_sent = [1, 2, 3],
     th_got = [1], ht_sent = [], ht_got = []\<rparr>"
    using traffic_step.hread [of ?t 1] by (simp add: take_th_def run_simps Let_def)
  ultimately show ?thesis by (rule converse_rtranclp_into_rtranclp [OF _ r_into_rtranclp])
qed

lemma pthread_queues_fifo_witness:
  "\<exists>t. traffic_step\<^sup>*\<^sup>* (traffic_start ()) t \<and> th_got t = [1] \<and> th_data (queues t) = [2, 3] \<and>
     th_got t @ th_data (queues t) = th_sent t"
  using traffic_example pthread_queues_fifo [OF traffic_example] by (intro exI conjI) (assumption, simp_all)

section \<open>Blocking transfers\<close>

text \<open>
  A peer that puts in some bytes at each of its turns, as its script says.
\<close>

definition script_turn :: "byte list list peer_turn" where
  "script_turn s = (case peer s of [] \<Rightarrow> None | bs # rest \<Rightarrow> Some (s\<lparr>ht_data := ht_data s @ bs, peer := rest\<rparr>))"

text \<open>
  A blocking receive of \<open>n\<close> bytes returns as soon as the peer has put in that many, and
  gives the first \<open>n\<close>; what comes after them stays in the queue or with the peer.
\<close>

theorem pthread_recv_returns:
  assumes "n \<le> length (ht_data s @ concat (peer s))"
  shows "\<exists>s'. pthread_recv script_turn n s = Some (Inr (take n (ht_data s @ concat (peer s)), s')) \<and>
    ht_data s' @ concat (peer s') = drop n (ht_data s @ concat (peer s))"
  using assms
proof (induction "peer s" arbitrary: s)
  case Nil
  then show ?case
    by (subst pthread_recv.simps) (simp add: recv_nonblocking_def flip: Nil.hyps)
next
  case (Cons bs rest)
  show ?case
  proof (cases "length (ht_data s) < n")
    case True
    let ?s = "s\<lparr>ht_data := ht_data s @ bs, peer := rest\<rparr>"
    have "pthread_recv script_turn n s = pthread_recv script_turn n ?s"
      using True Cons.hyps(2) by (subst pthread_recv.simps) (simp add: recv_nonblocking_def script_turn_def flip: Cons.hyps(2))
    then show ?thesis using Cons.hyps(1) [of ?s] Cons.prems by (simp flip: Cons.hyps(2))
  next
    case False
    then show ?thesis
      by (subst pthread_recv.simps) (simp add: recv_nonblocking_def flip: Cons.hyps(2))
  qed
qed

lemma pthread_recv_returns_witness:
  "\<exists>s'. pthread_recv script_turn 3 \<lparr>th_data = [], ht_data = [7], peer = [[], [8, 9], [10]]\<rparr> =
     Some (Inr ([7, 8, 9], s')) \<and> ht_data s' @ concat (peer s') = [10]"
  using pthread_recv_returns [of 3 "\<lparr>th_data = [], ht_data = [7], peer = [[], [8, 9], [10]]\<rparr>"] by (simp add: numeral_3_eq_3)

end
