(* ===== verification/Host_Threads.thy ===== *)
theory Host_Threads
  imports Htif_Serve Tsi_Target Htif_Pthread
begin

text \<open>
  What the host thread of each transport runs: the server of \<open>htif.cc\<close> over that transport,
  and then a loop that only keeps the target going (\<open>producer_thread\<close> of \<open>dtm.cc\<close>,
  \<open>host_thread\<close> of \<open>tsi.cc\<close>, \<open>thread_main\<close> of \<open>htif_pthread.cc\<close>). None of
  them returns, which the coroutines under them rely on.
\<close>

section \<open>Loops without an end\<close>

partial_function (option) forever :: "('s, unit) prog \<Rightarrow> 's \<Rightarrow> (exn + unit \<times> 's) option" where
  "forever m s = (case m s of
       None \<Rightarrow> None
     | Some (Inl x) \<Rightarrow> Some (Inl x)
     | Some (Inr (u, s')) \<Rightarrow> forever m s')"

lemma forever_fails: "forever m s = Some r \<Longrightarrow> \<exists>x. r = Inl x"
proof (rule forever.raw_induct [where P = "\<lambda>m s r. \<exists>x. r = Inl x", rotated])
  fix run :: "('s, unit) prog \<Rightarrow> 's \<Rightarrow> (exn + unit \<times> 's) option" and m s r
  assume "\<And>m s r. run m s = Some r \<Longrightarrow> \<exists>x. r = Inl x"
    and "(case m s of None \<Rightarrow> None | Some (Inl x) \<Rightarrow> Some (Inl x) | Some (Inr (u, s')) \<Rightarrow> run m s') = Some r"
  then show "\<exists>x. r = Inl x" by (auto split: option.splits sum.splits prod.splits)
qed

lemma then_forever_fails: "bind m (\<lambda>_. forever n) s = Some r \<Longrightarrow> \<exists>x. r = Inl x"
  using forever_fails by (auto simp: bind_def split: option.splits sum.splits prod.splits)

section \<open>The threads\<close>

definition producer_thread :: "'d dmi \<Rightarrow> 'h host_os \<Rightarrow> string \<Rightarrow> (('d dtm, 'h) htif, unit) prog" where
  "producer_thread dmi host_calls dir =
     bind (on_target (producer_setup dmi)) (\<lambda>_.
     bind (htif_run (dtm_env dmi host_calls dir)) (\<lambda>_.
     forever (on_target (bind (dtm_nop dmi) (\<lambda>_. ret ())))))"

text \<open>\<open>tsi_t\<close> overrides the chunks and the reset, and not \<open>idle\<close>, which does nothing in \<open>htif_t\<close>.\<close>

definition tsi_env :: "'t turn \<Rightarrow> 'h host_os \<Rightarrow> string \<Rightarrow> ('t tsi, 'h) env" where
  "tsi_env turn host_calls dir = \<lparr>chunks = tsi_chunks turn, idle = ret (), htif_reset = (\<lambda>_. tsi_reset),
     is_address_preloaded = (\<lambda>_ _ _. False), os = host_calls, target_dir = dir\<rparr>"

definition switch_to_target :: "'t turn \<Rightarrow> ('t tsi, unit) prog" where
  "switch_to_target turn = (\<lambda>s. map_option (\<lambda>s'. Inr ((), s')) (turn s))"

definition tsi_host_thread :: "'t turn \<Rightarrow> 'h host_os \<Rightarrow> string \<Rightarrow> (('t tsi, 'h) htif, unit) prog" where
  "tsi_host_thread turn host_calls dir =
     bind (htif_run (tsi_env turn host_calls dir)) (\<lambda>_. forever (on_target (switch_to_target turn)))"

text \<open>The byte queues carry a protocol of the subclass: its environment is a parameter.\<close>

definition pthread_main :: "('p htif_pthread, 'h) env \<Rightarrow> 'p peer_turn \<Rightarrow> (('p htif_pthread, 'h) htif, unit) prog" where
  "pthread_main e turn =
     bind (htif_run e) (\<lambda>_. forever (on_target (\<lambda>s. map_option (\<lambda>s'. Inr ((), s')) (turn s))))"

theorem producer_thread_never_returns: "producer_thread dmi host_calls dir s \<noteq> Some (Inr r)"
proof -
  have "producer_thread dmi host_calls dir = bind (bind (on_target (producer_setup dmi)) (\<lambda>_.
      bind (htif_run (dtm_env dmi host_calls dir)) ret)) (\<lambda>_. forever (on_target (bind (dtm_nop dmi) (\<lambda>_. ret ()))))"
    by (simp add: producer_thread_def bind_assoc)
  then show ?thesis by (auto dest!: then_forever_fails)
qed

theorem tsi_host_thread_never_returns: "tsi_host_thread turn host_calls dir s \<noteq> Some (Inr r)"
  by (auto simp: tsi_host_thread_def dest!: then_forever_fails)

theorem pthread_main_never_returns: "pthread_main e turn s \<noteq> Some (Inr r)"
  by (auto simp: pthread_main_def dest!: then_forever_fails)

section \<open>The server over the serial interface\<close>

interpretation tsi_served: served_memory "tsi_chunks (sai_turn rate)" tsi_view "\<lambda>_. UNIV" tsi_quiet "tsi_env (sai_turn rate) host_calls dir"
  for rate host_calls dir
  by unfold_locales (simp add: tsi_env_def)

text \<open>
  A program without the symbol \<open>tohost\<close>: the server idles for ever. Over the debug transport
  each turn lets the target run. Over the serial interface a turn does nothing: the host thread
  never switches to the target, and the simulation stands still.
\<close>

lemma idle_loop_hangs:
  assumes "idle e = ret ()"
  shows "idle_loop e s = None"
proof -
  have "idle e \<noteq> ret ()" if "idle_loop e s = Some r" for s r
  proof (rule idle_loop.raw_induct [where P = "\<lambda>e s r. idle e \<noteq> ret ()", OF _ that])
    fix run :: "('a, 'b) env \<Rightarrow> ('a, 'b) htif \<Rightarrow> (exn + unit \<times> ('a, 'b) htif) option" and e :: "('a, 'b) env" and s r
    assume IH: "\<And>e s r. run e s = Some r \<Longrightarrow> idle e \<noteq> ret ()"
      and step: "(case on_target (idle e) s of None \<Rightarrow> None | Some (Inl x) \<Rightarrow> Some (Inl x)
        | Some (Inr (u, s')) \<Rightarrow> run e s') = Some r"
    show "idle e \<noteq> ret ()"
    proof
      assume idle: "idle e = ret ()"
      then have "run e s = Some r" using step by (simp add: on_target_def run_simps)
      from IH [OF this] idle show False by contradiction
    qed
  qed
  then show ?thesis using assms by (cases "idle_loop e s") auto
qed

text \<open>
  C36: over the serial interface, when the program has no symbol \<open>tohost\<close>, so that its
  address stays 0, the server never returns once it has started, and never switches to the
  target: its loop calls \<open>idle\<close>, which \<open>tsi_t\<close> does not override.
\<close>

theorem tsi_without_tohost_hangs:
  assumes "start (tsi_env turn host_calls dir) s = Some (Inr ((), s'))" and "tohost_addr s' = 0"
  shows "htif_run (tsi_env turn host_calls dir) s = None"
  using assms idle_loop_hangs [of "tsi_env turn host_calls dir" s'] by (simp add: htif_run_def run_simps tsi_env_def)

definition tsi_server :: "sai tsi \<Rightarrow> (sai tsi, toy_host) htif" where
  "tsi_server t = \<lparr>target = t, host = \<lparr>toy_errno = 0, toy_in = [], toy_out = []\<rparr>,
     entry = 0x80000000, targs = [], sig_file = '''', sig_addr = 0, sig_len = 0, tohost_addr = 0,
     fromhost_addr = 0, exitcode = 0, stopped = False, devices = [], num_devices = 0, dynamic_devices = [],
     rfbs = [], pending_reads = [], fromhost_queue = [], fds = [], chroot = ''''\<rparr>"

theorem tsi_without_tohost_hangs_witness:
  "htif_run (tsi_env (sai_turn (\<lambda>_. 1)) toy_os '''') (tsi_server tsi_example) = None"
proof -
  let ?e = "tsi_env (sai_turn (\<lambda>_. 1)) toy_os ''''" and ?s = "tsi_server tsi_example"
  obtain t where "tsi_reset tsi_example = Some (Inr ((), t))"
    using wp_runs [OF tsi_reset_interrupts [OF tsi_example_quiet]] by auto
  then have "start ?e ?s = Some (Inr ((), ?s\<lparr>target := t\<rparr>))"
    by (simp add: start_def tsi_server_def tsi_env_def on_target_def run_simps)
  then show ?thesis by (rule tsi_without_tohost_hangs) (simp add: tsi_server_def)
qed

end
