(* ===== verification/Htif_Session.thy ===== *)
theory Htif_Session
  imports Host_Threads
begin

text \<open>
  Whole turns of the server's loop (\<open>tb/dpi/fesvr/htif.cc\<close>) over any memory that keeps the
  contract: a system call that the target leaves in its memory is carried out and answered in one
  turn, and \<open>run\<close> returns the exit code that the running target writes in the end.
  \<open>polled_target\<close> adds to \<open>served_memory\<close> what \<open>idle\<close> lets the target do.
\<close>

section \<open>Devices with nothing to do\<close>

definition quiet_device :: "rfb list \<Rightarrow> device \<Rightarrow> bool" where
  "quiet_device rs d = (case body d of
       Rfb i \<Rightarrow> i < length rs \<and> (fb_bytes (rs ! i) = 0 \<or> \<not> rfb_memif (rs ! i))
     | _ \<Rightarrow> True)"

definition quiet_devices :: "('t, 'h) htif \<Rightarrow> bool" where
  "quiet_devices s \<longleftrightarrow> pending_reads s = [] \<and> list_all (quiet_device (rfbs s)) (take (num_devices s) (devices s))"

lemma quiet_updates [simp]:
  "quiet_devices (s\<lparr>target := t\<rparr>) = quiet_devices s" "quiet_devices (s\<lparr>host := h\<rparr>) = quiet_devices s"
  "quiet_devices (s\<lparr>exitcode := x\<rparr>) = quiet_devices s" "quiet_devices (s\<lparr>fromhost_queue := q\<rparr>) = quiet_devices s"
  by (simp_all add: quiet_devices_def)

lemma quiet_tick:
  assumes "quiet_devices s"
  shows "list_tick e s = Some (Inr ((), s))"
proof -
  have "device_tick e d s = Some (Inr ((), s))" if "quiet_device (rfbs s) d" for d
    using assms that by (auto simp: device_tick_def quiet_device_def quiet_devices_def bcd_tick_def rfb_tick_def
      the_rfb_def run_simps split: device_body.splits)
  then have "for_each ds (device_tick e) s = Some (Inr ((), s))" if "list_all (quiet_device (rfbs s)) ds" for ds
    using that by (induction ds) (simp_all add: run_simps)
  then show ?thesis using assms by (simp add: list_tick_def run_simps quiet_devices_def)
qed

section \<open>A target that runs while the server idles\<close>

locale polled_target = served_memory c view D inv e
  for c :: "'t chunked_memif" and view :: "'t \<Rightarrow> mem" and D :: "'t \<Rightarrow> addr set" and inv :: "'t \<Rightarrow> bool"
    and e :: "('t, 'h) env" +
  fixes step :: "mem \<Rightarrow> mem"
  assumes idle_law: "inv t \<Longrightarrow>
    wp (idle e) (\<lambda>_ t'. view t' = step (view t) \<and> inv t' \<and> same_shape c D t t') t"
begin

text \<open>A turn that finds no word lets the target run.\<close>

lemma poll_turn:
  assumes ok: "inv (target s)" "range_in (tohost_addr s) 8 (D (target s))" and aligned: "tohost_addr s AND 7 = 0"
    and none: "le_word (mem_read (view (target s)) (tohost_addr s) 8) = (0 :: u64)"
    and quiet: "quiet_devices s" "fromhost_queue s = []"
  shows "\<exists>t. run_body e s = Some (Inr ((), s\<lparr>target := t\<rparr>)) \<and> view t = step (view (target s)) \<and> inv t \<and>
    same_shape c D (target s) t"
proof -
  let ?a = "tohost_addr s"
  from wp_runs [OF wp_read_word [OF ok aligned]] none obtain t where
    rd: "on_target (read_uint64 (chunks e) ?a) s = Some (Inr (0, s\<lparr>target := t\<rparr>))" and t: "ok (target s) t"
    by auto
  have "inv t" using t by simp
  from wp_runs [OF idle_law [OF this]] obtain t' where
    idle: "idle e t = Some (Inr ((), t'))" and t': "view t' = step (view t)" "inv t'" "same_shape c D t t'" by auto
  have "serve_tohost e s = Some (Inr ((), s\<lparr>target := t'\<rparr>))"
    using rd idle by (simp add: serve_tohost_def run_simps on_target_def)
  then have "run_body e s = Some (Inr ((), s\<lparr>target := t'\<rparr>))"
    using quiet by (simp add: run_body_def run_simps quiet_tick serve_fromhost_def)
  then show ?thesis using t t' same_shape_trans by fastforce
qed

lemma polls:
  assumes "inv (target s)" "range_in (tohost_addr s) 8 (D (target s))" and "tohost_addr s AND 7 = 0"
    and "\<forall>k<n. le_word (mem_read ((step ^^ k) (view (target s))) (tohost_addr s) 8) = (0 :: u64)"
    and "quiet_devices s" "fromhost_queue s = []" "exitcode s = 0"
    and sig: "\<forall>h. fst (os_signal (os e) h) = False"
  shows "\<exists>t h. run_loop e s = run_loop e (s\<lparr>target := t, host := h\<rparr>) \<and> view t = (step ^^ n) (view (target s)) \<and>
    inv t \<and> same_shape c D (target s) t"
  using assms(1-7)
proof (induction n arbitrary: s)
  case 0
  then show ?case by (intro exI [of _ "target s"] exI [of _ "host s"]) simp
next
  case (Suc n)
  obtain h where sg: "os_signal (os e) (host s) = (False, h)" using sig by (metis prod.collapse)
  have "\<exists>t. run_body e (s\<lparr>host := h\<rparr>) = Some (Inr ((), s\<lparr>host := h, target := t\<rparr>)) \<and>
      view t = step (view (target s)) \<and> inv t \<and> same_shape c D (target s) t"
    using poll_turn [of "s\<lparr>host := h\<rparr>"] Suc.prems by auto
  then obtain t where turn: "run_body e (s\<lparr>host := h\<rparr>) = Some (Inr ((), s\<lparr>host := h, target := t\<rparr>))"
    and t: "view t = step (view (target s))" "inv t" "same_shape c D (target s) t" by blast
  let ?s = "s\<lparr>host := h, target := t\<rparr>"
  have loop: "run_loop e s = run_loop e ?s"
    using sg turn Suc.prems(7) by (simp add: run_loop.simps [of e s])
  have "D t = D (target s)" using t(3) by (simp add: same_shape_def)
  moreover have "le_word (mem_read ((step ^^ k) (view t)) (tohost_addr s) 8) = (0 :: u64)" if "k < n" for k
    using Suc.prems(4) that t(1) by (metis Suc_less_eq funpow_Suc_right comp_apply)
  ultimately obtain t' h' where "run_loop e ?s = run_loop e (?s\<lparr>target := t', host := h'\<rparr>)"
    and t': "view t' = (step ^^ n) (view t)" "inv t'" "same_shape c D t t'"
    using Suc.IH [of ?s] Suc.prems t by auto
  then have "run_loop e s = run_loop e (s\<lparr>target := t', host := h'\<rparr>)" using loop by simp
  moreover have "view t' = (step ^^ Suc n) (view (target s))"
    unfolding t'(1) t(1) by (simp only: funpow_Suc_right comp_apply)
  ultimately show ?case using t' same_shape_trans [OF t(3)] by blast
qed

end

section \<open>A test that ends the run\<close>

lemma payload_odd: "(cmd_payload w AND 1 = 0) \<longleftrightarrow> w AND 1 = (0 :: u64)"
proof -
  have "bit (cmd_payload w) 0 = bit w 0" by (simp add: cmd_payload_def bit_simps del: bit_0)
  then show ?thesis by (simp add: and_one_eq bit_0 flip: even_iff_mod_2_eq_zero)
qed

context served_memory
begin

lemma exit_turn:
  assumes ok: "inv (target s)" "range_in (tohost_addr s) 8 (D (target s))" and aligned: "tohost_addr s AND 7 = 0"
    and w: "w = le_word (mem_read (view (target s)) (tohost_addr s) 8)" "w AND 1 = 1"
    and proxy: "command_handlers (devices s ! unat (cmd_device w)) ! unat (cmd_cmd w) = Handle_syscall"
    and quiet: "quiet_devices s" "fromhost_queue s = []"
  shows "\<exists>t. run_body e s = Some (Inr ((), s\<lparr>target := t, exitcode := ucast (cmd_payload w)\<rparr>)) \<and>
    wrote (target s) (tohost_addr s) (le_bytes 8 (0 :: u64)) t"
proof -
  let ?a = "tohost_addr s"
  have w0: "w \<noteq> 0" using w(2) by auto
  have odd: "cmd_payload w AND 1 \<noteq> 0" using w(2) by (simp add: payload_odd)
  from wp_runs [OF wp_read_word [OF ok aligned]] w(1) obtain t where
    rd: "on_target (read_uint64 (chunks e) ?a) s = Some (Inr (w, s\<lparr>target := t\<rparr>))" and t: "ok (target s) t"
    by auto
  have dom: "D t = D (target s)" using t by (simp add: same_shape_def)
  from wp_runs [OF wp_write_word [of "s\<lparr>target := t\<rparr>" ?a 0]] ok aligned t dom obtain t' where
    wr: "on_target (write_uint64 (chunks e) ?a 0) (s\<lparr>target := t\<rparr>) = Some (Inr ((), s\<lparr>target := t'\<rparr>))"
    and t': "wrote t ?a (le_bytes 8 (0 :: u64)) t'" by auto
  have "handle_syscall e w = modify (\<lambda>s. s\<lparr>exitcode := ucast (cmd_payload w)\<rparr>)"
    unfolding handle_syscall_def using odd by (rule if_P)
  then have "list_handle_command e w (s\<lparr>target := t'\<rparr>) = Some (Inr ((), s\<lparr>target := t', exitcode := ucast (cmd_payload w)\<rparr>))"
    using proxy by (simp add: list_handle_command_def device_handle_command_def run_handler_def run_simps)
  then have "serve_tohost e s = Some (Inr ((), s\<lparr>target := t', exitcode := ucast (cmd_payload w)\<rparr>))"
    unfolding serve_tohost_def using rd wr w0
    by (simp only: run_simps option.case sum.case prod.case htif.simps if_True not_False_eq_True)
  then have "run_body e s = Some (Inr ((), s\<lparr>target := t', exitcode := ucast (cmd_payload w)\<rparr>))"
    using quiet by (simp add: run_body_def run_simps quiet_tick serve_fromhost_def)
  moreover have "wrote (target s) ?a (le_bytes 8 (0 :: u64)) t'" using t t' by (simp add: same_shape_def)
  ultimately show ?thesis by blast
qed

end

context polled_target
begin

lemma run_polls_exit:
  assumes ok: "inv (target s)" "range_in (tohost_addr s) 8 (D (target s))" and aligned: "tohost_addr s AND 7 = 0"
    and none: "\<forall>k<n. le_word (mem_read ((step ^^ k) (view (target s))) (tohost_addr s) 8) = (0 :: u64)"
    and w: "w = le_word (mem_read ((step ^^ n) (view (target s))) (tohost_addr s) 8)" "w AND 1 = 1"
      "ucast (cmd_payload w) \<noteq> (0 :: u32)"
    and proxy: "command_handlers (devices s ! unat (cmd_device w)) ! unat (cmd_cmd w) = Handle_syscall"
    and quiet: "quiet_devices s" "fromhost_queue s = []" "exitcode s = 0"
    and sig: "\<forall>h. fst (os_signal (os e) h) = False"
  shows "\<exists>t h. run_loop e s = Some (Inr ((), s\<lparr>target := t, host := h, exitcode := ucast (cmd_payload w)\<rparr>)) \<and>
    inv t \<and> view t = mem_write ((step ^^ n) (view (target s))) (tohost_addr s) (le_bytes 8 (0 :: u64))"
proof -
  from polls [OF ok aligned none quiet sig] obtain t h where
    polled: "run_loop e s = run_loop e (s\<lparr>target := t, host := h\<rparr>)"
    and t: "view t = (step ^^ n) (view (target s))" "inv t" "same_shape c D (target s) t" by blast
  obtain h1 where sg1: "os_signal (os e) h = (False, h1)" using sig by (metis prod.collapse)
  obtain h2 where sg2: "os_signal (os e) h1 = (False, h2)" using sig by (metis prod.collapse)
  have "D t = D (target s)" using t(3) by (simp add: same_shape_def)
  then have "\<exists>u. run_body e (s\<lparr>target := t, host := h1\<rparr>) =
      Some (Inr ((), s\<lparr>target := t, host := h1, target := u, exitcode := ucast (cmd_payload w)\<rparr>)) \<and>
      wrote t (tohost_addr s) (le_bytes 8 (0 :: u64)) u"
    using exit_turn [of "s\<lparr>target := t, host := h1\<rparr>" w] ok aligned t w proxy quiet by simp
  then obtain u where turn: "run_body e (s\<lparr>target := t, host := h1\<rparr>) =
      Some (Inr ((), s\<lparr>target := t, host := h1, target := u, exitcode := ucast (cmd_payload w)\<rparr>))"
    and u: "wrote t (tohost_addr s) (le_bytes 8 (0 :: u64)) u" by blast
  have "run_loop e (s\<lparr>target := t, host := h\<rparr>) =
      Some (Inr ((), s\<lparr>target := u, host := h2, exitcode := ucast (cmd_payload w)\<rparr>))"
    using sg1 sg2 turn quiet(3) w(3)
    by (simp add: run_loop.simps [of e "s\<lparr>target := t, host := h\<rparr>"]
      run_loop.simps [of e "s\<lparr>host := h1, target := u, exitcode := ucast (cmd_payload w)\<rparr>"])
  then show ?thesis using polled t u by auto
qed

end

text \<open>
  C9: over any memory that keeps the contract, with a target that runs while the server idles:
  once \<open>start\<close> has loaded and reset it, if the first word that is not zero in \<open>tohost\<close>
  after \<open>n\<close> turns is odd and for the system call proxy, \<open>run\<close> returns the code in it,
  having changed no other byte of the memory.
\<close>

theorem run_returns_exit_code:
  assumes "polled_target (chunks e) view D I e step" and "start e s0 = Some (Inr ((), s))"
    and "I (target s)" and "range_in (tohost_addr s) 8 (D (target s))" and "tohost_addr s \<noteq> 0" and "tohost_addr s AND 7 = 0"
    and "\<forall>k<n. le_word (mem_read ((step ^^ k) (view (target s))) (tohost_addr s) 8) = (0 :: u64)"
    and "w = le_word (mem_read ((step ^^ n) (view (target s))) (tohost_addr s) 8)" and "w AND 1 = 1"
    and "ucast (cmd_payload w) \<noteq> (0 :: u32)"
    and "command_handlers (devices s ! unat (cmd_device w)) ! unat (cmd_cmd w) = Handle_syscall"
    and "quiet_devices s" and "fromhost_queue s = []" and "exitcode s = 0" and "sig_file s = ''''"
    and "\<forall>h. fst (os_signal (os e) h) = False"
  shows "\<exists>s'. htif_run e s0 = Some (Inr (sint (ucast (drop_bit 1 (cmd_payload w)) :: 31 word), s')) \<and> stopped s' \<and>
    I (target s') \<and> view (target s') = mem_write ((step ^^ n) (view (target s))) (tohost_addr s) (le_bytes 8 (0 :: u64))"
proof -
  from polled_target.run_polls_exit [OF assms(1,3,4,6-14,16)] obtain t h where
    loop: "run_loop e s = Some (Inr ((), s\<lparr>target := t, host := h, exitcode := ucast (cmd_payload w)\<rparr>))"
    and t: "I t" "view t = mem_write ((step ^^ n) (view (target s))) (tohost_addr s) (le_bytes 8 (0 :: u64))" by blast
  have odd: "cmd_payload w AND 1 \<noteq> 0" using assms(9) by (simp add: payload_odd)
  show ?thesis
    using loop t assms(2,5,15) payload_exit_code [OF odd]
    by (intro exI [of _ "s\<lparr>target := t, host := h, exitcode := ucast (cmd_payload w), stopped := True\<rparr>"])
      (simp add: htif_run_def run_simps stop_def exit_code_def)
qed

section \<open>The targets\<close>

text \<open>The hart of the debug module does nothing of its own; \<open>idle\<close> sends requests that do nothing.\<close>

lemma wp_dtm_idle:
  assumes "dtm_runs R C M s"
  shows "wp (dtm_idle (dm_dmi lat)) (\<lambda>_. dtm_runs R C M) s"
  unfolding dtm_idle_def
proof (rule wp_for_each [where I = "dtm_runs R C M", OF _ assms])
  fix i s assume runs: "dtm_runs R C M s"
  then have "dm_running (dtm_target s)" by (simp add: dtm_runs_def dm_runs_def)
  from tick_running [OF this] show "wp (bind (dtm_nop (dm_dmi lat)) (\<lambda>_. ret ())) (\<lambda>_. dtm_runs R C M) s"
    using runs by (simp add: dtm_nop_def do_command_def dm_dmi_def wp_def bind_def ret_def)
qed

interpretation dtm_polled: polled_target "dtm_chunks (dm_dmi lat)" "\<lambda>s. dm_mem (dtm_target s)" "\<lambda>_. dm_dom"
  "\<lambda>s. \<exists>p. dm_ready p s" "dtm_env (dm_dmi lat) host_calls dir" "\<lambda>m. m" for lat host_calls dir
proof unfold_locales
  fix t assume "\<exists>p. dm_ready p t"
  then obtain R C where "dm_ready (R, C) t" by auto
  then have "dtm_runs R C (dm_mem (dtm_target t)) t" by (simp add: runs_ready)
  then have "wp (dtm_idle (dm_dmi lat)) (\<lambda>_. dtm_runs R C (dm_mem (dtm_target t))) t" by (rule wp_dtm_idle)
  moreover have "same_shape (dtm_chunks (dm_dmi lat)) (\<lambda>_. dm_dom) t t'" if "dm_ready (R, C) t'" for t'
    using \<open>dm_ready (R, C) t\<close> that runs_at(1) by (simp add: same_shape_def dm_ready_def)
  ultimately show "wp (idle (dtm_env (dm_dmi lat) host_calls dir)) (\<lambda>_ t'. dm_mem (dtm_target t') = dm_mem (dtm_target t) \<and>
      (\<exists>p. dm_ready p t') \<and> same_shape (dtm_chunks (dm_dmi lat)) (\<lambda>_. dm_dom) t t') t"
    by (simp add: dtm_env_def) (erule wp_mono, auto simp: runs_ready)
qed

interpretation tsi_polled: polled_target "tsi_chunks (sai_turn rate)" tsi_view "\<lambda>_. UNIV" tsi_quiet
  "tsi_env (sai_turn rate) host_calls dir" "\<lambda>m. m" for rate host_calls dir
  by unfold_locales (simp add: tsi_env_def)

text \<open>A plain memory, and any program that runs on it.\<close>

interpretation plain_polled: polled_target plain_ops id "\<lambda>_. UNIV" "\<lambda>_. True"
  "e\<lparr>chunks := plain_ops, idle := modify f\<rparr>" f for e :: "(mem, 'h) env" and f
  by unfold_locales (simp_all add: same_shape_def plain_ops_def)

text \<open>A target that writes 7 to \<open>tohost\<close> when it runs.\<close>

theorem run_returns_exit_code_witness:
  "\<exists>s'. htif_run (toy_env\<lparr>idle := modify (\<lambda>m. mem_write m 0x1000 (le_bytes 8 (7 :: u64)))\<rparr>)
      (toy_htif\<lparr>targs := [], tohost_addr := 0x1000, num_devices := 1,
        devices := [(blank_device ''syscall_proxy'' Syscall_proxy)\<lparr>command_handlers := [Handle_syscall]\<rparr>]\<rparr>) =
      Some (Inr (3, s')) \<and> target s' 0x1000 = 0"
proof -
  define f where "f = (\<lambda>m. mem_write m 0x1000 (le_bytes 8 (7 :: u64)))"
  define e where "e = toy_env\<lparr>idle := modify f\<rparr>"
  define s where "s = toy_htif\<lparr>targs := [], tohost_addr := 0x1000, num_devices := 1,
    devices := [(blank_device ''syscall_proxy'' Syscall_proxy)\<lparr>command_handlers := [Handle_syscall]\<rparr>]\<rparr>"
  have e: "e = toy_env\<lparr>chunks := plain_ops, idle := modify f\<rparr>" by (simp add: e_def toy_env_def)
  have t: "target s = (\<lambda>_. 0)" "tohost_addr s = 0x1000" by (simp_all add: s_def toy_htif_def)
  have polled: "polled_target (chunks e) id (\<lambda>_. UNIV) (\<lambda>_. True) e f"
    using plain_polled.polled_target_axioms [of f toy_env] by (simp add: e)
  have start: "start e s = Some (Inr ((), s))"
    by (simp add: start_def e_def s_def toy_env_def toy_htif_def on_target_def run_simps)
  have zero: "le_word (mem_read (\<lambda>_. 0) a 8) = (0 :: u64)" for a by (simp add: mem_read_def upt_rec)
  have seven: "le_word (mem_read (f m) 0x1000 8) = (7 :: u64)" for m
    using mem_read_write [of "le_bytes 8 (7 :: u64)" m "0x1000"] by (simp add: f_def le_word_le_bytes)
  have 7: "cmd_payload 7 = 7" "unat (cmd_device 7) = 0" "unat (cmd_cmd 7) = 0"
    "sint (ucast (drop_bit 1 (7 :: u64)) :: 31 word) = 3" "(ucast (7 :: u64) :: u32) \<noteq> 0"
    "(7 :: u64) AND 1 = 1" "(0x1000 :: u64) AND 7 = 0"
    by code_simp+
  have "\<exists>s'. htif_run e s = Some (Inr (sint (ucast (drop_bit 1 (cmd_payload 7)) :: 31 word), s')) \<and> stopped s' \<and>
      True \<and> id (target s') = mem_write ((f ^^ 1) (id (target s))) (tohost_addr s) (le_bytes 8 (0 :: u64))"
    by (rule run_returns_exit_code [OF polled start])
      (simp_all add: t zero seven 7 range_in_def, simp_all add: s_def e_def toy_htif_def toy_env_def toy_os_def
        quiet_devices_def quiet_device_def blank_device_def)
  then show ?thesis
    unfolding 7(1,4) e_def [symmetric] s_def [symmetric] f_def [symmetric]
    by (auto simp: t mem_write_apply le_bytes_0)
qed

section \<open>Accesses of any length\<close>

context served_memory
begin

lemma run_mem_rd:
  assumes "inv (target s)" and "range_in a n (D (target s))" and "n < 2 ^ 64"
  shows "\<exists>t. mem_rd e a n s = Some (Inr (mem_read (view (target s)) a n, s\<lparr>target := t\<rparr>)) \<and> ok (target s) t"
  using wp_runs [OF wp_memif_read [OF assms]] by (auto simp: mem_rd_def on_target_def run_simps served)

lemma run_mem_wr:
  assumes "inv (target s)" and "range_in a (length bs) (D (target s))" and "length bs < 2 ^ 64"
  shows "\<exists>t. mem_wr e a bs s = Some (Inr ((), s\<lparr>target := t\<rparr>)) \<and> wrote (target s) a bs t"
  using wp_runs [OF wp_write [OF assms]] by (auto simp: mem_wr_def on_target_def run_simps served)

end

end
