(* ===== verification/Htif_Load.thy ===== *)
theory Htif_Load
  imports Htif_Session
begin

text \<open>
  Starting a program (\<open>load_program\<close> and \<open>start\<close> of \<open>tb/dpi/fesvr/htif.cc\<close>) over any
  memory that keeps the contract: the file is found, its segments go to target memory through
  \<open>preload_aware_memif_t\<close>, and its symbols become the addresses of \<open>tohost\<close>,
  \<open>fromhost\<close> and the signature. Over the debug transport this is what \<open>producer_thread\<close>
  (\<open>dtm.cc\<close>) does first.
\<close>

section \<open>Loading over a memory\<close>

locale loading_memory = served_memory c view D inv e
  for c :: "'t chunked_memif" and view :: "'t \<Rightarrow> mem" and D :: "'t \<Rightarrow> addr set" and inv :: "'t \<Rightarrow> bool"
    and e :: "('t, 'h) env" +
  assumes no_preload: "is_address_preloaded e = (\<lambda>_ _ _. False)"
begin

text \<open>States that differ from the first one in the target only.\<close>

definition loads_to :: "('t, 'h) htif \<Rightarrow> ('t, 'h) htif \<Rightarrow> bool" where
  "loads_to s0 s \<longleftrightarrow> (\<exists>t. s = s0\<lparr>target := t\<rparr> \<and> inv t \<and> same_shape c D (target s0) t)"

lemma run_preload_aware_write:
  assumes s: "loads_to s0 s" and bs: "range_in a (length bs) (D (target s))" "length bs < 2 ^ 64"
  shows "wp (preload_aware_write e a bs) (\<lambda>_ s'. view (target s') = mem_write (view (target s)) a bs \<and>
    loads_to s0 s' \<and> D (target s') = D (target s)) s"
proof -
  obtain t where t: "s = s0\<lparr>target := t\<rparr>" "inv t" "same_shape c D (target s0) t" using s by (auto simp: loads_to_def)
  have "inv (target s)" using t by simp
  from run_mem_wr [OF this bs] obtain t' where
    "mem_wr e a bs s = Some (Inr ((), s\<lparr>target := t'\<rparr>))" and t': "wrote (target s) a bs t'" by blast
  then have "preload_aware_write e a bs s = Some (Inr ((), s0\<lparr>target := t'\<rparr>))"
    by (simp add: preload_aware_write_def run_simps no_preload t(1))
  then show ?thesis
    by (rule wp_runI) (use t t' in \<open>auto simp: loads_to_def same_shape_def\<close>)
qed

end

sublocale loading_memory \<subseteq> loading: byte_memory "preload_aware_write e" "\<lambda>s. view (target s)" "\<lambda>s. D (target s)"
  "loads_to s0" "\<lambda>_ _ _. True" for s0
  by unfold_locales (simp_all add: run_preload_aware_write)

context loading_memory
begin

lemma loading_writable: "loading.writable_all segs m"
  by (induction segs arbitrary: m) simp_all

lemma wp_load_program:
  assumes "inv (target s)" and path: "program_path e (hd (targs s)) (host s) = path" "path \<noteq> ''''"
    and contents: "os_file (os e) path (host s) = Some buf"
    and elf: "64 \<le> length buf" "IS_ELF64 (take 16 buf)" "elf_ok elf_class64 buf"
      "wp (load_symbols elf_class64 buf) (\<lambda>r _. r = symbols) ()"
    and segs: "\<And>a bs. (a, bs) \<in> set (elf_segments elf_class64 buf) \<Longrightarrow> range_in a (length bs) (D (target s))"
  shows "wp (load_program e) (\<lambda>_ s'. \<exists>t. s' = set_symbols symbols (s\<lparr>target := t, entry := e_entry (ehdr_of elf_class64 buf)\<rparr>) \<and>
    inv t \<and> same_shape c D (target s) t \<and> view t = load_image (elf_segments elf_class64 buf) (view (target s))) s"
proof -
  let ?segs = "elf_segments elf_class64 buf" and ?eh = "ehdr_of elf_class64 buf"
  have start: "loads_to s s" using assms(1) by (auto simp: loads_to_def intro: exI [of _ "target s"])
  have load: "wp (load_segments elf_class64 (preload_aware_write e) buf)
      (\<lambda>_ s'. view (target s') = load_image ?segs (view (target s)) \<and> loads_to s s') s"
    using loading.wp_load_segments [OF _ start elf(3) segs loading_writable] by (simp add: wp_mono)
  have "wp (load_elf (preload_aware_write e) (Some buf)) (\<lambda>r s'. r = (symbols, e_entry ?eh) \<and>
      view (target s') = load_image ?segs (view (target s)) \<and> loads_to s s') s"
    unfolding load_elf64 [OF elf(1,2)] LOAD_ELF_def
  proof (rule wp_seq [OF load])
    fix u s' assume s': "view (target s') = load_image ?segs (view (target s)) \<and> loads_to s s'"
    show "wp (bind (load_symbols elf_class64 buf) (\<lambda>symbols. ret (symbols, ucast (e_entry ?eh))))
        (\<lambda>r s'. r = (symbols, e_entry ?eh) \<and> view (target s') = load_image ?segs (view (target s)) \<and> loads_to s s') s'"
      by (rule wp_seq [OF wp_stateless [OF stateless_load_symbols elf(4)]]) (use s' in simp)
  qed
  then show ?thesis
    by (simp add: load_program_def path contents) (erule wp_mono, auto simp: loads_to_def)
qed

end

section \<open>The memories\<close>

interpretation dtm_loading: loading_memory "dtm_chunks (dm_dmi lat)" "\<lambda>s. dm_mem (dtm_target s)" "\<lambda>_. dm_dom" "dm_ready p"
  "dtm_env (dm_dmi lat) host_calls dir" for lat p host_calls dir
  by unfold_locales (simp_all add: dtm_env_def)

interpretation tsi_loading: loading_memory "tsi_chunks (sai_turn rate)" tsi_view "\<lambda>_. UNIV" tsi_quiet
  "tsi_env (sai_turn rate) host_calls dir" for rate host_calls dir
  by unfold_locales (simp add: tsi_env_def)

section \<open>Starting over the debug transport\<close>

lemma entry_after_target: "s\<lparr>target := t, entry := x\<rparr> = s\<lparr>entry := x, target := t\<rparr>"
  by simp

lemma set_symbols_parts [simp]:
  "entry (set_symbols m s) = entry s" "target (set_symbols m s) = target s"
  "(set_symbols m s)\<lparr>target := t\<rparr> = set_symbols m (s\<lparr>target := t\<rparr>)"
  by (simp_all add: set_symbols_def Let_def split: option.splits)

text \<open>
  C1: from a debug module out of reset, with any latency, \<open>producer_thread\<close> finds the hart and
  \<open>start\<close> loads the program: for a 64-bit ELF file that exists under the name of the command
  line, whose headers stay in the file and whose segments lie above the debug module, the memory of
  the target then holds the segments over what it held, the hart goes on at the entry point of the
  file with its registers as they were, and the server has the addresses that the symbols name.
\<close>

theorem dtm_starts_program:
  assumes "dm_boots R C M (dtm_target (target s))"
    and name: "targs s = name # rest" "name \<noteq> ''none''" "name \<noteq> ''''" "os_exists host_calls name (host s)"
      "os_file host_calls name (host s) = Some buf"
    and elf: "64 \<le> length buf" "IS_ELF64 (take 16 buf)" "elf_ok elf_class64 buf"
      "wp (load_symbols elf_class64 buf) (\<lambda>r _. r = symbols) ()"
    and segs: "list_all (\<lambda>(a, bs). range_in a (length bs) dm_dom) (elf_segments elf_class64 buf)"
    and ent: "ent = e_entry (ehdr_of elf_class64 buf)"
  shows "wp (bind (on_target (producer_setup (dm_dmi lat))) (\<lambda>_. start (dtm_env (dm_dmi lat) host_calls dir)))
    (\<lambda>_ s'. \<exists>t. s' = set_symbols symbols (s\<lparr>entry := ent, target := t\<rparr>) \<and>
      dm_mem (dtm_target t) = load_image (elf_segments elf_class64 buf) M \<and> dm_ready (R, C(0x7B1 := ent)) t) s"
proof (rule wp_seq [where P = "\<lambda>_ s1. \<exists>t. s1 = s\<lparr>target := t\<rparr> \<and> dtm_runs R C M t"])
  show "wp (on_target (producer_setup (dm_dmi lat))) (\<lambda>_ s1. \<exists>t. s1 = s\<lparr>target := t\<rparr> \<and> dtm_runs R C M t) s"
    unfolding on_target_def wp_zoom by (rule wp_mono [OF wp_producer_setup [OF assms(1)]]) auto
  let ?e = "dtm_env (dm_dmi lat) host_calls dir" and ?M = "load_image (elf_segments elf_class64 buf) M"
  fix u s1 assume "\<exists>t. s1 = s\<lparr>target := t\<rparr> \<and> dtm_runs R C M t"
  then obtain t where s1: "s1 = s\<lparr>target := t\<rparr>" and t: "dtm_runs R C M t" by blast
  have load: "wp (load_program ?e) (\<lambda>_ s2. \<exists>t. s2 = set_symbols symbols (s\<lparr>entry := ent, target := t\<rparr>) \<and> dtm_runs R C ?M t) s1"
  proof (rule wp_mono [OF dtm_loading.wp_load_program [OF _ refl _ _ elf]])
    show "dm_ready (R, C) (target s1)" using t s1 by (simp add: runs_ready)
    show "program_path ?e (hd (targs s1)) (host s1) \<noteq> ''''"
      "os_file (os ?e) (program_path ?e (hd (targs s1)) (host s1)) (host s1) = Some buf"
      using name by (simp_all add: s1 program_path_def dtm_env_def)
    show "range_in a (length bs) dm_dom" if "(a, bs) \<in> set (elf_segments elf_class64 buf)" for a bs
      using segs that by (auto simp: list_all_iff)
  qed (use t in \<open>auto simp: s1 ent runs_ready entry_after_target\<close>)
  have reset: "wp (on_target (dtm_reset (dm_dmi lat) ent)) (\<lambda>_ s'. \<exists>t. s' = set_symbols symbols (s\<lparr>entry := ent, target := t\<rparr>) \<and>
      dm_mem (dtm_target t) = ?M \<and> dm_ready (R, C(0x7B1 := ent)) t) (set_symbols symbols (s\<lparr>entry := ent, target := t2\<rparr>))"
    if "dtm_runs R C ?M t2" for t2
    unfolding on_target_def wp_zoom by simp (rule wp_mono [OF wp_dtm_reset [OF that]], auto simp: runs_ready)
  have "wp (bind (load_program ?e) (\<lambda>_. bind (gets entry) (\<lambda>ent. on_target (htif_reset ?e ent)))) (\<lambda>_ s'.
      \<exists>t. s' = set_symbols symbols (s\<lparr>entry := ent, target := t\<rparr>) \<and>
      dm_mem (dtm_target t) = ?M \<and> dm_ready (R, C(0x7B1 := ent)) t) s1"
    by (rule wp_seq [OF load], elim exE conjE) (use reset in \<open>simp add: dtm_env_def\<close>)
  then show "wp (start ?e) (\<lambda>_ s'. \<exists>t. s' = set_symbols symbols (s\<lparr>entry := ent, target := t\<rparr>) \<and>
      dm_mem (dtm_target t) = ?M \<and> dm_ready (R, C(0x7B1 := ent)) t) s1"
    using name(1,2) by (simp add: start_def s1)
qed

lemma all_less_Suc: "(\<forall>i<Suc n. P i) \<longleftrightarrow> P 0 \<and> (\<forall>i<n. P (Suc i))"
  by (auto simp: less_Suc_eq_0_disj)

text \<open>The example file, under the name \<open>prog\<close>.\<close>

definition file_os :: "toy_host host_os" where
  "file_os = toy_os\<lparr>os_exists := \<lambda>name h. name = ''prog'', os_file := \<lambda>name h. Some example_elf\<rparr>"

theorem dtm_starts_program_witness:
  "wp (bind (on_target (producer_setup (dm_dmi (\<lambda>_. 5)))) (\<lambda>_. start (dtm_env (dm_dmi (\<lambda>_. 5)) file_os '''')))
    (\<lambda>_ s'. dm_mem (dtm_target (target s')) 0x80000006 = 0x50 \<and> dm_csrs (dtm_target (target s')) 0x7B1 = 0x80000004)
    ((dtm_server (\<lambda>_. 0))\<lparr>target := dtm_zero, targs := [''prog'']\<rparr>)"
proof -
  let ?s = "(dtm_server (\<lambda>_. 0))\<lparr>target := dtm_zero, targs := [''prog'']\<rparr>"
  obtain symbols where symbols: "wp (load_symbols elf_class64 example_elf) (\<lambda>r _. r = symbols) ()"
    using wp_runs [OF example_elf_symbols] by (auto simp: wp_def)
  have ent: "0x80000004 = e_entry (ehdr_of elf_class64 example_elf)" by code_simp
  have segs: "list_all (\<lambda>(a, bs). range_in a (length bs) dm_dom) (elf_segments elf_class64 example_elf)"
    by (simp add: example_elf_segments range_in_def dm_dom_def all_less_Suc)
  have "64 \<le> length example_elf" by (simp add: example_elf_header)
  moreover have "dm_boots (\<lambda>_. 0) (\<lambda>_. 0x100000002) (\<lambda>_. 0) (dtm_target (target ?s))" using dm_zero_boots by simp
  moreover have "os_exists file_os ''prog'' (host ?s)" "os_file file_os ''prog'' (host ?s) = Some example_elf"
    by (simp_all add: file_os_def)
  ultimately have "wp (bind (on_target (producer_setup (dm_dmi (\<lambda>_. 5)))) (\<lambda>_. start (dtm_env (dm_dmi (\<lambda>_. 5)) file_os '''')))
    (\<lambda>_ s'. \<exists>t. s' = set_symbols symbols (?s\<lparr>entry := 0x80000004, target := t\<rparr>) \<and>
      dm_mem (dtm_target t) = load_image (elf_segments elf_class64 example_elf) (\<lambda>_. 0) \<and>
      dm_ready (\<lambda>_. 0, (\<lambda>_. 0x100000002)(0x7B1 := 0x80000004)) t) ?s"
    using example_elf_header(2) example_elf_ok symbols segs ent by (intro dtm_starts_program) simp_all
  then show ?thesis
    by (rule wp_mono) (auto simp: example_elf_segments load_image_def dm_ready_def dtm_runs_def dm_runs_def CSR_DSCRATCH_def)
qed

end
