(* ===== verification/Htif_Calls.thy ===== *)
theory Htif_Calls
  imports Htif_Session
begin

text \<open>
  System calls served through the whole of the server (\<open>run_body\<close>, \<open>handle_syscall\<close>,
  \<open>dispatch\<close> and the calls of \<open>tb/dpi/fesvr/htif.cc\<close>, \<open>syscall.cc\<close>), over any memory
  that keeps the contract. \<open>host_call\<close> says what the console calls and \<open>exit\<close> do to a
  memory and a host, \<open>session\<close> what a target and its host do to each other until the target
  ends: the server's loop is shown to do exactly that.
\<close>

section \<open>What a call does\<close>

definition call_result :: "'h host_os \<Rightarrow> int \<Rightarrow> 'h \<Rightarrow> u64" where
  "call_result os_calls res h = (if res = - 1 then word_of_int (- os_errno os_calls h) else word_of_int res)"

text \<open>
  The words of the block, the memory, host and exit code before, the result, and the three after.
  A host that reads gives at most the bytes it was asked for.
\<close>

inductive host_call :: "'h host_os \<Rightarrow> int list \<Rightarrow> addr set \<Rightarrow> u64 list \<Rightarrow>
    mem \<times> 'h \<times> u32 \<Rightarrow> u64 \<Rightarrow> mem \<times> 'h \<times> u32 \<Rightarrow> bool"
  for os_calls descriptors area where
  call_write: "unat len < 2 ^ 63 \<Longrightarrow> range_in p (unat len) area \<Longrightarrow>
     os_write os_calls (fds_lookup fd descriptors) (mem_read m p (unat len)) h = (res, h') \<Longrightarrow>
     host_call os_calls descriptors area [64, fd, p, len, a, b, c, d] (m, h, x) (call_result os_calls res h') (m, h', x)"
| call_read: "unat len < 2 ^ 63 \<Longrightarrow> range_in p (unat len) area \<Longrightarrow>
     os_read os_calls (fds_lookup fd descriptors) (unat len) h = ((res, buf), h') \<Longrightarrow> res \<le> int (unat len) \<Longrightarrow>
     m' = (if 0 < res then mem_write m p (take (nat res) buf) else m) \<Longrightarrow>
     host_call os_calls descriptors area [63, fd, p, len, a, b, c, d] (m, h, x) (call_result os_calls res h') (m', h', x)"
| call_exit: "host_call os_calls descriptors area [93, code, a, b, c, d, f, g] (m, h, x) 0
     (m, h, ucast (push_bit 1 code OR 1))"

lemma alloc_bytes_small: "unat n < 2 ^ 63 \<Longrightarrow> alloc_bytes n = ret ()"
  by (simp add: alloc_bytes_def check_def)

lemma run_sysret_errno: "sysret_errno e r s = Some (Inr (call_result (os e) r (host s), s))"
  by (simp add: sysret_errno_def call_result_def run_simps)

context served_memory
begin

text \<open>The calls of \<open>syscall_t\<close> do that, on any state of the server with this memory and host.\<close>

definition does :: "('t, 'h) htif \<Rightarrow> (('t, 'h) htif, 'a) prog \<Rightarrow> 'a \<Rightarrow> mem \<times> 'h \<times> u32 \<Rightarrow> bool" where
  "does s p r = (\<lambda>(m, h, x). \<exists>t. p s = Some (Inr (r, s\<lparr>host := h, exitcode := x, target := t\<rparr>)) \<and>
     view t = m \<and> inv t \<and> same_shape c D (target s) t)"

lemma doesI: "p s = Some (Inr (r, s')) \<Longrightarrow> s' = s\<lparr>host := h, exitcode := x, target := t\<rparr> \<Longrightarrow> view t = m \<Longrightarrow> inv t \<Longrightarrow>
    same_shape c D (target s) t \<Longrightarrow> does s p r (m, h, x)"
  by (auto simp: does_def)

lemma does_sys_write:
  assumes "inv (target s)" and "unat len < 2 ^ 63" and "range_in p (unat len) (D (target s))"
    and "os_write (os e) (fds_lookup fd (fds s)) (mem_read (view (target s)) p (unat len)) (host s) = (res, h)"
  shows "does s (sys_write e fd p len) (call_result (os e) res h) (view (target s), h, exitcode s)"
proof -
  have "unat len < 2 ^ 64" using assms(2) by simp
  from run_mem_rd [OF assms(1,3) this] obtain t where
    rd: "mem_rd e p (unat len) s = Some (Inr (mem_read (view (target s)) p (unat len), s\<lparr>target := t\<rparr>))"
    and t: "ok (target s) t" by auto
  have "sys_write e fd p len s = Some (Inr (call_result (os e) res h, s\<lparr>target := t, host := h\<rparr>))"
    using rd assms(4)
    by (simp add: alloc_bytes_small [OF assms(2)] sys_write_def lookup_fd_def run_sysret_errno on_host_def run_simps)
  then show ?thesis by (rule doesI [where t = t]) (use t in simp_all)
qed

lemma does_sys_read:
  assumes "inv (target s)" and "unat len < 2 ^ 63" and "range_in p (unat len) (D (target s))"
    and "os_read (os e) (fds_lookup fd (fds s)) (unat len) (host s) = ((res, buf), h)" and "res \<le> int (unat len)"
  shows "does s (sys_read e fd p len) (call_result (os e) res h)
    (if 0 < res then mem_write (view (target s)) p (take (nat res) buf) else view (target s), h, exitcode s)"
proof -
  let ?bs = "take (nat res) buf" and ?s = "s\<lparr>host := h\<rparr>"
  have "nat res \<le> unat len" using assms(5) by (simp add: nat_le_iff)
  then have short: "length ?bs \<le> unat len" by simp
  have "inv (target ?s)" "range_in p (length ?bs) (D (target ?s))" "length ?bs < 2 ^ 64"
    using assms(1,2) short range_in_sub [OF assms(3), of 0 "length ?bs"] by simp_all
  from run_mem_wr [OF this] obtain t where
    wr: "mem_wr e p ?bs ?s = Some (Inr ((), ?s\<lparr>target := t\<rparr>))" and t: "wrote (target s) p ?bs t" by auto
  have "sys_read e fd p len s = Some (Inr (call_result (os e) res h, if 0 < res then ?s\<lparr>target := t\<rparr> else ?s))"
    using wr assms(4)
    by (simp add: alloc_bytes_small [OF assms(2)] sys_read_def lookup_fd_def run_sysret_errno on_host_def run_simps)
  then show ?thesis by (rule doesI [where t = "if 0 < res then t else target s"]) (use t assms(1) in simp_all)
qed

lemma does_sys_exit: "inv (target s) \<Longrightarrow> does s (sys_exit code) 0 (view (target s), host s, ucast (push_bit 1 code OR 1))"
  by (rule doesI [where t = "target s"]) (simp_all add: sys_exit_def run_simps)

lemma does_host_call:
  assumes call: "host_call (os e) (fds s) (D (target s)) ws (view (target s), host s, exitcode s) r mhx" and ok: "inv (target s)"
  shows "\<exists>n args f. ws = n # args \<and> unat n < 2048 \<and> syscall_table e (unat n) = Some f \<and> does s (f args) r mhx"
  using call
proof cases
  case (call_write len p fd res h' a b c d)
  have "syscall_table e (unat (64 :: u64)) = Some (\<lambda>a. sys_write e (a ! 0) (a ! 1) (a ! 2))" by (simp add: syscall_table_def)
  with call_write does_sys_write [OF ok call_write(4-6)] show ?thesis by (intro exI [of _ 64] exI) auto
next
  case (call_read len p fd res buf h' m' a b c d)
  have "syscall_table e (unat (63 :: u64)) = Some (\<lambda>a. sys_read e (a ! 0) (a ! 1) (a ! 2))" by (simp add: syscall_table_def)
  with call_read does_sys_read [OF ok call_read(4-7)] show ?thesis by (intro exI [of _ 63] exI) auto
next
  case (call_exit code a b c d f g)
  have "syscall_table e (unat (93 :: u64)) = Some (\<lambda>a. sys_exit (a ! 0))" by (simp add: syscall_table_def)
  with call_exit does_sys_exit [OF ok] show ?thesis by (intro exI [of _ 93] exI) auto
qed

end

section \<open>One turn of the loop\<close>

context served_memory
begin

lemma does_dispatch:
  assumes ok: "inv (target s)" "range_in mm 64 (D (target s))"
    and call: "host_call (os e) (fds s) (D (target s)) (words_of (mem_read (view (target s)) mm 64))
      (view (target s), host s, exitcode s) r (m, h, x)"
  shows "does s (dispatch e mm) () (mem_write m mm (le_bytes 8 r @ mem_read (view (target s)) (mm + 8) 56), h, x)"
proof -
  let ?bs = "mem_read (view (target s)) mm 64" and ?out = "le_bytes 8 r @ mem_read (view (target s)) (mm + 8) 56"
  from run_mem_rd [OF ok] obtain t where rd: "mem_rd e mm 64 s = Some (Inr (?bs, s\<lparr>target := t\<rparr>))" and t: "ok (target s) t" by auto
  have dom: "D t = D (target s)" using t by (simp add: same_shape_def)
  have "inv (target (s\<lparr>target := t\<rparr>))" using t by simp
  from does_host_call [OF _ this, of "words_of ?bs" r "(m, h, x)"] call t dom obtain n args f where
    ws: "words_of ?bs = n # args" and f: "unat n < 2048" "syscall_table e (unat n) = Some f"
    and d: "does (s\<lparr>target := t\<rparr>) (f args) r (m, h, x)" by auto
  from d obtain t' where run: "f args (s\<lparr>target := t\<rparr>) = Some (Inr (r, s\<lparr>host := h, exitcode := x, target := t'\<rparr>))"
    and t': "view t' = m" "inv t'" "same_shape c D t t'" by (auto simp: does_def)
  have "words_of (take 8 ?bs @ drop 8 ?bs) = le_word (take 8 ?bs) # words_of (drop 8 ?bs)" by (rule words_of_Cons) simp
  then have "args = words_of (drop 8 ?bs)" using ws unfolding append_take_drop_id by simp
  then have out: "concat (map (le_bytes 8) ((n # args)[0 := r])) = ?out" using concat_words_of [of "drop 8 ?bs" 7] by simp
  let ?s = "s\<lparr>host := h, exitcode := x, target := t'\<rparr>"
  have "inv (target ?s)" "range_in mm (length ?out) (D (target ?s))" "length ?out < 2 ^ 64"
    using ok(2) dom t' by (simp_all add: same_shape_def)
  from run_mem_wr [OF this] obtain t'' where
    wr: "mem_wr e mm ?out ?s = Some (Inr ((), s\<lparr>host := h, exitcode := x, target := t''\<rparr>))" and t'': "wrote t' mm ?out t''" by auto
  have "dispatch e mm s = Some (Inr ((), s\<lparr>host := h, exitcode := x, target := t''\<rparr>))"
    using rd ws f run wr out by (simp add: dispatch_def run_simps Let_def)
  then show ?thesis
    by (rule doesI [where t = t'']) (use t t' t'' in \<open>auto simp: same_shape_def\<close>)
qed

text \<open>The turn, from the even word in \<open>tohost\<close> to the answer in \<open>fromhost\<close>.\<close>

lemma does_call_turn:
  assumes ok: "inv (target s)" "range_in (tohost_addr s) 8 (D (target s))" "range_in (fromhost_addr s) 8 (D (target s))"
    and aligned: "tohost_addr s AND 7 = 0" "fromhost_addr s AND 7 = 0"
    and w: "w = le_word (mem_read (view (target s)) (tohost_addr s) 8)" "w \<noteq> 0" "w AND 1 = 0"
    and proxy: "command_handlers (devices s ! unat (cmd_device w)) ! unat (cmd_cmd w) = Handle_syscall"
    and m1: "m1 = mem_write (view (target s)) (tohost_addr s) (le_bytes 8 (0 :: u64))"
    and call: "range_in (cmd_payload w) 64 (D (target s))"
      "host_call (os e) (fds s) (D (target s)) (words_of (mem_read m1 (cmd_payload w) 64)) (m1, host s, exitcode s) r (m2, h, x)"
    and m3: "m3 = mem_write m2 (cmd_payload w) (le_bytes 8 r @ mem_read m1 (cmd_payload w + 8) 56)"
    and free: "le_word (mem_read m3 (fromhost_addr s) 8) = (0 :: u64)"
    and quiet: "quiet_devices s" "fromhost_queue s = []"
  shows "does s (run_body e) () (mem_write m3 (fromhost_addr s) (le_bytes 8 (cmd_response w 1)), h, x)"
proof -
  let ?a = "tohost_addr s" and ?b = "fromhost_addr s"
  have even: "\<not> cmd_payload w AND 1 \<noteq> 0" using w(3) by (simp add: payload_odd)
  from wp_runs [OF wp_read_word [OF ok(1,2) aligned(1)]] w(1) obtain t where
    rd: "on_target (read_uint64 (chunks e) ?a) s = Some (Inr (w, s\<lparr>target := t\<rparr>))" and t: "ok (target s) t" by auto
  have "D t = D (target s)" using t by (simp add: same_shape_def)
  with wp_runs [OF wp_write_word [of "s\<lparr>target := t\<rparr>" ?a 0]] ok aligned t obtain t1 where
    wr: "on_target (write_uint64 (chunks e) ?a 0) (s\<lparr>target := t\<rparr>) = Some (Inr ((), s\<lparr>target := t1\<rparr>))"
    and t1: "view t1 = m1" "inv t1" "same_shape c D (target s) t1" by (auto simp: m1 same_shape_def)
  have dom: "D t1 = D (target s)" using t1(3) by (simp add: same_shape_def)
  have "does (s\<lparr>target := t1\<rparr>) (dispatch e (cmd_payload w)) () (m3, h, x)"
    using does_dispatch [of "s\<lparr>target := t1\<rparr>" "cmd_payload w" r m2 h x] t1 dom call by (simp add: m3)
  then obtain t2 where
    run: "dispatch e (cmd_payload w) (s\<lparr>target := t1\<rparr>) = Some (Inr ((), s\<lparr>host := h, exitcode := x, target := t2\<rparr>))"
    and t2: "view t2 = m3" "inv t2" "same_shape c D (target s) t2"
    using same_shape_trans [OF t1(3)] by (auto simp: does_def)
  let ?s2 = "s\<lparr>host := h, exitcode := x, target := t2, fromhost_queue := [cmd_response w 1]\<rparr>"
  have "handle_syscall e w (s\<lparr>target := t1\<rparr>) = Some (Inr ((), ?s2))"
    unfolding handle_syscall_def if_not_P [OF even] using run quiet(2) by (simp add: run_simps respond_def)
  then have "list_handle_command e w (s\<lparr>target := t1\<rparr>) = Some (Inr ((), ?s2))"
    using proxy by (simp add: list_handle_command_def device_handle_command_def run_handler_def run_simps)
  then have serve: "serve_tohost e s = Some (Inr ((), ?s2))"
    using rd wr w(2) by (simp add: serve_tohost_def run_simps)
  have "D t2 = D (target s)" using t2(3) by (simp add: same_shape_def)
  with wp_runs [OF wp_read_word [of ?s2 ?b]] ok aligned t2 free obtain t3 where
    rd2: "on_target (read_uint64 (chunks e) ?b) ?s2 = Some (Inr (0, ?s2\<lparr>target := t3\<rparr>))" and t3: "ok t2 t3" by auto
  have "D t3 = D (target s)" using t2(3) t3 by (simp add: same_shape_def)
  with wp_runs [OF wp_write_word [of "?s2\<lparr>target := t3\<rparr>" ?b "cmd_response w 1"]] ok aligned t3 obtain t4 where
    wr2: "on_target (write_uint64 (chunks e) ?b (cmd_response w 1)) (?s2\<lparr>target := t3\<rparr>) = Some (Inr ((), ?s2\<lparr>target := t4\<rparr>))"
    and t4: "wrote t3 ?b (le_bytes 8 (cmd_response w 1)) t4" by auto
  have "serve_fromhost e ?s2 = Some (Inr ((), s\<lparr>host := h, exitcode := x, target := t4\<rparr>))"
    using rd2 wr2 quiet(2) by (simp add: serve_fromhost_def run_simps)
  then have "run_body e s = Some (Inr ((), s\<lparr>host := h, exitcode := x, target := t4\<rparr>))"
    using serve quiet(1) by (simp add: run_body_def run_simps quiet_tick)
  then show ?thesis
    by (rule doesI [where t = t4]) (use t2 t3 t4 in \<open>auto simp: same_shape_def\<close>)
qed

end

text \<open>A \<open>write\<close>, with the memory written out.\<close>

lemma mem_write_rest: "length bs + n \<le> 2 ^ 64 \<Longrightarrow> mem_write m a (bs @ mem_read m (a + of_nat (length bs)) n) = mem_write m a bs"
  using mem_write_patch [of 0 bs "length bs + n" m a] by (simp add: mem_read_append)

context served_memory
begin

lemma write_turn:
  assumes ok: "inv (target s)" "range_in (tohost_addr s) 8 (D (target s))" "range_in (fromhost_addr s) 8 (D (target s))"
    and aligned: "tohost_addr s AND 7 = 0" "fromhost_addr s AND 7 = 0"
    and w: "w = le_word (mem_read (view (target s)) (tohost_addr s) 8)" "w \<noteq> 0" "w AND 1 = 0"
    and proxy: "command_handlers (devices s ! unat (cmd_device w)) ! unat (cmd_cmd w) = Handle_syscall"
    and m1: "m1 = mem_write (view (target s)) (tohost_addr s) (le_bytes 8 (0 :: u64))"
    and block: "words_of (mem_read m1 (cmd_payload w) 64) = [64, fd, p, len, a3, a4, a5, a6]"
    and ranges: "range_in (cmd_payload w) 64 (D (target s))" "unat len < 2 ^ 63" "range_in p (unat len) (D (target s))"
    and call: "os_write (os e) (fds_lookup fd (fds s)) (mem_read m1 p (unat len)) (host s) = (res, h)"
    and m2: "m2 = mem_write m1 (cmd_payload w)
      (le_bytes 8 (if res = - 1 then word_of_int (- os_errno (os e) h) else word_of_int res :: u64))"
    and free: "le_word (mem_read m2 (fromhost_addr s) 8) = (0 :: u64)"
    and quiet: "quiet_devices s" "fromhost_queue s = []"
  shows "\<exists>s'. run_body e s = Some (Inr ((), s')) \<and> inv (target s') \<and> host s' = h \<and> exitcode s' = exitcode s \<and>
    view (target s') = mem_write m2 (fromhost_addr s) (le_bytes 8 (cmd_response w 1))"
proof -
  let ?r = "call_result (os e) res h"
  have "host_call (os e) (fds s) (D (target s)) (words_of (mem_read m1 (cmd_payload w) 64)) (m1, host s, exitcode s) ?r (m1, h, exitcode s)"
    unfolding block by (rule call_write [OF ranges(2,3) call])
  moreover have "m2 = mem_write m1 (cmd_payload w) (le_bytes 8 ?r @ mem_read m1 (cmd_payload w + 8) 56)"
    using mem_write_rest [of "le_bytes 8 ?r" 56 m1 "cmd_payload w"] by (simp add: m2 call_result_def)
  ultimately have "does s (run_body e) () (mem_write m2 (fromhost_addr s) (le_bytes 8 (cmd_response w 1)), h, exitcode s)"
    using does_call_turn [OF ok aligned w proxy m1 ranges(1)] free quiet by blast
  then show ?thesis by (auto simp: does_def)
qed

end

section \<open>Sessions\<close>

text \<open>
  What a target, which runs as \<open>step\<close> says while the server idles, and a host do to each other:
  the memory and the host before, and the memory, host and exit code at the end. Words in
  \<open>tohost\<close> are for the system call proxy, device 0 and command 0.
\<close>

inductive served_call :: "'h host_os \<Rightarrow> int list \<Rightarrow> addr set \<Rightarrow> addr \<Rightarrow> addr \<Rightarrow> mem \<times> 'h \<Rightarrow> mem \<times> 'h \<times> u32 \<Rightarrow> bool"
  for os_calls descriptors area tohost fromhost where
  served_call: "w = le_word (mem_read m tohost 8) \<Longrightarrow> w \<noteq> 0 \<Longrightarrow> w AND 1 = 0 \<Longrightarrow> drop_bit 48 w = 0 \<Longrightarrow>
     m1 = mem_write m tohost (le_bytes 8 (0 :: u64)) \<Longrightarrow> range_in w 64 area \<Longrightarrow>
     host_call os_calls descriptors area (words_of (mem_read m1 w 64)) (m1, h, 0) r (m2, h', x) \<Longrightarrow>
     m3 = mem_write m2 w (le_bytes 8 r @ mem_read m1 (w + 8) 56) \<Longrightarrow>
     le_word (mem_read m3 fromhost 8) = (0 :: u64) \<Longrightarrow>
     served_call os_calls descriptors area tohost fromhost (m, h) (mem_write m3 fromhost (le_bytes 8 (1 :: u64)), h', x)"

inductive session :: "'h host_os \<Rightarrow> int list \<Rightarrow> addr set \<Rightarrow> addr \<Rightarrow> addr \<Rightarrow> (mem \<Rightarrow> mem) \<Rightarrow> mem \<times> 'h \<Rightarrow> mem \<times> 'h \<times> u32 \<Rightarrow> bool"
  for os_calls descriptors area tohost fromhost step where
  poll: "le_word (mem_read m tohost 8) = (0 :: u64) \<Longrightarrow>
     session os_calls descriptors area tohost fromhost step (step m, h) r \<Longrightarrow>
     session os_calls descriptors area tohost fromhost step (m, h) r"
| call: "served_call os_calls descriptors area tohost fromhost (m, h) (m', h', 0) \<Longrightarrow>
     session os_calls descriptors area tohost fromhost step (m', h') r \<Longrightarrow>
     session os_calls descriptors area tohost fromhost step (m, h) r"
| exit_by_call: "served_call os_calls descriptors area tohost fromhost (m, h) (m', h', x) \<Longrightarrow> x \<noteq> 0 \<Longrightarrow>
     session os_calls descriptors area tohost fromhost step (m, h) (m', h', x)"
| exit_by_word: "w = le_word (mem_read m tohost 8) \<Longrightarrow> w AND 1 = (1 :: u64) \<Longrightarrow> drop_bit 48 w = 0 \<Longrightarrow> ucast w \<noteq> (0 :: u32) \<Longrightarrow>
     session os_calls descriptors area tohost fromhost step (m, h)
       (mem_write m tohost (le_bytes 8 (0 :: u64)), h, ucast w)"

lemma proxy_word:
  assumes "drop_bit 48 w = 0"
  shows "cmd_device w = 0" "cmd_cmd w = 0" "cmd_payload w = w" "cmd_response w 1 = 1"
proof -
  have "drop_bit 56 w = drop_bit 8 (drop_bit 48 w)" by (simp add: drop_bit_drop_bit)
  then show "cmd_device w = 0" using assms by (simp add: cmd_device_def)
  show "cmd_cmd w = 0" using assms by (simp add: cmd_cmd_def)
  have "\<not> bit w n" if "48 \<le> n" for n
  proof -
    have "bit (drop_bit 48 w) (n - 48) = bit w n" using that by (simp add: bit_simps)
    then show ?thesis using assms by simp
  qed
  then show "cmd_payload w = w" by (auto simp: cmd_payload_def bit_simps intro!: bit_word_eqI) (meson not_less)
  have "drop_bit 16 (push_bit 16 1) = (1 :: u64)" by code_simp
  then show "cmd_response w 1 = 1" using assms by (simp add: cmd_response_def)
qed

context polled_target
begin

lemma loop_turn:
  assumes "does s (run_body e) () (m, h, x)" and "exitcode s = 0" and "os_signal (os e) (host s) = (False, host s)"
  shows "\<exists>t. run_loop e s = run_loop e (s\<lparr>host := h, exitcode := x, target := t\<rparr>) \<and> view t = m \<and> inv t \<and>
    same_shape c D (target s) t"
  using assms by (auto simp: does_def run_loop.simps [of e s])

lemma loop_ends:
  assumes "exitcode s \<noteq> 0" and "os_signal (os e) (host s) = (False, host s)"
  shows "run_loop e s = Some (Inr ((), s))"
  using assms by (simp add: run_loop.simps [of e s])

text \<open>A server at the start of a turn, with nothing left to do.\<close>

definition waits :: "int list \<Rightarrow> addr set \<Rightarrow> addr \<Rightarrow> addr \<Rightarrow> mem \<Rightarrow> 'h \<Rightarrow> ('t, 'h) htif \<Rightarrow> bool" where
  "waits ds area th fh m h s \<longleftrightarrow> inv (target s) \<and> view (target s) = m \<and> D (target s) = area \<and> host s = h \<and>
     exitcode s = 0 \<and> fds s = ds \<and> tohost_addr s = th \<and> fromhost_addr s = fh \<and> range_in th 8 area \<and> range_in fh 8 area \<and>
     th AND 7 = 0 \<and> fh AND 7 = 0 \<and> quiet_devices s \<and> fromhost_queue s = [] \<and>
     command_handlers (devices s ! 0) ! 0 = Handle_syscall"

lemma does_poll:
  assumes "waits ds area th fh m h s" and "le_word (mem_read m th 8) = (0 :: u64)"
  shows "does s (run_body e) () (step m, h, 0)"
proof -
  from poll_turn [of s] assms obtain t where "run_body e s = Some (Inr ((), s\<lparr>target := t\<rparr>))"
    and "view t = step m" "inv t" "same_shape c D (target s) t" by (auto simp: waits_def)
  then show ?thesis by (intro doesI [where t = t]) (use assms(1) in \<open>simp_all add: waits_def\<close>)
qed

lemma does_served_call:
  assumes "waits ds area th fh m h s" and "served_call (os e) ds area th fh (m, h) (m', h', x)"
  shows "does s (run_body e) () (m', h', x)"
  using assms(2)
proof cases
  case (served_call w m1 r m2 m3)
  note word = proxy_word [OF served_call(5)]
  have "does s (run_body e) () (mem_write m3 (fromhost_addr s) (le_bytes 8 (cmd_response w 1)), h', x)"
    by (rule does_call_turn [where w = w and ?m1.0 = m1 and r = r and ?m2.0 = m2])
      (use served_call(2,6,9) [symmetric] served_call(3,4,7,8,10) assms(1) in \<open>simp_all add: waits_def word\<close>)
  then show ?thesis using assms(1) by (simp add: word(4) served_call(1) waits_def)
qed

lemma does_exit_word:
  assumes "waits ds area th fh m h s" and "w = (le_word (mem_read m th 8) :: u64)" and "w AND 1 = 1" and "drop_bit 48 w = 0"
  shows "does s (run_body e) () (mem_write m th (le_bytes 8 (0 :: u64)), h, ucast w)"
proof -
  note word = proxy_word [OF assms(4)]
  from exit_turn [of s w] assms word obtain t where
    "run_body e s = Some (Inr ((), s\<lparr>target := t, exitcode := ucast w\<rparr>))"
    and "view t = mem_write m th (le_bytes 8 (0 :: u64))" "inv t" "same_shape c D (target s) t" by (auto simp: waits_def)
  then show ?thesis by (intro doesI [where t = t]) (use assms(1) in \<open>simp_all add: waits_def\<close>)
qed

lemma waits_next: "waits ds area th fh m h s \<Longrightarrow> view t = m' \<Longrightarrow> inv t \<Longrightarrow> same_shape c D (target s) t \<Longrightarrow>
    waits ds area th fh m' h' (s\<lparr>host := h', exitcode := 0, target := t\<rparr>)"
  by (simp add: waits_def same_shape_def)

lemma loop_serves_session:
  assumes "session (os e) ds area th fh step (m, h) (m', h', x)" and "waits ds area th fh m h s"
    and sig: "\<forall>h. os_signal (os e) h = (False, h)"
  shows "does s (run_loop e) () (m', h', x)"
  using assms(1,2)
proof (induction "(m, h)" "(m', h', x)" arbitrary: m h s rule: session.induct)
  case (poll m h)
  have "exitcode s = 0" using poll.prems by (simp add: waits_def)
  from loop_turn [OF does_poll [OF poll.prems poll.hyps(1)] this] sig obtain t where
    turn: "run_loop e s = run_loop e (s\<lparr>host := h, exitcode := 0, target := t\<rparr>)"
    and t: "view t = step m" "inv t" "same_shape c D (target s) t" by blast
  from poll.hyps(3) [OF waits_next [OF poll.prems t]] show ?case
    using turn t by (auto simp: does_def intro: same_shape_trans)
next
  case (call m h m1 h1)
  have "exitcode s = 0" using call.prems by (simp add: waits_def)
  from loop_turn [OF does_served_call [OF call.prems call.hyps(1)] this] sig obtain t where
    turn: "run_loop e s = run_loop e (s\<lparr>host := h1, exitcode := 0, target := t\<rparr>)"
    and t: "view t = m1" "inv t" "same_shape c D (target s) t" by blast
  from call.hyps(3) [OF waits_next [OF call.prems t]] show ?case
    using turn t by (auto simp: does_def intro: same_shape_trans)
next
  case (exit_by_call m h)
  have "exitcode s = 0" using exit_by_call.prems by (simp add: waits_def)
  from loop_turn [OF does_served_call [OF exit_by_call.prems exit_by_call.hyps(1)] this] sig obtain t where
    turn: "run_loop e s = run_loop e (s\<lparr>host := h', exitcode := x, target := t\<rparr>)"
    and t: "view t = m'" "inv t" "same_shape c D (target s) t" by blast
  show ?case using turn t exit_by_call.hyps(2) sig
    by (intro doesI [where t = t]) (simp_all add: loop_ends)
next
  case (exit_by_word w m)
  then have "exitcode s = 0" by (simp add: waits_def)
  from loop_turn [OF does_exit_word [OF exit_by_word.prems exit_by_word.hyps(1-3)] this] sig obtain t where
    turn: "run_loop e s = run_loop e (s\<lparr>host := h', exitcode := ucast w, target := t\<rparr>)"
    and t: "view t = mem_write m th (le_bytes 8 (0 :: u64))" "inv t" "same_shape c D (target s) t" by blast
  show ?case using turn t exit_by_word.hyps(4-) sig
    by (intro doesI [where t = t]) (simp_all add: loop_ends)
qed

end

section \<open>The properties\<close>

text \<open>
  C10: over any memory that keeps the contract, one turn of the loop serves a \<open>write\<close> of the
  target: the host is given exactly the bytes at the address the target named, under the
  descriptor it named; in target memory \<open>tohost\<close> is cleared, the first word of the block holds
  the result of the host or its \<open>errno\<close>, \<open>fromhost\<close> holds the response, and no other
  byte changes.
\<close>

theorem write_call_served:
  assumes "served_memory (chunks e) view D I e" and "I (target s)"
    and "range_in (tohost_addr s) 8 (D (target s))" and "range_in (fromhost_addr s) 8 (D (target s))"
    and "tohost_addr s AND 7 = 0" and "fromhost_addr s AND 7 = 0"
    and "w = le_word (mem_read (view (target s)) (tohost_addr s) 8)" and "w \<noteq> 0" and "w AND 1 = 0"
    and "command_handlers (devices s ! unat (cmd_device w)) ! unat (cmd_cmd w) = Handle_syscall"
    and "m1 = mem_write (view (target s)) (tohost_addr s) (le_bytes 8 (0 :: u64))"
    and "words_of (mem_read m1 (cmd_payload w) 64) = [64, fd, p, len, a3, a4, a5, a6]"
    and "range_in (cmd_payload w) 64 (D (target s))" and "unat len < 2 ^ 63" and "range_in p (unat len) (D (target s))"
    and "os_write (os e) (fds_lookup fd (fds s)) (mem_read m1 p (unat len)) (host s) = (res, h)"
    and "m2 = mem_write m1 (cmd_payload w)
      (le_bytes 8 (if res = - 1 then word_of_int (- os_errno (os e) h) else word_of_int res :: u64))"
    and "le_word (mem_read m2 (fromhost_addr s) 8) = (0 :: u64)" and "quiet_devices s" and "fromhost_queue s = []"
  shows "\<exists>s'. run_body e s = Some (Inr ((), s')) \<and> I (target s') \<and> host s' = h \<and> exitcode s' = exitcode s \<and>
    view (target s') = mem_write m2 (fromhost_addr s) (le_bytes 8 (cmd_response w 1))"
  using served_memory.write_turn [OF assms] .

text \<open>Reading next to what is written: the distance is counted upwards, around the end.\<close>

lemma mem_read_apart:
  assumes "length bs \<le> unat (b - a)" and "unat (b - a) + n \<le> 2 ^ 64"
  shows "mem_read (mem_write m a bs) b n = mem_read m b n"
proof (rule nth_equalityI)
  fix i assume "i < length (mem_read (mem_write m a bs) b n)"
  then have i: "i < n" by simp
  have "unat (b + of_nat i - a) = unat ((b - a) + of_nat i)" by (simp add: algebra_simps)
  also have "\<dots> = unat (b - a) + i"
    using i assms(2) by (subst unat_plus_simple [THEN iffD1]) (simp_all add: no_olen_add_nat unat_of_nat take_bit_nat_eq_self)
  finally show "mem_read (mem_write m a bs) b n ! i = mem_read m b n ! i"
    using i assms by (simp add: mem_write_apply)
qed simp

text \<open>A target behind the debug transport that prints two characters.\<close>

definition write_block :: "byte list" where
  "write_block = concat (map (le_bytes 8) [64, 1, 0x80003000, 2, 0, 0, 0, 0 :: u64])"

definition printing :: mem where
  "printing = mem_write (mem_write (mem_write (\<lambda>_. 0) 0x80002000 write_block) 0x80003000 [0x48, 0x69])
     0x80001000 (le_bytes 8 (0x80002000 :: u64))"

lemma dom_above:
  assumes "0x1000 \<le> unat a" and "unat a + n \<le> 2 ^ 64"
  shows "range_in a n dm_dom"
  unfolding range_in_def dm_dom_def
proof (intro allI impI, simp only: mem_Collect_eq)
  fix i assume "i < n"
  then have "unat (a + of_nat i) = unat a + i"
    using assms(2) by (subst unat_plus_simple [THEN iffD1]) (simp_all add: no_olen_add_nat unat_of_nat take_bit_nat_eq_self)
  then show "0x1000 \<le> a + of_nat i" using assms(1) by (simp add: word_le_nat_alt)
qed

lemma length_write_block: "length write_block = 64"
  by (simp add: write_block_def)

lemma printing_reads:
  assumes "m = mem_write printing 0x80001000 (le_bytes 8 (0 :: u64))"
  shows "mem_read m 0x80002000 64 = write_block" and "mem_read m 0x80003000 2 = [0x48, 0x69]"
    and "mem_read m 0x80001040 8 = replicate 8 0"
proof -
  note apart = mem_read_apart [of "le_bytes 8 (x :: u64)" for x] mem_read_apart [of "[0x48, 0x69]"] mem_read_apart [of write_block]
  have block: "mem_read (mem_write m' 0x80002000 write_block) 0x80002000 64 = write_block" for m'
    using mem_read_write [of write_block m' "0x80002000"] by (simp add: length_write_block)
  show "mem_read m 0x80002000 64 = write_block"
    by (simp only: assms printing_def) (simp add: apart block del: mem_write.simps)
  have chars: "mem_read (mem_write m' 0x80003000 [0x48, 0x69]) 0x80003000 2 = [0x48, 0x69]" for m'
    by (simp add: mem_read_def upt_rec)
  show "mem_read m 0x80003000 2 = [0x48, 0x69]"
    by (simp only: assms printing_def) (simp add: apart chars del: mem_write.simps)
  have "mem_read (\<lambda>_. 0) a 8 = replicate 8 0" for a
    by (simp add: mem_read_def map_replicate_const)
  then show "mem_read m 0x80001040 8 = replicate 8 0"
    by (simp only: assms printing_def) (simp add: apart length_write_block del: mem_write.simps)
qed

theorem write_call_served_witness:
  "\<exists>s'. run_body dtm_toy_env ((dtm_server printing)\<lparr>num_devices := 1, fds := [10, 11, 11]\<rparr>) = Some (Inr ((), s')) \<and>
    toy_out (host s') = [0x48, 0x69] \<and> dm_mem (dtm_target (target s')) 0x80002000 = 2"
proof -
  define s where "s = (dtm_server printing)\<lparr>num_devices := 1, fds := [10, 11, 11]\<rparr>"
  define h where "h = \<lparr>toy_errno = 0, toy_in = [], toy_out = [0x48, 0x69]\<rparr>"
  define m1 where "m1 = mem_write printing 0x80001000 (le_bytes 8 (0 :: u64))"
  define m2 where "m2 = mem_write m1 0x80002000 (le_bytes 8 (2 :: u64))"
  note reads = printing_reads [OF m1_def]
  have s: "dm_mem (dtm_target (target s)) = printing" "tohost_addr s = 0x80001000" "fromhost_addr s = 0x80001040"
    "\<exists>p. dm_ready p (target s)"
    using dtm_holding_ready [of printing] by (auto simp: s_def dtm_server_def)
  have w: "mem_read printing 0x80001000 8 = le_bytes 8 (0x80002000 :: u64)"
    using mem_read_write [of "le_bytes 8 (0x80002000 :: u64)" _ "0x80001000"] by (simp add: printing_def)
  have word: "cmd_payload 0x80002000 = 0x80002000" "unat (cmd_device 0x80002000) = 0" "unat (cmd_cmd 0x80002000) = 0"
    "(0x80002000 :: u64) AND 1 = 0" "(0x80001000 :: u64) AND 7 = 0" "(0x80001040 :: u64) AND 7 = 0"
    by code_simp+
  have call: "os_write (os dtm_toy_env) (fds_lookup 1 (fds s)) [0x48, 0x69] (host s) = (2, h)"
    by (simp add: dtm_toy_env_def dtm_env_def toy_os_def s_def dtm_server_def h_def)
  have m2_zero: "mem_read m2 0x80001040 8 = replicate 8 0"
    using mem_read_apart [of "le_bytes 8 (2 :: u64)" "0x80001040" "0x80002000" 8 m1] reads(3) by (simp add: m2_def)
  have "\<exists>s'. run_body dtm_toy_env s = Some (Inr ((), s')) \<and> (\<exists>p. dm_ready p (target s')) \<and> host s' = h \<and>
      exitcode s' = exitcode s \<and> dm_mem (dtm_target (target s')) = mem_write m2 (fromhost_addr s)
        (le_bytes 8 (cmd_response 0x80002000 1))"
  proof (rule write_call_served [OF dtm_toy_served])
    show "words_of (mem_read m1 (cmd_payload 0x80002000) 64) = [64, 1, 0x80003000, 2, 0, 0, 0, 0]"
      unfolding word(1) reads(1) write_block_def by (rule words_of_concat)
    show "os_write (os dtm_toy_env) (fds_lookup 1 (fds s)) (mem_read m1 0x80003000 (unat (2 :: u64))) (host s) = (2, h)"
      using reads(2) call by simp
    show "m2 = mem_write m1 (cmd_payload 0x80002000)
        (le_bytes 8 (if (2 :: int) = - 1 then word_of_int (- os_errno (os dtm_toy_env) h) else word_of_int 2 :: u64))"
      by (simp add: m2_def word)
    show "le_word (mem_read m2 (fromhost_addr s) 8) = (0 :: u64)"
      unfolding s(3) m2_zero by code_simp
    show "command_handlers (devices s ! unat (cmd_device 0x80002000)) ! unat (cmd_cmd 0x80002000) = Handle_syscall"
      "quiet_devices s" "fromhost_queue s = []"
      by (simp_all add: s_def dtm_server_def word quiet_devices_def quiet_device_def blank_device_def)
  qed (use s(4) in \<open>simp_all add: s word w m1_def dom_above le_word_le_bytes\<close>)
  then obtain s' where run: "run_body dtm_toy_env s = Some (Inr ((), s'))" and "host s' = h"
    and m: "dm_mem (dtm_target (target s')) = mem_write m2 0x80001040 (le_bytes 8 (cmd_response 0x80002000 1))"
    by (auto simp: s)
  moreover have "dm_mem (dtm_target (target s')) 0x80002000 = 2"
    unfolding m m2_def by (simp add: mem_write_apply le_bytes_0)
  ultimately show ?thesis unfolding s_def h_def by auto
qed

text \<open>
  C2: over any memory that keeps the contract, with a target that runs while the server idles: once
  \<open>start\<close> has loaded and reset it, \<open>run\<close> carries out the session of the target with the
  host, any number of polls and of \<open>read\<close> and \<open>write\<close> calls and an end by the system call
  or by the word: it returns the exit code of the session, and target memory and the host are as
  the session leaves them.
\<close>

theorem run_serves_session:
  assumes "polled_target (chunks e) view D I e step" and "start e s0 = Some (Inr ((), s))" and "I (target s)"
    and "range_in (tohost_addr s) 8 (D (target s))" and "range_in (fromhost_addr s) 8 (D (target s))"
    and "tohost_addr s \<noteq> 0" and "tohost_addr s AND 7 = 0" and "fromhost_addr s AND 7 = 0"
    and "command_handlers (devices s ! 0) ! 0 = Handle_syscall"
    and "quiet_devices s" and "fromhost_queue s = []" and "exitcode s = 0" and "sig_file s = ''''"
    and "\<forall>h. os_signal (os e) h = (False, h)"
    and "session (os e) (fds s) (D (target s)) (tohost_addr s) (fromhost_addr s) step (view (target s), host s) (m, h, x)"
  shows "\<exists>s'. htif_run e s0 = Some (Inr (sint x div 2, s')) \<and> stopped s' \<and> I (target s') \<and>
    view (target s') = m \<and> host s' = h"
proof -
  have "polled_target.waits view D I (fds s) (D (target s)) (tohost_addr s) (fromhost_addr s) (view (target s)) (host s) s"
    unfolding polled_target.waits_def [OF assms(1)] using assms by simp
  from polled_target.loop_serves_session [OF assms(1,15) this assms(14)] obtain t where
    loop: "run_loop e s = Some (Inr ((), s\<lparr>host := h, exitcode := x, target := t\<rparr>))" and t: "view t = m" "I t"
    unfolding served_memory.does_def [OF polled_target.axioms(1) [OF assms(1)]] by auto
  show ?thesis
    using loop t assms(2,6,13)
    by (intro exI [of _ "s\<lparr>host := h, exitcode := x, target := t, stopped := True\<rparr>"])
      (simp add: htif_run_def run_simps stop_def exit_code_def)
qed

text \<open>
  A target that reads two characters, writes them, and ends: the word at \<open>0x100\<close> counts what
  it has asked for.
\<close>

definition echo_block :: "u64 \<Rightarrow> u64 \<Rightarrow> byte list" where
  "echo_block n fd = concat (map (le_bytes 8) [n, fd, 0x3000, 2, 0, 0, 0, 0])"

definition echo_asks :: "u64 \<Rightarrow> u64 \<Rightarrow> u64 \<Rightarrow> mem \<Rightarrow> mem" where
  "echo_asks k n fd m = mem_write (mem_write (mem_write m 0x100 (le_bytes 8 k)) 0x2000 (echo_block n fd))
     0x1000 (le_bytes 8 (0x2000 :: u64))"

definition echo_step :: "mem \<Rightarrow> mem" where
  "echo_step m =
     (let k = le_word (mem_read m 0x100 8) :: u64; m1 = mem_write m 0x1040 (le_bytes 8 (0 :: u64)) in
      if k = 0 then echo_asks 1 63 0 m1
      else if k = 1 then echo_asks 2 64 1 m1
      else mem_write m1 0x1000 (le_bytes 8 (7 :: u64)))"

lemma mem_read_same: "length bs = n \<Longrightarrow> n \<le> 2 ^ 64 \<Longrightarrow> mem_read (mem_write m a bs) a n = bs"
  using mem_read_write [of bs m a] by simp

lemma length_echo_block: "length (echo_block n fd) = 64"
  by (simp add: echo_block_def)

lemma words_echo_block: "words_of (echo_block n fd) = [n, fd, 0x3000, 2, 0, 0, 0, 0]"
  unfolding echo_block_def by (rule words_of_concat)

lemmas echo_reads = mem_read_apart mem_read_same length_echo_block le_word_le_bytes

text \<open>The block asked for, once \<open>tohost\<close> is cleared, and the memory when the call is answered.\<close>

definition echo_answered :: "byte list \<Rightarrow> mem \<Rightarrow> mem" where
  "echo_answered bs m =
     (let m1 = mem_write m 0x1000 (le_bytes 8 (0 :: u64)) in
      mem_write (mem_write (if bs = [] then m1 else mem_write m1 0x3000 bs) 0x2000
        (le_bytes 8 (2 :: u64) @ mem_read m1 0x2008 56)) 0x1040 (le_bytes 8 (1 :: u64)))"

lemma echo_served:
  assumes m: "m = echo_asks k n fd (mem_write m0 0x1040 (le_bytes 8 (0 :: u64)))"
    and m1: "m1 = mem_write m 0x1000 (le_bytes 8 (0 :: u64))"
    and m2: "m2 = (if bs = [] then m1 else mem_write m1 0x3000 bs)" and bs: "length bs \<le> 2"
    and call: "host_call toy_os ds UNIV [n, fd, 0x3000, 2, 0, 0, 0, 0] (m1, h, 0) 2 (m2, h', 0)"
  shows "served_call toy_os ds UNIV 0x1000 0x1040 (m, h) (echo_answered bs m, h', 0)"
proof -
  define m3 where "m3 = mem_write m2 0x2000 (le_bytes 8 (2 :: u64) @ mem_read m1 0x2008 56)"
  have block: "words_of (mem_read m1 0x2000 64) = [n, fd, 0x3000, 2, 0, 0, 0, 0]"
    by (simp add: m1 m echo_asks_def echo_reads words_echo_block del: mem_write.simps)
  have word: "le_word (mem_read m 0x1000 8) = (0x2000 :: u64)"
    by (simp add: m echo_asks_def echo_reads del: mem_write.simps)
  have free: "le_word (mem_read m3 0x1040 8) = (0 :: u64)"
    using bs by (simp add: m3_def m2 m1 m echo_asks_def echo_reads del: mem_write.simps)
  have bits: "(0x2000 :: u64) AND 1 = 0" "drop_bit 48 (0x2000 :: u64) = 0" by code_simp+
  have "served_call toy_os ds UNIV 0x1000 0x1040 (m, h) (mem_write m3 0x1040 (le_bytes 8 (1 :: u64)), h', 0)"
    by (rule served_call [of "0x2000" _ _ m1 _ _ _ _ 2 m2]) (simp_all only: block word free call, simp_all add: bits m1 m3_def range_in_def del: mem_write.simps)
  then show ?thesis unfolding echo_answered_def Let_def m3_def m2 m1 .
qed

lemma echo_memory:
  "mem_read (echo_asks k n fd m) 0x100 8 = le_bytes 8 k" "mem_read (echo_asks k n fd m) 0x3000 2 = mem_read m 0x3000 2"
  "length bs \<le> 2 \<Longrightarrow> mem_read (echo_answered bs m) 0x1000 8 = le_bytes 8 (0 :: u64)"
  "length bs \<le> 2 \<Longrightarrow> mem_read (echo_answered bs m) 0x100 8 = mem_read m 0x100 8"
  "length bs = 2 \<Longrightarrow> mem_read (echo_answered bs m) 0x3000 2 = bs"
  "mem_read (mem_write m 0x1040 (le_bytes 8 (0 :: u64))) 0x3000 2 = mem_read m 0x3000 2"
  "mem_read (mem_write m 0x1000 (le_bytes 8 (0 :: u64))) 0x3000 2 = mem_read m 0x3000 2"
  by (auto simp: echo_asks_def echo_answered_def Let_def echo_reads simp del: mem_write.simps)

lemma echo_steps:
  "mem_read m 0x100 8 = le_bytes 8 (0 :: u64) \<Longrightarrow> echo_step m = echo_asks 1 63 0 (mem_write m 0x1040 (le_bytes 8 (0 :: u64)))"
  "mem_read m 0x100 8 = le_bytes 8 (1 :: u64) \<Longrightarrow> echo_step m = echo_asks 2 64 1 (mem_write m 0x1040 (le_bytes 8 (0 :: u64)))"
  "mem_read m 0x100 8 = le_bytes 8 (2 :: u64) \<Longrightarrow>
    echo_step m = mem_write (mem_write m 0x1040 (le_bytes 8 (0 :: u64))) 0x1000 (le_bytes 8 (7 :: u64))"
  by (simp_all add: echo_step_def Let_def le_word_le_bytes del: mem_write.simps)

abbreviation echo_host :: "byte list \<Rightarrow> byte list \<Rightarrow> toy_host" where
  "echo_host bs cs \<equiv> \<lparr>toy_errno = 0, toy_in = bs, toy_out = cs\<rparr>"

abbreviation echo_session :: "mem \<times> toy_host \<Rightarrow> mem \<times> toy_host \<times> u32 \<Rightarrow> bool" where
  "echo_session \<equiv> session toy_os [10, 11, 11] UNIV 0x1000 0x1040 echo_step"

lemma echo_read:
  assumes "m = echo_asks k 63 0 (mem_write m0 0x1040 (le_bytes 8 (0 :: u64)))" and "length bs = 2"
  shows "served_call toy_os [10, 11, 11] UNIV 0x1000 0x1040 (m, echo_host bs []) (echo_answered bs m, echo_host [] [], 0)"
proof (rule echo_served [OF assms(1) refl refl])
  let ?m1 = "mem_write m 0x1000 (le_bytes 8 (0 :: u64))"
  have "host_call toy_os [10, 11, 11] UNIV [63, 0, 0x3000, 2, 0, 0, 0, 0] (?m1, echo_host bs [], 0)
      (call_result toy_os 2 (echo_host [] [])) (mem_write ?m1 0x3000 bs, echo_host [] [], 0)"
    by (rule call_read [of _ _ _ _ _ _ _ 2 bs]) (use assms(2) in \<open>simp_all add: range_in_def toy_os_def del: mem_write.simps\<close>)
  moreover have "bs \<noteq> []" using assms(2) by auto
  ultimately show "host_call toy_os [10, 11, 11] UNIV [63, 0, 0x3000, 2, 0, 0, 0, 0] (?m1, echo_host bs [], 0) 2
      (if bs = [] then ?m1 else mem_write ?m1 0x3000 bs, echo_host [] [], 0)" by (simp add: call_result_def)
qed (use assms(2) in simp)

lemma echo_write:
  assumes "m = echo_asks k 64 1 (mem_write m0 0x1040 (le_bytes 8 (0 :: u64)))" and "mem_read m0 0x3000 2 = bs"
  shows "served_call toy_os [10, 11, 11] UNIV 0x1000 0x1040 (m, echo_host [] []) (echo_answered [] m, echo_host [] bs, 0)"
proof (rule echo_served [OF assms(1) refl refl])
  let ?m1 = "mem_write m 0x1000 (le_bytes 8 (0 :: u64))"
  have chars: "mem_read ?m1 0x3000 2 = bs" using assms by (simp add: echo_memory del: mem_write.simps)
  then have "length bs = 2" by auto
  with chars have "host_call toy_os [10, 11, 11] UNIV [64, 1, 0x3000, 2, 0, 0, 0, 0] (?m1, echo_host [] [], 0)
      (call_result toy_os 2 (echo_host [] bs)) (?m1, echo_host [] bs, 0)"
    by (intro call_write) (simp_all add: range_in_def toy_os_def del: mem_write.simps)
  then show "host_call toy_os [10, 11, 11] UNIV [64, 1, 0x3000, 2, 0, 0, 0, 0] (?m1, echo_host [] [], 0) 2
      (if [] = ([] :: byte list) then ?m1 else mem_write ?m1 0x3000 [], echo_host [] bs, 0)" by (simp add: call_result_def)
qed simp

text \<open>The whole session, from a memory of zeros: two calls, each found at the second poll.\<close>

lemma echo_session:
  assumes "length bs = 2"
  shows "\<exists>m. echo_session (\<lambda>_. 0, echo_host bs []) (m, echo_host [] bs, 7)"
proof -
  let ?free = "\<lambda>m. mem_write m 0x1040 (le_bytes 8 (0 :: u64))"
  define mA where "mA = echo_asks 1 63 0 (?free (\<lambda>_. 0))"
  define mA' where "mA' = echo_answered bs mA"
  define mB where "mB = echo_asks 2 64 1 (?free mA')"
  define mB' where "mB' = echo_answered [] mB"
  define mC where "mC = mem_write (?free mB') 0x1000 (le_bytes 8 (7 :: u64))"
  note mem = echo_memory echo_reads and defs = mA_def mA'_def mB_def mB'_def mC_def
  have zero: "mem_read (\<lambda>_. 0) a 8 = le_bytes 8 (0 :: u64)" for a by (simp add: mem_read_def map_replicate_const le_bytes_0)
  have count: "mem_read mA' 0x100 8 = le_bytes 8 (1 :: u64)" "mem_read mB' 0x100 8 = le_bytes 8 (2 :: u64)"
    and quiet: "mem_read mA' 0x1000 8 = le_bytes 8 (0 :: u64)" "mem_read mB' 0x1000 8 = le_bytes 8 (0 :: u64)"
    and chars: "mem_read mA' 0x3000 2 = bs" and word: "le_word (mem_read mC 0x1000 8) = (7 :: u64)"
    using assms by (simp_all add: defs mem del: mem_write.simps)
  have step: "echo_step (\<lambda>_. 0) = mA" "echo_step mA' = mB" "echo_step mB' = mC"
    using echo_steps(1) [OF zero] echo_steps(2) [OF count(1)] echo_steps(3) [OF count(2)] by (simp_all only: mA_def mB_def mC_def)
  have bits: "(7 :: u64) AND 1 = 1" "drop_bit 48 (7 :: u64) = 0" "ucast (7 :: u64) = (7 :: u32)" by code_simp+
  have "echo_session (mC, echo_host [] bs) (mem_write mC 0x1000 (le_bytes 8 (0 :: u64)), echo_host [] bs, ucast (7 :: u64))"
    by (rule exit_by_word) (simp_all only: word bits, simp)
  then have "echo_session (mB', echo_host [] bs) (mem_write mC 0x1000 (le_bytes 8 (0 :: u64)), echo_host [] bs, 7)"
    by (intro poll [of mB']) (simp_all add: step bits quiet le_word_le_bytes del: mem_write.simps)
  from call [OF echo_write [OF mB_def chars] this [unfolded mB'_def]]
  have "echo_session (mA', echo_host [] []) (mem_write mC 0x1000 (le_bytes 8 (0 :: u64)), echo_host [] bs, 7)"
    by (intro poll [of mA']) (simp_all add: step quiet le_word_le_bytes del: mem_write.simps)
  from call [OF echo_read [OF mA_def assms] this [unfolded mA'_def]]
  have "echo_session (\<lambda>_. 0, echo_host bs []) (mem_write mC 0x1000 (le_bytes 8 (0 :: u64)), echo_host [] bs, 7)"
    by (intro poll [of "\<lambda>_. 0"]) (simp_all add: step zero le_word_le_bytes del: mem_write.simps)
  then show ?thesis by blast
qed

theorem run_serves_session_witness:
  "\<exists>s'. htif_run (toy_env\<lparr>idle := modify echo_step\<rparr>)
      (toy_htif\<lparr>targs := [], tohost_addr := 0x1000, fromhost_addr := 0x1040, num_devices := 1, fds := [10, 11, 11],
        devices := [(blank_device ''syscall_proxy'' Syscall_proxy)\<lparr>command_handlers := [Handle_syscall]\<rparr>]\<rparr>) =
      Some (Inr (3, s')) \<and> toy_out (host s') = [0x41, 0x42]"
proof -
  define e where "e = toy_env\<lparr>idle := modify echo_step\<rparr>"
  define s where "s = toy_htif\<lparr>targs := [], tohost_addr := 0x1000, fromhost_addr := 0x1040, num_devices := 1, fds := [10, 11, 11],
    devices := [(blank_device ''syscall_proxy'' Syscall_proxy)\<lparr>command_handlers := [Handle_syscall]\<rparr>]\<rparr>"
  have bits: "sint (7 :: u32) div 2 = 3" "(0x1000 :: u64) AND 7 = 0" "(0x1040 :: u64) AND 7 = 0" by code_simp+
  obtain m where session: "echo_session (\<lambda>_. 0, echo_host [0x41, 0x42] []) (m, echo_host [] [0x41, 0x42], 7)"
    using echo_session [of "[0x41, 0x42]"] by auto
  have polled: "polled_target (chunks e) id (\<lambda>_. UNIV) (\<lambda>_. True) e echo_step"
    using plain_polled.polled_target_axioms [of echo_step toy_env] by (simp add: e_def toy_env_def)
  have start: "start e s = Some (Inr ((), s))"
    by (simp add: start_def e_def s_def toy_env_def toy_htif_def on_target_def run_simps)
  have "\<exists>s'. htif_run e s = Some (Inr (sint (7 :: u32) div 2, s')) \<and> stopped s' \<and> True \<and> id (target s') = m \<and>
      host s' = echo_host [] [0x41, 0x42]"
    by (rule run_serves_session [OF polled start])
      (use session in \<open>simp_all add: s_def e_def toy_htif_def toy_env_def bits range_in_def quiet_devices_def
        quiet_device_def blank_device_def\<close>, simp add: toy_os_def)
  then show ?thesis unfolding bits e_def [symmetric] s_def [symmetric] by auto
qed

end
