(* ===== verification/Served_Calls.thy ===== *)
theory Served_Calls
  imports Htif_Calls
begin

text \<open>
  The system call proxy and the frame buffer over any memory that keeps the contract
  \<open>served_memory\<close>, the debug transport included: what \<open>dispatch\<close> makes of any call of the
  table, the loops of \<open>sys_chdir\<close> over a path in target memory (\<open>tb/dpi/fesvr/syscall.cc\<close>),
  and the ticks of \<open>rfb_t\<close> that copy a frame (\<open>rfb.cc\<close>). The accesses change the state of the
  transport; the lemmas carry what they keep, \<open>ok\<close>, from one to the next.
\<close>

section \<open>Any system call\<close>

context served_memory
begin

lemma run_dispatch:
  assumes ok: "inv (target s)" "range_in mm 64 (D (target s))"
    and ws: "words_of (mem_read (view (target s)) mm 64) = n # args"
  shows "\<exists>t. view t = view (target s) \<and> inv t \<and> D t = D (target s) \<and>
    (if unat n < 2048 \<and> syscall_table e (unat n) \<noteq> None
     then (case the (syscall_table e (unat n)) args (s\<lparr>target := t\<rparr>) of
         None \<Rightarrow> dispatch e mm s = None
       | Some (Inl x) \<Rightarrow> dispatch e mm s = Some (Inl x)
       | Some (Inr (r, s1)) \<Rightarrow> inv (target s1) \<longrightarrow> range_in mm 64 (D (target s1)) \<longrightarrow>
           (\<exists>t1. dispatch e mm s = Some (Inr ((), s1\<lparr>target := t1\<rparr>)) \<and> inv t1 \<and>
              view t1 = mem_write (view (target s1)) mm (le_bytes 8 r @ mem_read (view (target s)) (mm + 8) 56)))
     else dispatch e mm s = Some (Inl (Runtime_Error ''bad syscall'')))"
proof -
  let ?bs = "mem_read (view (target s)) mm 64" and ?rest = "mem_read (view (target s)) (mm + 8) 56"
  from run_mem_rd [OF ok] obtain t where rd: "mem_rd e mm 64 s = Some (Inr (?bs, s\<lparr>target := t\<rparr>))" and t: "ok (target s) t" by auto
  have "words_of (take 8 ?bs @ drop 8 ?bs) = le_word (take 8 ?bs) # words_of (drop 8 ?bs)" by (rule words_of_Cons) simp
  then have "args = words_of (drop 8 ?bs)" using ws unfolding append_take_drop_id by simp
  then have out: "concat (map (le_bytes 8) ((n # args)[0 := r])) = le_bytes 8 r @ ?rest" for r
    using concat_words_of [of "drop 8 ?bs" 7] by simp
  have "view t = view (target s) \<and> inv t \<and> D t = D (target s)" using t by (simp add: same_shape_def)
  moreover have "dispatch e mm s = Some (Inl (Runtime_Error ''bad syscall''))"
    if "\<not> (unat n < 2048 \<and> syscall_table e (unat n) \<noteq> None)"
    using that rd ws by (auto simp: dispatch_def run_simps Let_def)
  moreover have "case f args (s\<lparr>target := t\<rparr>) of
         None \<Rightarrow> dispatch e mm s = None
       | Some (Inl x) \<Rightarrow> dispatch e mm s = Some (Inl x)
       | Some (Inr (r, s1)) \<Rightarrow> inv (target s1) \<longrightarrow> range_in mm 64 (D (target s1)) \<longrightarrow>
           (\<exists>t1. dispatch e mm s = Some (Inr ((), s1\<lparr>target := t1\<rparr>)) \<and> inv t1 \<and>
              view t1 = mem_write (view (target s1)) mm (le_bytes 8 r @ ?rest))"
    if n: "unat n < 2048" "syscall_table e (unat n) = Some f" for f
  proof (cases "f args (s\<lparr>target := t\<rparr>)")
    case None
    then show ?thesis using n rd ws by (simp add: dispatch_def run_simps Let_def)
  next
    case (Some res)
    show ?thesis
    proof (cases res)
      case (Inl x)
      then show ?thesis using Some n rd ws by (simp add: dispatch_def run_simps Let_def)
    next
      case (Inr rs)
      obtain r s1 where rs: "rs = (r, s1)" by (cases rs)
      have "\<exists>t1. dispatch e mm s = Some (Inr ((), s1\<lparr>target := t1\<rparr>)) \<and> inv t1 \<and>
          view t1 = mem_write (view (target s1)) mm (le_bytes 8 r @ ?rest)"
        if s1: "inv (target s1)" "range_in mm 64 (D (target s1))"
      proof -
        have "range_in mm (length (le_bytes 8 r @ ?rest)) (D (target s1))" "length (le_bytes 8 r @ ?rest) < 2 ^ 64"
          using s1 by simp_all
        from run_mem_wr [OF s1(1) this] obtain t1 where
          wr: "mem_wr e mm (le_bytes 8 r @ ?rest) s1 = Some (Inr ((), s1\<lparr>target := t1\<rparr>))"
          and t1: "wrote (target s1) mm (le_bytes 8 r @ ?rest) t1" by auto
        have "dispatch e mm s = Some (Inr ((), s1\<lparr>target := t1\<rparr>))"
          using Some Inr rs n rd ws out [of r] wr by (simp add: dispatch_def run_simps Let_def)
        then show ?thesis using t1 by auto
      qed
      then show ?thesis using Some Inr rs by simp
    qed
  qed
  ultimately show ?thesis by (intro exI [of _ t]) auto
qed

end

text \<open>
  C12: over any memory that keeps the contract, \<open>dispatch\<close> reads the eight words of a call and
  looks the first up. A number the table does not have ends the run. The function of the table is run
  on the seven arguments, in a state that differs from the one before at most in how the transport
  stands: when it does not return or fails, neither does or so does \<open>dispatch\<close>; when it returns
  \<open>r\<close>, what it did stays and the eight words are written back, the first as \<open>r\<close> and the
  arguments as the target wrote them, whatever the call did to the memory in between.
\<close>

theorem dispatch_result:
  assumes "served_memory (chunks e) view D I e" and "I (target s)" and "range_in mm 64 (D (target s))"
    and "words_of (mem_read (view (target s)) mm 64) = n # args"
  shows "\<exists>t. view t = view (target s) \<and> I t \<and> D t = D (target s) \<and>
    (if unat n < 2048 \<and> syscall_table e (unat n) \<noteq> None
     then (case the (syscall_table e (unat n)) args (s\<lparr>target := t\<rparr>) of
         None \<Rightarrow> dispatch e mm s = None
       | Some (Inl x) \<Rightarrow> dispatch e mm s = Some (Inl x)
       | Some (Inr (r, s1)) \<Rightarrow> I (target s1) \<longrightarrow> range_in mm 64 (D (target s1)) \<longrightarrow>
           (\<exists>t1. dispatch e mm s = Some (Inr ((), s1\<lparr>target := t1\<rparr>)) \<and> I t1 \<and>
              view t1 = mem_write (view (target s1)) mm (le_bytes 8 r @ mem_read (view (target s)) (mm + 8) 56)))
     else dispatch e mm s = Some (Inl (Runtime_Error ''bad syscall'')))"
  using served_memory.run_dispatch [OF assms] .

text \<open>A target behind the debug transport that exits with code 7.\<close>

definition exit_block :: "byte list" where
  "exit_block = concat (map (le_bytes 8) [93, 7, 0, 0, 0, 0, 0, 0 :: u64])"

theorem dispatch_result_witness:
  "\<exists>s'. dispatch dtm_toy_env 0x80002000 (dtm_server (mem_write (\<lambda>_. 0x55) 0x80002000 exit_block)) = Some (Inr ((), s')) \<and>
    exitcode s' = 15 \<and> le_word (mem_read (dm_mem (dtm_target (target s'))) 0x80002000 8) = (0 :: u64)"
proof -
  define m where "m = mem_write (\<lambda>_. 0x55) 0x80002000 exit_block"
  let ?s = "dtm_server m" and ?e = dtm_toy_env
  have len: "length exit_block = 64" by (simp add: exit_block_def)
  have view: "dm_mem (dtm_target (target ?s)) = m" "\<exists>p. dm_ready p (target ?s)"
    using dtm_holding_ready [of m] by (auto simp: dtm_server_def)
  have block: "mem_read m 0x80002000 64 = exit_block" by (simp add: m_def mem_read_same len del: mem_write.simps)
  have "words_of (mem_read m 0x80002000 64) = [93, 7, 0, 0, 0, 0, 0, 0]"
    unfolding block exit_block_def by (rule words_of_concat)
  then have ws: "words_of (mem_read (dm_mem (dtm_target (target ?s))) 0x80002000 64) = 93 # [7, 0, 0, 0, 0, 0, 0]"
    by (simp add: view)
  have range: "range_in 0x80002000 64 dm_dom" by (rule dom_above) simp_all
  have table: "syscall_table ?e (unat (93 :: u64)) = Some (\<lambda>a. sys_exit (a ! 0))" by (simp add: syscall_table_def)
  then have known: "unat (93 :: u64) < 2048 \<and> syscall_table ?e (unat (93 :: u64)) \<noteq> None" by simp
  have bits: "(ucast (push_bit 1 7 OR 1 :: u64) :: u32) = 15" by code_simp
  have exits: "the (syscall_table ?e (unat (93 :: u64))) [7, 0, 0, 0, 0, 0, 0] (?s\<lparr>target := t\<rparr>) =
      Some (Inr (0, ?s\<lparr>target := t, exitcode := 15\<rparr>))" for t
    unfolding table option.sel by (simp add: sys_exit_def run_simps bits)
  from dispatch_result [OF dtm_toy_served view(2) range ws] obtain t where t: "\<exists>p. dm_ready p t" and
    "\<exists>t1. dispatch ?e 0x80002000 ?s = Some (Inr ((), ?s\<lparr>target := t, exitcode := 15\<rparr>\<lparr>target := t1\<rparr>)) \<and>
      dm_mem (dtm_target t1) = mem_write (dm_mem (dtm_target t)) 0x80002000 (le_bytes 8 (0 :: u64) @ mem_read m (0x80002000 + 8) 56)"
    and "dm_mem (dtm_target t) = m"
    unfolding if_P [OF known] exits view(1) using range by auto
  then obtain t1 where run: "dispatch ?e 0x80002000 ?s = Some (Inr ((), ?s\<lparr>target := t, exitcode := 15\<rparr>\<lparr>target := t1\<rparr>))"
    and m1: "dm_mem (dtm_target t1) = mem_write m 0x80002000 (le_bytes 8 (0 :: u64) @ mem_read m 0x80002008 56)" by auto
  have "mem_write m 0x80002000 (le_bytes 8 (0 :: u64) @ mem_read m 0x80002008 56) = mem_write m 0x80002000 (le_bytes 8 (0 :: u64))"
    using mem_write_rest [of "le_bytes 8 (0 :: u64)" 56 m "0x80002000"] by simp
  then have "le_word (mem_read (dm_mem (dtm_target t1)) 0x80002000 8) = (0 :: u64)"
    by (simp add: m1 mem_read_same le_word_le_bytes del: mem_write.simps)
  then show ?thesis using run by (simp add: m_def)
qed

section \<open>Changing the directory\<close>

context served_memory
begin

lemma run_read_uint8:
  assumes "inv (target s)" and "range_in a 1 (D (target s))"
  shows "\<exists>t. on_target (read_uint8 (chunks e) a) s = Some (Inr (view (target s) a, s\<lparr>target := t\<rparr>)) \<and> ok (target s) t"
proof -
  have "wp (memif_read c a 1) (\<lambda>bs t. bs = mem_read (view (target s)) a 1 \<and> ok (target s) t) (target s)"
    by (rule wp_memif_read) (use assms in simp_all)
  from wp_runs [OF this] obtain t where "memif_read c a 1 (target s) = Some (Inr ([view (target s) a], t))" and "ok (target s) t"
    by (auto simp: mem_read_def)
  moreover have "(ucast (view (target s) a) :: byte) = view (target s) a" by simp
  ultimately show ?thesis
    by (auto simp: on_target_def read_uint8_def memif_read_val_def run_simps served)
qed

text \<open>A path of \<open>n\<close> characters that ends with a zero, in a target in good order.\<close>

definition path_at :: "addr \<Rightarrow> nat \<Rightarrow> mem \<Rightarrow> ('t, 'h) htif \<Rightarrow> bool" where
  "path_at path n m s \<longleftrightarrow> inv (target s) \<and> view (target s) = m \<and> range_in path (n + 1) (D (target s)) \<and>
     (\<forall>i<n. m (path + of_nat i) \<noteq> 0) \<and> m (path + of_nat n) = 0"

lemma path_byte:
  assumes "path_at path n m s" and "k \<le> n"
  shows "\<exists>t. on_target (read_uint8 (chunks e) (path + of_nat k)) s = Some (Inr (m (path + of_nat k), s\<lparr>target := t\<rparr>)) \<and>
    ok (target s) t \<and> path_at path n m (s\<lparr>target := t\<rparr>)"
proof -
  have "range_in (path + of_nat k) 1 (D (target s))"
    using range_in_sub [of path "n + 1" "D (target s)" k 1] assms by (simp add: path_at_def)
  with run_read_uint8 [of s "path + of_nat k"] assms(1) show ?thesis by (auto simp: path_at_def same_shape_def)
qed

lemma chdir_size_runs:
  assumes "path_at path n m s" and "k \<le> n"
  shows "\<exists>t. chdir_size e path k s = Some (Inr (n + 1, s\<lparr>target := t\<rparr>)) \<and> ok (target s) t \<and> path_at path n m (s\<lparr>target := t\<rparr>)"
  using assms
proof (induction "n - k" arbitrary: k s)
  case 0
  then have "k = n" "m (path + of_nat n) = 0" by (simp_all add: path_at_def)
  with path_byte [OF 0(2,3)] show ?case by (auto simp: chdir_size.simps [of e path n])
next
  case (Suc d)
  then have k: "k < n" "m (path + of_nat k) \<noteq> 0" by (simp_all add: path_at_def)
  from path_byte [OF Suc.prems] obtain t where
    rd: "on_target (read_uint8 (chunks e) (path + of_nat k)) s = Some (Inr (m (path + of_nat k), s\<lparr>target := t\<rparr>))"
    and t: "ok (target s) t" "path_at path n m (s\<lparr>target := t\<rparr>)" by blast
  have "d = n - (k + 1)" and "k + 1 \<le> n" using Suc.hyps(2) k(1) by simp_all
  from Suc.hyps(1) [OF this(1) t(2) this(2)] obtain u where
    "chdir_size e path (k + 1) (s\<lparr>target := t\<rparr>) = Some (Inr (n + 1, s\<lparr>target := u\<rparr>))"
    and u: "ok t u" "path_at path n m (s\<lparr>target := u\<rparr>)" by auto
  moreover have "chdir_size e path k s = chdir_size e path (k + 1) (s\<lparr>target := t\<rparr>)"
    using rd k(2) by (simp add: chdir_size.simps [of e path k])
  ultimately show ?case using ok_trans [OF t(1) u(1)] by auto
qed

lemma chdir_copy_runs:
  assumes "path_at path n m s" and "k \<le> n"
  shows "\<exists>t. chdir_copy e path (n + 1) (mem_read m path k) s = Some (Inr (mem_read m path (n + 1), s\<lparr>target := t\<rparr>)) \<and> ok (target s) t"
  using assms
proof (induction "n - k" arbitrary: k s)
  case 0
  then have "k = n" "m (path + of_nat n) = 0" by (simp_all add: path_at_def)
  moreover from this have "mem_read m path (n + 1) = mem_read m path k @ [0]" by (simp add: mem_read_def)
  ultimately show ?case
    using path_byte [OF 0(2,3)] by (auto simp: chdir_copy.simps [of e path "Suc n" "mem_read m path n"])
next
  case (Suc d)
  then have k: "k < n" "m (path + of_nat k) \<noteq> 0" by (simp_all add: path_at_def)
  have more: "mem_read m path k @ [m (path + of_nat k)] = mem_read m path (k + 1)" by (simp add: mem_read_def)
  from path_byte [OF Suc.prems] obtain t where
    rd: "on_target (read_uint8 (chunks e) (path + of_nat k)) s = Some (Inr (m (path + of_nat k), s\<lparr>target := t\<rparr>))"
    and t: "ok (target s) t" "path_at path n m (s\<lparr>target := t\<rparr>)" by blast
  have "d = n - (k + 1)" and "k + 1 \<le> n" using Suc.hyps(2) k(1) by simp_all
  from Suc.hyps(1) [OF this(1) t(2) this(2)] obtain u where
    "chdir_copy e path (n + 1) (mem_read m path (k + 1)) (s\<lparr>target := t\<rparr>) = Some (Inr (mem_read m path (n + 1), s\<lparr>target := u\<rparr>))"
    and u: "ok t u" by auto
  moreover have "chdir_copy e path (n + 1) (mem_read m path k) s = chdir_copy e path (n + 1) (mem_read m path (k + 1)) (s\<lparr>target := t\<rparr>)"
    using rd k more by (simp add: chdir_copy.simps [of e path "Suc n" "mem_read m path k"])
  ultimately show ?case using ok_trans [OF t(1) u] by auto
qed

lemma run_sys_chdir:
  assumes ok: "inv (target s)" "range_in path (length name + 1) (D (target s))" and name: "CHR 0x00 \<notin> set name"
    and bytes: "mem_read (view (target s)) path (length name + 1) = bytes_of name @ [0]"
  shows "\<exists>t. sys_chdir e path s = bind (on_host (os_chdir (os e) name)) (sysret_errno e) (s\<lparr>target := t\<rparr>) \<and> ok (target s) t"
proof -
  let ?m = "view (target s)" and ?n = "length name"
  have at: "?m (path + of_nat i) = (bytes_of name @ [0]) ! i" if "i \<le> ?n" for i
    using nth_mem_read [of i "?n + 1" ?m path] that unfolding bytes by simp
  have nz: "?m (path + of_nat i) \<noteq> 0" if "i < ?n" for i
    using at [of i] that name by (auto simp: nth_append bytes_of_def of_char_eq_0 dest: nth_mem)
  have "?m (path + of_nat ?n) = 0" using at [of ?n] by (simp add: nth_append)
  then have "path_at path ?n ?m s" using ok nz by (simp add: path_at_def)
  from chdir_size_runs [OF this, of 0] obtain t where
    size_run: "chdir_size e path 0 s = Some (Inr (?n + 1, s\<lparr>target := t\<rparr>))" and t: "ok (target s) t" "path_at path ?n ?m (s\<lparr>target := t\<rparr>)"
    by auto
  from chdir_copy_runs [OF t(2), of 0] obtain u where
    copy_run: "chdir_copy e path (?n + 1) [] (s\<lparr>target := t\<rparr>) = Some (Inr (bytes_of name @ [0], s\<lparr>target := u\<rparr>))" and u: "ok t u"
    using bytes by auto
  have "cstring (bytes_of name @ [0]) = name" by (rule cstring_bytes_of [OF name])
  then have "sys_chdir e path s = bind (on_host (os_chdir (os e) name)) (sysret_errno e) (s\<lparr>target := u\<rparr>)"
    using size_run copy_run by (simp add: sys_chdir_def run_simps)
  then show ?thesis using ok_trans [OF t(1) u] by blast
qed

end

text \<open>
  C21: over any memory that keeps the contract, both loops of \<open>sys_chdir\<close> end at the terminator of
  a path in target memory, the host is asked to change to the directory of exactly that name, its
  result or \<open>errno\<close> is the result, and target memory is as it was.
\<close>

theorem sys_chdir_returns:
  assumes "served_memory (chunks e) view D I e" and "I (target s)" and "range_in path (length name + 1) (D (target s))"
    and "CHR 0x00 \<notin> set name" and "mem_read (view (target s)) path (length name + 1) = bytes_of name @ [0]"
    and "os_chdir (os e) name (host s) = (res, h)"
  shows "\<exists>t. sys_chdir e path s = Some (Inr (if res = - 1 then word_of_int (- os_errno (os e) h) else word_of_int res,
      s\<lparr>host := h, target := t\<rparr>)) \<and> view t = view (target s) \<and> I t"
proof -
  from served_memory.run_sys_chdir [OF assms(1-5)] obtain t where
    "sys_chdir e path s = bind (on_host (os_chdir (os e) name)) (sysret_errno e) (s\<lparr>target := t\<rparr>)" and "view t = view (target s)" "I t"
    by blast
  then show ?thesis
    using assms(6) by (intro exI [of _ t]) (simp add: run_simps run_sysret_errno call_result_def)
qed

text \<open>Over the debug transport, with a host that has no such directory.\<close>

theorem sys_chdir_returns_witness:
  "\<exists>t. sys_chdir dtm_toy_env 0x80002000 (dtm_server (mem_write (\<lambda>_. 7) 0x80002000 (bytes_of ''/tmp'' @ [0]))) =
    Some (Inr (word_of_int (- 2), (dtm_server (mem_write (\<lambda>_. 7) 0x80002000 (bytes_of ''/tmp'' @ [0])))
      \<lparr>host := \<lparr>toy_errno = 2, toy_in = [], toy_out = []\<rparr>, target := t\<rparr>))"
proof -
  define m where "m = mem_write (\<lambda>_. 7) 0x80002000 (bytes_of ''/tmp'' @ [0])"
  let ?s = "dtm_server m"
  have view: "dm_mem (dtm_target (target ?s)) = m" "\<exists>p. dm_ready p (target ?s)"
    using dtm_holding_ready [of m] by (auto simp: dtm_server_def)
  have "length (bytes_of ''/tmp'' @ [0]) = 5" by (simp add: bytes_of_def)
  then have bytes: "mem_read m 0x80002000 5 = bytes_of ''/tmp'' @ [0]" by (simp add: m_def mem_read_same del: mem_write.simps)
  let ?h = "\<lparr>toy_errno = 2, toy_in = [], toy_out = []\<rparr>"
  have range: "range_in 0x80002000 (length ''/tmp'' + 1) dm_dom" by (rule dom_above) simp_all
  have name: "CHR 0x00 \<notin> set ''/tmp''" by simp
  have at: "mem_read (dm_mem (dtm_target (target ?s))) 0x80002000 (length ''/tmp'' + 1) = bytes_of ''/tmp'' @ [0]"
    using bytes by (simp add: view eval_nat_numeral)
  have call: "os_chdir (os dtm_toy_env) ''/tmp'' (host ?s) = (- 1, ?h)" and errno: "os_errno (os dtm_toy_env) ?h = 2"
    by (simp_all add: dtm_toy_env_def dtm_env_def toy_os_def toy_fail_def dtm_server_def)
  from sys_chdir_returns [OF dtm_toy_served view(2) range name at call] show ?thesis
    unfolding errno m_def [symmetric] by auto
qed

section \<open>A frame is copied whole\<close>

primrec ticks :: "nat \<Rightarrow> (('t, 'h) htif, unit) prog \<Rightarrow> (('t, 'h) htif, unit) prog" where
  "ticks 0 m = ret ()"
| "ticks (Suc n) m = bind (ticks n m) (\<lambda>_. m)"

lemma take_patch: "length bs = n \<Longrightarrow> p + n \<le> length xs \<Longrightarrow>
    take (p + n) (take p xs @ bs @ drop (p + n) xs) = take p xs @ bs"
  by simp

context served_memory
begin

text \<open>After \<open>k\<close> ticks the back buffer holds the first \<open>k\<close> pieces.\<close>

definition partly_copied :: "nat \<Rightarrow> rfb \<Rightarrow> nat \<Rightarrow> ('t, 'h) htif \<Rightarrow> ('t, 'h) htif \<Rightarrow> bool" where
  "partly_copied i r k s s' \<longleftrightarrow> (\<exists>fb2 t. s' = s\<lparr>rfbs := (rfbs s)[i := r\<lparr>rfb_fb2 := fb2, rfb_read_pos := k * 256\<rparr>], target := t\<rparr> \<and>
     ok (target s) t \<and> length fb2 = fb_bytes r \<and>
     take (k * 256) fb2 = mem_read (view (target s)) (rfb_addr r) (k * 256))"

lemma piece_read:
  assumes "inv (target s)" and "range_in (rfb_addr r) (fb_bytes r) (D (target s))" and "(k + 1) * 256 \<le> fb_bytes r"
    and "ok (target s) t"
  shows "\<exists>u. mem_rd e (rfb_addr r + of_nat (k * 256)) 256 (s'\<lparr>target := t\<rparr>) =
      Some (Inr (mem_read (view (target s)) (rfb_addr r + of_nat (k * 256)) 256, s'\<lparr>target := u\<rparr>)) \<and> ok (target s) u"
proof -
  have "range_in (rfb_addr r + of_nat (k * 256)) 256 (D t)"
    using range_in_sub [OF assms(2), of "k * 256" 256] assms(3,4) by (simp add: same_shape_def)
  with run_mem_rd [of "s'\<lparr>target := t\<rparr>" "rfb_addr r + of_nat (k * 256)" 256] assms(4) obtain u where
    "mem_rd e (rfb_addr r + of_nat (k * 256)) 256 (s'\<lparr>target := t\<rparr>) =
      Some (Inr (mem_read (view (target s)) (rfb_addr r + of_nat (k * 256)) 256, s'\<lparr>target := u\<rparr>))" and "ok t u" by auto
  with ok_trans [OF assms(4)] show ?thesis by blast
qed

lemma rfb_partial_frame:
  assumes frame: "i < length (rfbs s)" "rfbs s ! i = r" "rfb_memif r" "rfb_read_pos r = 0" "length (rfb_fb2 r) = fb_bytes r"
    and mem: "inv (target s)" "range_in (rfb_addr r) (fb_bytes r) (D (target s))" and k: "k * 256 < fb_bytes r"
  shows "wp (ticks k (rfb_tick e i)) (\<lambda>_. partly_copied i r k s) s"
  using k
proof (induction k)
  case 0
  have "r\<lparr>rfb_fb2 := rfb_fb2 r, rfb_read_pos := 0\<rparr> = r" using frame(4) by simp
  then have "(rfbs s)[i := r\<lparr>rfb_fb2 := rfb_fb2 r, rfb_read_pos := 0 * 256\<rparr>] = rfbs s"
    using frame(1,2) by (metis list_update_id mult_zero_left)
  then have "partly_copied i r 0 s s"
    unfolding partly_copied_def using frame(5) mem(1)
    by (intro exI [of _ "rfb_fb2 r"] exI [of _ "target s"]) (simp add: same_shape_def)
  then show ?case by simp
next
  case (Suc k)
  have le: "(k + 1) * 256 < fb_bytes r" using Suc.prems by simp
  show ?case
    unfolding ticks.simps wp_bind
  proof (rule wp_mono [OF Suc.IH])
    show "k * 256 < fb_bytes r" using le by simp
    fix u s'
    assume "partly_copied i r k s s'"
    then obtain fb2 t where s': "s' = s\<lparr>rfbs := (rfbs s)[i := r\<lparr>rfb_fb2 := fb2, rfb_read_pos := k * 256\<rparr>], target := t\<rparr>"
      and t: "ok (target s) t" and len: "length fb2 = fb_bytes r"
      and pre: "take (k * 256) fb2 = mem_read (view (target s)) (rfb_addr r) (k * 256)"
      unfolding partly_copied_def by blast
    let ?bs = "mem_read (view (target s)) (rfb_addr r + of_nat (k * 256)) 256"
    let ?fb = "take (k * 256) fb2 @ ?bs @ drop (k * 256 + 256) fb2"
    obtain t' where rd: "mem_rd e (rfb_addr r + of_nat (k * 256)) 256 s' = Some (Inr (?bs, s'\<lparr>target := t'\<rparr>))"
      and t': "ok (target s) t'"
      using piece_read [OF mem _ t, of k s'] le by (auto simp: s')
    have "fb_bytes (r\<lparr>rfb_fb2 := fb2, rfb_read_pos := k * 256\<rparr>) = fb_bytes r" by (simp add: fb_bytes_def)
    then have run: "rfb_tick e i s' = Some (Inr ((), s\<lparr>rfbs := (rfbs s)[i := r\<lparr>rfb_fb2 := ?fb,
        rfb_read_pos := Suc k * 256\<rparr>], target := t'\<rparr>))"
      using frame(1,3) le rd
      by (simp add: rfb_tick_def the_rfb_def set_rfb_def s' FB_ALIGN_def Let_def add.commute run_simps)
    have "length ?fb = fb_bytes r" using len le by simp
    moreover have "take (Suc k * 256) ?fb = mem_read (view (target s)) (rfb_addr r) (Suc k * 256)"
      using take_patch [of ?bs 256 "k * 256" fb2] len le pre mem_read_append [of "view (target s)" "rfb_addr r" "k * 256" 256]
      by (simp add: algebra_simps)
    ultimately have "partly_copied i r (Suc k) s
        (s\<lparr>rfbs := (rfbs s)[i := r\<lparr>rfb_fb2 := ?fb, rfb_read_pos := Suc k * 256\<rparr>], target := t'\<rparr>)"
      using t' unfolding partly_copied_def by blast
    then show "wp (rfb_tick e i) (\<lambda>_. partly_copied i r (Suc k) s) s'" by (simp add: wp_def run)
  qed
qed

lemma rfb_last_tick:
  assumes frame: "i < length (rfbs s)" "rfb_memif r" "rfb_fb1 r = Some old"
    and mem: "inv (target s)" "range_in (rfb_addr r) (fb_bytes r) (D (target s))" and n: "fb_bytes r = Suc k * 256"
    and s': "partly_copied i r k s s'"
  shows "wp (rfb_tick e i) (\<lambda>_ s'. rfbs s' = (rfbs s)[i := r\<lparr>
      rfb_fb1 := Some (mem_read (view (target s)) (rfb_addr r) (fb_bytes r)), rfb_fb2 := old, rfb_read_pos := 0\<rparr>] \<and>
    ok (target s) (target s')) s'"
proof -
  obtain fb2 t where s': "s' = s\<lparr>rfbs := (rfbs s)[i := r\<lparr>rfb_fb2 := fb2, rfb_read_pos := k * 256\<rparr>], target := t\<rparr>"
    and t: "ok (target s) t" and len: "length fb2 = fb_bytes r"
    and pre: "take (k * 256) fb2 = mem_read (view (target s)) (rfb_addr r) (k * 256)"
    using s' unfolding partly_copied_def by blast
  let ?bs = "mem_read (view (target s)) (rfb_addr r + of_nat (k * 256)) 256"
  obtain t' where rd: "mem_rd e (rfb_addr r + of_nat (k * 256)) 256 s' = Some (Inr (?bs, s'\<lparr>target := t'\<rparr>))"
    and t': "ok (target s) t'"
    using piece_read [OF mem _ t, of k s'] n by (auto simp: s')
  have whole: "take (k * 256) fb2 @ ?bs @ drop (k * 256 + 256) fb2 = mem_read (view (target s)) (rfb_addr r) (fb_bytes r)"
    using len n pre mem_read_append [of "view (target s)" "rfb_addr r" "k * 256" 256] by (simp add: add.commute)
  have fb: "fb_bytes (r\<lparr>rfb_fb2 := fb2, rfb_read_pos := k * 256\<rparr>) = fb_bytes r" by (simp add: fb_bytes_def)
  have e: "k * 256 + 256 = fb_bytes r" using n by simp
  have "(k * 256 + 256) mod fb_bytes r = 0" unfolding e by (rule mod_self)
  moreover have "fb_bytes r \<noteq> 0" using n by simp
  moreover have "wp (mem_rd e (rfb_addr r + of_nat (k * 256)) 256) Q s' = Q ?bs (s'\<lparr>target := t'\<rparr>)" for Q
    using rd by (simp add: wp_def)
  ultimately show ?thesis
    using frame t' whole fb unfolding s'
    by (simp add: rfb_tick_def the_rfb_def set_rfb_def FB_ALIGN_def fb_update_def Let_def split: prod.splits)
qed

end

text \<open>
  C34: over any memory that keeps the contract, \<open>n\<close> ticks from the start of a frame of \<open>n\<close> pieces
  leave in the front buffer exactly the bytes of target memory from the frame's address on, the old
  front buffer as the back one, and are back at the start of the next frame; target memory is as it
  was.
\<close>

theorem rfb_frame_copied:
  assumes "served_memory (chunks e) view D I e" and "I (target s)" and "range_in (rfb_addr r) (fb_bytes r) (D (target s))"
    and "i < length (rfbs s)" and "rfbs s ! i = r" and "rfb_memif r" and "rfb_read_pos r = 0"
    and "rfb_fb1 r = Some old" and "length (rfb_fb2 r) = fb_bytes r" and "fb_bytes r = n * 256" and "0 < n"
  shows "wp (ticks n (rfb_tick e i)) (\<lambda>_ s'. rfbs s' = (rfbs s)[i := r\<lparr>
      rfb_fb1 := Some (mem_read (view (target s)) (rfb_addr r) (fb_bytes r)), rfb_fb2 := old, rfb_read_pos := 0\<rparr>] \<and>
    view (target s') = view (target s) \<and> I (target s')) s"
proof -
  obtain k where k: "n = Suc k" using assms(11) by (cases n) auto
  show ?thesis
    unfolding k ticks.simps wp_bind
  proof (rule wp_mono [OF served_memory.rfb_partial_frame [OF assms(1,4-7,9,2,3)]])
    show "k * 256 < fb_bytes r" using assms(10) k by simp
    fix u s'
    assume "served_memory.partly_copied (chunks e) view D I i r k s s'"
    from served_memory.rfb_last_tick [OF assms(1,4,6,8,2,3) _ this] assms(10) k
    show "wp (rfb_tick e i) (\<lambda>_ s'. rfbs s' = (rfbs s)[i := r\<lparr>
        rfb_fb1 := Some (mem_read (view (target s)) (rfb_addr r) (fb_bytes r)), rfb_fb2 := old, rfb_read_pos := 0\<rparr>] \<and>
      view (target s') = view (target s) \<and> I (target s')) s'"
      by (auto elim: wp_mono)
  qed
qed

text \<open>A frame buffer of 8 by 16 pixels of 32 bits, two pieces, behind the debug transport.\<close>

definition example_rfb :: rfb where
  "example_rfb = \<lparr>rfb_sockfd = 4, rfb_afd = 3, rfb_memif = True, rfb_addr = 0x80004000, rfb_width = 8, rfb_height = 16,
     rfb_bpp = 32, rfb_display = 0, rfb_fb1 = Some [], rfb_fb2 = replicate 512 0xCC, rfb_read_pos = 0\<rparr>"

theorem rfb_frame_copied_witness:
  "wp (ticks 2 (rfb_tick dtm_toy_env 0)) (\<lambda>_ s'. rfbs s' = [example_rfb\<lparr>
      rfb_fb1 := Some (mem_read (\<lambda>a. ucast a) 0x80004000 512), rfb_fb2 := [], rfb_read_pos := 0\<rparr>])
    ((dtm_server (\<lambda>a. ucast a))\<lparr>rfbs := [example_rfb]\<rparr>)"
proof -
  let ?s = "(dtm_server (\<lambda>a. ucast a))\<lparr>rfbs := [example_rfb]\<rparr>"
  have fb: "fb_bytes example_rfb = 512" by (simp add: fb_bytes_def example_rfb_def)
  have view: "dm_mem (dtm_target (target ?s)) = (\<lambda>a. ucast a)" "\<exists>p. dm_ready p (target ?s)"
    using dtm_holding_ready [of "\<lambda>a. ucast a"] by (auto simp: dtm_server_def)
  have "range_in (rfb_addr example_rfb) (fb_bytes example_rfb) dm_dom"
    unfolding fb by (rule dom_above) (simp_all add: example_rfb_def)
  then show ?thesis
    by (intro wp_mono [OF rfb_frame_copied [OF dtm_toy_served view(2), of example_rfb 0 "[]" 2]])
      (simp_all only: fb view(1), simp_all add: example_rfb_def)
qed

end
