(* ===== verification/Host_Process.thy ===== *)
theory Host_Process
  imports Htif
begin

unbundle bit_operations_syntax

text \<open>
  What the host process does around the server: the signal handlers (\<open>handle_signal\<close> and the
  constructor of \<open>htif_t\<close> in \<open>tb/dpi/fesvr/htif.cc\<close>, \<open>handle_sigterm\<close> of
  \<open>tb/ariane_tb.cpp\<close>) and the settings of the terminal (\<open>canonical_termios_t\<close> of
  \<open>term.cc\<close>). The C library's \<open>signal\<close>, \<open>tcgetattr\<close> and \<open>tcsetattr\<close> are
  what the code calls.
\<close>

section \<open>Signals\<close>

datatype disposition = Default_action | Handle_signal | Handle_sigterm

definition SIGINT :: int where "SIGINT = 2"

definition SIGABRT :: int where "SIGABRT = 6"

definition SIGTERM :: int where "SIGTERM = 15"

text \<open>The server is the object \<open>dtm\<close> points to.\<close>

record ('t, 'h) host_process =
  server :: "('t, 'h) htif"
  signal_exit :: bool
  handlers :: "int \<Rightarrow> disposition"

definition set_signal :: "int \<Rightarrow> disposition \<Rightarrow> (('t, 'h) host_process, unit) prog" where
  "set_signal sig h = modify (\<lambda>p. p\<lparr>handlers := (handlers p)(sig := h)\<rparr>)"

definition handle_signal :: "int \<Rightarrow> (('t, 'h) host_process, unit) prog" where
  "handle_signal sig =
     bind (gets signal_exit) (\<lambda>again.
     if sig = SIGABRT \<or> again then raise (Exit (- 1))
     else
       bind (modify (\<lambda>p. p\<lparr>signal_exit := True\<rparr>)) (\<lambda>_.
       set_signal sig Handle_signal))"

definition install_handlers :: "(('t, 'h) host_process, unit) prog" where
  "install_handlers =
     bind (set_signal SIGINT Handle_signal) (\<lambda>_.
     bind (set_signal SIGTERM Handle_signal) (\<lambda>_.
     set_signal SIGABRT Handle_signal))"

definition handle_sigterm :: "('t, 'h) env \<Rightarrow> (('t, 'h) host_process, unit) prog" where
  "handle_sigterm e = zoom server (\<lambda>s p. p\<lparr>server := s\<rparr>) (stop e)"

text \<open>The main program of the simulation, once the server is constructed.\<close>

definition install_sigterm :: "(('t, 'h) host_process, unit) prog" where
  "install_sigterm = set_signal SIGTERM Handle_sigterm"

definition htif_done :: "('t, 'h) htif \<Rightarrow> bool" where
  "htif_done s = stopped s"

text \<open>
  A signal arrives. A library with the semantics of System V puts the default action back before
  the handler runs (\<open>resets\<close>), one with those of BSD does not. The default action ends the
  process, with the code a shell reports.
\<close>

definition deliver :: "('t, 'h) env \<Rightarrow> bool \<Rightarrow> int \<Rightarrow> (('t, 'h) host_process, unit) prog" where
  "deliver e resets sig =
     bind (gets (\<lambda>p. handlers p sig)) (\<lambda>h.
     bind (if resets then set_signal sig Default_action else ret ()) (\<lambda>_.
     case h of
       Default_action \<Rightarrow> raise (Exit (128 + sig))
     | Handle_signal \<Rightarrow> handle_signal sig
     | Handle_sigterm \<Rightarrow> handle_sigterm e))"

lemmas signal_defs = deliver_def handle_signal_def set_signal_def handle_sigterm_def

text \<open>The three signals the constructor of the server provides for.\<close>

definition installed :: "('t, 'h) host_process \<Rightarrow> bool" where
  "installed p \<longleftrightarrow> handlers p SIGINT = Handle_signal \<and> handlers p SIGTERM = Handle_signal \<and> handlers p SIGABRT = Handle_signal"

lemma install_handlers_installs:
  "\<exists>p'. install_handlers p = Some (Inr ((), p')) \<and> installed p' \<and> signal_exit p' = signal_exit p \<and> server p' = server p"
  by (simp add: install_handlers_def set_signal_def run_simps installed_def SIGINT_def SIGTERM_def SIGABRT_def)

lemma deliver_installed:
  assumes "installed p" and "sig \<in> {SIGINT, SIGTERM, SIGABRT}"
  shows "deliver e resets sig p =
    (if sig = SIGABRT \<or> signal_exit p then Some (Inl (Exit (- 1))) else Some (Inr ((), p\<lparr>signal_exit := True\<rparr>)))"
proof -
  have "handlers p sig = Handle_signal" using assms by (auto simp: installed_def)
  moreover from this have "(handlers p)(sig := Handle_signal) = handlers p" by auto
  moreover from this have "p\<lparr>signal_exit := True, handlers := (handlers p)(sig := Handle_signal)\<rparr> = p\<lparr>signal_exit := True\<rparr>"
    by simp
  ultimately show ?thesis by (simp add: signal_defs run_simps)
qed

text \<open>
  The server as constructed, under either semantics: the first interrupt is noted, and nothing else
  changes; a second one, or \<open>SIGABRT\<close>, leaves through \<open>exit(-1)\<close>.
\<close>

lemma signals_end_process:
  assumes "installed p" and "\<not> signal_exit p" and "set sigs \<subseteq> {SIGINT, SIGTERM, SIGABRT}"
  shows "for_each sigs (deliver e resets) p =
    (case sigs of
       [] \<Rightarrow> Some (Inr ((), p))
     | [sig] \<Rightarrow> (if sig = SIGABRT then Some (Inl (Exit (- 1))) else Some (Inr ((), p\<lparr>signal_exit := True\<rparr>)))
     | _ \<Rightarrow> Some (Inl (Exit (- 1))))"
proof -
  have "installed (p\<lparr>signal_exit := True\<rparr>)" using assms(1) by (simp add: installed_def)
  then show ?thesis using assms
    by (auto simp: deliver_installed run_simps split: list.splits)
qed

text \<open>The loop sees the note at its next turn, and \<open>run\<close> returns the code it has by then.\<close>

lemma run_loop_interrupted:
  assumes "os_signal (os e) (host s) = (True, h)"
  shows "run_loop e s = Some (Inr ((), s\<lparr>host := h\<rparr>))"
  using assms by (simp add: run_loop.simps [of e s])

lemma interrupted_run_returns:
  assumes "start e s0 = Some (Inr ((), s))" and "tohost_addr s \<noteq> 0" and "sig_file s = ''''"
    and "os_signal (os e) (host s) = (True, h)"
  shows "htif_run e s0 = Some (Inr (sint (exitcode s) div 2, s\<lparr>host := h, stopped := True\<rparr>))"
  using assms by (simp add: htif_run_def run_simps run_loop_interrupted stop_def exit_code_def)

text \<open>
  The main program of the simulation takes \<open>SIGTERM\<close> over: \<open>stop\<close> runs at once, and
  without a signature file it only marks the server as done. With one it reads target memory, from
  wherever the signal has come; an assertion that fails there ends it.
\<close>

lemma install_sigterm_installs: "\<exists>p'. install_sigterm p = Some (Inr ((), p')) \<and> handlers p' SIGTERM = Handle_sigterm \<and> server p' = server p"
  by (simp add: install_sigterm_def set_signal_def run_simps)

lemma sigterm_stops:
  assumes "handlers p SIGTERM = Handle_sigterm" and "sig_file (server p) = ''''"
  shows "deliver e False SIGTERM p = Some (Inr ((), p\<lparr>server := (server p)\<lparr>stopped := True\<rparr>\<rparr>))"
    and "htif_done ((server p)\<lparr>stopped := True\<rparr>)"
  using assms by (simp_all add: signal_defs stop_def zoom_def run_simps htif_done_def)

lemma sigterm_signature_fails:
  assumes "handlers p SIGTERM = Handle_sigterm" and "sig_file (server p) \<noteq> ''''" and "sig_len (server p) \<noteq> 0"
    and "unat (sig_len (server p)) < 2 ^ 63"
    and "mem_rd e (sig_addr (server p)) (unat (sig_len (server p))) (server p) = Some (Inl x)"
  shows "deliver e False SIGTERM p = Some (Inl x)"
  using assms by (simp add: signal_defs stop_def zoom_def run_simps alloc_bytes_def check_def)

section \<open>The settings of the terminal\<close>

record 'r termios =
  c_lflag :: u32
  c_others :: 'r

record ('r, 'h) terminal_calls =
  tcgetattr :: "'h \<Rightarrow> 'r termios option \<times> 'h"
  tcsetattr :: "'r termios \<Rightarrow> 'h \<Rightarrow> bool \<times> 'h"

definition ICANON :: u32 where "ICANON = 2"

definition ECHO :: u32 where "ECHO = 8"

record 'r canonical_termios =
  old_tios :: "'r termios"
  restore_tios :: bool

text \<open>The object is static: \<open>zero\<close> is what its settings are before the constructor.\<close>

definition canonical_termios_t :: "('r, 'h) terminal_calls \<Rightarrow> 'r termios \<Rightarrow> 'h \<Rightarrow> 'r canonical_termios \<times> 'h" where
  "canonical_termios_t calls zero h =
     (case tcgetattr calls h of
        (None, h1) \<Rightarrow> (\<lparr>old_tios = zero, restore_tios = False\<rparr>, h1)
      | (Some old, h1) \<Rightarrow>
          (case tcsetattr calls (old\<lparr>c_lflag := c_lflag old AND NOT (ICANON OR ECHO)\<rparr>) h1 of
             (ok, h2) \<Rightarrow> (\<lparr>old_tios = old, restore_tios = ok\<rparr>, h2)))"

definition canonical_termios_destroy :: "('r, 'h) terminal_calls \<Rightarrow> 'r canonical_termios \<Rightarrow> 'h \<Rightarrow> 'h" where
  "canonical_termios_destroy calls tios h = (if restore_tios tios then snd (tcsetattr calls (old_tios tios) h) else h)"

text \<open>
  On a terminal that keeps the settings it accepts, the object turns line editing and echo off and
  nothing else, and at the end, whatever has been done to the terminal meanwhile, the settings are
  those of the beginning. Where standard input is no terminal nothing is set.
\<close>

lemma canonical_termios_sets:
  assumes "\<And>h. tcgetattr calls h = (Some (settings h), h)" and "\<And>t h. \<exists>h'. tcsetattr calls t h = (True, h') \<and> settings h' = t"
    and "canonical_termios_t calls zero h = (tios, h1)"
  shows "bit (c_lflag (settings h1)) n \<longleftrightarrow> bit (c_lflag (settings h)) n \<and> n \<noteq> 1 \<and> n \<noteq> 3"
    and "c_others (settings h1) = c_others (settings h)"
    and "settings (canonical_termios_destroy calls tios h2) = settings h"
proof -
  let ?t = "(settings h)\<lparr>c_lflag := c_lflag (settings h) AND NOT (ICANON OR ECHO)\<rparr>"
  obtain h' where "tcsetattr calls ?t h = (True, h')" and new: "settings h' = ?t" using assms(2) by blast
  then have h1: "h1 = h'" and tios: "tios = \<lparr>old_tios = settings h, restore_tios = True\<rparr>"
    using assms(1,3) by (simp_all add: canonical_termios_t_def)
  have flags: "bit ICANON n \<longleftrightarrow> n = 1" "bit ECHO n \<longleftrightarrow> n = 3"
    using bit_exp_iff [where 'a = u32, of 1 n] bit_exp_iff [where 'a = u32, of 3 n] by (auto simp: ICANON_def ECHO_def)
  show "bit (c_lflag (settings h1)) n \<longleftrightarrow> bit (c_lflag (settings h)) n \<and> n \<noteq> 1 \<and> n \<noteq> 3"
    unfolding h1 new by (auto simp: bit_simps flags dest: bit_imp_le_length)
  show "c_others (settings h1) = c_others (settings h)" by (simp add: h1 new)
  obtain h3 where "tcsetattr calls (settings h) h2 = (True, h3)" "settings h3 = settings h" using assms(2) by blast
  then show "settings (canonical_termios_destroy calls tios h2) = settings h" by (simp add: canonical_termios_destroy_def tios)
qed

lemma canonical_termios_no_terminal:
  assumes "tcgetattr calls h = (None, h)"
  shows "canonical_termios_t calls zero h = (\<lparr>old_tios = zero, restore_tios = False\<rparr>, h)"
    and "canonical_termios_destroy calls (fst (canonical_termios_t calls zero h)) h' = h'"
  using assms by (simp_all add: canonical_termios_t_def canonical_termios_destroy_def)

end
