(* ===== verification/Rv_Encoding.thy ===== *)
theory Rv_Encoding
  imports Prelude
begin

text \<open>
  The instruction, CSR and cause tables of \<open>tb/dpi/fesvr/encoding.h\<close>: what the
  preprocessor makes of its \<open>MATCH_\<close>, \<open>MASK_\<close>, \<open>CSR_\<close> and \<open>CAUSE_\<close>
  definitions and of the lists of \<open>DECLARE_INSN\<close>, \<open>DECLARE_CSR\<close> and
  \<open>DECLARE_CAUSE\<close> that tools expand over them.
\<close>

section \<open>Instructions\<close>

text \<open>A row is the name, the match word and the mask of an instruction.\<close>

definition encoding_insns_1 :: "(string \<times> int \<times> int) list" where
  "encoding_insns_1 =
    [(''BEQ'', 0x63, 0x707f), (''BNE'', 0x1063, 0x707f), (''BLT'', 0x4063, 0x707f),
     (''BGE'', 0x5063, 0x707f), (''BLTU'', 0x6063, 0x707f), (''BGEU'', 0x7063, 0x707f),
     (''JALR'', 0x67, 0x707f), (''JAL'', 0x6f, 0x7f), (''LUI'', 0x37, 0x7f),
     (''AUIPC'', 0x17, 0x7f), (''ADDI'', 0x13, 0x707f), (''SLLI'', 0x1013, 0xfc00707f),
     (''SLTI'', 0x2013, 0x707f), (''SLTIU'', 0x3013, 0x707f), (''XORI'', 0x4013, 0x707f),
     (''SRLI'', 0x5013, 0xfc00707f), (''SRAI'', 0x40005013, 0xfc00707f),
     (''ORI'', 0x6013, 0x707f), (''ANDI'', 0x7013, 0x707f), (''ADD'', 0x33, 0xfe00707f),
     (''SUB'', 0x40000033, 0xfe00707f), (''SLL'', 0x1033, 0xfe00707f),
     (''SLT'', 0x2033, 0xfe00707f), (''SLTU'', 0x3033, 0xfe00707f),
     (''XOR'', 0x4033, 0xfe00707f), (''SRL'', 0x5033, 0xfe00707f),
     (''SRA'', 0x40005033, 0xfe00707f), (''OR'', 0x6033, 0xfe00707f),
     (''AND'', 0x7033, 0xfe00707f), (''ADDIW'', 0x1b, 0x707f), (''SLLIW'', 0x101b, 0xfe00707f),
     (''SRLIW'', 0x501b, 0xfe00707f), (''SRAIW'', 0x4000501b, 0xfe00707f),
     (''ADDW'', 0x3b, 0xfe00707f), (''SUBW'', 0x4000003b, 0xfe00707f),
     (''SLLW'', 0x103b, 0xfe00707f), (''SRLW'', 0x503b, 0xfe00707f),
     (''SRAW'', 0x4000503b, 0xfe00707f), (''LB'', 0x3, 0x707f), (''LH'', 0x1003, 0x707f),
     (''LW'', 0x2003, 0x707f), (''LD'', 0x3003, 0x707f), (''LBU'', 0x4003, 0x707f),
     (''LHU'', 0x5003, 0x707f), (''LWU'', 0x6003, 0x707f), (''SB'', 0x23, 0x707f),
     (''SH'', 0x1023, 0x707f), (''SW'', 0x2023, 0x707f), (''SD'', 0x3023, 0x707f),
     (''FENCE'', 0xf, 0x707f), (''FENCE_I'', 0x100f, 0x707f), (''MUL'', 0x2000033, 0xfe00707f),
     (''MULH'', 0x2001033, 0xfe00707f), (''MULHSU'', 0x2002033, 0xfe00707f),
     (''MULHU'', 0x2003033, 0xfe00707f), (''DIV'', 0x2004033, 0xfe00707f),
     (''DIVU'', 0x2005033, 0xfe00707f), (''REM'', 0x2006033, 0xfe00707f),
     (''REMU'', 0x2007033, 0xfe00707f), (''MULW'', 0x200003b, 0xfe00707f),
     (''DIVW'', 0x200403b, 0xfe00707f), (''DIVUW'', 0x200503b, 0xfe00707f),
     (''REMW'', 0x200603b, 0xfe00707f), (''REMUW'', 0x200703b, 0xfe00707f),
     (''AMOADD_W'', 0x202f, 0xf800707f), (''AMOXOR_W'', 0x2000202f, 0xf800707f),
     (''AMOOR_W'', 0x4000202f, 0xf800707f), (''AMOAND_W'', 0x6000202f, 0xf800707f),
     (''AMOMIN_W'', 0x8000202f, 0xf800707f), (''AMOMAX_W'', 0xa000202f, 0xf800707f),
     (''AMOMINU_W'', 0xc000202f, 0xf800707f), (''AMOMAXU_W'', 0xe000202f, 0xf800707f),
     (''AMOSWAP_W'', 0x800202f, 0xf800707f), (''LR_W'', 0x1000202f, 0xf9f0707f)]"

definition encoding_insns_2 :: "(string \<times> int \<times> int) list" where
  "encoding_insns_2 =
    [(''SC_W'', 0x1800202f, 0xf800707f), (''AMOADD_D'', 0x302f, 0xf800707f),
     (''AMOXOR_D'', 0x2000302f, 0xf800707f), (''AMOOR_D'', 0x4000302f, 0xf800707f),
     (''AMOAND_D'', 0x6000302f, 0xf800707f), (''AMOMIN_D'', 0x8000302f, 0xf800707f),
     (''AMOMAX_D'', 0xa000302f, 0xf800707f), (''AMOMINU_D'', 0xc000302f, 0xf800707f),
     (''AMOMAXU_D'', 0xe000302f, 0xf800707f), (''AMOSWAP_D'', 0x800302f, 0xf800707f),
     (''LR_D'', 0x1000302f, 0xf9f0707f), (''SC_D'', 0x1800302f, 0xf800707f),
     (''ECALL'', 0x73, 0xffffffff), (''EBREAK'', 0x100073, 0xffffffff),
     (''URET'', 0x200073, 0xffffffff), (''SRET'', 0x10200073, 0xffffffff),
     (''MRET'', 0x30200073, 0xffffffff), (''DRET'', 0x7b200073, 0xffffffff),
     (''SFENCE_VMA'', 0x12000073, 0xfe007fff), (''WFI'', 0x10500073, 0xffffffff),
     (''CSRRW'', 0x1073, 0x707f), (''CSRRS'', 0x2073, 0x707f), (''CSRRC'', 0x3073, 0x707f),
     (''CSRRWI'', 0x5073, 0x707f), (''CSRRSI'', 0x6073, 0x707f), (''CSRRCI'', 0x7073, 0x707f),
     (''FADD_S'', 0x53, 0xfe00007f), (''FSUB_S'', 0x8000053, 0xfe00007f),
     (''FMUL_S'', 0x10000053, 0xfe00007f), (''FDIV_S'', 0x18000053, 0xfe00007f),
     (''FSGNJ_S'', 0x20000053, 0xfe00707f), (''FSGNJN_S'', 0x20001053, 0xfe00707f),
     (''FSGNJX_S'', 0x20002053, 0xfe00707f), (''FMIN_S'', 0x28000053, 0xfe00707f),
     (''FMAX_S'', 0x28001053, 0xfe00707f), (''FSQRT_S'', 0x58000053, 0xfff0007f),
     (''FADD_D'', 0x2000053, 0xfe00007f), (''FSUB_D'', 0xa000053, 0xfe00007f),
     (''FMUL_D'', 0x12000053, 0xfe00007f), (''FDIV_D'', 0x1a000053, 0xfe00007f),
     (''FSGNJ_D'', 0x22000053, 0xfe00707f), (''FSGNJN_D'', 0x22001053, 0xfe00707f),
     (''FSGNJX_D'', 0x22002053, 0xfe00707f), (''FMIN_D'', 0x2a000053, 0xfe00707f),
     (''FMAX_D'', 0x2a001053, 0xfe00707f), (''FCVT_S_D'', 0x40100053, 0xfff0007f),
     (''FCVT_D_S'', 0x42000053, 0xfff0007f), (''FSQRT_D'', 0x5a000053, 0xfff0007f),
     (''FADD_Q'', 0x6000053, 0xfe00007f), (''FSUB_Q'', 0xe000053, 0xfe00007f),
     (''FMUL_Q'', 0x16000053, 0xfe00007f), (''FDIV_Q'', 0x1e000053, 0xfe00007f),
     (''FSGNJ_Q'', 0x26000053, 0xfe00707f), (''FSGNJN_Q'', 0x26001053, 0xfe00707f),
     (''FSGNJX_Q'', 0x26002053, 0xfe00707f), (''FMIN_Q'', 0x2e000053, 0xfe00707f),
     (''FMAX_Q'', 0x2e001053, 0xfe00707f), (''FCVT_S_Q'', 0x40300053, 0xfff0007f),
     (''FCVT_Q_S'', 0x46000053, 0xfff0007f), (''FCVT_D_Q'', 0x42300053, 0xfff0007f),
     (''FCVT_Q_D'', 0x46100053, 0xfff0007f), (''FSQRT_Q'', 0x5e000053, 0xfff0007f),
     (''FLE_S'', 0xa0000053, 0xfe00707f), (''FLT_S'', 0xa0001053, 0xfe00707f),
     (''FEQ_S'', 0xa0002053, 0xfe00707f), (''FLE_D'', 0xa2000053, 0xfe00707f),
     (''FLT_D'', 0xa2001053, 0xfe00707f), (''FEQ_D'', 0xa2002053, 0xfe00707f),
     (''FLE_Q'', 0xa6000053, 0xfe00707f), (''FLT_Q'', 0xa6001053, 0xfe00707f),
     (''FEQ_Q'', 0xa6002053, 0xfe00707f), (''FCVT_W_S'', 0xc0000053, 0xfff0007f),
     (''FCVT_WU_S'', 0xc0100053, 0xfff0007f), (''FCVT_L_S'', 0xc0200053, 0xfff0007f)]"

definition encoding_insns_3 :: "(string \<times> int \<times> int) list" where
  "encoding_insns_3 =
    [(''FCVT_LU_S'', 0xc0300053, 0xfff0007f), (''FMV_X_W'', 0xe0000053, 0xfff0707f),
     (''FCLASS_S'', 0xe0001053, 0xfff0707f), (''FCVT_W_D'', 0xc2000053, 0xfff0007f),
     (''FCVT_WU_D'', 0xc2100053, 0xfff0007f), (''FCVT_L_D'', 0xc2200053, 0xfff0007f),
     (''FCVT_LU_D'', 0xc2300053, 0xfff0007f), (''FMV_X_D'', 0xe2000053, 0xfff0707f),
     (''FCLASS_D'', 0xe2001053, 0xfff0707f), (''FCVT_W_Q'', 0xc6000053, 0xfff0007f),
     (''FCVT_WU_Q'', 0xc6100053, 0xfff0007f), (''FCVT_L_Q'', 0xc6200053, 0xfff0007f),
     (''FCVT_LU_Q'', 0xc6300053, 0xfff0007f), (''FMV_X_Q'', 0xe6000053, 0xfff0707f),
     (''FCLASS_Q'', 0xe6001053, 0xfff0707f), (''FCVT_S_W'', 0xd0000053, 0xfff0007f),
     (''FCVT_S_WU'', 0xd0100053, 0xfff0007f), (''FCVT_S_L'', 0xd0200053, 0xfff0007f),
     (''FCVT_S_LU'', 0xd0300053, 0xfff0007f), (''FMV_W_X'', 0xf0000053, 0xfff0707f),
     (''FCVT_D_W'', 0xd2000053, 0xfff0007f), (''FCVT_D_WU'', 0xd2100053, 0xfff0007f),
     (''FCVT_D_L'', 0xd2200053, 0xfff0007f), (''FCVT_D_LU'', 0xd2300053, 0xfff0007f),
     (''FMV_D_X'', 0xf2000053, 0xfff0707f), (''FCVT_Q_W'', 0xd6000053, 0xfff0007f),
     (''FCVT_Q_WU'', 0xd6100053, 0xfff0007f), (''FCVT_Q_L'', 0xd6200053, 0xfff0007f),
     (''FCVT_Q_LU'', 0xd6300053, 0xfff0007f), (''FMV_Q_X'', 0xf6000053, 0xfff0707f),
     (''FLW'', 0x2007, 0x707f), (''FLD'', 0x3007, 0x707f), (''FLQ'', 0x4007, 0x707f),
     (''FSW'', 0x2027, 0x707f), (''FSD'', 0x3027, 0x707f), (''FSQ'', 0x4027, 0x707f),
     (''FMADD_S'', 0x43, 0x600007f), (''FMSUB_S'', 0x47, 0x600007f),
     (''FNMSUB_S'', 0x4b, 0x600007f), (''FNMADD_S'', 0x4f, 0x600007f),
     (''FMADD_D'', 0x2000043, 0x600007f), (''FMSUB_D'', 0x2000047, 0x600007f),
     (''FNMSUB_D'', 0x200004b, 0x600007f), (''FNMADD_D'', 0x200004f, 0x600007f),
     (''FMADD_Q'', 0x6000043, 0x600007f), (''FMSUB_Q'', 0x6000047, 0x600007f),
     (''FNMSUB_Q'', 0x600004b, 0x600007f), (''FNMADD_Q'', 0x600004f, 0x600007f),
     (''C_NOP'', 0x1, 0xffff), (''C_ADDI16SP'', 0x6101, 0xef83), (''C_JR'', 0x8002, 0xf07f),
     (''C_JALR'', 0x9002, 0xf07f), (''C_EBREAK'', 0x9002, 0xffff), (''C_LD'', 0x6000, 0xe003),
     (''C_SD'', 0xe000, 0xe003), (''C_ADDIW'', 0x2001, 0xe003), (''C_LDSP'', 0x6002, 0xe003),
     (''C_SDSP'', 0xe002, 0xe003), (''C_ADDI4SPN'', 0x0, 0xe003), (''C_FLD'', 0x2000, 0xe003),
     (''C_LW'', 0x4000, 0xe003), (''C_FLW'', 0x6000, 0xe003), (''C_FSD'', 0xa000, 0xe003),
     (''C_SW'', 0xc000, 0xe003), (''C_FSW'', 0xe000, 0xe003), (''C_ADDI'', 0x1, 0xe003),
     (''C_JAL'', 0x2001, 0xe003), (''C_LI'', 0x4001, 0xe003), (''C_LUI'', 0x6001, 0xe003),
     (''C_SRLI'', 0x8001, 0xec03), (''C_SRAI'', 0x8401, 0xec03), (''C_ANDI'', 0x8801, 0xec03),
     (''C_SUB'', 0x8c01, 0xfc63), (''C_XOR'', 0x8c21, 0xfc63)]"

definition encoding_insns_4 :: "(string \<times> int \<times> int) list" where
  "encoding_insns_4 =
    [(''C_OR'', 0x8c41, 0xfc63), (''C_AND'', 0x8c61, 0xfc63), (''C_SUBW'', 0x9c01, 0xfc63),
     (''C_ADDW'', 0x9c21, 0xfc63), (''C_J'', 0xa001, 0xe003), (''C_BEQZ'', 0xc001, 0xe003),
     (''C_BNEZ'', 0xe001, 0xe003), (''C_SLLI'', 0x2, 0xe003), (''C_FLDSP'', 0x2002, 0xe003),
     (''C_LWSP'', 0x4002, 0xe003), (''C_FLWSP'', 0x6002, 0xe003), (''C_MV'', 0x8002, 0xf003),
     (''C_ADD'', 0x9002, 0xf003), (''C_FSDSP'', 0xa002, 0xe003), (''C_SWSP'', 0xc002, 0xe003),
     (''C_FSWSP'', 0xe002, 0xe003), (''CUSTOM0'', 0xb, 0x707f),
     (''CUSTOM0_RS1'', 0x200b, 0x707f), (''CUSTOM0_RS1_RS2'', 0x300b, 0x707f),
     (''CUSTOM0_RD'', 0x400b, 0x707f), (''CUSTOM0_RD_RS1'', 0x600b, 0x707f),
     (''CUSTOM0_RD_RS1_RS2'', 0x700b, 0x707f), (''CUSTOM1'', 0x2b, 0x707f),
     (''CUSTOM1_RS1'', 0x202b, 0x707f), (''CUSTOM1_RS1_RS2'', 0x302b, 0x707f),
     (''CUSTOM1_RD'', 0x402b, 0x707f), (''CUSTOM1_RD_RS1'', 0x602b, 0x707f),
     (''CUSTOM1_RD_RS1_RS2'', 0x702b, 0x707f), (''CUSTOM2'', 0x5b, 0x707f),
     (''CUSTOM2_RS1'', 0x205b, 0x707f), (''CUSTOM2_RS1_RS2'', 0x305b, 0x707f),
     (''CUSTOM2_RD'', 0x405b, 0x707f), (''CUSTOM2_RD_RS1'', 0x605b, 0x707f),
     (''CUSTOM2_RD_RS1_RS2'', 0x705b, 0x707f), (''CUSTOM3'', 0x7b, 0x707f),
     (''CUSTOM3_RS1'', 0x207b, 0x707f), (''CUSTOM3_RS1_RS2'', 0x307b, 0x707f),
     (''CUSTOM3_RD'', 0x407b, 0x707f), (''CUSTOM3_RD_RS1'', 0x607b, 0x707f),
     (''CUSTOM3_RD_RS1_RS2'', 0x707b, 0x707f)]"

definition encoding_insns :: "(string \<times> int \<times> int) list" where
  "encoding_insns = encoding_insns_1 @ encoding_insns_2 @ encoding_insns_3 @ encoding_insns_4"

text \<open>The rows a word matches: \<open>(w & MASK_X) == MATCH_X\<close>.\<close>

definition decode_insn :: "u32 \<Rightarrow> string list" where
  "decode_insn w = map fst (filter (\<lambda>(n, m, k). uint w AND k = m) encoding_insns)"

section \<open>Control and status registers, and causes\<close>

definition encoding_csrs_1 :: "(string \<times> int) list" where
  "encoding_csrs_1 =
    [(''FFLAGS'', 0x1), (''FRM'', 0x2), (''FCSR'', 0x3), (''CYCLE'', 0xc00), (''TIME'', 0xc01),
     (''INSTRET'', 0xc02), (''HPMCOUNTER3'', 0xc03), (''HPMCOUNTER4'', 0xc04),
     (''HPMCOUNTER5'', 0xc05), (''HPMCOUNTER6'', 0xc06), (''HPMCOUNTER7'', 0xc07),
     (''HPMCOUNTER8'', 0xc08), (''HPMCOUNTER9'', 0xc09), (''HPMCOUNTER10'', 0xc0a),
     (''HPMCOUNTER11'', 0xc0b), (''HPMCOUNTER12'', 0xc0c), (''HPMCOUNTER13'', 0xc0d),
     (''HPMCOUNTER14'', 0xc0e), (''HPMCOUNTER15'', 0xc0f), (''HPMCOUNTER16'', 0xc10),
     (''HPMCOUNTER17'', 0xc11), (''HPMCOUNTER18'', 0xc12), (''HPMCOUNTER19'', 0xc13),
     (''HPMCOUNTER20'', 0xc14), (''HPMCOUNTER21'', 0xc15), (''HPMCOUNTER22'', 0xc16),
     (''HPMCOUNTER23'', 0xc17), (''HPMCOUNTER24'', 0xc18), (''HPMCOUNTER25'', 0xc19),
     (''HPMCOUNTER26'', 0xc1a), (''HPMCOUNTER27'', 0xc1b), (''HPMCOUNTER28'', 0xc1c),
     (''HPMCOUNTER29'', 0xc1d), (''HPMCOUNTER30'', 0xc1e), (''HPMCOUNTER31'', 0xc1f),
     (''SSTATUS'', 0x100), (''SIE'', 0x104), (''STVEC'', 0x105), (''SCOUNTEREN'', 0x106),
     (''SSCRATCH'', 0x140), (''SEPC'', 0x141), (''SCAUSE'', 0x142), (''STVAL'', 0x143),
     (''SIP'', 0x144), (''SATP'', 0x180), (''MSTATUS'', 0x300), (''MISA'', 0x301),
     (''MEDELEG'', 0x302), (''MIDELEG'', 0x303), (''MIE'', 0x304), (''MTVEC'', 0x305),
     (''MCOUNTEREN'', 0x306), (''MSCRATCH'', 0x340), (''MEPC'', 0x341), (''MCAUSE'', 0x342),
     (''MTVAL'', 0x343), (''MIP'', 0x344), (''PMPCFG0'', 0x3a0), (''PMPCFG1'', 0x3a1),
     (''PMPCFG2'', 0x3a2), (''PMPCFG3'', 0x3a3), (''PMPADDR0'', 0x3b0), (''PMPADDR1'', 0x3b1),
     (''PMPADDR2'', 0x3b2), (''PMPADDR3'', 0x3b3), (''PMPADDR4'', 0x3b4), (''PMPADDR5'', 0x3b5),
     (''PMPADDR6'', 0x3b6), (''PMPADDR7'', 0x3b7), (''PMPADDR8'', 0x3b8), (''PMPADDR9'', 0x3b9),
     (''PMPADDR10'', 0x3ba), (''PMPADDR11'', 0x3bb), (''PMPADDR12'', 0x3bc),
     (''PMPADDR13'', 0x3bd), (''PMPADDR14'', 0x3be), (''PMPADDR15'', 0x3bf),
     (''TSELECT'', 0x7a0), (''TDATA1'', 0x7a1), (''TDATA2'', 0x7a2), (''TDATA3'', 0x7a3),
     (''DCSR'', 0x7b0), (''DPC'', 0x7b1), (''DSCRATCH'', 0x7b2), (''MCYCLE'', 0xb00),
     (''MINSTRET'', 0xb02), (''MHPMCOUNTER3'', 0xb03), (''MHPMCOUNTER4'', 0xb04),
     (''MHPMCOUNTER5'', 0xb05), (''MHPMCOUNTER6'', 0xb06), (''MHPMCOUNTER7'', 0xb07),
     (''MHPMCOUNTER8'', 0xb08), (''MHPMCOUNTER9'', 0xb09), (''MHPMCOUNTER10'', 0xb0a),
     (''MHPMCOUNTER11'', 0xb0b), (''MHPMCOUNTER12'', 0xb0c), (''MHPMCOUNTER13'', 0xb0d),
     (''MHPMCOUNTER14'', 0xb0e), (''MHPMCOUNTER15'', 0xb0f), (''MHPMCOUNTER16'', 0xb10),
     (''MHPMCOUNTER17'', 0xb11), (''MHPMCOUNTER18'', 0xb12), (''MHPMCOUNTER19'', 0xb13),
     (''MHPMCOUNTER20'', 0xb14), (''MHPMCOUNTER21'', 0xb15), (''MHPMCOUNTER22'', 0xb16)]"

definition encoding_csrs_2 :: "(string \<times> int) list" where
  "encoding_csrs_2 =
    [(''MHPMCOUNTER23'', 0xb17), (''MHPMCOUNTER24'', 0xb18), (''MHPMCOUNTER25'', 0xb19),
     (''MHPMCOUNTER26'', 0xb1a), (''MHPMCOUNTER27'', 0xb1b), (''MHPMCOUNTER28'', 0xb1c),
     (''MHPMCOUNTER29'', 0xb1d), (''MHPMCOUNTER30'', 0xb1e), (''MHPMCOUNTER31'', 0xb1f),
     (''MHPMEVENT3'', 0x323), (''MHPMEVENT4'', 0x324), (''MHPMEVENT5'', 0x325),
     (''MHPMEVENT6'', 0x326), (''MHPMEVENT7'', 0x327), (''MHPMEVENT8'', 0x328),
     (''MHPMEVENT9'', 0x329), (''MHPMEVENT10'', 0x32a), (''MHPMEVENT11'', 0x32b),
     (''MHPMEVENT12'', 0x32c), (''MHPMEVENT13'', 0x32d), (''MHPMEVENT14'', 0x32e),
     (''MHPMEVENT15'', 0x32f), (''MHPMEVENT16'', 0x330), (''MHPMEVENT17'', 0x331),
     (''MHPMEVENT18'', 0x332), (''MHPMEVENT19'', 0x333), (''MHPMEVENT20'', 0x334),
     (''MHPMEVENT21'', 0x335), (''MHPMEVENT22'', 0x336), (''MHPMEVENT23'', 0x337),
     (''MHPMEVENT24'', 0x338), (''MHPMEVENT25'', 0x339), (''MHPMEVENT26'', 0x33a),
     (''MHPMEVENT27'', 0x33b), (''MHPMEVENT28'', 0x33c), (''MHPMEVENT29'', 0x33d),
     (''MHPMEVENT30'', 0x33e), (''MHPMEVENT31'', 0x33f), (''MVENDORID'', 0xf11),
     (''MARCHID'', 0xf12), (''MIMPID'', 0xf13), (''MHARTID'', 0xf14), (''CYCLEH'', 0xc80),
     (''TIMEH'', 0xc81), (''INSTRETH'', 0xc82), (''HPMCOUNTER3H'', 0xc83),
     (''HPMCOUNTER4H'', 0xc84), (''HPMCOUNTER5H'', 0xc85), (''HPMCOUNTER6H'', 0xc86),
     (''HPMCOUNTER7H'', 0xc87), (''HPMCOUNTER8H'', 0xc88), (''HPMCOUNTER9H'', 0xc89),
     (''HPMCOUNTER10H'', 0xc8a), (''HPMCOUNTER11H'', 0xc8b), (''HPMCOUNTER12H'', 0xc8c),
     (''HPMCOUNTER13H'', 0xc8d), (''HPMCOUNTER14H'', 0xc8e), (''HPMCOUNTER15H'', 0xc8f),
     (''HPMCOUNTER16H'', 0xc90), (''HPMCOUNTER17H'', 0xc91), (''HPMCOUNTER18H'', 0xc92),
     (''HPMCOUNTER19H'', 0xc93), (''HPMCOUNTER20H'', 0xc94), (''HPMCOUNTER21H'', 0xc95),
     (''HPMCOUNTER22H'', 0xc96), (''HPMCOUNTER23H'', 0xc97), (''HPMCOUNTER24H'', 0xc98),
     (''HPMCOUNTER25H'', 0xc99), (''HPMCOUNTER26H'', 0xc9a), (''HPMCOUNTER27H'', 0xc9b),
     (''HPMCOUNTER28H'', 0xc9c), (''HPMCOUNTER29H'', 0xc9d), (''HPMCOUNTER30H'', 0xc9e),
     (''HPMCOUNTER31H'', 0xc9f), (''MCYCLEH'', 0xb80), (''MINSTRETH'', 0xb82),
     (''MHPMCOUNTER3H'', 0xb83), (''MHPMCOUNTER4H'', 0xb84), (''MHPMCOUNTER5H'', 0xb85),
     (''MHPMCOUNTER6H'', 0xb86), (''MHPMCOUNTER7H'', 0xb87), (''MHPMCOUNTER8H'', 0xb88),
     (''MHPMCOUNTER9H'', 0xb89), (''MHPMCOUNTER10H'', 0xb8a), (''MHPMCOUNTER11H'', 0xb8b),
     (''MHPMCOUNTER12H'', 0xb8c), (''MHPMCOUNTER13H'', 0xb8d), (''MHPMCOUNTER14H'', 0xb8e),
     (''MHPMCOUNTER15H'', 0xb8f), (''MHPMCOUNTER16H'', 0xb90), (''MHPMCOUNTER17H'', 0xb91),
     (''MHPMCOUNTER18H'', 0xb92), (''MHPMCOUNTER19H'', 0xb93), (''MHPMCOUNTER20H'', 0xb94),
     (''MHPMCOUNTER21H'', 0xb95), (''MHPMCOUNTER22H'', 0xb96), (''MHPMCOUNTER23H'', 0xb97),
     (''MHPMCOUNTER24H'', 0xb98), (''MHPMCOUNTER25H'', 0xb99), (''MHPMCOUNTER26H'', 0xb9a),
     (''MHPMCOUNTER27H'', 0xb9b), (''MHPMCOUNTER28H'', 0xb9c), (''MHPMCOUNTER29H'', 0xb9d),
     (''MHPMCOUNTER30H'', 0xb9e), (''MHPMCOUNTER31H'', 0xb9f)]"

definition encoding_causes :: "(string \<times> int) list" where
  "encoding_causes =
    [(''MISALIGNED_FETCH'', 0x0), (''FETCH_ACCESS'', 0x1), (''ILLEGAL_INSTRUCTION'', 0x2),
     (''BREAKPOINT'', 0x3), (''MISALIGNED_LOAD'', 0x4), (''LOAD_ACCESS'', 0x5),
     (''MISALIGNED_STORE'', 0x6), (''STORE_ACCESS'', 0x7), (''USER_ECALL'', 0x8),
     (''SUPERVISOR_ECALL'', 0x9), (''HYPERVISOR_ECALL'', 0xa), (''MACHINE_ECALL'', 0xb),
     (''FETCH_PAGE_FAULT'', 0xc), (''LOAD_PAGE_FAULT'', 0xd), (''STORE_PAGE_FAULT'', 0xf)]"

definition encoding_csrs :: "(string \<times> int) list" where
  "encoding_csrs = encoding_csrs_1 @ encoding_csrs_2"

section \<open>The declaration lists\<close>

definition declare_insns_1 :: "(string \<times> string \<times> string) list" where
  "declare_insns_1 =
    [(''beq'', ''BEQ'', ''BEQ''), (''bne'', ''BNE'', ''BNE''), (''blt'', ''BLT'', ''BLT''),
     (''bge'', ''BGE'', ''BGE''), (''bltu'', ''BLTU'', ''BLTU''),
     (''bgeu'', ''BGEU'', ''BGEU''), (''jalr'', ''JALR'', ''JALR''),
     (''jal'', ''JAL'', ''JAL''), (''lui'', ''LUI'', ''LUI''),
     (''auipc'', ''AUIPC'', ''AUIPC''), (''addi'', ''ADDI'', ''ADDI''),
     (''slli'', ''SLLI'', ''SLLI''), (''slti'', ''SLTI'', ''SLTI''),
     (''sltiu'', ''SLTIU'', ''SLTIU''), (''xori'', ''XORI'', ''XORI''),
     (''srli'', ''SRLI'', ''SRLI''), (''srai'', ''SRAI'', ''SRAI''),
     (''ori'', ''ORI'', ''ORI''), (''andi'', ''ANDI'', ''ANDI''), (''add'', ''ADD'', ''ADD''),
     (''sub'', ''SUB'', ''SUB''), (''sll'', ''SLL'', ''SLL''), (''slt'', ''SLT'', ''SLT''),
     (''sltu'', ''SLTU'', ''SLTU''), (''xor'', ''XOR'', ''XOR''), (''srl'', ''SRL'', ''SRL''),
     (''sra'', ''SRA'', ''SRA''), (''or'', ''OR'', ''OR''), (''and'', ''AND'', ''AND''),
     (''addiw'', ''ADDIW'', ''ADDIW''), (''slliw'', ''SLLIW'', ''SLLIW''),
     (''srliw'', ''SRLIW'', ''SRLIW''), (''sraiw'', ''SRAIW'', ''SRAIW''),
     (''addw'', ''ADDW'', ''ADDW''), (''subw'', ''SUBW'', ''SUBW''),
     (''sllw'', ''SLLW'', ''SLLW''), (''srlw'', ''SRLW'', ''SRLW''),
     (''sraw'', ''SRAW'', ''SRAW''), (''lb'', ''LB'', ''LB''), (''lh'', ''LH'', ''LH''),
     (''lw'', ''LW'', ''LW''), (''ld'', ''LD'', ''LD''), (''lbu'', ''LBU'', ''LBU''),
     (''lhu'', ''LHU'', ''LHU''), (''lwu'', ''LWU'', ''LWU''), (''sb'', ''SB'', ''SB''),
     (''sh'', ''SH'', ''SH''), (''sw'', ''SW'', ''SW''), (''sd'', ''SD'', ''SD''),
     (''fence'', ''FENCE'', ''FENCE''), (''fence_i'', ''FENCE_I'', ''FENCE_I''),
     (''mul'', ''MUL'', ''MUL''), (''mulh'', ''MULH'', ''MULH''),
     (''mulhsu'', ''MULHSU'', ''MULHSU''), (''mulhu'', ''MULHU'', ''MULHU''),
     (''div'', ''DIV'', ''DIV''), (''divu'', ''DIVU'', ''DIVU''), (''rem'', ''REM'', ''REM''),
     (''remu'', ''REMU'', ''REMU''), (''mulw'', ''MULW'', ''MULW''),
     (''divw'', ''DIVW'', ''DIVW''), (''divuw'', ''DIVUW'', ''DIVUW''),
     (''remw'', ''REMW'', ''REMW''), (''remuw'', ''REMUW'', ''REMUW''),
     (''amoadd_w'', ''AMOADD_W'', ''AMOADD_W''), (''amoxor_w'', ''AMOXOR_W'', ''AMOXOR_W''),
     (''amoor_w'', ''AMOOR_W'', ''AMOOR_W''), (''amoand_w'', ''AMOAND_W'', ''AMOAND_W''),
     (''amomin_w'', ''AMOMIN_W'', ''AMOMIN_W''), (''amomax_w'', ''AMOMAX_W'', ''AMOMAX_W''),
     (''amominu_w'', ''AMOMINU_W'', ''AMOMINU_W''),
     (''amomaxu_w'', ''AMOMAXU_W'', ''AMOMAXU_W''),
     (''amoswap_w'', ''AMOSWAP_W'', ''AMOSWAP_W''), (''lr_w'', ''LR_W'', ''LR_W''),
     (''sc_w'', ''SC_W'', ''SC_W''), (''amoadd_d'', ''AMOADD_D'', ''AMOADD_D''),
     (''amoxor_d'', ''AMOXOR_D'', ''AMOXOR_D''), (''amoor_d'', ''AMOOR_D'', ''AMOOR_D''),
     (''amoand_d'', ''AMOAND_D'', ''AMOAND_D''), (''amomin_d'', ''AMOMIN_D'', ''AMOMIN_D''),
     (''amomax_d'', ''AMOMAX_D'', ''AMOMAX_D''), (''amominu_d'', ''AMOMINU_D'', ''AMOMINU_D''),
     (''amomaxu_d'', ''AMOMAXU_D'', ''AMOMAXU_D''),
     (''amoswap_d'', ''AMOSWAP_D'', ''AMOSWAP_D''), (''lr_d'', ''LR_D'', ''LR_D''),
     (''sc_d'', ''SC_D'', ''SC_D''), (''ecall'', ''ECALL'', ''ECALL''),
     (''ebreak'', ''EBREAK'', ''EBREAK''), (''uret'', ''URET'', ''URET''),
     (''sret'', ''SRET'', ''SRET''), (''mret'', ''MRET'', ''MRET''),
     (''dret'', ''DRET'', ''DRET''), (''sfence_vma'', ''SFENCE_VMA'', ''SFENCE_VMA''),
     (''wfi'', ''WFI'', ''WFI''), (''csrrw'', ''CSRRW'', ''CSRRW''),
     (''csrrs'', ''CSRRS'', ''CSRRS''), (''csrrc'', ''CSRRC'', ''CSRRC''),
     (''csrrwi'', ''CSRRWI'', ''CSRRWI''), (''csrrsi'', ''CSRRSI'', ''CSRRSI''),
     (''csrrci'', ''CSRRCI'', ''CSRRCI''), (''fadd_s'', ''FADD_S'', ''FADD_S''),
     (''fsub_s'', ''FSUB_S'', ''FSUB_S''), (''fmul_s'', ''FMUL_S'', ''FMUL_S''),
     (''fdiv_s'', ''FDIV_S'', ''FDIV_S''), (''fsgnj_s'', ''FSGNJ_S'', ''FSGNJ_S''),
     (''fsgnjn_s'', ''FSGNJN_S'', ''FSGNJN_S''), (''fsgnjx_s'', ''FSGNJX_S'', ''FSGNJX_S''),
     (''fmin_s'', ''FMIN_S'', ''FMIN_S''), (''fmax_s'', ''FMAX_S'', ''FMAX_S''),
     (''fsqrt_s'', ''FSQRT_S'', ''FSQRT_S''), (''fadd_d'', ''FADD_D'', ''FADD_D''),
     (''fsub_d'', ''FSUB_D'', ''FSUB_D''), (''fmul_d'', ''FMUL_D'', ''FMUL_D''),
     (''fdiv_d'', ''FDIV_D'', ''FDIV_D''), (''fsgnj_d'', ''FSGNJ_D'', ''FSGNJ_D''),
     (''fsgnjn_d'', ''FSGNJN_D'', ''FSGNJN_D''), (''fsgnjx_d'', ''FSGNJX_D'', ''FSGNJX_D''),
     (''fmin_d'', ''FMIN_D'', ''FMIN_D''), (''fmax_d'', ''FMAX_D'', ''FMAX_D''),
     (''fcvt_s_d'', ''FCVT_S_D'', ''FCVT_S_D''), (''fcvt_d_s'', ''FCVT_D_S'', ''FCVT_D_S''),
     (''fsqrt_d'', ''FSQRT_D'', ''FSQRT_D''), (''fadd_q'', ''FADD_Q'', ''FADD_Q''),
     (''fsub_q'', ''FSUB_Q'', ''FSUB_Q''), (''fmul_q'', ''FMUL_Q'', ''FMUL_Q''),
     (''fdiv_q'', ''FDIV_Q'', ''FDIV_Q''), (''fsgnj_q'', ''FSGNJ_Q'', ''FSGNJ_Q''),
     (''fsgnjn_q'', ''FSGNJN_Q'', ''FSGNJN_Q''), (''fsgnjx_q'', ''FSGNJX_Q'', ''FSGNJX_Q''),
     (''fmin_q'', ''FMIN_Q'', ''FMIN_Q''), (''fmax_q'', ''FMAX_Q'', ''FMAX_Q'')]"

definition declare_insns_2 :: "(string \<times> string \<times> string) list" where
  "declare_insns_2 =
    [(''fcvt_s_q'', ''FCVT_S_Q'', ''FCVT_S_Q''), (''fcvt_q_s'', ''FCVT_Q_S'', ''FCVT_Q_S''),
     (''fcvt_d_q'', ''FCVT_D_Q'', ''FCVT_D_Q''), (''fcvt_q_d'', ''FCVT_Q_D'', ''FCVT_Q_D''),
     (''fsqrt_q'', ''FSQRT_Q'', ''FSQRT_Q''), (''fle_s'', ''FLE_S'', ''FLE_S''),
     (''flt_s'', ''FLT_S'', ''FLT_S''), (''feq_s'', ''FEQ_S'', ''FEQ_S''),
     (''fle_d'', ''FLE_D'', ''FLE_D''), (''flt_d'', ''FLT_D'', ''FLT_D''),
     (''feq_d'', ''FEQ_D'', ''FEQ_D''), (''fle_q'', ''FLE_Q'', ''FLE_Q''),
     (''flt_q'', ''FLT_Q'', ''FLT_Q''), (''feq_q'', ''FEQ_Q'', ''FEQ_Q''),
     (''fcvt_w_s'', ''FCVT_W_S'', ''FCVT_W_S''), (''fcvt_wu_s'', ''FCVT_WU_S'', ''FCVT_WU_S''),
     (''fcvt_l_s'', ''FCVT_L_S'', ''FCVT_L_S''), (''fcvt_lu_s'', ''FCVT_LU_S'', ''FCVT_LU_S''),
     (''fmv_x_w'', ''FMV_X_W'', ''FMV_X_W''), (''fclass_s'', ''FCLASS_S'', ''FCLASS_S''),
     (''fcvt_w_d'', ''FCVT_W_D'', ''FCVT_W_D''), (''fcvt_wu_d'', ''FCVT_WU_D'', ''FCVT_WU_D''),
     (''fcvt_l_d'', ''FCVT_L_D'', ''FCVT_L_D''), (''fcvt_lu_d'', ''FCVT_LU_D'', ''FCVT_LU_D''),
     (''fmv_x_d'', ''FMV_X_D'', ''FMV_X_D''), (''fclass_d'', ''FCLASS_D'', ''FCLASS_D''),
     (''fcvt_w_q'', ''FCVT_W_Q'', ''FCVT_W_Q''), (''fcvt_wu_q'', ''FCVT_WU_Q'', ''FCVT_WU_Q''),
     (''fcvt_l_q'', ''FCVT_L_Q'', ''FCVT_L_Q''), (''fcvt_lu_q'', ''FCVT_LU_Q'', ''FCVT_LU_Q''),
     (''fmv_x_q'', ''FMV_X_Q'', ''FMV_X_Q''), (''fclass_q'', ''FCLASS_Q'', ''FCLASS_Q''),
     (''fcvt_s_w'', ''FCVT_S_W'', ''FCVT_S_W''), (''fcvt_s_wu'', ''FCVT_S_WU'', ''FCVT_S_WU''),
     (''fcvt_s_l'', ''FCVT_S_L'', ''FCVT_S_L''), (''fcvt_s_lu'', ''FCVT_S_LU'', ''FCVT_S_LU''),
     (''fmv_w_x'', ''FMV_W_X'', ''FMV_W_X''), (''fcvt_d_w'', ''FCVT_D_W'', ''FCVT_D_W''),
     (''fcvt_d_wu'', ''FCVT_D_WU'', ''FCVT_D_WU''), (''fcvt_d_l'', ''FCVT_D_L'', ''FCVT_D_L''),
     (''fcvt_d_lu'', ''FCVT_D_LU'', ''FCVT_D_LU''), (''fmv_d_x'', ''FMV_D_X'', ''FMV_D_X''),
     (''fcvt_q_w'', ''FCVT_Q_W'', ''FCVT_Q_W''), (''fcvt_q_wu'', ''FCVT_Q_WU'', ''FCVT_Q_WU''),
     (''fcvt_q_l'', ''FCVT_Q_L'', ''FCVT_Q_L''), (''fcvt_q_lu'', ''FCVT_Q_LU'', ''FCVT_Q_LU''),
     (''fmv_q_x'', ''FMV_Q_X'', ''FMV_Q_X''), (''flw'', ''FLW'', ''FLW''),
     (''fld'', ''FLD'', ''FLD''), (''flq'', ''FLQ'', ''FLQ''), (''fsw'', ''FSW'', ''FSW''),
     (''fsd'', ''FSD'', ''FSD''), (''fsq'', ''FSQ'', ''FSQ''),
     (''fmadd_s'', ''FMADD_S'', ''FMADD_S''), (''fmsub_s'', ''FMSUB_S'', ''FMSUB_S''),
     (''fnmsub_s'', ''FNMSUB_S'', ''FNMSUB_S''), (''fnmadd_s'', ''FNMADD_S'', ''FNMADD_S''),
     (''fmadd_d'', ''FMADD_D'', ''FMADD_D''), (''fmsub_d'', ''FMSUB_D'', ''FMSUB_D''),
     (''fnmsub_d'', ''FNMSUB_D'', ''FNMSUB_D''), (''fnmadd_d'', ''FNMADD_D'', ''FNMADD_D''),
     (''fmadd_q'', ''FMADD_Q'', ''FMADD_Q''), (''fmsub_q'', ''FMSUB_Q'', ''FMSUB_Q''),
     (''fnmsub_q'', ''FNMSUB_Q'', ''FNMSUB_Q''), (''fnmadd_q'', ''FNMADD_Q'', ''FNMADD_Q''),
     (''c_nop'', ''C_NOP'', ''C_NOP''), (''c_addi16sp'', ''C_ADDI16SP'', ''C_ADDI16SP''),
     (''c_jr'', ''C_JR'', ''C_JR''), (''c_jalr'', ''C_JALR'', ''C_JALR''),
     (''c_ebreak'', ''C_EBREAK'', ''C_EBREAK''), (''c_ld'', ''C_LD'', ''C_LD''),
     (''c_sd'', ''C_SD'', ''C_SD''), (''c_addiw'', ''C_ADDIW'', ''C_ADDIW''),
     (''c_ldsp'', ''C_LDSP'', ''C_LDSP''), (''c_sdsp'', ''C_SDSP'', ''C_SDSP''),
     (''c_addi4spn'', ''C_ADDI4SPN'', ''C_ADDI4SPN''), (''c_fld'', ''C_FLD'', ''C_FLD''),
     (''c_lw'', ''C_LW'', ''C_LW''), (''c_flw'', ''C_FLW'', ''C_FLW''),
     (''c_fsd'', ''C_FSD'', ''C_FSD''), (''c_sw'', ''C_SW'', ''C_SW''),
     (''c_fsw'', ''C_FSW'', ''C_FSW''), (''c_addi'', ''C_ADDI'', ''C_ADDI''),
     (''c_jal'', ''C_JAL'', ''C_JAL''), (''c_li'', ''C_LI'', ''C_LI''),
     (''c_lui'', ''C_LUI'', ''C_LUI''), (''c_srli'', ''C_SRLI'', ''C_SRLI''),
     (''c_srai'', ''C_SRAI'', ''C_SRAI''), (''c_andi'', ''C_ANDI'', ''C_ANDI''),
     (''c_sub'', ''C_SUB'', ''C_SUB''), (''c_xor'', ''C_XOR'', ''C_XOR''),
     (''c_or'', ''C_OR'', ''C_OR''), (''c_and'', ''C_AND'', ''C_AND''),
     (''c_subw'', ''C_SUBW'', ''C_SUBW''), (''c_addw'', ''C_ADDW'', ''C_ADDW''),
     (''c_j'', ''C_J'', ''C_J''), (''c_beqz'', ''C_BEQZ'', ''C_BEQZ''),
     (''c_bnez'', ''C_BNEZ'', ''C_BNEZ''), (''c_slli'', ''C_SLLI'', ''C_SLLI''),
     (''c_fldsp'', ''C_FLDSP'', ''C_FLDSP''), (''c_lwsp'', ''C_LWSP'', ''C_LWSP''),
     (''c_flwsp'', ''C_FLWSP'', ''C_FLWSP''), (''c_mv'', ''C_MV'', ''C_MV''),
     (''c_add'', ''C_ADD'', ''C_ADD''), (''c_fsdsp'', ''C_FSDSP'', ''C_FSDSP''),
     (''c_swsp'', ''C_SWSP'', ''C_SWSP''), (''c_fswsp'', ''C_FSWSP'', ''C_FSWSP''),
     (''custom0'', ''CUSTOM0'', ''CUSTOM0''),
     (''custom0_rs1'', ''CUSTOM0_RS1'', ''CUSTOM0_RS1''),
     (''custom0_rs1_rs2'', ''CUSTOM0_RS1_RS2'', ''CUSTOM0_RS1_RS2''),
     (''custom0_rd'', ''CUSTOM0_RD'', ''CUSTOM0_RD''),
     (''custom0_rd_rs1'', ''CUSTOM0_RD_RS1'', ''CUSTOM0_RD_RS1''),
     (''custom0_rd_rs1_rs2'', ''CUSTOM0_RD_RS1_RS2'', ''CUSTOM0_RD_RS1_RS2''),
     (''custom1'', ''CUSTOM1'', ''CUSTOM1''),
     (''custom1_rs1'', ''CUSTOM1_RS1'', ''CUSTOM1_RS1''),
     (''custom1_rs1_rs2'', ''CUSTOM1_RS1_RS2'', ''CUSTOM1_RS1_RS2''),
     (''custom1_rd'', ''CUSTOM1_RD'', ''CUSTOM1_RD''),
     (''custom1_rd_rs1'', ''CUSTOM1_RD_RS1'', ''CUSTOM1_RD_RS1''),
     (''custom1_rd_rs1_rs2'', ''CUSTOM1_RD_RS1_RS2'', ''CUSTOM1_RD_RS1_RS2''),
     (''custom2'', ''CUSTOM2'', ''CUSTOM2''),
     (''custom2_rs1'', ''CUSTOM2_RS1'', ''CUSTOM2_RS1''),
     (''custom2_rs1_rs2'', ''CUSTOM2_RS1_RS2'', ''CUSTOM2_RS1_RS2''),
     (''custom2_rd'', ''CUSTOM2_RD'', ''CUSTOM2_RD''),
     (''custom2_rd_rs1'', ''CUSTOM2_RD_RS1'', ''CUSTOM2_RD_RS1''),
     (''custom2_rd_rs1_rs2'', ''CUSTOM2_RD_RS1_RS2'', ''CUSTOM2_RD_RS1_RS2''),
     (''custom3'', ''CUSTOM3'', ''CUSTOM3''),
     (''custom3_rs1'', ''CUSTOM3_RS1'', ''CUSTOM3_RS1''),
     (''custom3_rs1_rs2'', ''CUSTOM3_RS1_RS2'', ''CUSTOM3_RS1_RS2''),
     (''custom3_rd'', ''CUSTOM3_RD'', ''CUSTOM3_RD''),
     (''custom3_rd_rs1'', ''CUSTOM3_RD_RS1'', ''CUSTOM3_RD_RS1''),
     (''custom3_rd_rs1_rs2'', ''CUSTOM3_RD_RS1_RS2'', ''CUSTOM3_RD_RS1_RS2'')]"

definition declare_csrs_1 :: "(string \<times> string) list" where
  "declare_csrs_1 =
    [(''fflags'', ''FFLAGS''), (''frm'', ''FRM''), (''fcsr'', ''FCSR''), (''cycle'', ''CYCLE''),
     (''time'', ''TIME''), (''instret'', ''INSTRET''), (''hpmcounter3'', ''HPMCOUNTER3''),
     (''hpmcounter4'', ''HPMCOUNTER4''), (''hpmcounter5'', ''HPMCOUNTER5''),
     (''hpmcounter6'', ''HPMCOUNTER6''), (''hpmcounter7'', ''HPMCOUNTER7''),
     (''hpmcounter8'', ''HPMCOUNTER8''), (''hpmcounter9'', ''HPMCOUNTER9''),
     (''hpmcounter10'', ''HPMCOUNTER10''), (''hpmcounter11'', ''HPMCOUNTER11''),
     (''hpmcounter12'', ''HPMCOUNTER12''), (''hpmcounter13'', ''HPMCOUNTER13''),
     (''hpmcounter14'', ''HPMCOUNTER14''), (''hpmcounter15'', ''HPMCOUNTER15''),
     (''hpmcounter16'', ''HPMCOUNTER16''), (''hpmcounter17'', ''HPMCOUNTER17''),
     (''hpmcounter18'', ''HPMCOUNTER18''), (''hpmcounter19'', ''HPMCOUNTER19''),
     (''hpmcounter20'', ''HPMCOUNTER20''), (''hpmcounter21'', ''HPMCOUNTER21''),
     (''hpmcounter22'', ''HPMCOUNTER22''), (''hpmcounter23'', ''HPMCOUNTER23''),
     (''hpmcounter24'', ''HPMCOUNTER24''), (''hpmcounter25'', ''HPMCOUNTER25''),
     (''hpmcounter26'', ''HPMCOUNTER26''), (''hpmcounter27'', ''HPMCOUNTER27''),
     (''hpmcounter28'', ''HPMCOUNTER28''), (''hpmcounter29'', ''HPMCOUNTER29''),
     (''hpmcounter30'', ''HPMCOUNTER30''), (''hpmcounter31'', ''HPMCOUNTER31''),
     (''sstatus'', ''SSTATUS''), (''sie'', ''SIE''), (''stvec'', ''STVEC''),
     (''scounteren'', ''SCOUNTEREN''), (''sscratch'', ''SSCRATCH''), (''sepc'', ''SEPC''),
     (''scause'', ''SCAUSE''), (''stval'', ''STVAL''), (''sip'', ''SIP''), (''satp'', ''SATP''),
     (''mstatus'', ''MSTATUS''), (''misa'', ''MISA''), (''medeleg'', ''MEDELEG''),
     (''mideleg'', ''MIDELEG''), (''mie'', ''MIE''), (''mtvec'', ''MTVEC''),
     (''mcounteren'', ''MCOUNTEREN''), (''mscratch'', ''MSCRATCH''), (''mepc'', ''MEPC''),
     (''mcause'', ''MCAUSE''), (''mtval'', ''MTVAL''), (''mip'', ''MIP''),
     (''pmpcfg0'', ''PMPCFG0''), (''pmpcfg1'', ''PMPCFG1''), (''pmpcfg2'', ''PMPCFG2''),
     (''pmpcfg3'', ''PMPCFG3''), (''pmpaddr0'', ''PMPADDR0''), (''pmpaddr1'', ''PMPADDR1''),
     (''pmpaddr2'', ''PMPADDR2''), (''pmpaddr3'', ''PMPADDR3''), (''pmpaddr4'', ''PMPADDR4''),
     (''pmpaddr5'', ''PMPADDR5''), (''pmpaddr6'', ''PMPADDR6''), (''pmpaddr7'', ''PMPADDR7''),
     (''pmpaddr8'', ''PMPADDR8''), (''pmpaddr9'', ''PMPADDR9''), (''pmpaddr10'', ''PMPADDR10''),
     (''pmpaddr11'', ''PMPADDR11''), (''pmpaddr12'', ''PMPADDR12''),
     (''pmpaddr13'', ''PMPADDR13''), (''pmpaddr14'', ''PMPADDR14''),
     (''pmpaddr15'', ''PMPADDR15''), (''tselect'', ''TSELECT''), (''tdata1'', ''TDATA1''),
     (''tdata2'', ''TDATA2''), (''tdata3'', ''TDATA3''), (''dcsr'', ''DCSR''),
     (''dpc'', ''DPC''), (''dscratch'', ''DSCRATCH''), (''mcycle'', ''MCYCLE''),
     (''minstret'', ''MINSTRET''), (''mhpmcounter3'', ''MHPMCOUNTER3''),
     (''mhpmcounter4'', ''MHPMCOUNTER4''), (''mhpmcounter5'', ''MHPMCOUNTER5''),
     (''mhpmcounter6'', ''MHPMCOUNTER6''), (''mhpmcounter7'', ''MHPMCOUNTER7''),
     (''mhpmcounter8'', ''MHPMCOUNTER8''), (''mhpmcounter9'', ''MHPMCOUNTER9''),
     (''mhpmcounter10'', ''MHPMCOUNTER10''), (''mhpmcounter11'', ''MHPMCOUNTER11''),
     (''mhpmcounter12'', ''MHPMCOUNTER12''), (''mhpmcounter13'', ''MHPMCOUNTER13''),
     (''mhpmcounter14'', ''MHPMCOUNTER14''), (''mhpmcounter15'', ''MHPMCOUNTER15''),
     (''mhpmcounter16'', ''MHPMCOUNTER16''), (''mhpmcounter17'', ''MHPMCOUNTER17''),
     (''mhpmcounter18'', ''MHPMCOUNTER18''), (''mhpmcounter19'', ''MHPMCOUNTER19''),
     (''mhpmcounter20'', ''MHPMCOUNTER20''), (''mhpmcounter21'', ''MHPMCOUNTER21''),
     (''mhpmcounter22'', ''MHPMCOUNTER22'')]"

definition declare_csrs_2 :: "(string \<times> string) list" where
  "declare_csrs_2 =
    [(''mhpmcounter23'', ''MHPMCOUNTER23''), (''mhpmcounter24'', ''MHPMCOUNTER24''),
     (''mhpmcounter25'', ''MHPMCOUNTER25''), (''mhpmcounter26'', ''MHPMCOUNTER26''),
     (''mhpmcounter27'', ''MHPMCOUNTER27''), (''mhpmcounter28'', ''MHPMCOUNTER28''),
     (''mhpmcounter29'', ''MHPMCOUNTER29''), (''mhpmcounter30'', ''MHPMCOUNTER30''),
     (''mhpmcounter31'', ''MHPMCOUNTER31''), (''mhpmevent3'', ''MHPMEVENT3''),
     (''mhpmevent4'', ''MHPMEVENT4''), (''mhpmevent5'', ''MHPMEVENT5''),
     (''mhpmevent6'', ''MHPMEVENT6''), (''mhpmevent7'', ''MHPMEVENT7''),
     (''mhpmevent8'', ''MHPMEVENT8''), (''mhpmevent9'', ''MHPMEVENT9''),
     (''mhpmevent10'', ''MHPMEVENT10''), (''mhpmevent11'', ''MHPMEVENT11''),
     (''mhpmevent12'', ''MHPMEVENT12''), (''mhpmevent13'', ''MHPMEVENT13''),
     (''mhpmevent14'', ''MHPMEVENT14''), (''mhpmevent15'', ''MHPMEVENT15''),
     (''mhpmevent16'', ''MHPMEVENT16''), (''mhpmevent17'', ''MHPMEVENT17''),
     (''mhpmevent18'', ''MHPMEVENT18''), (''mhpmevent19'', ''MHPMEVENT19''),
     (''mhpmevent20'', ''MHPMEVENT20''), (''mhpmevent21'', ''MHPMEVENT21''),
     (''mhpmevent22'', ''MHPMEVENT22''), (''mhpmevent23'', ''MHPMEVENT23''),
     (''mhpmevent24'', ''MHPMEVENT24''), (''mhpmevent25'', ''MHPMEVENT25''),
     (''mhpmevent26'', ''MHPMEVENT26''), (''mhpmevent27'', ''MHPMEVENT27''),
     (''mhpmevent28'', ''MHPMEVENT28''), (''mhpmevent29'', ''MHPMEVENT29''),
     (''mhpmevent30'', ''MHPMEVENT30''), (''mhpmevent31'', ''MHPMEVENT31''),
     (''mvendorid'', ''MVENDORID''), (''marchid'', ''MARCHID''), (''mimpid'', ''MIMPID''),
     (''mhartid'', ''MHARTID''), (''cycleh'', ''CYCLEH''), (''timeh'', ''TIMEH''),
     (''instreth'', ''INSTRETH''), (''hpmcounter3h'', ''HPMCOUNTER3H''),
     (''hpmcounter4h'', ''HPMCOUNTER4H''), (''hpmcounter5h'', ''HPMCOUNTER5H''),
     (''hpmcounter6h'', ''HPMCOUNTER6H''), (''hpmcounter7h'', ''HPMCOUNTER7H''),
     (''hpmcounter8h'', ''HPMCOUNTER8H''), (''hpmcounter9h'', ''HPMCOUNTER9H''),
     (''hpmcounter10h'', ''HPMCOUNTER10H''), (''hpmcounter11h'', ''HPMCOUNTER11H''),
     (''hpmcounter12h'', ''HPMCOUNTER12H''), (''hpmcounter13h'', ''HPMCOUNTER13H''),
     (''hpmcounter14h'', ''HPMCOUNTER14H''), (''hpmcounter15h'', ''HPMCOUNTER15H''),
     (''hpmcounter16h'', ''HPMCOUNTER16H''), (''hpmcounter17h'', ''HPMCOUNTER17H''),
     (''hpmcounter18h'', ''HPMCOUNTER18H''), (''hpmcounter19h'', ''HPMCOUNTER19H''),
     (''hpmcounter20h'', ''HPMCOUNTER20H''), (''hpmcounter21h'', ''HPMCOUNTER21H''),
     (''hpmcounter22h'', ''HPMCOUNTER22H''), (''hpmcounter23h'', ''HPMCOUNTER23H''),
     (''hpmcounter24h'', ''HPMCOUNTER24H''), (''hpmcounter25h'', ''HPMCOUNTER25H''),
     (''hpmcounter26h'', ''HPMCOUNTER26H''), (''hpmcounter27h'', ''HPMCOUNTER27H''),
     (''hpmcounter28h'', ''HPMCOUNTER28H''), (''hpmcounter29h'', ''HPMCOUNTER29H''),
     (''hpmcounter30h'', ''HPMCOUNTER30H''), (''hpmcounter31h'', ''HPMCOUNTER31H''),
     (''mcycleh'', ''MCYCLEH''), (''minstreth'', ''MINSTRETH''),
     (''mhpmcounter3h'', ''MHPMCOUNTER3H''), (''mhpmcounter4h'', ''MHPMCOUNTER4H''),
     (''mhpmcounter5h'', ''MHPMCOUNTER5H''), (''mhpmcounter6h'', ''MHPMCOUNTER6H''),
     (''mhpmcounter7h'', ''MHPMCOUNTER7H''), (''mhpmcounter8h'', ''MHPMCOUNTER8H''),
     (''mhpmcounter9h'', ''MHPMCOUNTER9H''), (''mhpmcounter10h'', ''MHPMCOUNTER10H''),
     (''mhpmcounter11h'', ''MHPMCOUNTER11H''), (''mhpmcounter12h'', ''MHPMCOUNTER12H''),
     (''mhpmcounter13h'', ''MHPMCOUNTER13H''), (''mhpmcounter14h'', ''MHPMCOUNTER14H''),
     (''mhpmcounter15h'', ''MHPMCOUNTER15H''), (''mhpmcounter16h'', ''MHPMCOUNTER16H''),
     (''mhpmcounter17h'', ''MHPMCOUNTER17H''), (''mhpmcounter18h'', ''MHPMCOUNTER18H''),
     (''mhpmcounter19h'', ''MHPMCOUNTER19H''), (''mhpmcounter20h'', ''MHPMCOUNTER20H''),
     (''mhpmcounter21h'', ''MHPMCOUNTER21H''), (''mhpmcounter22h'', ''MHPMCOUNTER22H''),
     (''mhpmcounter23h'', ''MHPMCOUNTER23H''), (''mhpmcounter24h'', ''MHPMCOUNTER24H''),
     (''mhpmcounter25h'', ''MHPMCOUNTER25H''), (''mhpmcounter26h'', ''MHPMCOUNTER26H''),
     (''mhpmcounter27h'', ''MHPMCOUNTER27H''), (''mhpmcounter28h'', ''MHPMCOUNTER28H''),
     (''mhpmcounter29h'', ''MHPMCOUNTER29H''), (''mhpmcounter30h'', ''MHPMCOUNTER30H''),
     (''mhpmcounter31h'', ''MHPMCOUNTER31H'')]"

definition declare_causes :: "(string \<times> string) list" where
  "declare_causes =
    [(''misaligned fetch'', ''MISALIGNED_FETCH''), (''fetch access'', ''FETCH_ACCESS''),
     (''illegal instruction'', ''ILLEGAL_INSTRUCTION''), (''breakpoint'', ''BREAKPOINT''),
     (''misaligned load'', ''MISALIGNED_LOAD''), (''load access'', ''LOAD_ACCESS''),
     (''misaligned store'', ''MISALIGNED_STORE''), (''store access'', ''STORE_ACCESS''),
     (''user_ecall'', ''USER_ECALL''), (''supervisor_ecall'', ''SUPERVISOR_ECALL''),
     (''hypervisor_ecall'', ''HYPERVISOR_ECALL''), (''machine_ecall'', ''MACHINE_ECALL''),
     (''fetch page fault'', ''FETCH_PAGE_FAULT''), (''load page fault'', ''LOAD_PAGE_FAULT''),
     (''store page fault'', ''STORE_PAGE_FAULT'')]"

section \<open>No word is two instructions\<close>

text \<open>
  A check that the rows exclude each other: rows with different bits under the mask they all
  have in common do, and rows with the same bits there are checked in the same way.
\<close>

definition common_mask :: "(int \<times> int) list \<Rightarrow> int" where
  "common_mask rows = fold (\<lambda>r k. snd r AND k) rows (- 1)"

definition keyed :: "int \<Rightarrow> (int \<times> int) list \<Rightarrow> (int \<times> int \<times> int) list" where
  "keyed c rows = map (\<lambda>r. (fst r AND c, r)) rows"

definition same_key :: "int \<Rightarrow> (int \<times> int \<times> int) list \<Rightarrow> (int \<times> int) list" where
  "same_key v rows = map snd (filter (\<lambda>r. fst r = v) rows)"

definition groups :: "(int \<times> int \<times> int) list \<Rightarrow> (int \<times> int) list list" where
  "groups rows = map (\<lambda>v. same_key v rows) (remdups (map fst rows))"

fun exclusive :: "nat \<Rightarrow> (int \<times> int) list \<Rightarrow> bool" where
  "exclusive n [] = True"
| "exclusive n [r] = True"
| "exclusive 0 rows = False"
| "exclusive (Suc n) rows = list_all (exclusive n) (groups (keyed (common_mask rows) rows))"

definition matches :: "int \<Rightarrow> int \<times> int \<Rightarrow> bool" where
  "matches w r \<longleftrightarrow> w AND snd r = fst r"

lemma common_mask_le: "r \<in> set rows \<Longrightarrow> common_mask rows AND snd r = common_mask rows"
proof -
  have fold_le: "fold (\<lambda>r k. snd r AND k) rows k AND k = fold (\<lambda>r k. snd r AND k) rows k" for k :: int
    by (induction rows arbitrary: k) (auto, metis and.assoc and.commute and.left_idem)
  have "r \<in> set rows \<Longrightarrow> fold (\<lambda>r k. snd r AND k) rows k AND snd r = fold (\<lambda>r k. snd r AND k) rows k" for k
  proof (induction rows arbitrary: k)
    case (Cons x rows)
    show ?case
    proof (cases "r \<in> set rows")
      case True
      then show ?thesis using Cons.IH by simp
    next
      case False
      have le: "fold (\<lambda>r k. snd r AND k) rows k AND k = fold (\<lambda>r k. snd r AND k) rows k" for k :: int
        by (induction rows arbitrary: k) (auto, metis and.assoc and.commute and.left_idem)
      from False Cons.prems have "x = r" by simp
      then show ?thesis using le [of "snd r AND k"] by (simp, metis and.assoc and.commute and.left_idem)
    qed
  qed simp
  then show "r \<in> set rows \<Longrightarrow> ?thesis" by (simp add: common_mask_def)
qed

lemma matches_same_key:
  assumes "r \<in> set rows" and "matches w r"
  shows "fst r AND common_mask rows = w AND common_mask rows"
  using common_mask_le [OF assms(1)] assms(2)
  by (metis matches_def and.assoc and.commute)

lemma same_key_keyed: "same_key v (keyed c rows) = filter (\<lambda>r. fst r AND c = v) rows"
  by (induction rows) (simp_all add: same_key_def keyed_def)

lemma same_key_none: "v \<notin> set (map fst rows) \<Longrightarrow> same_key v rows = []"
  by (force simp: same_key_def filter_empty_conv)

lemma exclusive_one:
  "exclusive n rows \<Longrightarrow> length (filter (matches w) rows) \<le> 1"
proof (induction n rows rule: exclusive.induct)
  case (4 n r1 r2 rows)
  let ?rows = "r1 # r2 # rows" and ?c = "common_mask (r1 # r2 # rows)"
  let ?g = "same_key (w AND ?c) (keyed ?c ?rows)"
  have "?g = filter (\<lambda>r. fst r AND ?c = w AND ?c) ?rows"
    by (rule same_key_keyed)
  then have "filter (matches w) ?rows = filter (matches w) ?g"
    using matches_same_key [of _ ?rows w] by (auto intro!: filter_cong)
  moreover have "length (filter (matches w) ?g) \<le> 1"
  proof (cases "w AND ?c \<in> set (map fst (keyed ?c ?rows))")
    case True
    then have "?g \<in> set (groups (keyed ?c ?rows))" by (simp add: groups_def)
    then show ?thesis using 4 by (simp add: list_all_iff)
  next
    case False
    then have "?g = []" by (rule same_key_none)
    then show ?thesis by simp
  qed
  ultimately show ?case by simp
qed auto

definition long_rows :: "(int \<times> int) list" where
  "long_rows = map snd (filter (\<lambda>(n, m, k). m AND 3 = 3) encoding_insns)"

text \<open>The same rows with their major opcodes, and the rows of each opcode.\<close>

definition opcode_rows :: "(int \<times> int \<times> int) list" where
  "opcode_rows =
    [(0x63, 0x63, 0x707f), (0x63, 0x1063, 0x707f), (0x63, 0x4063, 0x707f),
     (0x63, 0x5063, 0x707f), (0x63, 0x6063, 0x707f), (0x63, 0x7063, 0x707f),
     (0x67, 0x67, 0x707f), (0x6f, 0x6f, 0x7f), (0x37, 0x37, 0x7f), (0x17, 0x17, 0x7f),
     (0x13, 0x13, 0x707f), (0x13, 0x1013, 0xfc00707f), (0x13, 0x2013, 0x707f),
     (0x13, 0x3013, 0x707f), (0x13, 0x4013, 0x707f), (0x13, 0x5013, 0xfc00707f),
     (0x13, 0x40005013, 0xfc00707f), (0x13, 0x6013, 0x707f), (0x13, 0x7013, 0x707f),
     (0x33, 0x33, 0xfe00707f), (0x33, 0x40000033, 0xfe00707f), (0x33, 0x1033, 0xfe00707f),
     (0x33, 0x2033, 0xfe00707f), (0x33, 0x3033, 0xfe00707f), (0x33, 0x4033, 0xfe00707f),
     (0x33, 0x5033, 0xfe00707f), (0x33, 0x40005033, 0xfe00707f), (0x33, 0x6033, 0xfe00707f),
     (0x33, 0x7033, 0xfe00707f), (0x1b, 0x1b, 0x707f), (0x1b, 0x101b, 0xfe00707f),
     (0x1b, 0x501b, 0xfe00707f), (0x1b, 0x4000501b, 0xfe00707f), (0x3b, 0x3b, 0xfe00707f),
     (0x3b, 0x4000003b, 0xfe00707f), (0x3b, 0x103b, 0xfe00707f), (0x3b, 0x503b, 0xfe00707f),
     (0x3b, 0x4000503b, 0xfe00707f), (0x3, 0x3, 0x707f), (0x3, 0x1003, 0x707f),
     (0x3, 0x2003, 0x707f), (0x3, 0x3003, 0x707f), (0x3, 0x4003, 0x707f), (0x3, 0x5003, 0x707f),
     (0x3, 0x6003, 0x707f), (0x23, 0x23, 0x707f), (0x23, 0x1023, 0x707f),
     (0x23, 0x2023, 0x707f), (0x23, 0x3023, 0x707f), (0xf, 0xf, 0x707f), (0xf, 0x100f, 0x707f),
     (0x33, 0x2000033, 0xfe00707f), (0x33, 0x2001033, 0xfe00707f),
     (0x33, 0x2002033, 0xfe00707f), (0x33, 0x2003033, 0xfe00707f),
     (0x33, 0x2004033, 0xfe00707f), (0x33, 0x2005033, 0xfe00707f),
     (0x33, 0x2006033, 0xfe00707f), (0x33, 0x2007033, 0xfe00707f),
     (0x3b, 0x200003b, 0xfe00707f), (0x3b, 0x200403b, 0xfe00707f),
     (0x3b, 0x200503b, 0xfe00707f), (0x3b, 0x200603b, 0xfe00707f),
     (0x3b, 0x200703b, 0xfe00707f), (0x2f, 0x202f, 0xf800707f), (0x2f, 0x2000202f, 0xf800707f),
     (0x2f, 0x4000202f, 0xf800707f), (0x2f, 0x6000202f, 0xf800707f),
     (0x2f, 0x8000202f, 0xf800707f), (0x2f, 0xa000202f, 0xf800707f),
     (0x2f, 0xc000202f, 0xf800707f), (0x2f, 0xe000202f, 0xf800707f),
     (0x2f, 0x800202f, 0xf800707f), (0x2f, 0x1000202f, 0xf9f0707f),
     (0x2f, 0x1800202f, 0xf800707f), (0x2f, 0x302f, 0xf800707f), (0x2f, 0x2000302f, 0xf800707f),
     (0x2f, 0x4000302f, 0xf800707f), (0x2f, 0x6000302f, 0xf800707f),
     (0x2f, 0x8000302f, 0xf800707f), (0x2f, 0xa000302f, 0xf800707f),
     (0x2f, 0xc000302f, 0xf800707f), (0x2f, 0xe000302f, 0xf800707f),
     (0x2f, 0x800302f, 0xf800707f), (0x2f, 0x1000302f, 0xf9f0707f),
     (0x2f, 0x1800302f, 0xf800707f), (0x73, 0x73, 0xffffffff), (0x73, 0x100073, 0xffffffff),
     (0x73, 0x200073, 0xffffffff), (0x73, 0x10200073, 0xffffffff),
     (0x73, 0x30200073, 0xffffffff), (0x73, 0x7b200073, 0xffffffff),
     (0x73, 0x12000073, 0xfe007fff), (0x73, 0x10500073, 0xffffffff), (0x73, 0x1073, 0x707f),
     (0x73, 0x2073, 0x707f), (0x73, 0x3073, 0x707f), (0x73, 0x5073, 0x707f),
     (0x73, 0x6073, 0x707f), (0x73, 0x7073, 0x707f), (0x53, 0x53, 0xfe00007f),
     (0x53, 0x8000053, 0xfe00007f), (0x53, 0x10000053, 0xfe00007f),
     (0x53, 0x18000053, 0xfe00007f), (0x53, 0x20000053, 0xfe00707f),
     (0x53, 0x20001053, 0xfe00707f), (0x53, 0x20002053, 0xfe00707f),
     (0x53, 0x28000053, 0xfe00707f), (0x53, 0x28001053, 0xfe00707f),
     (0x53, 0x58000053, 0xfff0007f), (0x53, 0x2000053, 0xfe00007f),
     (0x53, 0xa000053, 0xfe00007f), (0x53, 0x12000053, 0xfe00007f),
     (0x53, 0x1a000053, 0xfe00007f), (0x53, 0x22000053, 0xfe00707f),
     (0x53, 0x22001053, 0xfe00707f), (0x53, 0x22002053, 0xfe00707f),
     (0x53, 0x2a000053, 0xfe00707f), (0x53, 0x2a001053, 0xfe00707f),
     (0x53, 0x40100053, 0xfff0007f), (0x53, 0x42000053, 0xfff0007f),
     (0x53, 0x5a000053, 0xfff0007f), (0x53, 0x6000053, 0xfe00007f),
     (0x53, 0xe000053, 0xfe00007f), (0x53, 0x16000053, 0xfe00007f),
     (0x53, 0x1e000053, 0xfe00007f), (0x53, 0x26000053, 0xfe00707f),
     (0x53, 0x26001053, 0xfe00707f), (0x53, 0x26002053, 0xfe00707f),
     (0x53, 0x2e000053, 0xfe00707f), (0x53, 0x2e001053, 0xfe00707f),
     (0x53, 0x40300053, 0xfff0007f), (0x53, 0x46000053, 0xfff0007f),
     (0x53, 0x42300053, 0xfff0007f), (0x53, 0x46100053, 0xfff0007f),
     (0x53, 0x5e000053, 0xfff0007f), (0x53, 0xa0000053, 0xfe00707f),
     (0x53, 0xa0001053, 0xfe00707f), (0x53, 0xa0002053, 0xfe00707f),
     (0x53, 0xa2000053, 0xfe00707f), (0x53, 0xa2001053, 0xfe00707f),
     (0x53, 0xa2002053, 0xfe00707f), (0x53, 0xa6000053, 0xfe00707f),
     (0x53, 0xa6001053, 0xfe00707f), (0x53, 0xa6002053, 0xfe00707f),
     (0x53, 0xc0000053, 0xfff0007f), (0x53, 0xc0100053, 0xfff0007f),
     (0x53, 0xc0200053, 0xfff0007f), (0x53, 0xc0300053, 0xfff0007f),
     (0x53, 0xe0000053, 0xfff0707f), (0x53, 0xe0001053, 0xfff0707f),
     (0x53, 0xc2000053, 0xfff0007f), (0x53, 0xc2100053, 0xfff0007f),
     (0x53, 0xc2200053, 0xfff0007f), (0x53, 0xc2300053, 0xfff0007f),
     (0x53, 0xe2000053, 0xfff0707f), (0x53, 0xe2001053, 0xfff0707f),
     (0x53, 0xc6000053, 0xfff0007f), (0x53, 0xc6100053, 0xfff0007f),
     (0x53, 0xc6200053, 0xfff0007f), (0x53, 0xc6300053, 0xfff0007f),
     (0x53, 0xe6000053, 0xfff0707f), (0x53, 0xe6001053, 0xfff0707f),
     (0x53, 0xd0000053, 0xfff0007f), (0x53, 0xd0100053, 0xfff0007f),
     (0x53, 0xd0200053, 0xfff0007f), (0x53, 0xd0300053, 0xfff0007f),
     (0x53, 0xf0000053, 0xfff0707f), (0x53, 0xd2000053, 0xfff0007f),
     (0x53, 0xd2100053, 0xfff0007f), (0x53, 0xd2200053, 0xfff0007f),
     (0x53, 0xd2300053, 0xfff0007f), (0x53, 0xf2000053, 0xfff0707f),
     (0x53, 0xd6000053, 0xfff0007f), (0x53, 0xd6100053, 0xfff0007f),
     (0x53, 0xd6200053, 0xfff0007f), (0x53, 0xd6300053, 0xfff0007f),
     (0x53, 0xf6000053, 0xfff0707f), (0x7, 0x2007, 0x707f), (0x7, 0x3007, 0x707f),
     (0x7, 0x4007, 0x707f), (0x27, 0x2027, 0x707f), (0x27, 0x3027, 0x707f),
     (0x27, 0x4027, 0x707f), (0x43, 0x43, 0x600007f), (0x47, 0x47, 0x600007f),
     (0x4b, 0x4b, 0x600007f), (0x4f, 0x4f, 0x600007f), (0x43, 0x2000043, 0x600007f),
     (0x47, 0x2000047, 0x600007f), (0x4b, 0x200004b, 0x600007f), (0x4f, 0x200004f, 0x600007f),
     (0x43, 0x6000043, 0x600007f), (0x47, 0x6000047, 0x600007f), (0x4b, 0x600004b, 0x600007f),
     (0x4f, 0x600004f, 0x600007f), (0xb, 0xb, 0x707f), (0xb, 0x200b, 0x707f),
     (0xb, 0x300b, 0x707f), (0xb, 0x400b, 0x707f), (0xb, 0x600b, 0x707f), (0xb, 0x700b, 0x707f),
     (0x2b, 0x2b, 0x707f), (0x2b, 0x202b, 0x707f), (0x2b, 0x302b, 0x707f),
     (0x2b, 0x402b, 0x707f), (0x2b, 0x602b, 0x707f), (0x2b, 0x702b, 0x707f),
     (0x5b, 0x5b, 0x707f), (0x5b, 0x205b, 0x707f), (0x5b, 0x305b, 0x707f),
     (0x5b, 0x405b, 0x707f), (0x5b, 0x605b, 0x707f), (0x5b, 0x705b, 0x707f),
     (0x7b, 0x7b, 0x707f), (0x7b, 0x207b, 0x707f), (0x7b, 0x307b, 0x707f),
     (0x7b, 0x407b, 0x707f), (0x7b, 0x607b, 0x707f), (0x7b, 0x707b, 0x707f)]"

lemma opcode_rows_eq: "keyed 0x7F long_rows = opcode_rows"
  by code_simp

lemma opcodes_eq: "remdups (map fst opcode_rows) = [0x63, 0x67, 0x6f, 0x37, 0x17, 0x13, 0x1b, 0x3, 0x23, 0xf, 0x33, 0x3b, 0x2f, 0x73, 0x53, 0x7, 0x27, 0x43, 0x47, 0x4b, 0x4f, 0xb, 0x2b, 0x5b, 0x7b]"
  by code_simp

lemma opcode_63: "exclusive 4 (same_key 0x63 opcode_rows)"
  by code_simp

lemma opcode_67: "exclusive 4 (same_key 0x67 opcode_rows)"
  by code_simp

lemma opcode_6f: "exclusive 4 (same_key 0x6f opcode_rows)"
  by code_simp

lemma opcode_37: "exclusive 4 (same_key 0x37 opcode_rows)"
  by code_simp

lemma opcode_17: "exclusive 4 (same_key 0x17 opcode_rows)"
  by code_simp

lemma opcode_13: "exclusive 4 (same_key 0x13 opcode_rows)"
  by code_simp

lemma opcode_1b: "exclusive 4 (same_key 0x1b opcode_rows)"
  by code_simp

lemma opcode_3: "exclusive 4 (same_key 0x3 opcode_rows)"
  by code_simp

lemma opcode_23: "exclusive 4 (same_key 0x23 opcode_rows)"
  by code_simp

lemma opcode_f: "exclusive 4 (same_key 0xf opcode_rows)"
  by code_simp

lemma opcode_33: "exclusive 4 (same_key 0x33 opcode_rows)"
  by code_simp

lemma opcode_3b: "exclusive 4 (same_key 0x3b opcode_rows)"
  by code_simp

lemma opcode_2f: "exclusive 4 (same_key 0x2f opcode_rows)"
  by code_simp

lemma opcode_73: "exclusive 4 (same_key 0x73 opcode_rows)"
  by code_simp

lemma opcode_53: "exclusive 4 (same_key 0x53 opcode_rows)"
  by code_simp

lemma opcode_7: "exclusive 4 (same_key 0x7 opcode_rows)"
  by code_simp

lemma opcode_27: "exclusive 4 (same_key 0x27 opcode_rows)"
  by code_simp

lemma opcode_43: "exclusive 4 (same_key 0x43 opcode_rows)"
  by code_simp

lemma opcode_47: "exclusive 4 (same_key 0x47 opcode_rows)"
  by code_simp

lemma opcode_4b: "exclusive 4 (same_key 0x4b opcode_rows)"
  by code_simp

lemma opcode_4f: "exclusive 4 (same_key 0x4f opcode_rows)"
  by code_simp

lemma opcode_b: "exclusive 4 (same_key 0xb opcode_rows)"
  by code_simp

lemma opcode_2b: "exclusive 4 (same_key 0x2b opcode_rows)"
  by code_simp

lemma opcode_5b: "exclusive 4 (same_key 0x5b opcode_rows)"
  by code_simp

lemma opcode_7b: "exclusive 4 (same_key 0x7b opcode_rows)"
  by code_simp

lemma opcode_groups_exclusive: "list_all (exclusive 4) (groups opcode_rows)"
  unfolding groups_def opcodes_eq
  by (simp only: list.map list.pred_inject opcode_63 opcode_67 opcode_6f opcode_37 opcode_17 opcode_13 opcode_1b opcode_3 opcode_23 opcode_f opcode_33 opcode_3b opcode_2f opcode_73 opcode_53 opcode_7 opcode_27 opcode_43 opcode_47 opcode_4b opcode_4f opcode_b opcode_2b opcode_5b opcode_7b simp_thms)

lemma long_rows_masks: "list_all (\<lambda>r. 0x7F AND snd r = 0x7F) long_rows"
  by code_simp

lemma long_rows_one: "length (filter (matches w) long_rows) \<le> 1"
proof -
  let ?g = "same_key (w AND 0x7F) opcode_rows"
  have "?g = filter (\<lambda>r. fst r AND 0x7F = w AND 0x7F) long_rows"
    unfolding opcode_rows_eq [symmetric] by (rule same_key_keyed)
  moreover have "fst r AND 0x7F = w AND 0x7F" if "r \<in> set long_rows" "matches w r" for r
    using that long_rows_masks unfolding list_all_iff matches_def
    by (metis and.assoc and.commute)
  ultimately have "filter (matches w) long_rows = filter (matches w) ?g"
    by (auto intro!: filter_cong)
  moreover have "length (filter (matches w) ?g) \<le> 1"
  proof (cases "w AND 0x7F \<in> set (map fst opcode_rows)")
    case True
    then have "?g \<in> set (groups opcode_rows)" by (simp add: groups_def)
    then show ?thesis using opcode_groups_exclusive exclusive_one by (auto simp: list_all_iff)
  next
    case False
    then have "?g = []" by (rule same_key_none)
    then show ?thesis by simp
  qed
  ultimately show ?thesis by simp
qed

lemma short_rows: "list_all (\<lambda>(n, m, k). m AND 3 = 3 \<or> k AND 3 = 3) encoding_insns"
  by code_simp

text \<open>
  C30: no 32-bit instruction word, which is a word whose two low bits are set, matches two rows
  of the table: what the tools decode it as does not depend on the order of the table.
\<close>

theorem decode_insn_unique:
  assumes "uint w AND 3 = 3"
  shows "length (decode_insn w) \<le> 1"
proof -
  have long: "m AND 3 = 3" if "(n, m, k) \<in> set encoding_insns" "uint w AND k = m" for n m k
  proof -
    have "m AND 3 = 3 \<or> k AND 3 = 3" using short_rows that(1) by (auto simp: list_all_iff)
    then show ?thesis using that(2) assms by (metis and.assoc and.commute)
  qed
  have "map snd (filter (\<lambda>(n, m, k). uint w AND k = m) encoding_insns) =
      filter (matches (uint w)) long_rows"
    unfolding long_rows_def filter_map filter_filter
    by (rule arg_cong [where f = "map snd"], rule filter_cong) (auto simp: matches_def dest: long)
  then have "length (decode_insn w) = length (filter (matches (uint w)) long_rows)"
    by (metis decode_insn_def length_map)
  also have "\<dots> \<le> 1" by (rule long_rows_one)
  finally show ?thesis .
qed

theorem decode_insn_unique_witness: "length (decode_insn 0x00A50533) \<le> 1"
  by (rule decode_insn_unique) code_simp

section \<open>The tables agree\<close>

text \<open>
  Every match word lies inside its mask, so every row can be matched; the declared
  instructions, registers and causes are those of the tables, all of them and in the same order.
\<close>

theorem encoding_tables_agree:
  "list_all (\<lambda>(n, m, k). m AND k = m \<and> k \<noteq> 0) encoding_insns \<and>
    map (fst \<circ> snd) (declare_insns_1 @ declare_insns_2) = map (snd \<circ> snd) (declare_insns_1 @ declare_insns_2) \<and>
    map (fst \<circ> snd) (declare_insns_1 @ declare_insns_2) = map fst encoding_insns \<and>
    map snd (declare_csrs_1 @ declare_csrs_2) = map fst encoding_csrs \<and>
    map snd declare_causes = map fst encoding_causes"
  by (intro conjI; code_simp)

end
