(* ===== verification/Dtm_Words.thy ===== *)
theory Dtm_Words
  imports Instructions Rv_Encoding
begin

text \<open>
  The instruction words the debug transport builds, against the tables of
  \<open>tb/dpi/fesvr/encoding.h\<close>.
\<close>

lemma decodes:
  assumes "w AND of_int k = of_int m" and "(n, m, k) \<in> set encoding_insns"
    and "0 \<le> k" and "k < 2 ^ 32" and "0 \<le> m" and "m < 2 ^ 32"
  shows "n \<in> set (decode_insn w)"
proof -
  have "uint w AND k = uint (w AND of_int k)"
    using assms(3,4) by (simp add: uint_and take_bit_int_eq_self uint_word_of_int_eq)
  also have "\<dots> = m"
    using assms(1,5,6) by (simp add: take_bit_int_eq_self uint_word_of_int_eq)
  finally show ?thesis using assms(2) by (force simp: decode_insn_def)
qed

lemma encoding_rows:
  "list_all (\<lambda>r. r \<in> set encoding_insns)
     [(''LD'', 0x3003, 0x707F), (''LW'', 0x2003, 0x707F), (''SD'', 0x3023, 0x707F), (''SW'', 0x2023, 0x707F),
      (''ADDI'', 0x13, 0x707F), (''SRL'', 0x5033, 0xFE00707F), (''BNE'', 0x1063, 0x707F), (''JAL'', 0x6F, 0x7F),
      (''CSRRW'', 0x1073, 0x707F), (''CSRRS'', 0x2073, 0x707F), (''CSRRC'', 0x3073, 0x707F),
      (''FENCE_I'', 0x100F, 0x707F), (''EBREAK'', 0x100073, 0xFFFFFFFF)]"
  by code_simp

lemmas rows = encoding_rows [unfolded list.pred_inject]

text \<open>
  C18: every instruction word the debug transport puts in the program buffer decodes, by the
  tables of the encoding header, to the instruction its macro is named after.
\<close>

theorem dtm_words_decode:
  assumes "d < 32" and "b < 32" and "r < 32" and "c < 4096"
  shows "''LD'' \<in> set (decode_insn (LOAD 64 d b i)) \<and> ''LW'' \<in> set (decode_insn (LOAD 32 d b i)) \<and>
    ''SD'' \<in> set (decode_insn (STORE 64 r b i)) \<and> ''SW'' \<in> set (decode_insn (STORE 32 r b i)) \<and>
    ''ADDI'' \<in> set (decode_insn (ADDI d b i)) \<and> ''SRL'' \<in> set (decode_insn (SRL d b r)) \<and>
    ''BNE'' \<in> set (decode_insn (BNE b r there here)) \<and> ''JAL'' \<in> set (decode_insn (JUMP there here)) \<and>
    ''CSRRW'' \<in> set (decode_insn (CSRRx CSR_WRITE d c r)) \<and>
    ''CSRRS'' \<in> set (decode_insn (CSRRx CSR_SET d c r)) \<and>
    ''CSRRC'' \<in> set (decode_insn (CSRRx CSR_CLEAR d c r)) \<and>
    ''FENCE_I'' \<in> set (decode_insn FENCE_I) \<and> ''EBREAK'' \<in> set (decode_insn EBREAK)"
proof (intro conjI)
  show "''LD'' \<in> set (decode_insn (LOAD 64 d b i))"
    using rows LOAD_fields(1) [OF assms(1,2)] by (intro decodes [where m = "0x3003" and k = "0x707F"]) simp_all
  show "''LW'' \<in> set (decode_insn (LOAD 32 d b i))"
    using rows LOAD_fields(1) [OF assms(1,2)] by (intro decodes [where m = "0x2003" and k = "0x707F"]) simp_all
  show "''SD'' \<in> set (decode_insn (STORE 64 r b i))"
    using rows STORE_fields(1) [OF assms(3,2)] by (intro decodes [where m = "0x3023" and k = "0x707F"]) simp_all
  show "''SW'' \<in> set (decode_insn (STORE 32 r b i))"
    using rows STORE_fields(1) [OF assms(3,2)] by (intro decodes [where m = "0x2023" and k = "0x707F"]) simp_all
  show "''ADDI'' \<in> set (decode_insn (ADDI d b i))"
    using rows ADDI_fields(1) [OF assms(1,2)] by (intro decodes [where m = "0x13" and k = "0x707F"]) simp_all
  show "''SRL'' \<in> set (decode_insn (SRL d b r))"
    using rows SRL_fields(1) [OF assms(1,2,3)] by (intro decodes [where m = "0x5033" and k = "0xFE00707F"]) simp_all
  show "''BNE'' \<in> set (decode_insn (BNE b r there here))"
    using rows BNE_fields(1) [OF assms(2,3)] by (intro decodes [where m = "0x1063" and k = "0x707F"]) simp_all
  show "''JAL'' \<in> set (decode_insn (JUMP there here))"
    using rows JUMP_fields(1) by (intro decodes [where m = "0x6F" and k = "0x7F"]) simp_all
  show "''CSRRW'' \<in> set (decode_insn (CSRRx CSR_WRITE d c r))"
    using rows CSRRx_fields(1) [of CSR_WRITE, OF _ assms(1,4,3)]
    by (intro decodes [where m = "0x1073" and k = "0x707F"]) (simp_all add: CSR_WRITE_def)
  show "''CSRRS'' \<in> set (decode_insn (CSRRx CSR_SET d c r))"
    using rows CSRRx_fields(1) [of CSR_SET, OF _ assms(1,4,3)]
    by (intro decodes [where m = "0x2073" and k = "0x707F"]) (simp_all add: CSR_SET_def)
  show "''CSRRC'' \<in> set (decode_insn (CSRRx CSR_CLEAR d c r))"
    using rows CSRRx_fields(1) [of CSR_CLEAR, OF _ assms(1,4,3)]
    by (intro decodes [where m = "0x3073" and k = "0x707F"]) (simp_all add: CSR_CLEAR_def)
  show "''FENCE_I'' \<in> set (decode_insn FENCE_I)"
    using rows by (intro decodes [where m = "0x100F" and k = "0x707F"]) (simp_all add: FENCE_I_def)
  show "''EBREAK'' \<in> set (decode_insn EBREAK)"
    using rows by (intro decodes [where m = "0x100073" and k = "0xFFFFFFFF"]) (simp_all add: EBREAK_def)
qed

lemma dtm_words_decode_witness:
  "''LD'' \<in> set (decode_insn (LOAD 64 S1 S0 0)) \<and> ''CSRRW'' \<in> set (decode_insn (CSRRx CSR_WRITE S1 CSR_DSCRATCH S1))"
  using dtm_words_decode [of S1 S0 S1 CSR_DSCRATCH 0] by (simp add: S0_def S1_def CSR_DSCRATCH_def)

text \<open>
  C29: in every word the debug transport builds with operands, these are in the fields where the
  instruction set has them: registers, the shift register and the number of the control register,
  the sign of an offset and all its bits, and for the branch and the jump, which writes no return
  address, the distance from the instruction to its target.
\<close>

theorem dtm_operand_fields:
  assumes "d < 32" and "b < 32" and "r < 32" and "c < 4096" and "t \<in> {CSR_WRITE, CSR_SET, CSR_CLEAR}"
    and "\<not> bit (there - here) 0"
  shows "insn_rd (LOAD xl d b i) = d \<and> insn_rs1 (LOAD xl d b i) = b \<and> imm_i (LOAD xl d b i) = ucast i \<and>
    insn_rs2 (STORE xl r b i) = r \<and> insn_rs1 (STORE xl r b i) = b \<and> imm_s (STORE xl r b i) = ucast i \<and>
    insn_rd (ADDI d b i) = d \<and> insn_rs1 (ADDI d b i) = b \<and> imm_i (ADDI d b i) = ucast i \<and>
    insn_rd (SRL d b r) = d \<and> insn_rs1 (SRL d b r) = b \<and> insn_rs2 (SRL d b r) = r \<and>
    insn_rd (CSRRx t d c r) = d \<and> insn_csr (CSRRx t d c r) = c \<and> insn_rs1 (CSRRx t d c r) = r \<and>
    insn_rs1 (BNE b r there here) = b \<and> insn_rs2 (BNE b r there here) = r \<and>
    imm_b (BNE b r there here) = ucast (there - here) \<and>
    insn_rd (JUMP there here) = 0 \<and> imm_j (JUMP there here) = ucast (there - here)"
proof -
  have "t < 8" using assms(5) by (auto simp: CSR_WRITE_def CSR_SET_def CSR_CLEAR_def)
  then show ?thesis
    using assms by (simp add: LOAD_fields STORE_fields ADDI_fields SRL_fields CSRRx_fields BNE_fields BNE_offset JUMP_fields JUMP_offset)
qed

lemma dtm_operand_fields_witness:
  "insn_csr (CSRRx CSR_WRITE S1 CSR_DSCRATCH S1) = CSR_DSCRATCH \<and> imm_b (BNE S0 S1 0 8) = - 8"
  using dtm_operand_fields [of S1 S0 S1 CSR_DSCRATCH CSR_WRITE 0 8 64 0] by (simp add: S0_def S1_def CSR_DSCRATCH_def)

end
