(* ===== verification/Remote_Bitbang.thy ===== *)
theory Remote_Bitbang
  imports Prelude
begin

text \<open>
  JTAG over a socket (\<open>tb/dpi/remote_bitbang.h\<close>, \<open>remote_bitbang.cc\<close>) and its
  bridge to the simulation (\<open>tb/dpi/SimJTAG.cc\<close>). The sockets are the host's: a record of
  its calls over its state, each with its result and, where the code looks at it, \<open>errno\<close>.
\<close>

section \<open>The host's sockets\<close>

record 'c sockets =
  sk_socket :: "'c \<Rightarrow> int \<times> 'c"
  sk_setsockopt :: "int \<Rightarrow> 'c \<Rightarrow> int \<times> 'c"
  sk_bind :: "int \<Rightarrow> u16 \<Rightarrow> 'c \<Rightarrow> int \<times> 'c"
  sk_listen :: "int \<Rightarrow> 'c \<Rightarrow> int \<times> 'c"
  sk_getsockname :: "int \<Rightarrow> 'c \<Rightarrow> int \<times> 'c"
  sk_accept :: "int \<Rightarrow> 'c \<Rightarrow> (int \<times> int) \<times> 'c"
  sk_read :: "int \<Rightarrow> 'c \<Rightarrow> (int \<times> int \<times> char) \<times> 'c"
  sk_write :: "int \<Rightarrow> char \<Rightarrow> 'c \<Rightarrow> int \<times> 'c"
  sk_close :: "int \<Rightarrow> 'c \<Rightarrow> 'c"

definition EAGAIN :: int where "EAGAIN = 11"

section \<open>State\<close>

text \<open>\<open>sk\<close> is the state of the host. The constructor leaves \<open>tdo\<close> as it finds it.\<close>

record 'c remote_bitbang =
  rbb_err :: int
  tck :: byte
  tms :: byte
  tdi :: byte
  trstn :: byte
  tdo :: byte
  quit :: byte
  socket_fd :: int
  client_fd :: int
  sk :: 'c

definition must :: "('c \<Rightarrow> int \<times> 'c) \<Rightarrow> ('c, int) prog" where
  "must f = (\<lambda>c. case f c of (r, c') \<Rightarrow> if r = - 1 then Some (Inl Abort) else Some (Inr (r, c')))"

definition remote_bitbang_t :: "'c sockets \<Rightarrow> byte \<Rightarrow> u16 \<Rightarrow> ('c, 'c remote_bitbang) prog" where
  "remote_bitbang_t h garbage port =
     bind (must (sk_socket h)) (\<lambda>fd.
     bind (must (sk_setsockopt h fd)) (\<lambda>_.
     bind (must (sk_bind h fd port)) (\<lambda>_.
     bind (must (sk_listen h fd)) (\<lambda>_.
     bind (must (sk_getsockname h fd)) (\<lambda>_.
     bind (gets id) (\<lambda>c.
     ret \<lparr>rbb_err = 0, tck = 1, tms = 1, tdi = 1, trstn = 1, tdo = garbage, quit = 0,
          socket_fd = fd, client_fd = 0, sk = c\<rparr>))))))"

definition rbb_done :: "'c remote_bitbang \<Rightarrow> byte" where
  "rbb_done s = quit s"

definition rbb_exit_code :: "'c remote_bitbang \<Rightarrow> int" where
  "rbb_exit_code s = rbb_err s"

section \<open>Commands\<close>

text \<open>The loop of \<open>accept\<close>: it asks again until there is a client.\<close>

partial_function (option) rbb_accept ::
    "'c sockets \<Rightarrow> 'c remote_bitbang \<Rightarrow> (exn + unit \<times> 'c remote_bitbang) option" where
  "rbb_accept h s = (case sk_accept h (socket_fd s) (sk s) of ((fd, err), c) \<Rightarrow>
     if fd = - 1 then
       (if err = EAGAIN then rbb_accept h (s\<lparr>client_fd := fd, sk := c\<rparr>) else Some (Inl Abort))
     else Some (Inr ((), s\<lparr>client_fd := fd, sk := c\<rparr>)))"

text \<open>The loop that reads a command: it reads again while there is none, or none any more.\<close>

partial_function (option) read_command ::
    "'c sockets \<Rightarrow> 'c remote_bitbang \<Rightarrow> (exn + char \<times> 'c remote_bitbang) option" where
  "read_command h s = (case sk_read h (client_fd s) (sk s) of ((n, err, command), c) \<Rightarrow>
     if n = - 1 then (if err = EAGAIN then read_command h (s\<lparr>sk := c\<rparr>) else Some (Inl Abort))
     else if n = 0 then read_command h (s\<lparr>sk := c\<rparr>)
     else Some (Inr (command, s\<lparr>sk := c\<rparr>)))"

partial_function (option) send_reply ::
    "'c sockets \<Rightarrow> char \<Rightarrow> 'c remote_bitbang \<Rightarrow> (exn + unit \<times> 'c remote_bitbang) option" where
  "send_reply h tosend s = (case sk_write h (client_fd s) tosend (sk s) of (bytes, c) \<Rightarrow>
     if bytes = - 1 then Some (Inl Abort)
     else if bytes > 0 then Some (Inr ((), s\<lparr>sk := c\<rparr>))
     else send_reply h tosend (s\<lparr>sk := c\<rparr>))"

definition rbb_reset :: "('c remote_bitbang, unit) prog" where
  "rbb_reset = ret ()"

definition set_pins :: "byte \<Rightarrow> byte \<Rightarrow> byte \<Rightarrow> ('c remote_bitbang, unit) prog" where
  "set_pins c m d = modify (\<lambda>s. s\<lparr>tck := c, tms := m, tdi := d\<rparr>)"

text \<open>The switch over the command: what is to be sent, if anything.\<close>

definition rbb_switch :: "char \<Rightarrow> ('c remote_bitbang, char option) prog" where
  "rbb_switch command =
     (let pins = (\<lambda>c m d. bind (set_pins c m d) (\<lambda>_. ret None)) in
      if command = CHR ''B'' then ret None
      else if command = CHR ''b'' then ret None
      else if command = CHR ''r'' then bind rbb_reset (\<lambda>_. ret None)
      else if command = CHR ''0'' then pins 0 0 0
      else if command = CHR ''1'' then pins 0 0 1
      else if command = CHR ''2'' then pins 0 1 0
      else if command = CHR ''3'' then pins 0 1 1
      else if command = CHR ''4'' then pins 1 0 0
      else if command = CHR ''5'' then pins 1 0 1
      else if command = CHR ''6'' then pins 1 1 0
      else if command = CHR ''7'' then pins 1 1 1
      else if command = CHR ''R'' then gets (\<lambda>s. Some (if tdo s \<noteq> 0 then CHR ''1'' else CHR ''0''))
      else if command = CHR ''Q'' then bind (modify (\<lambda>s. s\<lparr>quit := 1\<rparr>)) (\<lambda>_. ret None)
      else ret None)"

definition execute_command :: "'c sockets \<Rightarrow> ('c remote_bitbang, unit) prog" where
  "execute_command h =
     bind (read_command h) (\<lambda>command.
     bind (rbb_switch command) (\<lambda>tosend.
     bind (case tosend of None \<Rightarrow> ret () | Some c \<Rightarrow> send_reply h c) (\<lambda>_.
     modify (\<lambda>s. if quit s \<noteq> 0 then s\<lparr>sk := sk_close h (client_fd s) (sk s), client_fd := 0\<rparr> else s))))"

definition rbb_tick :: "'c sockets \<Rightarrow> byte \<Rightarrow> ('c remote_bitbang, byte \<times> byte \<times> byte \<times> byte) prog" where
  "rbb_tick h jtag_tdo =
     bind (gets client_fd) (\<lambda>fd.
     bind (if fd > 0 then bind (modify (\<lambda>s. s\<lparr>tdo := jtag_tdo\<rparr>)) (\<lambda>_. execute_command h) else rbb_accept h) (\<lambda>_.
     gets (\<lambda>s. (tck s, tms s, tdi s, trstn s))))"

text \<open>
  \<open>jtag_tick\<close> of \<open>SimJTAG.cc\<close>: the global \<open>jtag\<close> is null until the first call.
\<close>

definition exit_word :: "bool \<Rightarrow> int \<Rightarrow> int" where
  "exit_word is_done code = (if is_done then push_bit 1 code OR 1 else 0)"

definition jtag_tick :: "'c sockets \<Rightarrow> byte \<Rightarrow> byte \<Rightarrow>
    ('c + 'c remote_bitbang, (byte \<times> byte \<times> byte \<times> byte) \<times> int) prog" where
  "jtag_tick h garbage jtag_tdo =
     bind (\<lambda>g. case g of
         Inr j \<Rightarrow> Some (Inr (j, g))
       | Inl c \<Rightarrow> map_option (map_sum id (\<lambda>(j, c'). (j, Inr j))) (remote_bitbang_t h garbage 0 c)) (\<lambda>jtag g.
     case rbb_tick h jtag_tdo jtag of
       None \<Rightarrow> None
     | Some (Inl e) \<Rightarrow> Some (Inl e)
     | Some (Inr (pins, jtag')) \<Rightarrow>
         Some (Inr ((pins, exit_word (rbb_done jtag' \<noteq> 0) (rbb_exit_code jtag')), Inr jtag')))"

section \<open>A client with a script\<close>

text \<open>
  What the client sends, \<open>None\<close> where the host finds nothing yet, and what it has received.
  At the end of its script it has closed the connection.
\<close>

record client =
  script :: "char option list"
  received :: string

definition client_sockets :: "client sockets" where
  "client_sockets = \<lparr>sk_socket = (\<lambda>c. (3, c)), sk_setsockopt = (\<lambda>fd c. (0, c)), sk_bind = (\<lambda>fd port c. (0, c)),
     sk_listen = (\<lambda>fd c. (0, c)), sk_getsockname = (\<lambda>fd c. (0, c)),
     sk_accept = (\<lambda>fd c. ((4, 0), c)),
     sk_read = (\<lambda>fd c. case script c of
         [] \<Rightarrow> ((0, 0, CHR ''?''), c)
       | None # rest \<Rightarrow> ((- 1, EAGAIN, CHR ''?''), c\<lparr>script := rest\<rparr>)
       | Some x # rest \<Rightarrow> ((1, 0, x), c\<lparr>script := rest\<rparr>)),
     sk_write = (\<lambda>fd x c. (1, c\<lparr>received := received c @ [x]\<rparr>)), sk_close = (\<lambda>fd c. c)\<rparr>"

primrec rbb_ticks :: "'c sockets \<Rightarrow> byte list \<Rightarrow> ('c remote_bitbang, (byte \<times> byte \<times> byte \<times> byte) list) prog" where
  "rbb_ticks h [] = ret []"
| "rbb_ticks h (t # ts) = bind (rbb_tick h t) (\<lambda>p. bind (rbb_ticks h ts) (\<lambda>ps. ret (p # ps)))"

text \<open>
  What the protocol says: a digit is the three pins in binary, \<open>R\<close> asks for \<open>tdo\<close>. What
  \<open>r\<close> asks for, a reset over \<open>TRST\<close> and \<open>SRST\<close>, is not carried out by the code, as its
  own comment says, and is not part of this.
\<close>

definition digit_pins :: "char \<Rightarrow> byte \<times> byte \<times> byte \<Rightarrow> byte \<times> byte \<times> byte" where
  "digit_pins c p = (let d = of_char c - (48 :: nat) in
     if 48 \<le> (of_char c :: nat) \<and> of_char c < (56 :: nat)
     then (of_bool (bit d 2), of_bool (bit d 1), of_bool (bit d 0)) else p)"

primrec protocol :: "byte \<times> byte \<times> byte \<Rightarrow> (char \<times> byte) list \<Rightarrow> (byte \<times> byte \<times> byte) list \<times> string" where
  "protocol p [] = ([], '''')"
| "protocol p (x # xs) =
     (let p' = digit_pins (fst x) p; (ps, replies) = protocol p' xs in
      (p' # ps, (if fst x = CHR ''R'' then [if snd x \<noteq> 0 then CHR ''1'' else CHR ''0''] else []) @ replies))"


section \<open>One command\<close>

lemma of_char_eq: "(of_char c :: nat) = n \<Longrightarrow> c = char_of n"
  by (metis char_of_char)

lemma digit_chars: "48 \<le> (of_char c :: nat) \<Longrightarrow> (of_char c :: nat) < 56 \<Longrightarrow> c \<in> set ''01234567''"
proof -
  assume "48 \<le> (of_char c :: nat)" and "(of_char c :: nat) < 56"
  then have "of_char c \<in> {48, 49, 50, 51, 52, 53, 54, 55 :: nat}" by auto
  then have "char_of (of_char c :: nat) \<in> char_of ` {48, 49, 50, 51, 52, 53, 54, 55 :: nat}" by (rule imageI)
  then have "c \<in> char_of ` {48, 49, 50, 51, 52, 53, 54, 55 :: nat}" by (simp only: char_of_char)
  then show ?thesis by (auto simp: char_of_def bit_iff_odd)
qed

lemma digit_pins_other: "c \<notin> set ''01234567'' \<Longrightarrow> digit_pins c p = p"
  using digit_chars [of c] by (auto simp: digit_pins_def Let_def)

lemma digit_pins_digits:
  "digit_pins CHR ''0'' p = (0, 0, 0)" "digit_pins CHR ''1'' p = (0, 0, 1)"
  "digit_pins CHR ''2'' p = (0, 1, 0)" "digit_pins CHR ''3'' p = (0, 1, 1)"
  "digit_pins CHR ''4'' p = (1, 0, 0)" "digit_pins CHR ''5'' p = (1, 0, 1)"
  "digit_pins CHR ''6'' p = (1, 1, 0)" "digit_pins CHR ''7'' p = (1, 1, 1)"
  by (simp_all add: digit_pins_def Let_def bit_iff_odd)

definition rbb_pins :: "'c remote_bitbang \<Rightarrow> byte \<times> byte \<times> byte" where
  "rbb_pins s = (tck s, tms s, tdi s)"

definition with_pins :: "byte \<times> byte \<times> byte \<Rightarrow> 'c remote_bitbang \<Rightarrow> 'c remote_bitbang" where
  "with_pins p s = (case p of (c, m, d) \<Rightarrow> s\<lparr>tck := c, tms := m, tdi := d\<rparr>)"

lemma with_pins_simps [simp]:
  "rbb_pins (with_pins p s) = p" "sk (with_pins p s) = sk s" "client_fd (with_pins p s) = client_fd s"
  "quit (with_pins p s) = quit s" "tdo (with_pins p s) = tdo s" "trstn (with_pins p s) = trstn s"
  by (auto simp: with_pins_def rbb_pins_def split: prod.splits)

lemma with_same_pins: "with_pins (rbb_pins s) s = s"
  by (simp add: with_pins_def rbb_pins_def)

lemma wp_rbb_switch:
  assumes "c \<noteq> CHR ''Q''"
  shows "wp (rbb_switch c) Q s =
    Q (if c = CHR ''R'' then Some (if tdo s \<noteq> 0 then CHR ''1'' else CHR ''0'') else None)
      (with_pins (digit_pins c (rbb_pins s)) s)"
proof (cases "c \<in> set ''01234567''")
  case True
  then show ?thesis
    by (auto simp: rbb_switch_def Let_def digit_pins_digits set_pins_def with_pins_def)
next
  case False
  then show ?thesis
    using assms by (auto simp: rbb_switch_def Let_def digit_pins_other with_same_pins rbb_reset_def)
qed

abbreviation commands :: "char option list \<Rightarrow> string" where
  "commands sc \<equiv> List.map_filter (\<lambda>x. x) sc"

lemma wp_read_command:
  assumes "commands (script (sk s)) = c # cs"
  shows "wp (read_command client_sockets) (\<lambda>x s'. x = c \<and>
    (\<exists>sc. commands sc = cs \<and> s' = s\<lparr>sk := (sk s)\<lparr>script := sc\<rparr>\<rparr>)) s"
  using assms
proof (induction "script (sk s)" arbitrary: s)
  case (Cons x sc)
  let ?s = "s\<lparr>sk := (sk s)\<lparr>script := sc\<rparr>\<rparr>"
  show ?case
  proof (cases x)
    case None
    then have "read_command client_sockets s = read_command client_sockets ?s"
      using Cons.hyps(2) by (subst read_command.simps) (simp add: client_sockets_def flip: Cons.hyps(2))
    moreover have "commands (script (sk ?s)) = c # cs"
      using Cons.prems None by (simp add: map_filter_simps flip: Cons.hyps(2))
    ultimately show ?thesis using Cons.hyps(1) [of ?s] by (simp add: wp_def)
  next
    case (Some y)
    then have "read_command client_sockets s = Some (Inr (y, ?s))"
      using Cons.hyps(2) by (subst read_command.simps) (simp add: client_sockets_def flip: Cons.hyps(2))
    moreover have "y = c \<and> commands sc = cs"
      using Cons.prems Some by (simp add: map_filter_simps flip: Cons.hyps(2))
    ultimately show ?thesis by (auto simp: wp_def)
  qed
qed (simp add: map_filter_simps)

lemma wp_send_reply:
  "wp (send_reply client_sockets x) Q s = Q () (s\<lparr>sk := (sk s)\<lparr>received := received (sk s) @ [x]\<rparr>\<rparr>)"
  by (subst wp_def, subst send_reply.simps) (simp add: client_sockets_def)

definition reply :: "char \<Rightarrow> byte \<Rightarrow> string" where
  "reply c t = (if c = CHR ''R'' then [if t \<noteq> 0 then CHR ''1'' else CHR ''0''] else [])"

lemma wp_rbb_tick:
  assumes "client_fd s > 0" and "quit s = 0" and "commands (script (sk s)) = c # cs" and "c \<noteq> CHR ''Q''"
  shows "wp (rbb_tick client_sockets t) (\<lambda>out s'. fst out = tck s' \<and> fst (snd out) = tms s' \<and> fst (snd (snd out)) = tdi s' \<and>
    snd (snd (snd out)) = trstn s' \<and> trstn s' = trstn s \<and> rbb_pins s' = digit_pins c (rbb_pins s) \<and> received (sk s') = received (sk s) @ reply c t \<and>
    commands (script (sk s')) = cs \<and> client_fd s' = client_fd s \<and> quit s' = 0) s"
proof -
  let ?s = "s\<lparr>tdo := t\<rparr>"
  have read: "wp (read_command client_sockets) (\<lambda>x s'. x = c \<and>
      (\<exists>sc. commands sc = cs \<and> s' = ?s\<lparr>sk := (sk ?s)\<lparr>script := sc\<rparr>\<rparr>)) ?s"
    by (rule wp_read_command) (simp add: assms(3))
  have "wp (execute_command client_sockets) (\<lambda>_ s'. rbb_pins s' = digit_pins c (rbb_pins s) \<and>
      received (sk s') = received (sk s) @ reply c t \<and> commands (script (sk s')) = cs \<and>
      client_fd s' = client_fd s \<and> quit s' = 0 \<and> trstn s' = trstn s) ?s"
    unfolding execute_command_def
    by (rule wp_seq [OF read])
      (auto simp: wp_rbb_switch [OF assms(4)] wp_send_reply reply_def rbb_pins_def with_pins_def assms(2) split: prod.splits)
  then show ?thesis
    using assms(1) by (auto simp: rbb_tick_def elim: wp_mono)
qed

section \<open>Properties\<close>

text \<open>
  C25: for a connected client that sends no \<open>Q\<close>, every tick carries out one command, however
  long the host waits for it. Without an \<open>r\<close> among them the four pins the simulation sees and the
  replies the client receives are those of the protocol; with or without, \<open>trstn\<close> never moves,
  so that a reset the client asks for does not reach the simulation.
\<close>

theorem rbb_ticks_protocol:
  assumes "client_fd s > 0" and "quit s = 0" and "commands (script (sk s)) = cs @ later"
    and "CHR ''Q'' \<notin> set cs" and "length ts = length cs"
  shows "wp (rbb_ticks client_sockets ts) (\<lambda>out s'. length out = length cs \<and>
    (CHR ''r'' \<notin> set cs \<longrightarrow>
      out = map (\<lambda>(c, m, d). (c, m, d, trstn s)) (fst (protocol (rbb_pins s) (zip cs ts))) \<and>
      received (sk s') = received (sk s) @ snd (protocol (rbb_pins s) (zip cs ts))) \<and>
    (\<forall>(c, m, d, r) \<in> set out. r = trstn s)) s"
  using assms
proof (induction cs arbitrary: s ts)
  case (Cons c cs)
  obtain t ts' where ts: "ts = t # ts'" "length ts' = length cs" using Cons.prems(5) by (cases ts) auto
  have tick: "commands (script (sk s)) = c # cs @ later" "c \<noteq> CHR ''Q''" using Cons.prems(3,4) by auto
  let ?p = "digit_pins c (rbb_pins s)"
  show ?case
    unfolding ts(1) rbb_ticks.simps
  proof (rule wp_seq [OF wp_rbb_tick [OF Cons.prems(1,2) tick]], elim conjE)
    fix out :: "byte \<times> byte \<times> byte \<times> byte" and s' :: "client remote_bitbang"
    assume out: "fst out = tck s'" "fst (snd out) = tms s'" "fst (snd (snd out)) = tdi s'" "snd (snd (snd out)) = trstn s'"
      and s': "trstn s' = trstn s" "rbb_pins s' = ?p" "received (sk s') = received (sk s) @ reply c t"
        "commands (script (sk s')) = cs @ later" "client_fd s' = client_fd s" "quit s' = 0"
    have "?p = (tck s', tms s', tdi s')" using s'(2) by (simp add: rbb_pins_def)
    then have pins: "out = (\<lambda>(c, m, d). (c, m, d, trstn s)) ?p"
      using out s'(1) by (cases out) simp
    have "wp (rbb_ticks client_sockets ts') (\<lambda>outs s''. length outs = length cs \<and>
        (CHR ''r'' \<notin> set cs \<longrightarrow>
          outs = map (\<lambda>(c, m, d). (c, m, d, trstn s)) (fst (protocol ?p (zip cs ts'))) \<and>
          received (sk s'') = received (sk s') @ snd (protocol ?p (zip cs ts'))) \<and>
        (\<forall>(c, m, d, r) \<in> set outs. r = trstn s)) s'"
      using Cons.IH [of s' ts'] s' Cons.prems(1,4) ts(2) by simp
    then show "wp (bind (rbb_ticks client_sockets ts') (\<lambda>ps. ret (out # ps))) (\<lambda>out s''. length out = length (c # cs) \<and>
        (CHR ''r'' \<notin> set (c # cs) \<longrightarrow>
          out = map (\<lambda>(c, m, d). (c, m, d, trstn s)) (fst (protocol (rbb_pins s) (zip (c # cs) (t # ts')))) \<and>
          received (sk s'') = received (sk s) @ snd (protocol (rbb_pins s) (zip (c # cs) (t # ts')))) \<and>
        (\<forall>(c, m, d, r) \<in> set out. r = trstn s)) s'"
      unfolding wp_bind
      by (rule wp_mono) (use s'(3) in \<open>auto simp: pins Let_def reply_def split: prod.splits\<close>)
  qed
qed simp

text \<open>
  C38: once the client has closed the connection, so that every read gives no byte, the next
  tick never returns, although the comment in the loop says it will try again on the next call.
\<close>

theorem closed_client_hangs:
  assumes "\<forall>c. fst (fst (sk_read h (client_fd s) c)) = 0" and "client_fd s > 0"
  shows "rbb_tick h t s = None"
proof -
  have no_command: "\<not> (\<forall>c. fst (fst (sk_read h (client_fd u) c)) = 0)" if "read_command h u = Some r" for u r
  proof (rule read_command.raw_induct [OF _ that,
        where P = "\<lambda>h u r. \<not> (\<forall>c. fst (fst (sk_read h (client_fd u) c)) = 0)"])
    fix run :: "'a sockets \<Rightarrow> 'a remote_bitbang \<Rightarrow> (exn + char \<times> 'a remote_bitbang) option" and h u r
    assume IH: "\<And>h u r. run h u = Some r \<Longrightarrow> \<not> (\<forall>c. fst (fst (sk_read h (client_fd u) c)) = 0)"
      and run: "(case sk_read h (client_fd u) (sk u) of ((n, err, command), c) \<Rightarrow>
        if n = - 1 then (if err = EAGAIN then run h (u\<lparr>sk := c\<rparr>) else Some (Inl Abort))
        else if n = 0 then run h (u\<lparr>sk := c\<rparr>) else Some (Inr (command, u\<lparr>sk := c\<rparr>))) = Some r"
    show "\<not> (\<forall>c. fst (fst (sk_read h (client_fd u) c)) = 0)"
    proof
      assume zero: "\<forall>c. fst (fst (sk_read h (client_fd u) c)) = 0"
      obtain n err command c where read: "sk_read h (client_fd u) (sk u) = ((n, err, command), c)"
        by (metis prod.exhaust)
      then have "n = 0" using zero by (metis fst_conv)
      with run read have "run h (u\<lparr>sk := c\<rparr>) = Some r" by simp
      from IH [OF this] zero show False by simp
    qed
  qed
  have "read_command h (s\<lparr>tdo := t\<rparr>) = None"
    using no_command [of "s\<lparr>tdo := t\<rparr>"] assms(1) by (cases "read_command h (s\<lparr>tdo := t\<rparr>)") auto
  then show ?thesis using assms(2) by (simp add: rbb_tick_def execute_command_def run_simps)
qed

definition rbb_example :: "string \<Rightarrow> client remote_bitbang" where
  "rbb_example cs = \<lparr>rbb_err = 0, tck = 1, tms = 1, tdi = 1, trstn = 1, tdo = 0, quit = 0, socket_fd = 3,
     client_fd = 4, sk = \<lparr>script = concat (map (\<lambda>c. [None, Some c]) cs), received = ''''\<rparr>\<rparr>"

lemma rbb_ticks_protocol_witness:
  "wp (rbb_ticks client_sockets [0, 1, 0]) (\<lambda>out s'. out = [(1, 1, 0, 1), (1, 1, 0, 1), (0, 1, 0, 1)] \<and> received (sk s') = ''1'')
    (rbb_example ''6R2'')"
  by (rule wp_mono [OF rbb_ticks_protocol [where cs = "''6R2''" and later = "[]"]])
    (simp_all add: rbb_example_def map_filter_simps Let_def digit_pins_digits digit_pins_other rbb_pins_def)

text \<open>The client that hung up: every read reports the end of the connection.\<close>

definition closed_sockets :: "client sockets" where
  "closed_sockets = client_sockets\<lparr>sk_read := \<lambda>fd c. ((0, 0, CHR ''?''), c)\<rparr>"

lemma closed_client_hangs_witness: "rbb_tick closed_sockets 0 (rbb_example ''0'') = None"
  by (rule closed_client_hangs) (simp_all add: closed_sockets_def rbb_example_def)

end
