(* ===== verification/Sim_Dtm.thy ===== *)
theory Sim_Dtm
  imports Dtm Remote_Bitbang
begin

text \<open>
  The bridge of the debug transport to the simulation (\<open>tb/dpi/SimDTM.cc\<close>) and the
  arguments it takes from the simulator's command line (\<open>tb/dpi/msim_helper.cc\<close>).
\<close>

section \<open>Arguments\<close>

definition NUL :: char where "NUL = CHR 0x00"

definition strlen :: "string \<Rightarrow> nat" where
  "strlen buf = length (takeWhile (\<lambda>c. c \<noteq> NUL) buf)"

text \<open>
  The loop that moves a string down by two places, with the bound read again each time; the
  string has at least a character, so \<open>strlen - 1\<close> does not wrap around.
\<close>

function shift_down :: "nat \<Rightarrow> string \<Rightarrow> string" where
  "shift_down j buf =
     (if j + 1 < strlen buf then shift_down (j + 1) (buf[j := buf ! (j + 2)]) else buf)"
  by auto

termination
proof (relation "measure (\<lambda>(j, buf). length buf - j)")
  fix j :: nat and buf :: string
  assume "j + 1 < strlen buf"
  moreover have "strlen buf \<le> length buf" by (simp add: strlen_def length_takeWhile_le)
  ultimately show "((j + 1, buf[j := buf ! (j + 2)]), j, buf) \<in> measure (\<lambda>(j, buf). length buf - j)" by simp
qed simp

declare shift_down.simps [simp del]

definition remove_pluses :: "string \<Rightarrow> string" where
  "remove_pluses a =
     (if take 2 a = ''++'' \<and> length a > 3 then takeWhile (\<lambda>c. c \<noteq> NUL) (shift_down 0 (a @ [NUL])) else a)"

text \<open>The loop over the arguments; nothing is passed on between the two permissive marks.\<close>

fun sanitize_loop :: "bool \<Rightarrow> string list \<Rightarrow> string list" where
  "sanitize_loop permissive_on [] = []"
| "sanitize_loop permissive_on (a # as) =
     (let on = permissive_on \<or> a = ''+permissive'';
          b = remove_pluses a in
      (if \<not> on then [b] else []) @ sanitize_loop (if b = ''+permissive-off'' then False else on) as)"

definition sanitize_args :: "string list option \<Rightarrow> ('s, string list) prog" where
  "sanitize_args vlog_info = (case vlog_info of
       None \<Rightarrow> raise Abort
     | Some argv \<Rightarrow> ret (sanitize_loop False (drop 1 argv)))"

section \<open>A tick of the debug transport\<close>

record debug_pins =
  debug_req_valid :: bool
  debug_req_bits :: req
  debug_resp_ready :: bool

text \<open>
  \<open>debug_tick\<close>: the global \<open>dtm\<close> is null until the first call, which constructs it.
  \<open>new_dtm\<close> is the constructor, with the host thread run to its first request;
  \<open>is_done\<close> and \<open>code\<close> read \<open>done()\<close> and \<open>exit_code()\<close> off the thread's state.
\<close>

definition debug_tick :: "'h host_thread \<Rightarrow> (string list \<Rightarrow> exn + 'h handshake) \<Rightarrow> ('h \<Rightarrow> bool) \<Rightarrow> ('h \<Rightarrow> int) \<Rightarrow>
    string list option \<Rightarrow> bool \<Rightarrow> bool \<Rightarrow> u32 \<times> u32 \<Rightarrow> ('h handshake option, debug_pins \<times> int) prog" where
  "debug_tick host new_dtm is_done code vlog_info req_ready resp_valid resp_bits =
     bind (gets id) (\<lambda>g.
     bind (case g of
         Some d \<Rightarrow> ret d
       | None \<Rightarrow> bind (sanitize_args vlog_info) (\<lambda>args. lift (new_dtm (''htif'' # args)))) (\<lambda>d.
     bind (modify (\<lambda>_. Some d)) (\<lambda>_.
     bind (zoom the (\<lambda>d _. Some d) (dtm_tick host req_ready resp_valid resp_bits)) (\<lambda>_.
     gets (\<lambda>g. let s = the g in
       (\<lparr>debug_req_valid = req_wait s, debug_req_bits = req_buf s, debug_resp_ready = True\<rparr>,
        exit_word (is_done (thread s)) (code (thread s))))))))"

section \<open>What is passed on\<close>

lemma strlen_nul: "NUL \<notin> set xs \<Longrightarrow> strlen (xs @ NUL # ys) = length xs"
  by (induction xs) (auto simp: strlen_def)

text \<open>After \<open>j\<close> moves the first \<open>j\<close> characters are those two places further on.\<close>

lemma shift_down_step:
  assumes "NUL \<notin> set a" and "j + 3 \<le> length a"
  shows "(take j (drop 2 a) @ drop j a @ [NUL])[j := (take j (drop 2 a) @ drop j a @ [NUL]) ! (j + 2)] =
    take (Suc j) (drop 2 a) @ drop (Suc j) a @ [NUL]"
proof -
  have "(drop j a)[0 := a ! (j + 2)] = a ! (j + 2) # drop (Suc j) a"
    using assms(2) by (simp flip: Cons_nth_drop_Suc [of j a])
  then show ?thesis
    using assms(2) by (simp add: list_update_append nth_append take_Suc_conv_app_nth)
qed

lemma shift_more: "j + 1 < strlen buf \<Longrightarrow> shift_down j buf = shift_down (j + 1) (buf[j := buf ! (j + 2)])"
  by (subst shift_down.simps) simp

lemma shift_stop: "\<not> j + 1 < strlen buf \<Longrightarrow> shift_down j buf = buf"
  by (subst shift_down.simps) simp

lemma shift_down_ends:
  assumes "NUL \<notin> set (cs @ [x, y])" and "length cs = m"
  shows "shift_down m (cs @ [x, y, NUL]) = cs @ [NUL, y, NUL]"
proof -
  have "strlen (cs @ [x, y, NUL]) = m + 2" using strlen_nul [OF assms(1), of "[]"] assms(2) by simp
  then have "shift_down m (cs @ [x, y, NUL]) = shift_down (m + 1) (cs @ [NUL, y, NUL])"
    using shift_more [of m "cs @ [x, y, NUL]"] assms(2) by (simp add: nth_append list_update_append)
  moreover have "strlen (cs @ [NUL, y, NUL]) = m" using strlen_nul [of cs] assms by simp
  ultimately show ?thesis using shift_stop [of "m + 1" "cs @ [NUL, y, NUL]"] by simp
qed

lemma shift_down_all:
  assumes "NUL \<notin> set a" and "2 \<le> length a" and "j \<le> length a - 2"
  shows "\<exists>ys. shift_down j (take j (drop 2 a) @ drop j a @ [NUL]) = drop 2 a @ NUL # ys"
  using assms(3)
proof (induction "length a - 2 - j" arbitrary: j)
  case 0
  then have j: "j = length a - 2" by simp
  have "length (drop j a) = Suc (Suc 0)" using assms(2) j by simp
  then obtain x y where last: "drop j a = [x, y]" unfolding length_Suc_conv by blast
  have "NUL \<notin> set (drop 2 a @ [x, y])" using assms(1) by (auto simp flip: last dest: in_set_dropD)
  then show ?case using shift_down_ends [of "drop 2 a" x y j] last j by simp
next
  case (Suc k)
  then have j: "j + 3 \<le> length a" by simp
  have "NUL \<notin> set (take j (drop 2 a) @ drop j a)" using assms(1) by (auto dest: in_set_takeD in_set_dropD)
  from strlen_nul [OF this, of "[]"] have "strlen (take j (drop 2 a) @ drop j a @ [NUL]) = length a" using j by simp
  then have "shift_down j (take j (drop 2 a) @ drop j a @ [NUL]) =
      shift_down (Suc j) (take (Suc j) (drop 2 a) @ drop (Suc j) a @ [NUL])"
    using j shift_down_step [OF assms(1) j] by (subst shift_down.simps) simp
  then show ?case using Suc.hyps(1) [of "Suc j"] Suc.hyps(2) by simp
qed

lemma remove_pluses_eq:
  assumes "NUL \<notin> set a"
  shows "remove_pluses a = (if take 2 a = ''++'' \<and> length a > 3 then drop 2 a else a)"
proof (cases "take 2 a = ''++'' \<and> length a > 3")
  case True
  have "takeWhile (\<lambda>c. c \<noteq> NUL) (drop 2 a @ NUL # ys) = drop 2 a" for ys
  proof -
    have "\<forall>c\<in>set (drop 2 a). c \<noteq> NUL" using assms by (auto dest: in_set_dropD)
    then show ?thesis by (simp add: takeWhile_append2)
  qed
  then show ?thesis
    using True shift_down_all [OF assms, of 0] by (auto simp: remove_pluses_def)
qed (auto simp: remove_pluses_def)

text \<open>
  What the comment in the loop says: the two pluses at the beginning of an argument of the target
  are removed. The code does so for more than three characters only.
\<close>

definition strip :: "string \<Rightarrow> string" where
  "strip a = (if take 2 a = ''++'' then drop 2 a else a)"

definition passed :: "string \<Rightarrow> string" where
  "passed a = (if length a \<le> 3 then a else strip a)"

lemma remove_pluses_passed: "NUL \<notin> set a \<Longrightarrow> remove_pluses a = passed a"
  by (simp add: remove_pluses_eq passed_def strip_def)

text \<open>Arguments outside and inside the permissive marks.\<close>

lemma sanitize_open:
  "\<forall>a\<in>set pre. NUL \<notin> set a \<and> a \<noteq> ''+permissive'' \<Longrightarrow>
    sanitize_loop False (pre @ rest) = map passed pre @ sanitize_loop False rest"
  by (induction pre) (simp_all add: Let_def remove_pluses_passed)

lemma sanitize_marked:
  "\<forall>a\<in>set mid. NUL \<notin> set a \<and> passed a \<noteq> ''+permissive-off'' \<Longrightarrow>
    sanitize_loop True (mid @ rest) = sanitize_loop True rest"
  by (induction mid) (simp_all add: Let_def remove_pluses_passed)

text \<open>
  C35: of the simulator's arguments, those before \<open>+permissive\<close> and those after
  \<open>+permissive-off\<close> are passed on, in order; the marks and what is between them are not. An
  argument of more than three characters loses the two pluses that mark it as one of the target;
  one of three or fewer, \<open>++\<close> or \<open>++x\<close>, is passed on with them, which is not what the comment
  in the loop says.
\<close>

theorem sanitize_args_blocks:
  assumes "\<forall>a\<in>set (pre @ mid @ post). NUL \<notin> set a" and "''+permissive'' \<notin> set pre"
    and "''+permissive-off'' \<notin> set (map strip mid)" and "''+permissive'' \<notin> set post"
  shows "sanitize_args (Some (prog # pre @ ''+permissive'' # mid @ ''+permissive-off'' # post)) s =
    Some (Inr (map (\<lambda>a. if length a \<le> 3 then a else strip a) pre @
      map (\<lambda>a. if length a \<le> 3 then a else strip a) post, s))"
proof -
  have marks: "remove_pluses ''+permissive'' = ''+permissive''" "remove_pluses ''+permissive-off'' = ''+permissive-off''"
    by (simp_all add: remove_pluses_def)
  have pre: "\<forall>a\<in>set pre. NUL \<notin> set a \<and> a \<noteq> ''+permissive''" using assms(1,2) by auto
  have mid: "\<forall>a\<in>set mid. NUL \<notin> set a \<and> passed a \<noteq> ''+permissive-off''"
    using assms(1,3) by (auto simp: image_iff passed_def)
  have post: "\<forall>a\<in>set post. NUL \<notin> set a \<and> a \<noteq> ''+permissive''" using assms(1,4) by auto
  have "sanitize_loop False (pre @ ''+permissive'' # mid @ ''+permissive-off'' # post) =
      map passed pre @ sanitize_loop True (mid @ ''+permissive-off'' # post)"
    unfolding sanitize_open [OF pre] by (simp add: Let_def marks)
  also have "sanitize_loop True (mid @ ''+permissive-off'' # post) = sanitize_loop False post"
    unfolding sanitize_marked [OF mid] by (simp add: Let_def marks)
  also have "sanitize_loop False post = map passed post"
    using sanitize_open [OF post, of "[]"] by simp
  finally show ?thesis by (simp add: sanitize_args_def run_simps passed_def)
qed

lemma sanitize_args_blocks_witness:
  "sanitize_args (Some [''sim'', ''++pk'', ''++x'', ''+permissive'', ''+trace'', ''+permissive-off'', ''a.elf'']) () =
    Some (Inr ([''pk'', ''++x'', ''a.elf''], ()))"
  using sanitize_args_blocks [of "[''++pk'', ''++x'']" "[''+trace'']" "[''a.elf'']" "''sim''" "()"]
  by (simp add: NUL_def strip_def)

end
