(* ===== verification/Option_Parser.thy ===== *)
theory Option_Parser
  imports Prelude
begin

text \<open>
  The option parser (\<open>tb/dpi/fesvr/option_parser.h\<close>, \<open>option_parser.cc\<close>). The
  actions of the options are programs over a state of the caller. Strings have no null
  character; reading a string at its end gives the terminator.
\<close>

section \<open>Options\<close>

definition end_char :: char where "end_char = CHR 0x00"

definition char_at :: "string \<Rightarrow> nat \<Rightarrow> char" where
  "char_at s i = (if i < length s then s ! i else end_char)"

record 's option_t =
  opt_chr :: char
  opt_str :: "string option"
  opt_arg :: bool
  opt_func :: "string option \<Rightarrow> ('s, unit) prog"

definition add_option :: "'s option_t \<Rightarrow> 's option_t list \<Rightarrow> 's option_t list" where
  "add_option it opts = opts @ [it]"

text \<open>\<open>error\<close> prints the message and leaves the process.\<close>

definition option_error :: "string \<Rightarrow> ('s, 'a) prog" where
  "option_error msg = raise (Exit 1)"

section \<open>Parsing\<close>

definition slen :: "'s option_t \<Rightarrow> nat" where
  "slen it = (case opt_str it of None \<Rightarrow> 0 | Some s \<Rightarrow> length s)"

definition chr_match :: "string \<Rightarrow> 's option_t \<Rightarrow> bool" where
  "chr_match opt it \<longleftrightarrow> char_at opt 1 \<noteq> CHR ''-'' \<and> opt_chr it \<noteq> end_char \<and> char_at opt 1 = opt_chr it"

definition str_match :: "string \<Rightarrow> 's option_t \<Rightarrow> bool" where
  "str_match opt it \<longleftrightarrow> char_at opt 1 = CHR ''-'' \<and> slen it \<noteq> 0 \<and>
     (case opt_str it of None \<Rightarrow> False | Some s \<Rightarrow> take (slen it) (drop 2 opt) = s)"

definition option_matches :: "string \<Rightarrow> 's option_t \<Rightarrow> bool" where
  "option_matches opt it \<longleftrightarrow> chr_match opt it \<or>
     (str_match opt it \<and> (char_at opt (2 + slen it) = CHR ''='' \<or> char_at opt (2 + slen it) = end_char))"

text \<open>
  The argument of a matched option, and what is left of the command line: a long option without
  a value takes the next word, which is the null pointer at the end.
\<close>

definition option_argument :: "'s option_t \<Rightarrow> string \<Rightarrow> string list \<Rightarrow> string option \<times> string list" where
  "option_argument it opt rest =
     (if chr_match opt it then (if char_at opt 2 \<noteq> end_char then Some (drop 2 opt) else None, rest)
      else if char_at opt (2 + slen it) \<noteq> end_char then (Some (drop (3 + slen it) opt), rest)
      else if opt_arg it then (case rest of [] \<Rightarrow> (None, []) | a # as \<Rightarrow> (Some a, as))
      else (None, rest))"

lemma option_argument_shorter: "length (snd (option_argument it opt rest)) \<le> length rest"
  by (auto simp: option_argument_def split: list.splits)

function option_parse :: "'s option_t list \<Rightarrow> string list \<Rightarrow> ('s, string list) prog" where
  "option_parse opts [] = ret []"
| "option_parse opts (opt # rest) =
     (if char_at opt 0 = CHR ''-'' then
        (case find (option_matches opt) opts of
           None \<Rightarrow> option_error ''unrecognized option''
         | Some it \<Rightarrow>
             (let optarg = fst (option_argument it opt rest); argv = snd (option_argument it opt rest) in
              bind (if optarg \<noteq> None \<and> \<not> opt_arg it then option_error ''no argument allowed for option'' else ret ()) (\<lambda>_.
              bind (if optarg = None \<and> opt_arg it then option_error ''argument required for option'' else ret ()) (\<lambda>_.
              bind (opt_func it optarg) (\<lambda>_. option_parse opts argv)))))
      else ret (opt # rest))"
  by pat_completeness auto

termination
  by (relation "measure (\<lambda>(opts, argv). length argv)")
    (auto simp: le_imp_less_Suc option_argument_shorter)

definition option_main :: "'s option_t list \<Rightarrow> string list \<Rightarrow> ('s, string list) prog" where
  "option_main opts argv0 = option_parse opts (drop 1 argv0)"

section \<open>Command lines\<close>

text \<open>A use of an option on the command line.\<close>

datatype 's use =
    Short "'s option_t" "string option"
  | Long_word "'s option_t" string
  | Long "'s option_t" "string option"

primrec use_option :: "'s use \<Rightarrow> 's option_t" where
  "use_option (Short it v) = it"
| "use_option (Long_word it v) = it"
| "use_option (Long it v) = it"

primrec use_value :: "'s use \<Rightarrow> string option" where
  "use_value (Short it v) = v"
| "use_value (Long_word it v) = Some v"
| "use_value (Long it v) = v"

primrec use_words :: "'s use \<Rightarrow> string list" where
  "use_words (Short it v) = [CHR ''-'' # opt_chr it # (case v of None \<Rightarrow> [] | Some x \<Rightarrow> x)]"
| "use_words (Long_word it v) = [''--'' @ the (opt_str it), v]"
| "use_words (Long it v) = [''--'' @ the (opt_str it) @ (case v of None \<Rightarrow> [] | Some x \<Rightarrow> CHR ''='' # x)]"

text \<open>
  Options with names of their own: a character that is no dash, a name without an equals sign.
\<close>

definition plain_option :: "'s option_t \<Rightarrow> bool" where
  "plain_option it \<longleftrightarrow> opt_chr it \<noteq> CHR ''-'' \<and>
     (case opt_str it of None \<Rightarrow> True | Some s \<Rightarrow> s \<noteq> [] \<and> CHR ''='' \<notin> set s \<and> end_char \<notin> set s)"

definition distinct_options :: "'s option_t list \<Rightarrow> bool" where
  "distinct_options opts \<longleftrightarrow> list_all plain_option opts \<and>
     distinct (filter (\<lambda>c. c \<noteq> end_char) (map opt_chr opts)) \<and>
     distinct (filter (\<lambda>s. s \<noteq> None) (map opt_str opts))"

definition use_ok :: "'s option_t list \<Rightarrow> 's use \<Rightarrow> bool" where
  "use_ok opts u \<longleftrightarrow> use_option u \<in> set opts \<and> (use_value u \<noteq> None \<longleftrightarrow> opt_arg (use_option u)) \<and>
     (case u of Short it v \<Rightarrow> opt_chr it \<noteq> end_char \<and> v \<noteq> Some [] \<and> (\<forall>x. v = Some x \<longrightarrow> x ! 0 \<noteq> end_char)
      | _ \<Rightarrow> opt_str (use_option u) \<noteq> None)"


section \<open>The first match\<close>

lemma find_unique:
  assumes "x \<in> set xs" and "P x" and "\<And>y. y \<in> set xs \<Longrightarrow> P y \<Longrightarrow> y = x"
  shows "find P xs = Some x"
proof (cases "find P xs")
  case None
  then show ?thesis using assms(1,2) by (simp add: find_None_iff)
next
  case (Some y)
  then have "y \<in> set xs" "P y" by (auto simp: find_Some_iff)
  then show ?thesis using assms(3) Some by simp
qed

lemma distinct_filter_map:
  assumes "distinct (filter P (map f xs))" and "x \<in> set xs" and "y \<in> set xs" and "f x = f y" and "P (f x)"
  shows "x = y"
  using assms
proof (induction xs)
  case (Cons z zs)
  have fresh: "f z \<noteq> f w" if "w \<in> set zs" "P (f w)" for w
    using Cons.prems(1) that by (auto split: if_splits)
  have rest: "distinct (filter P (map f zs))" using Cons.prems(1) by (simp split: if_splits)
  consider "x = z" "y = z" | "x = z" "y \<in> set zs" | "x \<in> set zs" "y = z" | "x \<in> set zs" "y \<in> set zs"
    using Cons.prems(2,3) by auto
  then show ?case
  proof cases
    case 4
    then show ?thesis using Cons.IH [OF rest] Cons.prems(4,5) by blast
  qed (use fresh [of x] fresh [of y] Cons.prems(4,5) in simp_all)
qed simp

lemma char_at_simps [simp]:
  "char_at (c # s) 0 = c" "char_at (c # s) (Suc i) = char_at s i" "char_at [] i = end_char"
  by (simp_all add: char_at_def)

lemma char_at_append: "char_at (s @ t) (length s + i) = char_at t i"
  by (simp add: char_at_def)

lemma option_plain: "distinct_options opts \<Longrightarrow> it \<in> set opts \<Longrightarrow> plain_option it"
  by (simp add: distinct_options_def list_all_iff)

lemma find_short:
  assumes "distinct_options opts" and "it \<in> set opts" and "opt_chr it \<noteq> end_char"
  shows "find (option_matches (CHR ''-'' # opt_chr it # x)) opts = Some it"
proof (rule find_unique [OF assms(2)])
  have dash: "opt_chr it \<noteq> CHR ''-''" using option_plain [OF assms(1,2)] by (simp add: plain_option_def)
  then show "option_matches (CHR ''-'' # opt_chr it # x) it"
    using assms(3) by (simp add: option_matches_def chr_match_def One_nat_def)
  fix y assume y: "y \<in> set opts" "option_matches (CHR ''-'' # opt_chr it # x) y"
  then have "opt_chr it = opt_chr y"
    using dash by (auto simp: option_matches_def chr_match_def str_match_def)
  moreover have "distinct (filter (\<lambda>c. c \<noteq> end_char) (map opt_chr opts))"
    using assms(1) by (simp add: distinct_options_def)
  ultimately have "it = y" using assms(2,3) y(1) by (intro distinct_filter_map [where P = "\<lambda>c. c \<noteq> end_char" and f = opt_chr]) simp_all
  then show "y = it" by (rule sym)
qed

text \<open>A long option is matched by its own name only.\<close>

definition name_ends :: "string \<Rightarrow> bool" where
  "name_ends t \<longleftrightarrow> t = [] \<or> (\<exists>x. t = CHR ''='' # x)"

lemma long_name:
  assumes "CHR ''='' \<notin> set s" and "end_char \<notin> set s" and "CHR ''='' \<notin> set s'" and "name_ends t"
    and "take (length s') (s @ t) = s'"
    and "char_at (s @ t) (length s') = CHR ''='' \<or> char_at (s @ t) (length s') = end_char"
  shows "s' = s"
proof (cases "length s' < length s")
  case True
  then have "char_at (s @ t) (length s') = s ! length s'" by (simp add: char_at_def nth_append)
  moreover have "s ! length s' \<in> set s" using True by simp
  ultimately show ?thesis using assms(1,2,6) by auto
next
  case False
  have "length s' = length s"
  proof (rule ccontr)
    assume "length s' \<noteq> length s"
    then have longer: "length s < length s'" using False by simp
    moreover have "length s' \<le> length (s @ t)" using arg_cong [OF assms(5), of length] by simp
    ultimately have "t \<noteq> []" by auto
    then obtain x where t: "t = CHR ''='' # x" using assms(4) by (auto simp: name_ends_def)
    have "s' ! length s = (s @ t) ! length s" using assms(5) longer by (metis nth_take)
    then have "s' ! length s = CHR ''=''" using t by simp
    then show False using assms(3) longer nth_mem by metis
  qed
  then show ?thesis using assms(5) by simp
qed

lemma find_long:
  assumes "distinct_options opts" and "it \<in> set opts" and "opt_str it = Some s" and "name_ends t"
  shows "find (option_matches (''--'' @ s @ t)) opts = Some it"
proof (rule find_unique [OF assms(2)])
  have s: "s \<noteq> []" "CHR ''='' \<notin> set s" "end_char \<notin> set s"
    using option_plain [OF assms(1,2)] assms(3) by (simp_all add: plain_option_def)
  have "char_at t 0 = CHR ''='' \<or> char_at t 0 = end_char" using assms(4) by (auto simp: name_ends_def)
  then show "option_matches (''--'' @ s @ t) it"
    using s(1) assms(3) char_at_append [of s t 0] by (simp add: option_matches_def str_match_def slen_def)
  fix y assume y: "y \<in> set opts" "option_matches (''--'' @ s @ t) y"
  then obtain s' where s': "opt_str y = Some s'" "take (length s') (s @ t) = s'"
      "char_at (s @ t) (length s') = CHR ''='' \<or> char_at (s @ t) (length s') = end_char"
    by (auto simp: option_matches_def chr_match_def str_match_def slen_def split: option.splits)
  have "CHR ''='' \<notin> set s'" using option_plain [OF assms(1) y(1)] s'(1) by (simp add: plain_option_def)
  from long_name [OF s(2,3) this assms(4) s'(2,3)] have same: "opt_str it = opt_str y" using assms(3) s'(1) by simp
  have names: "distinct (filter (\<lambda>s. s \<noteq> None) (map opt_str opts))"
    using assms(1) by (simp add: distinct_options_def)
  have "it = y"
    by (rule distinct_filter_map [OF names assms(2) y(1) same]) (simp add: assms(3))
  then show "y = it" by (rule sym)
qed

section \<open>The command line is read as it was written\<close>

lemma parse_use:
  assumes "distinct_options opts" and "use_ok opts u"
  shows "option_parse opts (use_words u @ rest) =
    bind (opt_func (use_option u) (use_value u)) (\<lambda>_. option_parse opts rest)"
proof (cases u)
  case (Short it v)
  then have it: "it \<in> set opts" "opt_chr it \<noteq> end_char" "v \<noteq> None \<longleftrightarrow> opt_arg it"
      "\<And>x. v = Some x \<Longrightarrow> x \<noteq> [] \<and> x ! 0 \<noteq> end_char"
    using assms(2) by (auto simp: use_ok_def)
  have dash: "opt_chr it \<noteq> CHR ''-''" using option_plain [OF assms(1) it(1)] by (simp add: plain_option_def)
  let ?w = "CHR ''-'' # opt_chr it # (case v of None \<Rightarrow> [] | Some x \<Rightarrow> x)"
  have "chr_match ?w it" using it(2) dash by (simp add: chr_match_def)
  then have "option_argument it ?w rest = (v, rest)"
    using it(4) by (auto simp: option_argument_def numeral_2_eq_2 char_at_def split: option.splits)
  then show ?thesis
    using find_short [OF assms(1) it(1,2)] it(3) Short by (cases v) simp_all
next
  case (Long_word it v)
  then obtain s where it: "it \<in> set opts" "opt_str it = Some s" "opt_arg it"
    using assms(2) by (auto simp: use_ok_def)
  have "option_argument it (''--'' @ s) (v # rest) = (Some v, rest)"
    using it char_at_append [of s "[]" 0] by (simp add: option_argument_def chr_match_def slen_def)
  then show ?thesis
    using find_long [OF assms(1) it(1,2), of "[]"] it(2,3) Long_word by (simp add: name_ends_def)
next
  case (Long it v)
  then obtain s where it: "it \<in> set opts" "opt_str it = Some s" "v \<noteq> None \<longleftrightarrow> opt_arg it"
    using assms(2) by (auto simp: use_ok_def)
  let ?t = "case v of None \<Rightarrow> [] | Some x \<Rightarrow> CHR ''='' # x"
  have "option_argument it (''--'' @ s @ ?t) rest = (v, rest)"
    using it char_at_append [of s ?t 0]
    by (auto simp: option_argument_def chr_match_def slen_def end_char_def numeral_3_eq_3 split: option.splits)
  moreover have "name_ends ?t" by (auto simp: name_ends_def split: option.splits)
  ultimately show ?thesis
    using find_long [OF assms(1) it(1,2), of ?t] it(2,3) Long by (cases v) simp_all
qed

text \<open>
  C26: a command line that uses options by character, by name with a value, or by name with the
  next word as value, followed by arguments, is read back as it was written: the actions run in
  order with their values, and the rest starts at the first word that is no option.
\<close>

theorem option_parse_roundtrip:
  assumes "distinct_options opts" and "\<forall>u\<in>set us. use_ok opts u" and "rest = [] \<or> char_at (hd rest) 0 \<noteq> CHR ''-''"
  shows "option_main opts (prog # concat (map use_words us) @ rest) =
    bind (for_each us (\<lambda>u. opt_func (use_option u) (use_value u))) (\<lambda>_. ret rest)"
proof -
  have last: "option_parse opts rest = ret rest" using assms(3) by (cases rest) simp_all
  have "option_parse opts (concat (map use_words us) @ rest) =
      bind (for_each us (\<lambda>u. opt_func (use_option u) (use_value u))) (\<lambda>_. ret rest)"
    using assms(2)
  proof (induction us)
    case (Cons u us)
    then have "use_ok opts u" by simp
    from parse_use [OF assms(1) this, of "concat (map use_words us) @ rest"]
    show ?case using Cons by (simp add: bind_assoc)
  qed (simp add: last)
  then show ?thesis by (simp add: option_main_def)
qed

definition example_options :: "string list option_t list" where
  "example_options = [\<lparr>opt_chr = CHR ''m'', opt_str = Some ''mem'', opt_arg = True,
       opt_func = (\<lambda>v. modify (\<lambda>s. s @ [the v]))\<rparr>,
     \<lparr>opt_chr = CHR ''d'', opt_str = Some ''dc'', opt_arg = False, opt_func = (\<lambda>v. modify (\<lambda>s. s @ [''d'']))\<rparr>]"

lemma option_parse_roundtrip_witness:
  "option_main example_options [''sim'', ''-m64'', ''--dc'', ''--mem=2'', ''--mem'', ''1'', ''a.elf''] [] =
    Some (Inr ([''a.elf''], [''64'', ''d'', ''2'', ''1'']))"
proof -
  let ?m = "example_options ! 0" and ?d = "example_options ! 1"
  let ?us = "[Short ?m (Some ''64''), Long ?d None, Long ?m (Some ''2''), Long_word ?m ''1'']"
  have "option_main example_options (''sim'' # concat (map use_words ?us) @ [''a.elf'']) =
      bind (for_each ?us (\<lambda>u. opt_func (use_option u) (use_value u))) (\<lambda>_. ret [''a.elf''])"
    by (rule option_parse_roundtrip)
      (auto simp: example_options_def distinct_options_def plain_option_def use_ok_def end_char_def)
  then show ?thesis by (simp add: example_options_def run_simps)
qed

end
