(* ===== verification/Htif_Types.thy ===== *)
theory Htif_Types
  imports Htif
begin

text \<open>
  The tables of the front-end server are well typed in every state it reaches: a command word
  finds its device and its handler inside the tables, a handler is run on an object of its own
  class, and a frame buffer device refers to a frame buffer that exists.
\<close>

section \<open>Programs that keep a property\<close>

definition keeps :: "('s \<Rightarrow> bool) \<Rightarrow> ('s, 'a) prog \<Rightarrow> bool" where
  "keeps P m \<longleftrightarrow> (\<forall>s a s'. P s \<longrightarrow> m s = Some (Inr (a, s')) \<longrightarrow> P s')"

named_theorems keeps_rules \<open>the program constructors keep a property\<close>

lemma keepsD: "keeps P m \<Longrightarrow> m s = Some (Inr (a, s')) \<Longrightarrow> P s \<Longrightarrow> P s'"
  unfolding keeps_def by blast

lemma keeps_basic [keeps_rules]:
  "keeps P (ret a)" "keeps P (raise e)" "keeps P (gets f)" "keeps P (check b e)" "keeps P (lift r)"
  by (auto simp: keeps_def run_simps lift_def split: sum.splits if_splits)

lemma keeps_modify [keeps_rules]: "(\<And>s. P s \<Longrightarrow> P (f s)) \<Longrightarrow> keeps P (modify f)"
  by (auto simp: keeps_def run_simps)

lemma keeps_bind [keeps_rules]: "keeps P m \<Longrightarrow> (\<And>a. keeps P (f a)) \<Longrightarrow> keeps P (bind m f)"
  unfolding keeps_def
proof (intro allI impI)
  fix s b s'
  assume m: "\<forall>s a s'. P s \<longrightarrow> m s = Some (Inr (a, s')) \<longrightarrow> P s'"
    and f: "\<And>a. \<forall>s b s'. P s \<longrightarrow> f a s = Some (Inr (b, s')) \<longrightarrow> P s'"
    and P: "P s" and run: "bind m f s = Some (Inr (b, s'))"
  obtain a t where "m s = Some (Inr (a, t))" and "f a t = Some (Inr (b, s'))"
    using run by (auto simp: run_bind split: option.splits sum.splits)
  then show "P s'" using m f P by blast
qed

lemma keeps_if [keeps_rules]: "(b \<Longrightarrow> keeps P m) \<Longrightarrow> (\<not> b \<Longrightarrow> keeps P n) \<Longrightarrow> keeps P (if b then m else n)"
  by simp

lemma keeps_case_option [keeps_rules]:
  "(r = None \<Longrightarrow> keeps P m) \<Longrightarrow> (\<And>x. r = Some x \<Longrightarrow> keeps P (f x)) \<Longrightarrow> keeps P (case r of None \<Rightarrow> m | Some x \<Rightarrow> f x)"
  by (cases r) simp_all

lemma keeps_case_prod [keeps_rules]: "(\<And>x y. p = (x, y) \<Longrightarrow> keeps P (f x y)) \<Longrightarrow> keeps P (case p of (x, y) \<Rightarrow> f x y)"
  by (cases p) simp

lemma keeps_case_list [keeps_rules]:
  "(r = [] \<Longrightarrow> keeps P m) \<Longrightarrow> (\<And>x xs. r = x # xs \<Longrightarrow> keeps P (f x xs)) \<Longrightarrow> keeps P (case r of [] \<Rightarrow> m | x # xs \<Rightarrow> f x xs)"
  by (cases r) simp_all

lemma keeps_let [keeps_rules]: "(\<And>x. keeps P (f x)) \<Longrightarrow> keeps P (Let v f)"
  by (simp add: Let_def)

lemma keeps_for_each [keeps_rules]: "(\<And>x. x \<in> set xs \<Longrightarrow> keeps P (f x)) \<Longrightarrow> keeps P (for_each xs f)"
  by (induction xs) (auto intro!: keeps_rules)

text \<open>A loop keeps what every result of it has.\<close>

definition good_result :: "('s \<Rightarrow> bool) \<Rightarrow> exn + 'a \<times> 's \<Rightarrow> bool" where
  "good_result P r = (case r of Inl e \<Rightarrow> True | Inr (a, s) \<Rightarrow> P s)"

lemma good_result_simps [simp]: "good_result P (Inl e)" "good_result P (Inr (a, s)) = P s"
  by (simp_all add: good_result_def)

lemma keeps_resultI: "(\<And>s r. m s = Some r \<Longrightarrow> P s \<Longrightarrow> good_result P r) \<Longrightarrow> keeps P m"
  unfolding keeps_def good_result_def by fastforce

lemma keeps_zoom: "(\<And>t s. P s \<Longrightarrow> P (put t s)) \<Longrightarrow> keeps P (zoom get put m)"
  by (auto simp: keeps_def run_simps split: option.splits sum.splits prod.splits)

section \<open>Well-typed tables\<close>

definition typed_device :: "nat \<Rightarrow> device \<Rightarrow> bool" where
  "typed_device n d \<longleftrightarrow> well_formed_device d \<and>
     (case body d of Rfb i \<Rightarrow> i < n | _ \<Rightarrow> True) \<and>
     (\<forall>h\<in>set (command_handlers d).
       (h \<in> {Rfb_handle_configure, Rfb_handle_set_address} \<longrightarrow> (\<exists>i. body d = Rfb i)) \<and>
       (h \<in> {Disk_handle_read, Disk_handle_write} \<longrightarrow> (\<exists>fd m. body d = Disk fd m)))"

definition well_typed :: "('t, 'h) htif \<Rightarrow> bool" where
  "well_typed s \<longleftrightarrow> length (devices s) = MAX_COMMANDS \<and> num_devices s < MAX_DEVICES \<and>
     (\<forall>d\<in>set (devices s) \<union> set (dynamic_devices s). typed_device (length (rfbs s)) d)"

lemma typed_device_mono: "typed_device n d \<Longrightarrow> n \<le> m \<Longrightarrow> typed_device m d"
  by (auto simp: typed_device_def split: device_body.splits)

lemma well_typed_simps [simp]:
  "well_typed (s\<lparr>target := t\<rparr>) = well_typed s" "well_typed (s\<lparr>host := h\<rparr>) = well_typed s"
  "well_typed (s\<lparr>entry := a\<rparr>) = well_typed s" "well_typed (s\<lparr>targs := ts\<rparr>) = well_typed s"
  "well_typed (s\<lparr>sig_file := f\<rparr>) = well_typed s" "well_typed (s\<lparr>sig_addr := a\<rparr>) = well_typed s"
  "well_typed (s\<lparr>sig_len := a\<rparr>) = well_typed s" "well_typed (s\<lparr>tohost_addr := a\<rparr>) = well_typed s"
  "well_typed (s\<lparr>fromhost_addr := a\<rparr>) = well_typed s" "well_typed (s\<lparr>exitcode := c\<rparr>) = well_typed s"
  "well_typed (s\<lparr>stopped := b\<rparr>) = well_typed s" "well_typed (s\<lparr>pending_reads := ps\<rparr>) = well_typed s"
  "well_typed (s\<lparr>fromhost_queue := q\<rparr>) = well_typed s" "well_typed (s\<lparr>fds := fs\<rparr>) = well_typed s"
  "well_typed (s\<lparr>chroot := r\<rparr>) = well_typed s" "well_typed (s\<lparr>rfbs := (rfbs s)[i := x]\<rparr>) = well_typed s"
  by (simp_all add: well_typed_def)

lemma keeps_target [keeps_rules]: "keeps well_typed (on_target m)"
  unfolding on_target_def by (rule keeps_zoom) simp

lemma keeps_host [keeps_rules]: "keeps well_typed (on_host f)"
  by (auto simp: keeps_def on_host_def split: prod.splits)

section \<open>The system calls\<close>

lemma keeps_access [keeps_rules]:
  "keeps well_typed (mem_rd e a n)" "keeps well_typed (mem_wr e a bs)" "keeps well_typed (alloc_bytes k)"
  "keeps well_typed (respond cmd r)" "keeps well_typed (sysret_errno e i)" "keeps well_typed (lookup_fd fd)"
  "keeps well_typed (at_path fd name)" "keeps well_typed (read_name e p len)" "keeps well_typed (write_stat e p q)"
  unfolding mem_rd_def mem_wr_def alloc_bytes_def respond_def sysret_errno_def lookup_fd_def at_path_def
    read_name_def write_stat_def
  by (intro keeps_rules; simp)+

lemma keeps_calls [keeps_rules]:
  "keeps well_typed (sys_exit a)" "keeps well_typed (sys_read e a b c)" "keeps well_typed (sys_pread e a b c d)"
  "keeps well_typed (sys_write e a b c)" "keeps well_typed (sys_pwrite e a b c d)" "keeps well_typed (sys_close e a)"
  "keeps well_typed (sys_lseek e a b c)" "keeps well_typed (sys_fstat e a b)" "keeps well_typed (sys_fcntl e a b c)"
  "keeps well_typed (sys_ftruncate e a b)" "keeps well_typed (sys_lstat e a b c)"
  "keeps well_typed (sys_openat e a b c d f)" "keeps well_typed (sys_fstatat e a b c d f)"
  "keeps well_typed (sys_faccessat e a b c d)" "keeps well_typed (sys_renameat e a b c d f g)"
  "keeps well_typed (sys_linkat e a b c d f g k)" "keeps well_typed (sys_unlinkat e a b c d)"
  "keeps well_typed (sys_mkdirat e a b c d)" "keeps well_typed (sys_getcwd e a b)"
  "keeps well_typed (sys_getmainvars e a b)"
  unfolding sys_exit_def sys_read_def sys_pread_def sys_write_def sys_pwrite_def sys_close_def sys_lseek_def
    sys_fstat_def sys_fcntl_def sys_ftruncate_def sys_lstat_def sys_openat_def sys_fstatat_def sys_faccessat_def
    sys_renameat_def sys_linkat_def sys_unlinkat_def sys_mkdirat_def sys_getcwd_def sys_getmainvars_def
  by (intro keeps_rules; simp)+

lemma keeps_chdir_size [keeps_rules]: "keeps well_typed (chdir_size (e :: ('t, 'h) env) path sz)"
proof (rule keeps_resultI)
  fix s r
  assume "chdir_size e path sz s = Some r" and "well_typed s"
  then show "good_result well_typed r"
  proof (rule chdir_size.raw_induct [where P = "\<lambda>e path sz s r. well_typed s \<longrightarrow> good_result well_typed r", rule_format,
        rotated])
    fix run :: "('t, 'h) env \<Rightarrow> u64 \<Rightarrow> nat \<Rightarrow> ('t, 'h) htif \<Rightarrow> (exn + nat \<times> ('t, 'h) htif) option"
      and e path sz s r
    assume IH: "\<And>e path sz s r. run e path sz s = Some r \<Longrightarrow> well_typed s \<Longrightarrow> good_result well_typed r"
      and step: "(case on_target (read_uint8 (chunks e) (path + of_nat sz)) s of
        None \<Rightarrow> None
      | Some (Inl x) \<Rightarrow> Some (Inl x)
      | Some (Inr (b, s')) \<Rightarrow> if b \<noteq> 0 then run e path (sz + 1) s' else Some (Inr (sz + 1, s'))) = Some r"
      and s: "well_typed s"
    show "good_result well_typed r"
      using step s keepsD [OF keeps_target, of "read_uint8 (chunks e) (path + of_nat sz)" s]
      by (auto intro: IH split: option.splits sum.splits prod.splits if_splits)
  qed
qed

lemma keeps_chdir_copy [keeps_rules]: "keeps well_typed (chdir_copy (e :: ('t, 'h) env) path sz buf)"
proof (rule keeps_resultI)
  fix s r
  assume "chdir_copy e path sz buf s = Some r" and "well_typed s"
  then show "good_result well_typed r"
  proof (rule chdir_copy.raw_induct [where P = "\<lambda>e path sz buf s r. well_typed s \<longrightarrow> good_result well_typed r", rule_format,
        rotated])
    fix run :: "('t, 'h) env \<Rightarrow> u64 \<Rightarrow> nat \<Rightarrow> byte list \<Rightarrow> ('t, 'h) htif \<Rightarrow> (exn + byte list \<times> ('t, 'h) htif) option"
      and e path sz buf s r
    assume IH: "\<And>e path sz buf s r. run e path sz buf s = Some r \<Longrightarrow> well_typed s \<Longrightarrow> good_result well_typed r"
      and step: "(case on_target (read_uint8 (chunks e) (path + of_nat (length buf))) s of
        None \<Rightarrow> None
      | Some (Inl x) \<Rightarrow> Some (Inl x)
      | Some (Inr (b, s')) \<Rightarrow>
          if sz \<le> length buf then Some (Inl (Undefined ''buf[offset]''))
          else if b = 0 then Some (Inr (buf @ [b], s'))
          else run e path sz (buf @ [b]) s') = Some r"
      and s: "well_typed s"
    show "good_result well_typed r"
      using step s keepsD [OF keeps_target, of "read_uint8 (chunks e) (path + of_nat (length buf))" s]
      by (auto intro: IH split: option.splits sum.splits prod.splits if_splits)
  qed
qed

lemma keeps_dispatch [keeps_rules]: "keeps well_typed (dispatch e mm)"
proof -
  have "keeps well_typed (f a)" if "syscall_table e n = Some f" for f n a
    using map_of_SomeD [OF that [unfolded syscall_table_def]]
    by (auto simp: sys_chdir_def intro!: keeps_rules)
  then show ?thesis
    unfolding dispatch_def by (intro keeps_rules) (simp split: if_splits)
qed

lemma keeps_devices [keeps_rules]:
  "keeps well_typed (handle_syscall e cmd)" "keeps well_typed (handle_identify e d cmd)"
  "keeps well_typed (bcd_handle_read cmd)" "keeps well_typed (bcd_handle_write e cmd)"
  "keeps well_typed (disk_handle_read e fd cmd)" "keeps well_typed (disk_handle_write e fd cmd)"
  "keeps well_typed (rfb_handle_configure e i cmd)" "keeps well_typed (rfb_handle_set_address i cmd)"
  "keeps well_typed (bcd_tick e)" "keeps well_typed (rfb_tick e i)"
  unfolding handle_syscall_def handle_identify_def bcd_handle_read_def bcd_handle_write_def term_write_def term_read_def
    disk_handle_read_def disk_handle_write_def disk_request_at_def rfb_handle_configure_def rfb_handle_set_address_def
    bcd_tick_def rfb_tick_def fb_update_def the_rfb_def set_rfb_def
  by (intro keeps_rules; simp)+

section \<open>The main loop\<close>

lemma keeps_handler [keeps_rules]: "keeps well_typed (run_handler e d h cmd)"
  unfolding run_handler_def by (cases h; cases "body d"; simp add: keeps_rules)

lemma keeps_list_handle [keeps_rules]: "keeps well_typed (list_handle_command e cmd)"
  unfolding list_handle_command_def device_handle_command_def by (intro keeps_rules)

lemma keeps_device_tick [keeps_rules]: "keeps well_typed (device_tick e d)"
  unfolding device_tick_def by (cases "body d"; simp add: keeps_rules)

lemma keeps_list_tick [keeps_rules]: "keeps well_typed (list_tick e)"
  unfolding list_tick_def by (intro keeps_rules)

lemma keeps_serve_fromhost [keeps_rules]: "keeps well_typed (serve_fromhost e)"
  unfolding serve_fromhost_def by (intro keeps_rules) simp

lemma keeps_run_body: "keeps well_typed (run_body e)"
  unfolding run_body_def serve_tohost_def by (intro keeps_rules)

section \<open>Construction\<close>

lemma wp_make_device_handlers:
  assumes "list_all (\<lambda>(cmd, h, n). cmd < 255 \<and> length n < 64) cmds" and "length name < 64"
  shows "wp (make_device name b cmds) (\<lambda>d s'. s' = s \<and> well_formed_device d \<and> body d = b \<and>
    set (command_handlers d) \<subseteq> {Handle_null_command, Handle_identify} \<union> fst ` snd ` set cmds) s"
proof (rule wp_mono [OF wp_make_device [OF assms]], elim conjE, intro conjI)
  fix d and s' :: 's
  assume wf: "well_formed_device d" and handlers: "\<forall>c<255. command_handlers d ! c =
      (case map_of (rev cmds) c of None \<Rightarrow> Handle_null_command | Some (h, n) \<Rightarrow> h)"
  have "command_handlers d ! c \<in> {Handle_null_command, Handle_identify} \<union> fst ` snd ` set cmds" if "c < 256" for c
  proof (cases "c = 255")
    case False
    with that handlers have "command_handlers d ! c =
      (case map_of (rev cmds) c of None \<Rightarrow> Handle_null_command | Some (h, n) \<Rightarrow> h)" by simp
    then show ?thesis by (force dest!: map_of_SomeD split: option.splits)
  qed (use wf in \<open>simp add: well_formed_device_def\<close>)
  moreover have "length (command_handlers d) = 256" using wf by (simp add: well_formed_device_def)
  ultimately show "set (command_handlers d) \<subseteq> {Handle_null_command, Handle_identify} \<union> fst ` snd ` set cmds"
    by (metis in_set_conv_nth subsetI)
qed

lemma typed_devices:
  "wp null_device_t (\<lambda>d s'. s' = s \<and> (\<forall>n. typed_device n d)) s"
  "wp bcd_t (\<lambda>d s'. s' = s \<and> (\<forall>n. typed_device n d)) s"
  "wp (rfb_t i) (\<lambda>d s'. s' = s \<and> typed_device (Suc i) d) s"
  "wp (make_device ''syscall_proxy'' Syscall_proxy [(0, Handle_syscall, ''syscall'')])
     (\<lambda>d s'. s' = s \<and> (\<forall>n. typed_device n d)) s"
  unfolding null_device_t_def bcd_t_def rfb_t_def
  by (rule wp_mono [OF wp_make_device_handlers]; auto simp: typed_device_def)+

lemma keeps_wp:
  assumes "\<And>s. P s \<Longrightarrow> wp m (\<lambda>a s'. P s' \<and> R a) s" and "\<And>a. R a \<Longrightarrow> keeps P (f a)"
  shows "keeps P (bind m f)"
  unfolding keeps_def
proof (intro allI impI)
  fix s b s'
  assume "P s" and run: "bind m f s = Some (Inr (b, s'))"
  with assms(1) obtain a t where "m s = Some (Inr (a, t))" "P t" "R a" by (blast elim: wpE)
  with run assms(2) show "P s'" by (auto simp: run_bind dest: keepsD)
qed

lemma well_typed_register:
  assumes "well_typed s" and "typed_device (length (rfbs s)) d" and "num_devices s + 1 < MAX_DEVICES"
  shows "well_typed (s\<lparr>num_devices := num_devices s + 1, devices := (devices s)[num_devices s := d]\<rparr>)"
  using assms by (auto simp: well_typed_def dest!: set_update_subset_insert [THEN subsetD])

lemma keeps_register:
  assumes "\<And>s. P s \<Longrightarrow> well_typed s \<and> typed_device (length (rfbs s)) d"
    and "\<And>s n ds. P s \<Longrightarrow> well_typed (s\<lparr>num_devices := n, devices := ds\<rparr>) \<Longrightarrow> P (s\<lparr>num_devices := n, devices := ds\<rparr>)"
  shows "keeps P (register_device d)"
  using assms(1) well_typed_register
  by (auto simp: keeps_def register_device_def run_simps intro!: assms(2) split: if_splits)

lemma keeps_rfb_option: "keeps well_typed (do_option e Opt_rfb optarg)"
  unfolding keeps_def
proof (intro allI impI)
  fix s :: "('a, 'b) htif" and u s'
  assume s: "well_typed s" and run: "do_option e Opt_rfb optarg s = Some (Inr (u, s'))"
  obtain d where "rfb_t (length (rfbs s)) s = Some (Inr (d, s))" and d: "typed_device (Suc (length (rfbs s))) d"
    by (rule wpE [OF typed_devices(3) [of "length (rfbs s)" s]]) simp
  with run have s': "s' = s\<lparr>rfbs := rfbs s @ [rfb_new (case optarg of None \<Rightarrow> 0 | Some a \<Rightarrow> atoi a)],
      dynamic_devices := dynamic_devices s @ [d]\<rparr>"
    by (simp add: do_option_def run_simps)
  show "well_typed s'"
    using s d unfolding s' by (auto simp: well_typed_def intro: typed_device_mono)
qed

lemma keeps_option [keeps_rules]: "keeps well_typed (do_option e c optarg)"
proof (cases c)
  case Opt_rfb
  then show ?thesis by (simp add: keeps_rfb_option)
next
  case Opt_chroot
  then show ?thesis by (simp add: do_option_def set_chroot_def) (intro keeps_rules; simp)
qed (auto simp: do_option_def intro!: keeps_rules)

lemma keeps_unknown_option [keeps_rules]: "keeps P (unknown_option opterr)"
  unfolding unknown_option_def by (intro keeps_rules)

lemma keeps_case_has_arg [keeps_rules]:
  "keeps P k \<Longrightarrow> keeps P m \<Longrightarrow> keeps P n \<Longrightarrow>
    keeps P (case a of No_argument \<Rightarrow> k | Required_argument \<Rightarrow> m | Optional_argument \<Rightarrow> n)"
  by (cases a) simp_all

lemma keeps_parse_options [keeps_rules]: "keeps well_typed (parse_options e opterr as)"
proof (induction as arbitrary: opterr rule: length_induct)
  case (1 as)
  then have IH: "keeps well_typed (parse_options e opterr bs)" if "length bs < length as" for opterr bs
    using that by blast
  show ?case
  proof (cases as)
    case (Cons a bs)
    show ?thesis
      unfolding Cons parse_options.simps by (intro keeps_rules IH; simp add: Cons)
  qed (simp add: keeps_rules)
qed

lemma keeps_parse_arguments: "keeps well_typed (parse_arguments e args)"
  unfolding parse_arguments_def by (intro keeps_rules; simp)

lemma keeps_register_dynamic:
  "keeps well_typed (bind (gets dynamic_devices) (\<lambda>ds. for_each ds register_device))"
  unfolding keeps_def
proof (intro allI impI)
  fix s :: "('a, 'b) htif" and u s'
  assume s: "well_typed s" and run: "bind (gets dynamic_devices) (\<lambda>ds. for_each ds register_device) s = Some (Inr (u, s'))"
  let ?P = "\<lambda>t. well_typed t \<and> dynamic_devices t = dynamic_devices s"
  have "keeps ?P (for_each (dynamic_devices s) register_device)"
    by (intro keeps_for_each keeps_register) (auto simp: well_typed_def)
  with run s show "well_typed s'" by (auto simp: run_bind run_gets dest: keepsD)
qed

lemma keeps_register_devices:
  assumes "\<forall>n. typed_device n d"
  shows "keeps well_typed (register_devices e d)"
  unfolding register_devices_def
proof (rule keeps_bind)
  show "keeps well_typed (register_device d)" by (rule keeps_register) (use assms in auto)
next
  fix u
  show "keeps well_typed (bind bcd_t (\<lambda>bcd. bind (register_device bcd) (\<lambda>_.
      bind (gets dynamic_devices) (\<lambda>ds. for_each ds register_device))))"
  proof (rule keeps_wp [where R = "\<lambda>d. \<forall>n. typed_device n d"])
    fix bcd
    assume "\<forall>n. typed_device n bcd"
    then show "keeps well_typed (bind (register_device bcd) (\<lambda>_.
        bind (gets dynamic_devices) (\<lambda>ds. for_each ds register_device)))"
      by (intro keeps_bind keeps_register keeps_register_dynamic) auto
  qed (rule wp_mono [OF typed_devices(2)], simp)
qed

lemma keeps_syscall_t:
  assumes "\<And>d. \<forall>n. typed_device n d \<Longrightarrow> keeps well_typed (f d)"
  shows "keeps well_typed (bind (syscall_t e) f)"
  unfolding syscall_t_def bind_assoc alloc_fd_def bind_ret
proof (rule keeps_wp [where R = "\<lambda>d. \<forall>n. typed_device n d"])
  fix d
  assume "\<forall>n. typed_device n d"
  then show "keeps well_typed (bind (on_host (os_dup (os e) 0)) (\<lambda>a.
      bind (on_host (os_dup (os e) 1)) (\<lambda>b. bind (on_host (os_dup (os e) 1)) (\<lambda>c.
      bind (check (\<not> (a < 0 \<or> b < 0 \<or> c < 0)) (Runtime_Error ''could not dup stdin/stdout'')) (\<lambda>_.
      bind (modify (\<lambda>s. s\<lparr>fds := snd (fds_alloc a (fds s))\<rparr>)) (\<lambda>_.
      bind (modify (\<lambda>s. s\<lparr>fds := snd (fds_alloc b (fds s))\<rparr>)) (\<lambda>_.
      bind (modify (\<lambda>s. s\<lparr>fds := snd (fds_alloc c (fds s))\<rparr>)) (\<lambda>_. f d))))))))"
    by (intro keeps_rules; simp add: assms)
qed (rule wp_mono [OF typed_devices(4)], simp)

lemma well_typed_init: "(\<forall>n. typed_device n d) \<Longrightarrow> well_typed (htif_init t h d)"
  by (simp add: well_typed_def htif_init_def MAX_DEVICES_def MAX_COMMANDS_def)

lemma constructed_well_typed:
  assumes "htif_t e args s = Some (Inr ((), s'))"
  shows "well_typed s'"
proof -
  obtain null_device where "null_device_t s = Some (Inr (null_device, s))" and null: "\<forall>n. typed_device n null_device"
    by (rule wpE [OF typed_devices(1) [of s]]) simp
  with assms have run: "bind (syscall_t e) (\<lambda>syscall_proxy. bind (parse_arguments e args)
      (\<lambda>_. register_devices e syscall_proxy)) (htif_init (target s) (host s) null_device) = Some (Inr ((), s'))"
    by (simp add: htif_t_def run_bind run_modify)
  have "keeps well_typed (bind (syscall_t e) (\<lambda>syscall_proxy. bind (parse_arguments e args)
      (\<lambda>_. register_devices e syscall_proxy)))"
    by (rule keeps_syscall_t) (rule keeps_bind [OF keeps_parse_arguments keeps_register_devices])
  from keepsD [OF this run well_typed_init [OF null]] show ?thesis .
qed

section \<open>Every reachable state\<close>

text \<open>The server takes a turn of its loop, or the target and the host move on by themselves.\<close>

inductive server_step :: "('t, 'h) env \<Rightarrow> ('t, 'h) htif \<Rightarrow> ('t, 'h) htif \<Rightarrow> bool" for e where
  turn: "run_body e s = Some (Inr ((), s')) \<Longrightarrow> server_step e s s'"
| outside: "server_step e s (s\<lparr>target := t, host := h\<rparr>)"

lemma server_step_typed: "server_step e s s' \<Longrightarrow> well_typed s \<Longrightarrow> well_typed s'"
  by (induction rule: server_step.induct) (auto dest: keepsD [OF keeps_run_body])

lemma typed_handler:
  assumes "typed_device n d" and "h \<in> set (command_handlers d)"
  shows "h \<in> {Rfb_handle_configure, Rfb_handle_set_address} \<Longrightarrow> \<exists>i < n. body d = Rfb i"
    and "h \<in> {Disk_handle_read, Disk_handle_write} \<Longrightarrow> \<exists>fd m. body d = Disk fd m"
proof -
  assume "h \<in> {Rfb_handle_configure, Rfb_handle_set_address}"
  then obtain i where "body d = Rfb i" using assms unfolding typed_device_def by blast
  then show "\<exists>i < n. body d = Rfb i" using assms(1) by (auto simp: typed_device_def)
next
  assume "h \<in> {Disk_handle_read, Disk_handle_write}"
  then show "\<exists>fd m. body d = Disk fd m" using assms unfolding typed_device_def by blast
qed

lemma well_typed_lookup:
  assumes "well_typed s" and "d = devices s ! unat (cmd_device cmd)"
  shows "unat (cmd_device cmd) < length (devices s)" and "typed_device (length (rfbs s)) d"
    and "unat (cmd_cmd cmd) < length (command_handlers d)"
proof -
  have byte: "unat b < 256" for b :: byte
  proof -
    have "unat b < 2 ^ LENGTH(8)" by (rule unsigned_less)
    then show ?thesis by simp
  qed
  have len: "length (devices s) = 256" using assms(1) by (simp add: well_typed_def MAX_COMMANDS_def)
  then show "unat (cmd_device cmd) < length (devices s)" using byte by simp
  then show d: "typed_device (length (rfbs s)) d"
    using assms by (auto simp: well_typed_def)
  then show "unat (cmd_cmd cmd) < length (command_handlers d)"
    using byte by (simp add: typed_device_def well_formed_device_def)
qed

text \<open>
  C11: whatever the command line, the target and the host, in every state the server reaches the
  device of a command word is in the table, its handler is in the table of the device, and a
  handler of a frame buffer or a disk belongs to a device of that class, whose frame buffer exists.
\<close>

theorem commands_well_typed:
  assumes "htif_t e args s0 = Some (Inr ((), s))" and "(server_step e)\<^sup>*\<^sup>* s s'"
    and "d = devices s' ! unat (cmd_device cmd)" and "h = command_handlers d ! unat (cmd_cmd cmd)"
  shows "unat (cmd_device cmd) < length (devices s') \<and> unat (cmd_cmd cmd) < length (command_handlers d) \<and>
    (h \<in> {Rfb_handle_configure, Rfb_handle_set_address} \<longrightarrow> (\<exists>i < length (rfbs s'). body d = Rfb i)) \<and>
    (h \<in> {Disk_handle_read, Disk_handle_write} \<longrightarrow> (\<exists>fd n. body d = Disk fd n))"
proof -
  have "well_typed s'"
    using assms(2) by induction (use constructed_well_typed [OF assms(1)] server_step_typed in blast)+
  note d = well_typed_lookup [OF this assms(3)]
  then have "h \<in> set (command_handlers d)" using assms(4) by simp
  with d show ?thesis by (blast intro: typed_handler)
qed

section \<open>A server that is constructed\<close>

lemma wp_register_device:
  "num_devices s < 255 \<Longrightarrow> wp (register_device d) (\<lambda>_ s'. s' = s\<lparr>num_devices := Suc (num_devices s),
     devices := (devices s)[num_devices s := d]\<rparr>) s"
  by (simp add: register_device_def MAX_DEVICES_def)

lemma wp_register_devices:
  assumes "num_devices s = 0" and "dynamic_devices s = []"
  shows "wp (register_devices e d) (\<lambda>_ s'. True) s"
  unfolding register_devices_def
  by (rule wp_seq [OF wp_register_device], simp add: assms, rule wp_seq [OF typed_devices(2)], elim conjE, hypsubst,
      rule wp_seq [OF wp_register_device]) (simp_all add: assms)

lemma toy_constructed: "\<exists>s. htif_t toy_env [''prog''] toy_htif = Some (Inr ((), s))"
proof -
  have "wp (htif_t toy_env [''prog'']) (\<lambda>_ _. True) toy_htif"
    unfolding htif_t_def
  proof (rule wp_seq [OF typed_devices(1)], elim conjE, hypsubst, unfold wp_bind wp_modify syscall_t_def,
      rule wp_mono [OF typed_devices(4)], elim conjE, hypsubst)
    fix null_device d
    show "wp (on_host (os_dup (os toy_env) 0)) (\<lambda>a. wp (on_host (os_dup (os toy_env) 1)) (\<lambda>b.
        wp (on_host (os_dup (os toy_env) 1)) (\<lambda>c. wp (check (\<not> (a < 0 \<or> b < 0 \<or> c < 0))
          (Runtime_Error ''could not dup stdin/stdout'')) (\<lambda>_. wp (alloc_fd a) (\<lambda>_. wp (alloc_fd b) (\<lambda>_.
        wp (alloc_fd c) (\<lambda>_. wp (ret d) (\<lambda>a. wp (parse_arguments toy_env [''prog''])
          (\<lambda>_. wp (register_devices toy_env a) (\<lambda>_ _. True))))))))))
        (htif_init (target toy_htif) (host toy_htif) null_device)"
      by (simp add: alloc_fd_def toy_env_def toy_os_def htif_init_def parse_arguments_def starts_with_def
          plus_option_def wp_register_devices)
  qed
  then show ?thesis by (rule wpE) auto
qed

theorem commands_well_typed_witness:
  "\<exists>s. htif_t toy_env [''prog''] toy_htif = Some (Inr ((), s)) \<and>
    unat (cmd_device 0x0101000000000041) < length (devices s) \<and>
    unat (cmd_cmd 0x0101000000000041) < length (command_handlers (devices s ! unat (cmd_device 0x0101000000000041)))"
proof -
  obtain s where s: "htif_t toy_env [''prog''] toy_htif = Some (Inr ((), s))" using toy_constructed ..
  from s commands_well_typed [OF this rtranclp.rtrancl_refl refl refl] show ?thesis by blast
qed

end
