(* ===== verification/Tb_Elfloader.thy ===== *)
theory Tb_Elfloader
  imports Elf2hex
begin

text \<open>
  The ELF loader of the test bench (\<open>tb/dpi/elfloader.cc\<close>): \<open>read_elf\<close> collects the
  segments of a file, and the simulation takes them out one by one with \<open>get_section\<close> and
  \<open>read_section\<close>. It repeats the macro \<open>LOAD_ELF\<close> of the front-end server with other
  section types; the structures are those of \<open>Elf\<close>. The global \<open>symbols\<close> is hidden by
  a local one and stays empty, so it is left out.
\<close>

section \<open>State\<close>

definition SHT_PROGBITS :: u32 where "SHT_PROGBITS = 1"

definition SHT_GROUP :: u32 where "SHT_GROUP = 0x11"

record tb_elf =
  sections :: "(u64 \<times> u64) list"
  mems :: "u64 \<rightharpoonup> byte list"
  tb_entry :: u64
  section_index :: nat

definition tb_elf_init :: tb_elf where
  "tb_elf_init = \<lparr>sections = [], mems = Map.empty, tb_entry = 0, section_index = 0\<rparr>"

text \<open>
  \<open>write\<close>: the index is an \<open>int\<close>, and \<open>insert\<close> keeps what the address already has.
\<close>

definition tb_write :: "u64 \<Rightarrow> byte list \<Rightarrow> (tb_elf, unit) prog" where
  "tb_write address buf =
     bind (check (length buf < 2 ^ 31) (Undefined ''signed overflow'')) (\<lambda>_.
     modify (\<lambda>s. if mems s address = None then s\<lparr>mems := (mems s)(address \<mapsto> buf)\<rparr> else s))"

section \<open>The calls of the simulation\<close>

text \<open>The result 0 of \<open>get_section\<close>, which writes no output, is \<open>None\<close>.\<close>

definition get_section :: "(tb_elf, (u64 \<times> u64) option) prog" where
  "get_section =
     bind (gets (\<lambda>s. (sections s, section_index s))) (\<lambda>(secs, i).
     if i < length secs then bind (modify (\<lambda>s. s\<lparr>section_index := i + 1\<rparr>)) (\<lambda>_. ret (Some (secs ! i)))
     else ret None)"

text \<open>\<open>read_section\<close>: the array of the simulation after the copy. No result is returned.\<close>

definition read_section :: "u64 \<Rightarrow> byte list \<Rightarrow> (tb_elf, byte list) prog" where
  "read_section address buffer =
     bind (gets (\<lambda>s. mems s address)) (\<lambda>m.
     case m of
       None \<Rightarrow> raise (Assert_Failed ''mems.count(address) > 0'')
     | Some data \<Rightarrow>
         if length data \<le> length buffer then ret (data @ drop (length data) buffer)
         else raise (Undefined ''write past the array''))"

section \<open>Reading a file\<close>

text \<open>\<open>strcmp(s, t) == 0\<close> for the bytes from \<open>s\<close> to the end of the mapping.\<close>

fun str_eq :: "byte list \<Rightarrow> byte list \<Rightarrow> exn + bool" where
  "str_eq xs [] = Inr True"
| "str_eq [] (c # cs) = Inl (Undefined ''read past the mapped file'')"
| "str_eq (x # xs) (c # cs) = (if x = c then str_eq xs cs else Inr False)"

definition name_is :: "byte list \<Rightarrow> nat \<Rightarrow> string \<Rightarrow> ('s, bool) prog" where
  "name_is buf off t = lift (str_eq (drop off buf) (bytes_of t @ [0]))"

definition tb_load_segment :: "byte list \<Rightarrow> 'w::len word elf_phdr \<Rightarrow> (tb_elf, unit) prog" where
  "tb_load_segment buf ph =
     (if p_type ph = PT_LOAD \<and> p_memsz ph \<noteq> 0 then
        bind (if p_filesz ph \<noteq> 0 then
            bind (check (unat (p_offset ph + p_filesz ph) \<le> length buf)
              (Assert_Failed ''size >= p_offset + p_filesz'')) (\<lambda>_.
            bind (modify (\<lambda>s. s\<lparr>sections := sections s @ [(ucast (p_paddr ph), ucast (p_memsz ph))]\<rparr>)) (\<lambda>_.
            bind (buf_bytes buf (unat (p_offset ph)) (unat (p_filesz ph))) (\<lambda>bs.
            tb_write (ucast (p_paddr ph)) bs)))
          else ret ()) (\<lambda>_.
        check (unat (p_memsz ph - p_filesz ph) < 2 ^ 63) (Runtime_Error ''vector::resize''))
      else ret ())"

text \<open>
  One section header: a name is looked at past its table only by the assert, and a header with
  the lowest bit of its type set is not looked at for the two indices.
\<close>

definition tb_scan_section ::
    "'w::len word elf_class \<Rightarrow> byte list \<Rightarrow> 'w word elf_shdr \<Rightarrow> nat \<Rightarrow> nat \<times> nat \<Rightarrow> ('s, nat \<times> nat) prog" where
  "tb_scan_section c buf str i idx =
     bind (shdr_at c buf i) (\<lambda>sh.
     let max_len = ucast (sh_size str) - sh_name sh;
         name = unat (sh_offset str) + unat (sh_name sh) in
     bind (if sh_type sh AND SHT_GROUP \<noteq> 0 then
         bind (name_is buf name ''.strtab'') (\<lambda>b.
         if b then ret () else
         bind (name_is buf name ''.shstrtab'') (\<lambda>b.
         if b then ret () else bind (buf_string buf name (unat max_len)) (\<lambda>_. ret ())))
       else ret ()) (\<lambda>_.
     if sh_type sh AND SHT_PROGBITS \<noteq> 0 then ret idx
     else
       bind (name_is buf name ''.strtab'') (\<lambda>is_strtab.
       bind (name_is buf name ''.symtab'') (\<lambda>is_symtab.
       ret (if is_strtab then i else fst idx, if is_symtab then i else snd idx)))))"

primrec tb_scan_sections ::
    "'w::len word elf_class \<Rightarrow> byte list \<Rightarrow> 'w word elf_shdr \<Rightarrow> nat list \<Rightarrow> nat \<times> nat \<Rightarrow> ('s, nat \<times> nat) prog" where
  "tb_scan_sections c buf str [] idx = ret idx"
| "tb_scan_sections c buf str (i # is) idx =
     bind (tb_scan_section c buf str i idx) (tb_scan_sections c buf str is)"

text \<open>The symbols, which are read into the local map.\<close>

definition tb_load_symbols :: "'w::len word elf_class \<Rightarrow> byte list \<Rightarrow> ('s, string \<rightharpoonup> u64) prog" where
  "tb_load_symbols c buf =
     (let eh = ehdr_of c buf in
      bind (check (table_end (e_shoff eh) (e_shnum eh) (shdr_size c) \<le> of_nat (length buf))
        (Assert_Failed ''size >= e_shoff + e_shnum*sizeof(*sh)'')) (\<lambda>_.
      bind (check (e_shstrndx eh < e_shnum eh) (Assert_Failed ''e_shstrndx < e_shnum'')) (\<lambda>_.
      bind (shdr_at c buf (unat (e_shstrndx eh))) (\<lambda>str.
      bind (check (unat (sh_offset str + sh_size str) \<le> length buf)
        (Assert_Failed ''size >= sh_offset + sh_size'')) (\<lambda>_.
      bind (tb_scan_sections c buf str [0..<unat (e_shnum eh)] (0, 0)) (\<lambda>(strtabidx, symtabidx).
      if strtabidx \<noteq> 0 \<and> symtabidx \<noteq> 0 then
        bind (shdr_at c buf strtabidx) (\<lambda>strtab.
        bind (shdr_at c buf symtabidx) (\<lambda>symtab.
        read_symbols c buf strtab symtab [0..<unat (sh_size symtab) div sym_size c] Map.empty))
      else ret Map.empty))))))"

definition TB_LOAD_ELF :: "'w::len word elf_class \<Rightarrow> byte list \<Rightarrow> (tb_elf, unit) prog" where
  "TB_LOAD_ELF c buf =
     (let eh = ehdr_of c buf in
      bind (modify (\<lambda>s. s\<lparr>tb_entry := ucast (e_entry eh)\<rparr>)) (\<lambda>_.
      bind (check (table_end (e_phoff eh) (e_phnum eh) (phdr_size c) \<le> of_nat (length buf))
        (Assert_Failed ''size >= e_phoff + e_phnum*sizeof(*ph)'')) (\<lambda>_.
      bind (for_each [0..<unat (e_phnum eh)] (\<lambda>i.
        bind (phdr_at c buf i) (tb_load_segment buf))) (\<lambda>_.
      bind (tb_load_symbols c buf) (\<lambda>_. ret ())))))"

definition read_elf :: "byte list option \<Rightarrow> (tb_elf, unit) prog" where
  "read_elf file = (case file of
       None \<Rightarrow> raise (Assert_Failed ''fd != -1'')
     | Some buf \<Rightarrow>
         bind (check (buf \<noteq> []) (Assert_Failed ''buf != MAP_FAILED'')) (\<lambda>_.
         bind (check (64 \<le> length buf) (Assert_Failed ''size >= sizeof(Elf64_Ehdr)'')) (\<lambda>_.
         bind (check (IS_ELF32 (take 16 buf) \<or> IS_ELF64 (take 16 buf))
           (Assert_Failed ''IS_ELF32(*eh64) || IS_ELF64(*eh64)'')) (\<lambda>_.
         if IS_ELF32 (take 16 buf) then TB_LOAD_ELF elf_class32 buf
         else TB_LOAD_ELF elf_class64 buf))))"

section \<open>What the simulation gets\<close>

text \<open>
  The loop of the simulation: it asks for sections until there is none, and reads each into a
  fresh array of its length. \<open>n\<close> bounds the number of calls.
\<close>

primrec preload :: "nat \<Rightarrow> (tb_elf, (u64 \<times> byte list) list) prog" where
  "preload 0 = ret []"
| "preload (Suc n) =
     bind get_section (\<lambda>r. case r of
       None \<Rightarrow> ret []
     | Some (address, len) \<Rightarrow>
         bind (read_section address (replicate (unat len) 0)) (\<lambda>buffer.
         bind (preload n) (\<lambda>rest. ret ((address, buffer) # rest))))"

definition phdr_preloads :: "'w::len word elf_phdr \<Rightarrow> bool" where
  "phdr_preloads ph \<longleftrightarrow> phdr_loads ph \<and> p_filesz ph \<noteq> 0"

definition phdr_bytes :: "byte list \<Rightarrow> 'w::len word elf_phdr \<Rightarrow> byte list" where
  "phdr_bytes buf ph = take (unat (p_filesz ph)) (drop (unat (p_offset ph)) buf)"

definition phdr_addr :: "'w::len word elf_phdr \<Rightarrow> u64" where
  "phdr_addr ph = ucast (p_paddr ph)"

text \<open>The state after the segments \<open>phs\<close>.\<close>

definition tb_loaded :: "byte list \<Rightarrow> 'w::len word elf_phdr list \<Rightarrow> tb_elf \<Rightarrow> tb_elf" where
  "tb_loaded buf phs s = s\<lparr>sections := sections s @ map (\<lambda>ph. (phdr_addr ph, ucast (p_memsz ph))) phs,
     mems := mems s ++ map_of (map (\<lambda>ph. (phdr_addr ph, phdr_bytes buf ph)) phs)\<rparr>"

definition preload_ok :: "byte list \<Rightarrow> 'w::len word elf_phdr \<Rightarrow> bool" where
  "preload_ok buf ph \<longleftrightarrow> phdr_ok buf ph \<and> unat (p_filesz ph) < 2 ^ 31"

lemma wp_tb_load_segment:
  assumes "phdr_preloads ph" and "preload_ok buf ph" and "mems s (phdr_addr ph) = None"
  shows "wp (tb_load_segment buf ph) (\<lambda>_ s'. s' = tb_loaded buf [ph] s) s"
proof -
  have ok: "unat (p_offset ph + p_filesz ph) = unat (p_offset ph) + unat (p_filesz ph)"
      "unat (p_memsz ph - p_filesz ph) < 2 ^ 63" "unat (p_offset ph) + unat (p_filesz ph) \<le> length buf"
    using assms(2) by (auto simp: preload_ok_def phdr_ok_def unat_word_ariths unat_sub)
  then have "length (take (unat (p_filesz ph)) (drop (unat (p_offset ph)) buf)) < 2 ^ 31"
    using assms(2) by (simp add: preload_ok_def)
  then show ?thesis
    using assms(1,3) ok
    by (simp add: tb_load_segment_def phdr_preloads_def phdr_loads_def buf_bytes_def tb_write_def tb_loaded_def
        phdr_addr_def phdr_bytes_def del: length_take)
qed

lemma wp_tb_skip:
  assumes "\<not> phdr_preloads ph" and "phdr_loads ph \<Longrightarrow> phdr_ok buf ph"
  shows "wp (tb_load_segment buf ph) (\<lambda>_ s'. s' = s) s"
proof (cases "phdr_loads ph")
  case True
  then have "p_filesz ph = 0" using assms(1) by (simp add: phdr_preloads_def)
  then show ?thesis using assms(2) [OF True] by (simp add: tb_load_segment_def phdr_ok_def)
next
  case False
  then have "tb_load_segment buf ph = ret ()" by (auto simp: tb_load_segment_def phdr_loads_def)
  then show ?thesis by simp
qed

lemma tb_loaded_Cons:
  assumes "phdr_addr ph \<notin> phdr_addr ` set phs"
  shows "tb_loaded buf phs (tb_loaded buf [ph] s) = tb_loaded buf (ph # phs) s"
proof -
  have "phdr_addr ph \<notin> dom (map_of (map (\<lambda>ph. (phdr_addr ph, phdr_bytes buf ph)) phs))"
    using assms by (auto simp: dom_map_of_conv_image_fst)
  then show ?thesis by (simp add: tb_loaded_def map_add_upd_left)
qed

lemma dom_tb_loaded: "dom (mems (tb_loaded buf [ph] s)) = insert (phdr_addr ph) (dom (mems s))"
  by (simp add: tb_loaded_def)

lemma wp_tb_phdrs:
  assumes "\<And>i. i \<in> set is \<Longrightarrow> unat (e_phoff (ehdr_of c buf)) + (i + 1) * phdr_size c \<le> length buf"
    and "\<And>i. i \<in> set is \<Longrightarrow> phdr_loads (phdr_nth c buf i) \<Longrightarrow> preload_ok buf (phdr_nth c buf i)"
    and "phs = filter phdr_preloads (map (phdr_nth c buf) is)"
    and "distinct (map phdr_addr phs)" and "phdr_addr ` set phs \<inter> dom (mems s) = {}"
  shows "wp (for_each is (\<lambda>i. bind (phdr_at c buf i) (tb_load_segment buf))) (\<lambda>_ s'. s' = tb_loaded buf phs s) s"
  using assms
proof (induction "is" arbitrary: s phs)
  case Nil
  then show ?case by (simp add: tb_loaded_def)
next
  case (Cons i "is")
  let ?ph = "phdr_nth c buf i" and ?rest = "filter phdr_preloads (map (phdr_nth c buf) is)"
  have at: "(phdr_at c buf i :: (tb_elf, _) prog) = ret ?ph"
    using Cons.prems(1) [of i] by (simp add: phdr_at_def buf_bytes_def phdr_nth_def add.assoc add.commute)
  show ?case
  proof (cases "phdr_preloads ?ph")
    case True
    then have phs: "phs = ?ph # ?rest" using Cons.prems(3) by simp
    have "wp (tb_load_segment buf ?ph) (\<lambda>_ s'. s' = tb_loaded buf [?ph] s) s"
      using True Cons.prems(2,5) by (intro wp_tb_load_segment) (auto simp: phs phdr_preloads_def)
    moreover have "wp (for_each is (\<lambda>i. bind (phdr_at c buf i) (tb_load_segment buf)))
        (\<lambda>_ s'. s' = tb_loaded buf ?rest (tb_loaded buf [?ph] s)) (tb_loaded buf [?ph] s)"
      using Cons.prems unfolding phs by (intro Cons.IH) (auto simp: dom_tb_loaded simp del: filter_map)
    ultimately show ?thesis
      using Cons.prems(4) by (auto simp: at phs tb_loaded_Cons elim!: wp_mono)
  next
    case False
    then have "wp (tb_load_segment buf ?ph) (\<lambda>_ s'. s' = s) s"
      using Cons.prems(2) by (intro wp_tb_skip) (auto simp: preload_ok_def)
    moreover have "wp (for_each is (\<lambda>i. bind (phdr_at c buf i) (tb_load_segment buf))) (\<lambda>_ s'. s' = tb_loaded buf phs s) s"
      using Cons.prems False by (intro Cons.IH) auto
    ultimately show ?thesis by (auto simp: at elim!: wp_mono)
  qed
qed

lemma preload_run:
  assumes "length (sections s) - section_index s < n" and "section_index s \<le> length (sections s)"
    and "\<And>a len. (a, len) \<in> set (sections s) \<Longrightarrow> \<exists>bs. mems s a = Some bs \<and> length bs \<le> unat len"
  shows "preload n s = Some (Inr (map (\<lambda>(a, len). (a, the (mems s a) @ replicate (unat len - length (the (mems s a))) 0))
      (drop (section_index s) (sections s)), s\<lparr>section_index := length (sections s)\<rparr>))"
  using assms
proof (induction n arbitrary: s)
  case (Suc n)
  show ?case
  proof (cases "section_index s < length (sections s)")
    case True
    obtain a len where sec: "sections s ! section_index s = (a, len)" by (rule prod.exhaust)
    then have "(a, len) \<in> set (sections s)" using True nth_mem [OF True] by simp
    then obtain bs where bs: "mems s a = Some bs" "length bs \<le> unat len" using Suc.prems(3) by blast
    have "preload n (s\<lparr>section_index := section_index s + 1\<rparr>) =
        Some (Inr (map (\<lambda>(a, len). (a, the (mems s a) @ replicate (unat len - length (the (mems s a))) 0))
      (drop (section_index s + 1) (sections s)), s\<lparr>section_index := length (sections s)\<rparr>))"
      using Suc.IH [of "s\<lparr>section_index := section_index s + 1\<rparr>"] Suc.prems True by simp
    then show ?thesis
      using True bs by (simp add: get_section_def read_section_def run_simps sec flip: Cons_nth_drop_Suc [OF True])
  qed (use Suc.prems(2) in \<open>simp add: get_section_def run_simps\<close>)
qed simp

lemma stateless_lift [stateless_simps]: "stateless (lift r) = lift r"
  by (cases r) (simp_all add: stateless_simps)

lemma stateless_name_is [stateless_simps]: "stateless (name_is buf off t) = name_is buf off t"
  by (simp add: name_is_def stateless_simps)

lemma stateless_tb_scan_section [stateless_simps]:
  "stateless (tb_scan_section c buf str i idx) = tb_scan_section c buf str i idx"
  by (simp add: tb_scan_section_def Let_def stateless_simps cong: if_cong)

lemma stateless_tb_scan_sections [stateless_simps]:
  "stateless (tb_scan_sections c buf str is idx) = tb_scan_sections c buf str is idx"
  by (induction "is" arbitrary: idx) (simp_all add: stateless_simps)

lemma stateless_tb_symbols: "tb_load_symbols c buf = stateless (tb_load_symbols c buf)"
  by (simp add: tb_load_symbols_def Let_def stateless_simps case_prod_unfold cong: if_cong)

lemma table_end_fits:
  assumes "unat (off :: 64 word) + unat num * sz \<le> n" and "n < 2 ^ 64"
  shows "table_end off num sz \<le> of_nat n"
proof -
  have "table_end off num sz = of_nat (unat off + unat num * sz)"
    by (simp add: table_end_def unat_ucast_up)
  then show ?thesis
    using assms unat_of_nat_addr [of n] unat_of_nat_addr [of "unat off + unat num * sz"] by (simp add: word_le_nat_alt)
qed

text \<open>The segments of a file that the test bench preloads: those with bytes in the file.\<close>

definition preloaded_phdrs :: "byte list \<Rightarrow> 64 word elf_phdr list" where
  "preloaded_phdrs buf =
     filter phdr_preloads (map (phdr_nth elf_class64 buf) [0..<unat (e_phnum (ehdr_of elf_class64 buf))])"

lemma wp_read_elf:
  assumes "64 \<le> length buf" and "IS_ELF64 (take 16 buf)" and ok: "elf_ok elf_class64 buf"
    and "wp (tb_load_symbols elf_class64 buf) (\<lambda>_ _. True) ()"
    and small: "list_all (\<lambda>ph. unat (p_filesz ph) < 2 ^ 31) (map (phdr_nth elf_class64 buf)
      [0..<unat (e_phnum (ehdr_of elf_class64 buf))])"
    and "distinct (map phdr_addr (preloaded_phdrs buf))"
  shows "wp (read_elf (Some buf)) (\<lambda>_ s'. s' = tb_loaded buf (preloaded_phdrs buf)
      (tb_elf_init\<lparr>tb_entry := e_entry (ehdr_of elf_class64 buf)\<rparr>)) tb_elf_init"
proof -
  let ?c = elf_class64 and ?eh = "ehdr_of elf_class64 buf"
  let ?s = "tb_elf_init\<lparr>tb_entry := e_entry ?eh\<rparr>"
  have fits: "unat (e_phoff ?eh) + unat (e_phnum ?eh) * phdr_size ?c \<le> length buf" "length buf < 2 ^ 64"
    using ok by (auto simp: elf_ok_def Let_def)
  have inside: "unat (e_phoff ?eh) + (i + 1) * phdr_size ?c \<le> length buf" if "i \<in> set [0..<unat (e_phnum ?eh)]" for i
  proof -
    have "(i + 1) * phdr_size ?c \<le> unat (e_phnum ?eh) * phdr_size ?c" using that by (intro mult_le_mono1) simp
    with fits(1) show ?thesis by linarith
  qed
  have "preload_ok buf (phdr_nth ?c buf i)"
    if "i \<in> set [0..<unat (e_phnum ?eh)]" and "phdr_loads (phdr_nth ?c buf i)" for i
    using ok small that by (auto simp: elf_ok_def Let_def list_all_iff preload_ok_def)
  then have segments: "wp (for_each [0..<unat (e_phnum ?eh)] (\<lambda>i. bind (phdr_at ?c buf i) (tb_load_segment buf)))
      (\<lambda>_ s'. s' = tb_loaded buf (preloaded_phdrs buf) ?s) ?s"
    using inside assms(6) by (intro wp_tb_phdrs) (auto simp: preloaded_phdrs_def tb_elf_init_def)
  have "wp (TB_LOAD_ELF ?c buf) (\<lambda>_ s'. s' = tb_loaded buf (preloaded_phdrs buf) ?s) tb_elf_init"
    unfolding TB_LOAD_ELF_def Let_def wp_bind wp_modify wp_check ucast_id
  proof (rule conjI [OF table_end_fits [OF fits] wp_mono [OF segments]])
    fix u s'
    assume s': "s' = tb_loaded buf (preloaded_phdrs buf) ?s"
    show "wp (tb_load_symbols ?c buf) (\<lambda>_. wp (ret ()) (\<lambda>_ s'. s' = tb_loaded buf (preloaded_phdrs buf) ?s)) s'"
      by (rule wp_mono [OF wp_stateless [OF stateless_tb_symbols assms(4)]]) (simp add: s')
  qed
  moreover have "read_elf (Some buf) = TB_LOAD_ELF ?c buf"
    using assms(1,2) by (auto simp: read_elf_def check_def IS_ELF64_def IS_ELF32_def)
  ultimately show ?thesis by simp
qed

text \<open>
  C27: from a 64-bit file whose headers stay in the file and whose segments are smaller than
  2 GiB and start at different addresses, the simulation gets the segments that have bytes in the file, in order, each with its
  bytes and zeros up to its size in memory; a segment without such bytes is not delivered.
\<close>

theorem test_bench_preloads:
  assumes "64 \<le> length buf" and "IS_ELF64 (take 16 buf)" and ok: "elf_ok elf_class64 buf"
    and "wp (tb_load_symbols elf_class64 buf) (\<lambda>_ _. True) ()"
    and small: "list_all (\<lambda>ph. unat (p_filesz ph) < 2 ^ 31) (map (phdr_nth elf_class64 buf)
      [0..<unat (e_phnum (ehdr_of elf_class64 buf))])"
    and distinct: "distinct (map phdr_addr (preloaded_phdrs buf))" and "length (preloaded_phdrs buf) < n"
  shows "wp (bind (read_elf (Some buf)) (\<lambda>_. preload n))
    (\<lambda>r s'. r = map (phdr_segment buf) (preloaded_phdrs buf) \<and> tb_entry s' = e_entry (ehdr_of elf_class64 buf))
    tb_elf_init"
proof (rule wp_seq [OF wp_read_elf [OF assms(1-6)]])
  fix u s'
  let ?phs = "preloaded_phdrs buf"
  assume s': "s' = tb_loaded buf ?phs (tb_elf_init\<lparr>tb_entry := e_entry (ehdr_of elf_class64 buf)\<rparr>)"
  have "mems s' (phdr_addr ph) = Some (phdr_bytes buf ph)" if "ph \<in> set ?phs" for ph
    using that distinct by (auto simp: s' tb_loaded_def tb_elf_init_def map_of_eq_Some_iff comp_def)
  moreover have "length (phdr_bytes buf ph) = unat (p_filesz ph) \<and> unat (p_filesz ph) \<le> unat (p_memsz ph)"
    if "ph \<in> set ?phs" for ph
    using that ok by (auto simp: preloaded_phdrs_def phdr_preloads_def phdr_bytes_def elf_ok_def Let_def
        list_all_iff phdr_ok_def word_le_nat_alt)
  moreover have secs: "sections s' = map (\<lambda>ph. (phdr_addr ph, p_memsz ph)) ?phs" "section_index s' = 0"
      "tb_entry s' = e_entry (ehdr_of elf_class64 buf)"
    by (simp_all add: s' tb_loaded_def tb_elf_init_def)
  ultimately show "wp (preload n) (\<lambda>r s'. r = map (phdr_segment buf) ?phs \<and>
      tb_entry s' = e_entry (ehdr_of elf_class64 buf)) s'"
    using assms(7) by (subst wp_run [OF preload_run]) (auto simp: phdr_segment_def phdr_addr_def phdr_bytes_def)
qed

lemma example_preloaded: "preloaded_phdrs example_elf = [phdr_nth elf_class64 example_elf 0]"
  by (simp add: preloaded_phdrs_def example_elf_fields phdr_preloads_def phdr_loads_def PT_LOAD_def)

lemma example_preloaded_segments:
  "map (phdr_segment example_elf) (preloaded_phdrs example_elf) = [(0x80000004, [0x13, 0, 0x50, 0xFF, 0, 0, 0, 0])]"
  using example_elf_segments
  by (simp add: elf_segments_def example_preloaded example_elf_fields phdr_loads_def PT_LOAD_def)

theorem test_bench_preloads_witness:
  "wp (bind (read_elf (Some example_elf)) (\<lambda>_. preload 2))
    (\<lambda>r s'. r = [(0x80000004, [0x13, 0, 0x50, 0xFF, 0, 0, 0, 0])] \<and>
      tb_entry s' = e_entry (ehdr_of elf_class64 example_elf)) tb_elf_init"
proof -
  have "wp (tb_load_symbols elf_class64 example_elf) (\<lambda>_ _. True) ()" by code_simp
  then show ?thesis
    using test_bench_preloads [of example_elf 2] example_elf_header example_elf_ok example_preloaded_segments
    by (simp add: example_preloaded example_elf_fields)
qed

section \<open>The symbols are not found\<close>

text \<open>
  When the sections called \<open>.strtab\<close> are string tables, as the format has them, their type 3
  has the bit of \<open>SHT_PROGBITS\<close>: none of them is taken for the string table, and no symbol is
  read.
\<close>

definition shdr_nth :: "'w::len word elf_class \<Rightarrow> byte list \<Rightarrow> nat \<Rightarrow> 'w word elf_shdr" where
  "shdr_nth c buf i =
     shdr_of c (take (shdr_size c) (drop (unat (e_shoff (ehdr_of c buf)) + i * shdr_size c) buf))"

definition typed_strtab :: "'w::len word elf_class \<Rightarrow> byte list \<Rightarrow> nat \<Rightarrow> bool" where
  "typed_strtab c buf i \<longleftrightarrow>
     (let str = shdr_nth c buf (unat (e_shstrndx (ehdr_of c buf))); sh = shdr_nth c buf i in
      str_eq (drop (unat (sh_offset str) + unat (sh_name sh)) buf) (bytes_of ''.strtab'' @ [0]) = Inr True \<longrightarrow>
      sh_type sh = 3)"

lemma shdr_at_result: "shdr_at c buf i s = Some (Inr (sh, s')) \<Longrightarrow> sh = shdr_nth c buf i \<and> s' = s"
  by (auto simp: shdr_at_def buf_bytes_def run_simps shdr_nth_def split: if_splits)

lemma name_is_result:
  "name_is buf off t s = Some (Inr (b, s')) \<Longrightarrow> str_eq (drop off buf) (bytes_of t @ [0]) = Inr b \<and> s' = s"
  by (auto simp: name_is_def lift_def run_simps split: sum.splits)

lemma tb_scan_no_strtab:
  assumes "typed_strtab c buf i" and "fst idx = 0"
    and "tb_scan_section c buf (shdr_nth c buf (unat (e_shstrndx (ehdr_of c buf)))) i idx s = Some (Inr (idx', s'))"
  shows "fst idx' = 0"
proof -
  let ?str = "shdr_nth c buf (unat (e_shstrndx (ehdr_of c buf)))" and ?sh = "shdr_nth c buf i"
  have odd: "(3 :: u32) AND SHT_PROGBITS \<noteq> 0" by (simp add: SHT_PROGBITS_def)
  show ?thesis
    using assms odd
    by (auto simp: tb_scan_section_def run_bind run_ret Let_def typed_strtab_def
        dest!: shdr_at_result name_is_result split: if_splits option.splits sum.splits)
qed

lemma tb_scans_no_strtab:
  assumes "\<forall>i\<in>set is. typed_strtab c buf i" and "fst idx = 0"
    and "tb_scan_sections c buf (shdr_nth c buf (unat (e_shstrndx (ehdr_of c buf)))) is idx s = Some (Inr (idx', s'))"
  shows "fst idx' = 0"
  using assms
proof (induction "is" arbitrary: idx s)
  case (Cons i "is")
  then obtain idx1 s1 where step: "tb_scan_section c buf (shdr_nth c buf (unat (e_shstrndx (ehdr_of c buf)))) i idx s =
      Some (Inr (idx1, s1))"
    and rest: "tb_scan_sections c buf (shdr_nth c buf (unat (e_shstrndx (ehdr_of c buf)))) is idx1 s1 = Some (Inr (idx', s'))"
    by (auto simp: run_bind split: option.splits sum.splits)
  have "fst idx1 = 0" using Cons.prems(1,2) by (intro tb_scan_no_strtab [OF _ _ step]) simp_all
  then show ?case using Cons.prems(1) rest by (intro Cons.IH) simp_all
qed (simp add: run_ret)

theorem tb_symbols_lost:
  assumes "\<forall>i<unat (e_shnum (ehdr_of c buf)). typed_strtab c buf i"
    and "tb_load_symbols c buf s = Some (Inr (symbols, s'))"
  shows "symbols = Map.empty"
proof -
  let ?str = "shdr_nth c buf (unat (e_shstrndx (ehdr_of c buf)))"
  obtain idx t where scan: "tb_scan_sections c buf ?str [0..<unat (e_shnum (ehdr_of c buf))] (0, 0) s = Some (Inr (idx, t))"
    and rest: "fst idx = 0 \<Longrightarrow> symbols = Map.empty"
    using assms(2)
    by (auto simp: tb_load_symbols_def Let_def run_bind run_check run_ret
        dest!: shdr_at_result split: option.splits sum.splits if_splits)
  have "fst idx = 0" by (rule tb_scans_no_strtab [OF _ _ scan]) (use assms(1) in simp_all)
  then show ?thesis by (rule rest)
qed

end
