(* ===== verification/Ariane_Tb.thy ===== *)
theory Ariane_Tb
  imports Htif
begin

text \<open>
  The main program of the Verilator simulation (\<open>tb/ariane_tb.cpp\<close>), built without traces
  (\<open>VM_TRACE\<close> is 0): its command line, the reset, the clock loop and the exit code. The
  Verilator model with the bridges it calls is generated code: a record of parameters over its
  state. The usage text and what is printed are left out.
\<close>

section \<open>The command line\<close>

text \<open>What \<open>getopt_long\<close> reports: a character, or a number for the options of the host.\<close>

datatype tb_code = Code char | Htif_code nat | Non_option

definition HTIF_LONG_OPTIONS_OPTIND :: nat where "HTIF_LONG_OPTIONS_OPTIND = 1024"

definition htif_long_options :: "(string \<times> has_arg \<times> tb_code) list" where
  "htif_long_options = [(''help'', No_argument, Code CHR ''h''),
     (''rfb'', Optional_argument, Htif_code HTIF_LONG_OPTIONS_OPTIND),
     (''disk'', Required_argument, Htif_code (HTIF_LONG_OPTIONS_OPTIND + 1)),
     (''signature'', Required_argument, Htif_code (HTIF_LONG_OPTIONS_OPTIND + 2)),
     (''chroot'', Required_argument, Htif_code (HTIF_LONG_OPTIONS_OPTIND + 3))]"

definition tb_long_options :: "(string \<times> has_arg \<times> tb_code) list" where
  "tb_long_options = [(''cycle-count'', No_argument, Code CHR ''c''), (''help'', No_argument, Code CHR ''h''),
     (''max-cycles'', Required_argument, Code CHR ''m''), (''seed'', Required_argument, Code CHR ''s''),
     (''rbb-port'', Required_argument, Code CHR ''r''), (''verbose'', No_argument, Code CHR ''V'')] @ htif_long_options"

text \<open>The option string \<open>-chpm:s:r:V\<close>.\<close>

definition tb_short_options :: "(char \<times> has_arg) list" where
  "tb_short_options = [(CHR ''c'', No_argument), (CHR ''h'', No_argument), (CHR ''p'', No_argument),
     (CHR ''m'', Required_argument), (CHR ''s'', Required_argument), (CHR ''r'', Required_argument),
     (CHR ''V'', No_argument)]"

definition tb_find_long :: "string \<Rightarrow> (has_arg \<times> tb_code) option" where
  "tb_find_long name =
     (case map_of tb_long_options name of
        Some r \<Rightarrow> Some r
      | None \<Rightarrow> (case remdups (map snd (filter (\<lambda>(n, r). starts_with name n) tb_long_options)) of
            [r] \<Rightarrow> Some r
          | _ \<Rightarrow> None))"

text \<open>
  A step of \<open>getopt_long\<close> on what is left of a group of short options and the words after it:
  the report, a code with its argument (\<open>?\<close> for an error) or nothing at the end; what is left
  then; and the last word it has taken, where \<open>optind--\<close> goes back to.
\<close>

type_synonym getopt_step = "(tb_code \<times> string option) option \<times> string \<times> string list \<times> string"

definition bad_option :: "string list \<Rightarrow> getopt_step" where
  "bad_option args = (Some (Code CHR ''?'', None), '''', args, '''')"

definition getopt_short :: "string \<Rightarrow> string list \<Rightarrow> getopt_step" where
  "getopt_short letters args = (case letters of
       [] \<Rightarrow> bad_option args
     | c # rest \<Rightarrow>
         (case map_of tb_short_options c of
            None \<Rightarrow> bad_option args
          | Some Required_argument \<Rightarrow>
              if rest \<noteq> [] then (Some (Code c, Some rest), '''', args, rest)
              else (case args of [] \<Rightarrow> bad_option [] | v # as \<Rightarrow> (Some (Code c, Some v), '''', as, v))
          | Some _ \<Rightarrow> (Some (Code c, None), rest, args, letters)))"

definition getopt_long_word :: "string \<Rightarrow> string list \<Rightarrow> getopt_step" where
  "getopt_long_word a args =
     (let name = takeWhile (\<lambda>c. c \<noteq> CHR ''='') (drop 2 a);
          val = (case dropWhile (\<lambda>c. c \<noteq> CHR ''='') (drop 2 a) of [] \<Rightarrow> None | _ # v \<Rightarrow> Some v) in
      case tb_find_long name of
        None \<Rightarrow> bad_option args
      | Some (No_argument, c) \<Rightarrow> (if val = None then (Some (c, None), '''', args, a) else bad_option args)
      | Some (Optional_argument, c) \<Rightarrow> (Some (c, val), '''', args, a)
      | Some (Required_argument, c) \<Rightarrow>
          (if val \<noteq> None then (Some (c, val), '''', args, a)
           else (case args of [] \<Rightarrow> bad_option [] | v # as \<Rightarrow> (Some (c, Some v), '''', as, v))))"

definition getopt :: "string \<Rightarrow> string list \<Rightarrow> getopt_step" where
  "getopt letters args =
     (if letters \<noteq> [] then getopt_short letters args
      else (case args of
          [] \<Rightarrow> (None, '''', [], '''')
        | a # as \<Rightarrow>
            if a = ''--'' then (None, '''', as, a)
            else if starts_with ''--'' a then getopt_long_word a as
            else if starts_with ''-'' a \<and> a \<noteq> ''-'' then getopt_short (drop 1 a) as
            else (Some (Non_option, Some a), '''', as, a)))"

section \<open>The options\<close>

text \<open>\<open>verbose\<close> and \<open>perf\<close> are not initialised: they start as they are found.\<close>

record tb_options =
  print_cycles :: bool
  verbose :: bool
  perf :: bool
  max_cycles :: u64
  random_seed :: u32
  rbb_port :: u16
  plusargs_legal :: bool

definition tb_options_init :: "bool \<Rightarrow> bool \<Rightarrow> u32 \<Rightarrow> tb_options" where
  "tb_options_init v p seed = \<lparr>print_cycles = False, verbose = v, perf = p, max_cycles = - 1,
     random_seed = seed, rbb_port = 0, plusargs_legal = True\<rparr>"

definition verilog_plusargs :: "string list" where
  "verilog_plusargs = [''jtag_rbb_enable'']"

text \<open>One case of the switch over the character of an option.\<close>

definition char_option :: "char \<Rightarrow> string option \<Rightarrow> (tb_options, unit) prog" where
  "char_option c optarg =
     (let value = atoi (case optarg of None \<Rightarrow> '''' | Some a \<Rightarrow> a) in
      if c = CHR ''?'' then raise (Exit 1)
      else if c = CHR ''c'' then modify (\<lambda>s. s\<lparr>print_cycles := True\<rparr>)
      else if c = CHR ''h'' then raise (Exit 0)
      else if c = CHR ''m'' then modify (\<lambda>s. s\<lparr>max_cycles := word_of_int value\<rparr>)
      else if c = CHR ''s'' then modify (\<lambda>s. s\<lparr>random_seed := word_of_int value\<rparr>)
      else if c = CHR ''r'' then modify (\<lambda>s. s\<lparr>rbb_port := word_of_int value\<rparr>)
      else if c = CHR ''V'' then modify (\<lambda>s. s\<lparr>verbose := True\<rparr>)
      else if c = CHR ''p'' then modify (\<lambda>s. s\<lparr>perf := True\<rparr>)
      else if c = CHR ''P'' then ret ()
      else raise (Exit 1))"

text \<open>
  A word that is no option: the result says whether the options end before it. The scan over
  \<open>verilog_plusargs\<close> has no end mark in the array; \<open>behind\<close> is what it finds after it.
\<close>

definition host_plus_arg :: "string \<Rightarrow> ('s, bool) prog" where
  "host_plus_arg arg =
     (if list_ex (\<lambda>(n, r). starts_with n (drop 1 arg)) htif_long_options then ret True else raise (Exit 1))"

definition plus_arg :: "string list \<Rightarrow> string \<Rightarrow> (tb_options, bool) prog" where
  "plus_arg behind arg =
     (if take 1 arg \<noteq> ''+'' then ret True
      else if arg = ''+verbose'' then bind (char_option CHR ''V'' (Some arg)) (\<lambda>_. ret False)
      else if take 12 arg = ''+max-cycles='' then bind (char_option CHR ''m'' (Some (drop 12 arg))) (\<lambda>_. ret False)
      else if take 12 arg = ''+cycle-count'' then bind (char_option CHR ''c'' (Some arg)) (\<lambda>_. ret False)
      else
        bind (gets plusargs_legal) (\<lambda>legal.
        if legal then
          if list_ex (\<lambda>p. starts_with p (drop 1 arg)) (verilog_plusargs @ behind)
          then bind (char_option CHR ''P'' (Some arg)) (\<lambda>_. ret False)
          else bind (modify (\<lambda>s. s\<lparr>plusargs_legal := False\<rparr>)) (\<lambda>_. host_plus_arg arg)
        else host_plus_arg arg))"

definition tb_option :: "string list \<Rightarrow> tb_code \<Rightarrow> string option \<Rightarrow> (tb_options, bool) prog" where
  "tb_option behind c optarg = (case c of
       Code ch \<Rightarrow> bind (char_option ch optarg) (\<lambda>_. ret False)
     | Htif_code n \<Rightarrow> (if HTIF_LONG_OPTIONS_OPTIND \<le> n then ret True else raise (Exit 1))
     | Non_option \<Rightarrow> plus_arg behind (case optarg of None \<Rightarrow> '''' | Some a \<Rightarrow> a))"

section \<open>The loop over the words\<close>

definition words_left :: "string \<Rightarrow> string list \<Rightarrow> nat" where
  "words_left letters args = length letters + sum_list (map (\<lambda>a. length a + 1) args)"

lemma getopt_short_progress:
  "getopt_short letters args = (r, letters', rest, prev) \<Longrightarrow> words_left letters' rest \<le> words_left letters args \<and>
    (letters \<noteq> [] \<longrightarrow> words_left letters' rest < words_left letters args)"
  by (auto simp: getopt_short_def bad_option_def words_left_def
      split: list.splits option.splits has_arg.splits if_splits)

lemma getopt_long_progress:
  "getopt_long_word a args = (r, letters', rest, prev) \<Longrightarrow> words_left letters' rest \<le> words_left [] args"
  unfolding getopt_long_word_def Let_def bad_option_def words_left_def
  by (cases args) (auto split: option.splits has_arg.splits prod.splits if_splits)

lemma getopt_progress:
  assumes "getopt letters args = (Some r, letters', rest, prev)"
  shows "words_left letters' rest < words_left letters args"
proof (cases "letters = []")
  case False
  then show ?thesis using assms by (auto simp: getopt_def dest: getopt_short_progress)
next
  case True
  with assms obtain a as where args: "args = a # as" by (auto simp: getopt_def split: list.splits)
  consider "starts_with ''--'' a" | "\<not> starts_with ''--'' a" "starts_with ''-'' a" "a \<noteq> ''-''"
    | "\<not> starts_with ''--'' a" "\<not> (starts_with ''-'' a \<and> a \<noteq> ''-'')" by blast
  then show ?thesis
  proof cases
    case 1
    then have "getopt_long_word a as = (Some r, letters', rest, prev)"
      using True assms by (auto simp: args getopt_def split: if_splits)
    then have "words_left letters' rest \<le> words_left [] as" by (rule getopt_long_progress)
    then show ?thesis by (simp add: args True words_left_def)
  next
    case 2
    then have "getopt_short (drop 1 a) as = (Some r, letters', rest, prev)"
      using True assms by (auto simp: args getopt_def starts_with_def split: if_splits)
    then have "words_left letters' rest \<le> words_left (drop 1 a) as" by (simp add: getopt_short_progress)
    then show ?thesis by (simp add: args True words_left_def)
  next
    case 3
    then show ?thesis using True assms by (auto simp: args getopt_def words_left_def split: if_splits)
  qed
qed

text \<open>What is left for the host, from the word \<open>optind\<close> ends at.\<close>

function tb_parse :: "string list \<Rightarrow> string \<Rightarrow> string list \<Rightarrow> (tb_options, string list) prog" where
  "tb_parse behind letters args =
     (case getopt letters args of
        (None, letters', rest, prev) \<Rightarrow> ret rest
      | (Some (c, optarg), letters', rest, prev) \<Rightarrow>
          bind (tb_option behind c optarg) (\<lambda>stop.
          if stop then ret (prev # rest) else tb_parse behind letters' rest))"
  by auto

termination
  by (relation "measure (\<lambda>(behind, letters, args). words_left letters args)") (auto dest: getopt_progress [OF sym])

declare tb_parse.simps [simp del]

section \<open>The simulation\<close>

text \<open>
  The Verilator model with \<open>jtag\<close> and \<open>dtm\<close>, which it reaches through the bridges: their
  construction, an evaluation with the time and the pins \<open>rst_ni\<close>, \<open>clk_i\<close>, \<open>rtc_i\<close>, and
  what the main program asks of them.
\<close>

record 'v testbench =
  tb_new :: "u16 \<Rightarrow> string list \<Rightarrow> exn + 'v"
  tb_eval :: "u64 \<Rightarrow> bool \<Rightarrow> bool \<Rightarrow> bool \<Rightarrow> ('v, unit) prog"
  dtm_done :: "'v \<Rightarrow> bool"
  jtag_done :: "'v \<Rightarrow> bool"
  dtm_exit_code :: "'v \<Rightarrow> int"
  jtag_exit_code :: "'v \<Rightarrow> int"

record 'v simulation =
  main_time :: u64
  rtc_i :: bool
  top :: 'v

definition eval_top :: "'v testbench \<Rightarrow> bool \<Rightarrow> bool \<Rightarrow> ('v simulation, unit) prog" where
  "eval_top tb rst_ni clk_i =
     bind (gets (\<lambda>s. (main_time s, rtc_i s))) (\<lambda>(t, rtc).
     zoom top (\<lambda>v s. s\<lparr>top := v\<rparr>) (tb_eval tb t rst_ni clk_i rtc))"

definition reset_cycle :: "'v testbench \<Rightarrow> ('v simulation, unit) prog" where
  "reset_cycle tb =
     bind (modify (\<lambda>s. s\<lparr>rtc_i := False\<rparr>)) (\<lambda>_.
     bind (eval_top tb False False) (\<lambda>_.
     bind (eval_top tb False True) (\<lambda>_.
     modify (\<lambda>s. s\<lparr>main_time := main_time s + 1\<rparr>))))"

definition clock_cycle :: "'v testbench \<Rightarrow> ('v simulation, unit) prog" where
  "clock_cycle tb =
     bind (eval_top tb True False) (\<lambda>_.
     bind (eval_top tb True True) (\<lambda>_.
     bind (modify (\<lambda>s. if main_time s mod 2 = 0 then s\<lparr>rtc_i := \<not> rtc_i s\<rparr> else s)) (\<lambda>_.
     modify (\<lambda>s. s\<lparr>main_time := main_time s + 1\<rparr>))))"

definition sim_done :: "'v testbench \<Rightarrow> 'v simulation \<Rightarrow> bool" where
  "sim_done tb s \<longleftrightarrow> dtm_done tb (top s) \<or> jtag_done tb (top s)"

partial_function (option) clock_loop ::
    "'v testbench \<Rightarrow> 'v simulation \<Rightarrow> (exn + unit \<times> 'v simulation) option" where
  "clock_loop tb s =
     (if sim_done tb s then Some (Inr ((), s))
      else (case clock_cycle tb s of
          None \<Rightarrow> None
        | Some (Inl e) \<Rightarrow> Some (Inl e)
        | Some (Inr (u, s')) \<Rightarrow> clock_loop tb s'))"

definition exit_status :: "'v testbench \<Rightarrow> 'v simulation \<Rightarrow> int" where
  "exit_status tb s =
     (if dtm_exit_code tb (top s) \<noteq> 0 then dtm_exit_code tb (top s)
      else if jtag_exit_code tb (top s) \<noteq> 0 then jtag_exit_code tb (top s) else 0)"

definition simulate :: "'v testbench \<Rightarrow> ('v simulation, int) prog" where
  "simulate tb =
     bind (for_each [0..<10] (\<lambda>_. reset_cycle tb)) (\<lambda>_.
     bind (clock_loop tb) (\<lambda>_. gets (exit_status tb)))"

text \<open>\<open>main\<close>: \<open>o0\<close> is the options before the loop, \<open>return\<close> is leaving the process.\<close>

definition ariane_main ::
    "'v testbench \<Rightarrow> string list \<Rightarrow> tb_options \<Rightarrow> string list \<Rightarrow> (exn + int \<times> 'v simulation) option" where
  "ariane_main tb behind o0 argv =
     (case tb_parse behind '''' (drop 1 argv) o0 of
        None \<Rightarrow> None
      | Some (Inl e) \<Rightarrow> Some (Inl e)
      | Some (Inr (rest, opts)) \<Rightarrow>
          if rest = [] then Some (Inl (Exit 1))
          else (case tb_new tb (rbb_port opts) (take 1 argv @ rest) of
              Inl e \<Rightarrow> Some (Inl e)
            | Inr v \<Rightarrow> simulate tb \<lparr>main_time = 0, rtc_i = False, top = v\<rparr>))"

section \<open>The clock\<close>

text \<open>
  What a model sees whose evaluation is the function \<open>ev\<close>: ten cycles in reset, then cycles
  with a real-time clock of a quarter of the frequency.
\<close>

type_synonym 'v evaluation = "u64 \<Rightarrow> bool \<Rightarrow> bool \<Rightarrow> bool \<Rightarrow> 'v \<Rightarrow> 'v"

definition one_cycle :: "'v evaluation \<Rightarrow> nat \<Rightarrow> bool \<Rightarrow> bool \<Rightarrow> 'v \<Rightarrow> 'v" where
  "one_cycle ev t rst rtc v = ev (of_nat t) rst True rtc (ev (of_nat t) rst False rtc v)"

definition rtc_level :: "nat \<Rightarrow> bool" where
  "rtc_level j \<longleftrightarrow> odd ((j + 1) div 2)"

primrec in_reset :: "'v evaluation \<Rightarrow> 'v \<Rightarrow> nat \<Rightarrow> 'v" where
  "in_reset ev v 0 = v"
| "in_reset ev v (Suc j) = one_cycle ev j False False (in_reset ev v j)"

primrec clocked :: "'v evaluation \<Rightarrow> 'v \<Rightarrow> nat \<Rightarrow> 'v" where
  "clocked ev v 0 = v"
| "clocked ev v (Suc j) = one_cycle ev (10 + j) True (rtc_level j) (clocked ev v j)"

definition evaluates :: "'v testbench \<Rightarrow> 'v evaluation \<Rightarrow> bool" where
  "evaluates tb ev \<longleftrightarrow> (\<forall>t rst clk rtc v. tb_eval tb t rst clk rtc v = Some (Inr ((), ev t rst clk rtc v)))"

lemma run_eval_top:
  "evaluates tb ev \<Longrightarrow> eval_top tb rst clk s = Some (Inr ((), s\<lparr>top := ev (main_time s) rst clk (rtc_i s) (top s)\<rparr>))"
  by (simp add: eval_top_def evaluates_def run_simps)

lemma rtc_level_Suc: "rtc_level (Suc j) = (if even j then \<not> rtc_level j else rtc_level j)"
  by (auto simp: rtc_level_def elim!: evenE oddE)

lemma even_time: "((of_nat t :: u64) mod 2 = 0) = even t"
proof -
  have "((of_nat t :: u64) mod 2 = 0) = even (of_nat t :: u64)" by (simp add: even_iff_mod_2_eq_zero)
  also have "\<dots> = even t" by simp
  finally show ?thesis .
qed

definition at_cycle :: "'v evaluation \<Rightarrow> 'v \<Rightarrow> nat \<Rightarrow> 'v simulation" where
  "at_cycle ev v j = \<lparr>main_time = of_nat (10 + j), rtc_i = rtc_level j, top = clocked ev v j\<rparr>"

lemma run_clock_cycle:
  assumes "evaluates tb ev"
  shows "clock_cycle tb (at_cycle ev v j) = Some (Inr ((), at_cycle ev v (Suc j)))"
proof -
  have "((of_nat (10 + j) :: u64) mod 2 = 0) = even j" unfolding even_time by simp
  then show ?thesis
    using run_eval_top [OF assms]
    by (simp add: clock_cycle_def run_simps at_cycle_def one_cycle_def rtc_level_Suc add.commute)
qed

lemma run_reset:
  assumes "evaluates tb ev"
  shows "for_each [i..<i + n] (\<lambda>_. reset_cycle tb) \<lparr>main_time = of_nat i, rtc_i = False, top = in_reset ev v i\<rparr> =
    Some (Inr ((), \<lparr>main_time = of_nat (i + n), rtc_i = False, top = in_reset ev v (i + n)\<rparr>))"
proof (induction n arbitrary: i)
  case (Suc n)
  have "reset_cycle tb \<lparr>main_time = of_nat i, rtc_i = False, top = in_reset ev v i\<rparr> =
      Some (Inr ((), \<lparr>main_time = of_nat (Suc i), rtc_i = False, top = in_reset ev v (Suc i)\<rparr>))"
    using run_eval_top [OF assms] by (simp add: reset_cycle_def run_simps one_cycle_def add.commute)
  moreover have "[i..<i + Suc n] = i # [Suc i..<Suc i + n]" by (simp add: upt_rec)
  ultimately show ?case using Suc.IH [of "Suc i"] by (simp add: run_bind)
qed (simp add: run_ret)

lemma run_clock_loop:
  assumes "evaluates tb ev" and "\<And>i. i < k \<Longrightarrow> \<not> sim_done tb (at_cycle ev v i)" and "sim_done tb (at_cycle ev v k)"
    and "j \<le> k"
  shows "clock_loop tb (at_cycle ev v j) = Some (Inr ((), at_cycle ev v k))"
  using assms(4)
proof (induction "k - j" arbitrary: j)
  case 0
  then show ?case using assms(3) by (subst clock_loop.simps) simp
next
  case (Suc n)
  then have "\<not> sim_done tb (at_cycle ev v j)" using assms(2) by simp
  then show ?case
    using Suc run_clock_cycle [OF assms(1), of v j] by (subst clock_loop.simps) simp
qed

lemma run_simulate:
  assumes "evaluates tb ev" and "\<And>i. i < k \<Longrightarrow> \<not> sim_done tb (at_cycle ev (in_reset ev v 10) i)"
    and "sim_done tb (at_cycle ev (in_reset ev v 10) k)"
  shows "simulate tb \<lparr>main_time = 0, rtc_i = False, top = v\<rparr> =
    Some (Inr (exit_status tb (at_cycle ev (in_reset ev v 10) k), at_cycle ev (in_reset ev v 10) k))"
proof -
  have "for_each [0..<10] (\<lambda>_. reset_cycle tb) \<lparr>main_time = 0, rtc_i = False, top = v\<rparr> =
      Some (Inr ((), at_cycle ev (in_reset ev v 10) 0))"
    using run_reset [OF assms(1), of 0 10 v] by (simp add: at_cycle_def rtc_level_def)
  then show ?thesis
    using run_clock_loop [OF assms, of 0] by (simp add: simulate_def run_bind run_gets)
qed

section \<open>Command lines\<close>

text \<open>An option of the emulator on the command line.\<close>

datatype tb_use =
    Flag char
  | Glued char string
  | Word char string
  | Named string char string

primrec tb_use_words :: "tb_use \<Rightarrow> string list" where
  "tb_use_words (Flag c) = [CHR ''-'' # [c]]"
| "tb_use_words (Glued c v) = [CHR ''-'' # c # v]"
| "tb_use_words (Word c v) = [CHR ''-'' # [c], v]"
| "tb_use_words (Named n c v) = [''--'' @ n @ ''='' @ v]"

primrec tb_use_ok :: "tb_use \<Rightarrow> bool" where
  "tb_use_ok (Flag c) \<longleftrightarrow> c \<in> set ''cpV''"
| "tb_use_ok (Glued c v) \<longleftrightarrow> c \<in> set ''msr'' \<and> v \<noteq> ''''"
| "tb_use_ok (Word c v) \<longleftrightarrow> c \<in> set ''msr''"
| "tb_use_ok (Named n c v) \<longleftrightarrow> (n, c) \<in> {(''max-cycles'', CHR ''m''), (''seed'', CHR ''s''), (''rbb-port'', CHR ''r'')}"

primrec tb_use_effect :: "tb_use \<Rightarrow> (tb_options, unit) prog" where
  "tb_use_effect (Flag c) = char_option c None"
| "tb_use_effect (Glued c v) = char_option c (Some v)"
| "tb_use_effect (Word c v) = char_option c (Some v)"
| "tb_use_effect (Named n c v) = char_option c (Some v)"

lemma getopt_flag: "c \<in> set ''cpV'' \<Longrightarrow> getopt '''' ((CHR ''-'' # [c]) # args) = (Some (Code c, None), '''', args, [c])"
  by (auto simp: getopt_def starts_with_def getopt_short_def tb_short_options_def)

lemma getopt_glued:
  "c \<in> set ''msr'' \<Longrightarrow> v \<noteq> '''' \<Longrightarrow> getopt '''' ((CHR ''-'' # c # v) # args) = (Some (Code c, Some v), '''', args, v)"
  by (auto simp: getopt_def starts_with_def getopt_short_def tb_short_options_def)

lemma getopt_word: "c \<in> set ''msr'' \<Longrightarrow> getopt '''' ((CHR ''-'' # [c]) # v # args) = (Some (Code c, Some v), '''', args, v)"
  by (auto simp: getopt_def starts_with_def getopt_short_def tb_short_options_def)

lemma getopt_named:
  "(n, c) \<in> {(''max-cycles'', CHR ''m''), (''seed'', CHR ''s''), (''rbb-port'', CHR ''r'')} \<Longrightarrow>
    getopt '''' ((''--'' @ n @ ''='' @ v) # args) = (Some (Code c, Some v), '''', args, ''--'' @ n @ ''='' @ v)"
  by (auto simp: getopt_def starts_with_def getopt_long_word_def tb_find_long_def tb_long_options_def Let_def)

lemma tb_parse_step:
  "getopt letters args = (Some (Code c, optarg), letters', rest, prev) \<Longrightarrow>
    tb_parse behind letters args = bind (char_option c optarg) (\<lambda>_. tb_parse behind letters' rest)"
  by (subst tb_parse.simps) (simp add: tb_option_def bind_assoc)

lemma tb_parse_use:
  assumes "tb_use_ok u"
  shows "tb_parse behind '''' (tb_use_words u @ args) = bind (tb_use_effect u) (\<lambda>_. tb_parse behind '''' args)"
proof (cases u)
  case (Flag c)
  then show ?thesis using assms tb_parse_step [OF getopt_flag] by simp
next
  case (Glued c v)
  then show ?thesis using assms tb_parse_step [OF getopt_glued, of c v behind args] by simp
next
  case (Word c v)
  then show ?thesis using assms tb_parse_step [OF getopt_word, of c behind v args] by simp
next
  case (Named n c v)
  then show ?thesis using assms tb_parse_step [OF getopt_named, of n c behind v args] by simp
qed

lemma tb_parse_uses:
  "list_all tb_use_ok us \<Longrightarrow> tb_parse behind '''' (concat (map tb_use_words us) @ rest) =
    bind (for_each us tb_use_effect) (\<lambda>_. tb_parse behind '''' rest)"
  by (induction us) (simp_all add: tb_parse_use bind_assoc)

lemma tb_parse_rest:
  assumes "take 1 r \<noteq> ''-'' \<or> r = ''-''" and "take 1 r \<noteq> ''+''"
  shows "tb_parse behind '''' (r # rs) = ret (r # rs)"
proof -
  have "getopt '''' (r # rs) = (Some (Non_option, Some r), '''', rs, r)"
    using assms(1) by (cases r) (auto simp: getopt_def starts_with_def)
  then show ?thesis using assms(2) by (subst tb_parse.simps) (simp add: tb_option_def plus_arg_def)
qed

lemma run_use_effect: "tb_use_ok u \<Longrightarrow> \<exists>opts'. tb_use_effect u opts = Some (Inr ((), opts'))"
  by (cases u) (auto simp: char_option_def run_simps Let_def)

lemma run_use_effects: "list_all tb_use_ok us \<Longrightarrow> \<exists>opts'. for_each us tb_use_effect opts = Some (Inr ((), opts'))"
proof (induction us arbitrary: opts)
  case (Cons u us)
  then obtain opts1 where "tb_use_effect u opts = Some (Inr ((), opts1))" using run_use_effect [of u] by auto
  then show ?case using Cons.IH [of opts1] Cons.prems by (simp add: run_bind)
qed (simp add: run_ret)

text \<open>
  C17: the main program takes the options before the binary, builds the model with the port they
  give and hands it the rest of the command line, holds it in reset for ten clock cycles, clocks
  it until the debug transport or the JTAG server is done, in the first cycle in which one is,
  and returns the exit code of the transport, or that of the server when the first is 0.
\<close>

theorem ariane_main_runs:
  assumes "list_all tb_use_ok us" and "take 1 binary \<noteq> ''-''" and "take 1 binary \<noteq> ''+''"
    and "for_each us tb_use_effect o0 = Some (Inr ((), opts))"
    and "tb_new tb (rbb_port opts) (name # binary # args) = Inr v" and "evaluates tb ev"
    and "\<forall>i<k. \<not> sim_done tb (at_cycle ev (in_reset ev v 10) i)" and "sim_done tb (at_cycle ev (in_reset ev v 10) k)"
  shows "ariane_main tb behind o0 (name # concat (map tb_use_words us) @ binary # args) =
    Some (Inr (if dtm_exit_code tb (clocked ev (in_reset ev v 10) k) \<noteq> 0
        then dtm_exit_code tb (clocked ev (in_reset ev v 10) k)
        else jtag_exit_code tb (clocked ev (in_reset ev v 10) k), at_cycle ev (in_reset ev v 10) k))"
proof -
  have "tb_parse behind '''' (concat (map tb_use_words us) @ binary # args) o0 = Some (Inr (binary # args, opts))"
    using tb_parse_uses [OF assms(1)] tb_parse_rest [of binary] assms(2-4) by (simp add: run_bind run_ret)
  then show ?thesis
    using assms(5) run_simulate [OF assms(6), of k v] assms(7,8)
    by (simp add: ariane_main_def exit_status_def at_cycle_def)
qed

text \<open>A model that counts its evaluations and is done when it has seen thirty.\<close>

definition counting :: "nat testbench" where
  "counting = \<lparr>tb_new = (\<lambda>port args. Inr 0), tb_eval = (\<lambda>t rst clk rtc v. Some (Inr ((), Suc v))),
     dtm_done = (\<lambda>v. 30 \<le> v), jtag_done = (\<lambda>v. False), dtm_exit_code = (\<lambda>v. 7), jtag_exit_code = (\<lambda>v. 0)\<rparr>"

lemma counting_clocked: "clocked (\<lambda>t rst clk rtc v. Suc v) v j = v + 2 * j" "in_reset (\<lambda>t rst clk rtc v. Suc v) v j = v + 2 * j"
  by (induction j) (simp_all add: one_cycle_def)

theorem ariane_main_runs_witness:
  "ariane_main counting [] (tb_options_init False False 5) [''sim'', ''-p'', ''--rbb-port=99'', ''prog'', ''-x''] =
    Some (Inr (7, \<lparr>main_time = 15, rtc_i = rtc_level 5, top = 30\<rparr>))"
proof -
  let ?us = "[Flag CHR ''p'', Named ''rbb-port'' CHR ''r'' ''99'']"
  obtain opts where "for_each ?us tb_use_effect (tb_options_init False False 5) = Some (Inr ((), opts))"
    using run_use_effects [of ?us] by auto
  moreover have "evaluates counting (\<lambda>t rst clk rtc v. Suc v)" by (simp add: evaluates_def counting_def)
  ultimately show ?thesis
    using ariane_main_runs [of ?us "''prog''" "tb_options_init False False 5" opts counting "''sim''" "[''-x'']" 0
        "\<lambda>t rst clk rtc v. Suc v" 5 "[]"]
    by (simp add: at_cycle_def counting_clocked sim_done_def counting_def)
qed

section \<open>An option of the host that loses its name\<close>

text \<open>
  \<open>optind--\<close> is meant to go back to the option of the host, but an option whose value is the
  next word has taken two: the host gets the value as the binary.
\<close>

theorem host_option_lost:
  "tb_parse behind '''' [''--signature'', ''sig'', ''prog''] o0 = Some (Inr ([''sig'', ''prog''], o0))"
  by (subst tb_parse.simps)
    (simp add: getopt_def starts_with_def getopt_long_word_def tb_find_long_def tb_long_options_def
      htif_long_options_def tb_option_def run_ret)

end
