(* ===== verification/Rv_Machine.thy ===== *)
theory Rv_Machine
  imports Rv_Encoding
begin

text \<open>
  The head of \<open>tb/dpi/fesvr/encoding.h\<close>: the fields of the machine-level registers, of page
  table entries and of protection entries, the interrupt numbers and the memory map, as what the
  preprocessor makes of the constants. The macros for a RISC-V target are assembler.
\<close>

section \<open>Constants\<close>

definition mstatus_masks :: "(string \<times> int) list" where
  "mstatus_masks =
    [(''MSTATUS_UIE'', 0x1), (''MSTATUS_SIE'', 0x2), (''MSTATUS_HIE'', 0x4),
     (''MSTATUS_MIE'', 0x8), (''MSTATUS_UPIE'', 0x10), (''MSTATUS_SPIE'', 0x20),
     (''MSTATUS_HPIE'', 0x40), (''MSTATUS_MPIE'', 0x80), (''MSTATUS_SPP'', 0x100),
     (''MSTATUS_HPP'', 0x600), (''MSTATUS_MPP'', 0x1800), (''MSTATUS_FS'', 0x6000),
     (''MSTATUS_XS'', 0x18000), (''MSTATUS_MPRV'', 0x20000), (''MSTATUS_SUM'', 0x40000),
     (''MSTATUS_MXR'', 0x80000), (''MSTATUS_TVM'', 0x100000), (''MSTATUS_TW'', 0x200000),
     (''MSTATUS_TSR'', 0x400000), (''MSTATUS32_SD'', 0x80000000),
     (''MSTATUS_UXL'', 0x300000000), (''MSTATUS_SXL'', 0xc00000000),
     (''MSTATUS64_SD'', 0x8000000000000000)]"

definition sstatus_masks :: "(string \<times> int) list" where
  "sstatus_masks =
    [(''SSTATUS_UIE'', 0x1), (''SSTATUS_SIE'', 0x2), (''SSTATUS_UPIE'', 0x10),
     (''SSTATUS_SPIE'', 0x20), (''SSTATUS_SPP'', 0x100), (''SSTATUS_FS'', 0x6000),
     (''SSTATUS_XS'', 0x18000), (''SSTATUS_SUM'', 0x40000), (''SSTATUS_MXR'', 0x80000),
     (''SSTATUS32_SD'', 0x80000000), (''SSTATUS_UXL'', 0x300000000),
     (''SSTATUS64_SD'', 0x8000000000000000)]"

definition dcsr_masks :: "(string \<times> int) list" where
  "dcsr_masks =
    [(''DCSR_XDEBUGVER'', 0xc0000000), (''DCSR_NDRESET'', 0x20000000),
     (''DCSR_FULLRESET'', 0x10000000), (''DCSR_EBREAKM'', 0x8000), (''DCSR_EBREAKH'', 0x4000),
     (''DCSR_EBREAKS'', 0x2000), (''DCSR_EBREAKU'', 0x1000), (''DCSR_STOPCYCLE'', 0x400),
     (''DCSR_STOPTIME'', 0x200), (''DCSR_CAUSE'', 0x1c0), (''DCSR_DEBUGINT'', 0x20),
     (''DCSR_HALT'', 0x8), (''DCSR_STEP'', 0x4), (''DCSR_PRV'', 0x3)]"

definition dcsr_causes :: "(string \<times> int) list" where
  "dcsr_causes =
    [(''DCSR_CAUSE_NONE'', 0x0), (''DCSR_CAUSE_SWBP'', 0x1), (''DCSR_CAUSE_HWBP'', 0x2),
     (''DCSR_CAUSE_DEBUGINT'', 0x3), (''DCSR_CAUSE_STEP'', 0x4), (''DCSR_CAUSE_HALT'', 0x5)]"

definition mcontrol_masks :: "(string \<times> int) list" where
  "mcontrol_masks =
    [(''MCONTROL_SELECT'', 0x80000), (''MCONTROL_TIMING'', 0x40000),
     (''MCONTROL_ACTION'', 0x3f000), (''MCONTROL_CHAIN'', 0x800), (''MCONTROL_MATCH'', 0x780),
     (''MCONTROL_M'', 0x40), (''MCONTROL_H'', 0x20), (''MCONTROL_S'', 0x10),
     (''MCONTROL_U'', 0x8), (''MCONTROL_EXECUTE'', 0x4), (''MCONTROL_STORE'', 0x2),
     (''MCONTROL_LOAD'', 0x1)]"

definition mcontrol_values :: "(string \<times> int) list" where
  "mcontrol_values =
    [(''MCONTROL_TYPE_NONE'', 0x0), (''MCONTROL_TYPE_MATCH'', 0x2),
     (''MCONTROL_ACTION_DEBUG_EXCEPTION'', 0x0), (''MCONTROL_ACTION_DEBUG_MODE'', 0x1),
     (''MCONTROL_ACTION_TRACE_START'', 0x2), (''MCONTROL_ACTION_TRACE_STOP'', 0x3),
     (''MCONTROL_ACTION_TRACE_EMIT'', 0x4), (''MCONTROL_MATCH_EQUAL'', 0x0),
     (''MCONTROL_MATCH_NAPOT'', 0x1), (''MCONTROL_MATCH_GE'', 0x2),
     (''MCONTROL_MATCH_LT'', 0x3), (''MCONTROL_MATCH_MASK_LOW'', 0x4),
     (''MCONTROL_MATCH_MASK_HIGH'', 0x5)]"

definition mip_masks :: "(string \<times> int) list" where
  "mip_masks =
    [(''MIP_SSIP'', 0x2), (''MIP_HSIP'', 0x4), (''MIP_MSIP'', 0x8), (''MIP_STIP'', 0x20),
     (''MIP_HTIP'', 0x40), (''MIP_MTIP'', 0x80), (''MIP_SEIP'', 0x200), (''MIP_HEIP'', 0x400),
     (''MIP_MEIP'', 0x800), (''SIP_SSIP'', 0x2), (''SIP_STIP'', 0x20)]"

definition privileges :: "(string \<times> int) list" where
  "privileges =
    [(''PRV_U'', 0x0), (''PRV_S'', 0x1), (''PRV_H'', 0x2), (''PRV_M'', 0x3)]"

definition satp_masks :: "(string \<times> int) list" where
  "satp_masks =
    [(''SATP32_MODE'', 0x80000000), (''SATP32_ASID'', 0x7fc00000), (''SATP32_PPN'', 0x3fffff),
     (''SATP64_MODE'', 0xf000000000000000), (''SATP64_ASID'', 0xffff00000000000),
     (''SATP64_PPN'', 0xfffffffffff)]"

definition satp_modes :: "(string \<times> int) list" where
  "satp_modes =
    [(''SATP_MODE_OFF'', 0x0), (''SATP_MODE_SV32'', 0x1), (''SATP_MODE_SV39'', 0x8),
     (''SATP_MODE_SV48'', 0x9), (''SATP_MODE_SV57'', 0xa), (''SATP_MODE_SV64'', 0xb)]"

definition pmp_bits :: "(string \<times> int) list" where
  "pmp_bits =
    [(''PMP_R'', 0x1), (''PMP_W'', 0x2), (''PMP_X'', 0x4), (''PMP_A'', 0x18), (''PMP_L'', 0x80),
     (''PMP_SHIFT'', 0x2), (''PMP_TOR'', 0x8), (''PMP_NA4'', 0x10), (''PMP_NAPOT'', 0x18)]"

definition irqs :: "(string \<times> int) list" where
  "irqs =
    [(''IRQ_S_SOFT'', 0x1), (''IRQ_H_SOFT'', 0x2), (''IRQ_M_SOFT'', 0x3),
     (''IRQ_S_TIMER'', 0x5), (''IRQ_H_TIMER'', 0x6), (''IRQ_M_TIMER'', 0x7),
     (''IRQ_S_EXT'', 0x9), (''IRQ_H_EXT'', 0xa), (''IRQ_M_EXT'', 0xb), (''IRQ_COP'', 0xc),
     (''IRQ_HOST'', 0xd)]"

definition memory_map :: "(string \<times> int) list" where
  "memory_map =
    [(''DEFAULT_RSTVEC'', 0x1000), (''CLINT_BASE'', 0x2000000), (''CLINT_SIZE'', 0xc0000),
     (''EXT_IO_BASE'', 0x40000000), (''DRAM_BASE'', 0x80000000)]"

definition pte_bits :: "(string \<times> int) list" where
  "pte_bits =
    [(''PTE_V'', 0x1), (''PTE_R'', 0x2), (''PTE_W'', 0x4), (''PTE_X'', 0x8), (''PTE_U'', 0x10),
     (''PTE_G'', 0x20), (''PTE_A'', 0x40), (''PTE_D'', 0x80), (''PTE_SOFT'', 0x300),
     (''PTE_PPN_SHIFT'', 0xa)]"

text \<open>The trigger fields at the top of a register of \<open>xlen\<close> bits.\<close>

definition MCONTROL_TYPE :: "nat \<Rightarrow> u64" where
  "MCONTROL_TYPE xlen = push_bit (xlen - 4) 0xF"

definition MCONTROL_DMODE :: "nat \<Rightarrow> u64" where
  "MCONTROL_DMODE xlen = push_bit (xlen - 5) 1"

definition MCONTROL_MASKMAX :: "nat \<Rightarrow> u64" where
  "MCONTROL_MASKMAX xlen = push_bit (xlen - 11) 0x3F"

definition PTE_TABLE :: "int \<Rightarrow> bool" where
  "PTE_TABLE pte \<longleftrightarrow> (case map_of pte_bits of p \<Rightarrow>
     pte AND (the (p ''PTE_V'') OR the (p ''PTE_R'') OR the (p ''PTE_W'') OR the (p ''PTE_X'')) = the (p ''PTE_V''))"

section \<open>The fields of a register do not overlap\<close>

primrec apart :: "int list \<Rightarrow> bool" where
  "apart [] = True"
| "apart (m # ms) = (m \<noteq> 0 \<and> list_all (\<lambda>k. m AND k = 0) ms \<and> apart ms)"

definition field_of :: "(string \<times> int) list \<Rightarrow> string \<Rightarrow> int" where
  "field_of rows n = the (map_of rows n)"

definition all_bits :: "int list \<Rightarrow> int" where
  "all_bits ms = fold (OR) ms 0"

lemma status_fields_apart: "apart (map snd mstatus_masks)" "apart (map snd sstatus_masks)"
  by (simp_all add: mstatus_masks_def sstatus_masks_def)

text \<open>A field of the supervisor's view is the field of the machine's status register.\<close>

lemma sstatus_is_mstatus:
  "list_all (\<lambda>(n, m). map_of mstatus_masks (CHR ''M'' # tl n) = Some m) sstatus_masks"
  by (simp add: mstatus_masks_def sstatus_masks_def)

lemma debug_fields_apart: "apart (map snd dcsr_masks)" "apart (map snd mcontrol_masks)"
  by (simp_all add: dcsr_masks_def mcontrol_masks_def)

lemma satp_fields:
  "apart (map snd (take 3 satp_masks)) \<and> all_bits (map snd (take 3 satp_masks)) = 2 ^ 32 - 1"
  "apart (map snd (drop 3 satp_masks)) \<and> all_bits (map snd (drop 3 satp_masks)) = 2 ^ 64 - 1"
  by (simp_all add: satp_masks_def all_bits_def)

text \<open>A pending bit is at the number of its interrupt.\<close>

lemma mip_is_irq:
  "list_all (\<lambda>(p, i). field_of mip_masks p = 2 ^ nat (field_of irqs i))
    [(''MIP_SSIP'', ''IRQ_S_SOFT''), (''MIP_HSIP'', ''IRQ_H_SOFT''), (''MIP_MSIP'', ''IRQ_M_SOFT''),
     (''MIP_STIP'', ''IRQ_S_TIMER''), (''MIP_HTIP'', ''IRQ_H_TIMER''), (''MIP_MTIP'', ''IRQ_M_TIMER''),
     (''MIP_SEIP'', ''IRQ_S_EXT''), (''MIP_HEIP'', ''IRQ_H_EXT''), (''MIP_MEIP'', ''IRQ_M_EXT'')]"
  by (simp add: mip_masks_def irqs_def field_of_def)

lemma pte_fields_apart: "apart (map snd (take 9 pte_bits))" "all_bits (map snd (take 9 pte_bits)) < 2 ^ nat (field_of pte_bits ''PTE_PPN_SHIFT'')"
  by (simp_all add: pte_bits_def all_bits_def field_of_def)

text \<open>The regions of the memory map lie one after the other.\<close>

lemma memory_map_ordered:
  "field_of memory_map ''DEFAULT_RSTVEC'' < field_of memory_map ''CLINT_BASE'' \<and>
    field_of memory_map ''CLINT_BASE'' + field_of memory_map ''CLINT_SIZE'' \<le> field_of memory_map ''EXT_IO_BASE'' \<and>
    field_of memory_map ''EXT_IO_BASE'' < field_of memory_map ''DRAM_BASE''"
  by (simp add: memory_map_def field_of_def)

end
