(* ===== verification/Contexts.thy ===== *)
theory Contexts
  imports Prelude
begin

text \<open>
  Coroutines (\<open>tb/dpi/fesvr/context.h\<close>, \<open>context.cc\<close>), on which the host thread of
  every transport runs. The class has two implementations. With \<open>USE_UCONTEXT\<close> a switch is
  one call of \<open>swapcontext\<close>. Without it every context is a thread, and a switch hands a
  flag over with a mutex and a condition variable per context: the threads interleave at every
  access to shared state, and a wait may return without a signal. The accesses to \<open>flag\<close> are
  taken in program order (it is \<open>volatile\<close>, and some are made without the mutex), and
  \<open>pthread_create\<close> succeeds (else the process aborts). Contexts are numbered; each thread's
  \<open>cur\<close> is its own context.
\<close>

section \<open>The implementation with threads\<close>

text \<open>
  Where a thread is: in the function of its context (\<open>Running\<close>), past its end
  (\<open>Returned\<close>), before the switch in \<open>wrapper\<close>, or before the named access of
  \<open>switch_to\<close> or \<open>init\<close> with its argument. \<open>Wait\<close>, \<open>Asleep\<close> and \<open>Woken\<close>
  are the three phases of \<open>pthread_cond_wait\<close>: about to release the mutex, blocked, and about
  to take the mutex again.
\<close>

datatype place =
    No_thread | Wrapper | Running | Returned
  | Clear_own nat | Set_other nat | Lock_other nat | Signal_other nat | Unlock_other nat
  | Lock_own | Test_flag | Wait | Asleep | Woken | Unlock_own
  | Init_lock nat | Init_clear nat | Init_create nat

record threads =
  flag :: "nat \<Rightarrow> bool"
  holder :: "nat \<Rightarrow> nat option"
  creator :: "nat \<Rightarrow> nat option"
  place :: "nat \<Rightarrow> place"

definition goes :: "nat \<Rightarrow> place \<Rightarrow> threads \<Rightarrow> threads" where
  "goes t p s = s\<lparr>place := (place s)(t := p)\<rparr>"

definition set_flag :: "nat \<Rightarrow> bool \<Rightarrow> threads \<Rightarrow> threads" where
  "set_flag c b s = s\<lparr>flag := (flag s)(c := b)\<rparr>"

text \<open>\<open>pthread_mutex_lock\<close> blocks while the mutex is held.\<close>

definition mutex_lock :: "nat \<Rightarrow> nat \<Rightarrow> threads \<Rightarrow> threads option" where
  "mutex_lock t c s = (if holder s c = None then Some (s\<lparr>holder := (holder s)(c := Some t)\<rparr>) else None)"

definition mutex_unlock :: "nat \<Rightarrow> threads \<Rightarrow> threads" where
  "mutex_unlock c s = s\<lparr>holder := (holder s)(c := None)\<rparr>"

text \<open>Only the thread of a context waits for the condition of the context.\<close>

definition cond_signal :: "nat \<Rightarrow> threads \<Rightarrow> threads" where
  "cond_signal c s = (if place s c = Asleep then goes c Woken s else s)"

definition switch_to :: "nat \<Rightarrow> nat \<Rightarrow> threads \<Rightarrow> exn + threads" where
  "switch_to t c s = (if c = t then Inl (Assert_Failed ''this != cur'') else Inr (goes t (Clear_own c) s))"

definition context_init :: "nat \<Rightarrow> nat \<Rightarrow> threads \<Rightarrow> exn + threads" where
  "context_init t n s =
     (let s' = s\<lparr>creator := (creator s)(n := Some t)\<rparr> in
      if flag s' n then Inl (Assert_Failed ''flag == 0'') else Inr (goes t (Init_lock n) s'))"

text \<open>
  The next access of a thread: \<open>None\<close> when it is blocked, or has nothing to do here.
\<close>

definition wrapper_switch :: "nat \<Rightarrow> threads \<Rightarrow> exn + threads" where
  "wrapper_switch t s = (case creator s t of
       None \<Rightarrow> Inl (Undefined ''null creator'')
     | Some c \<Rightarrow> switch_to t c s)"

definition switch_access :: "nat \<Rightarrow> place \<Rightarrow> threads \<Rightarrow> (exn + threads) option" where
  "switch_access t p s = (case p of
       Clear_own c \<Rightarrow> Some (Inr (goes t (Set_other c) (set_flag t False s)))
     | Set_other c \<Rightarrow> Some (Inr (goes t (Lock_other c) (set_flag c True s)))
     | Lock_other c \<Rightarrow> map_option (\<lambda>s'. Inr (goes t (Signal_other c) s')) (mutex_lock t c s)
     | Signal_other c \<Rightarrow> Some (Inr (goes t (Unlock_other c) (cond_signal c s)))
     | Unlock_other c \<Rightarrow> Some (Inr (goes t Lock_own (mutex_unlock c s)))
     | Lock_own \<Rightarrow> map_option (\<lambda>s'. Inr (goes t Test_flag s')) (mutex_lock t t s)
     | Test_flag \<Rightarrow> Some (Inr (goes t (if flag s t then Unlock_own else Wait) s))
     | Wait \<Rightarrow> Some (Inr (goes t Asleep (mutex_unlock t s)))
     | Woken \<Rightarrow> map_option (\<lambda>s'. Inr (goes t Test_flag s')) (mutex_lock t t s)
     | Unlock_own \<Rightarrow> Some (Inr (goes t Running (mutex_unlock t s)))
     | _ \<Rightarrow> None)"

text \<open>The loop that ends \<open>init\<close> is the one that ends \<open>switch_to\<close>.\<close>

definition init_access :: "nat \<Rightarrow> place \<Rightarrow> threads \<Rightarrow> (exn + threads) option" where
  "init_access t p s = (case p of
       Init_lock n \<Rightarrow> map_option (\<lambda>s'. Inr (goes t (Init_clear n) s')) (mutex_lock t t s)
     | Init_clear n \<Rightarrow> Some (Inr (goes t (Init_create n) (set_flag t False s)))
     | Init_create n \<Rightarrow> Some (Inr (goes n Wrapper (goes t Test_flag s)))
     | p \<Rightarrow> switch_access t p s)"

definition advance :: "nat \<Rightarrow> threads \<Rightarrow> (exn + threads) option" where
  advance_parts: "advance t s = (case place s t of
       Wrapper \<Rightarrow> Some (wrapper_switch t s)
     | p \<Rightarrow> init_access t p s)"

lemma advance_def:
  "advance t s = (case place s t of
       Wrapper \<Rightarrow> Some (wrapper_switch t s)
     | Clear_own c \<Rightarrow> Some (Inr (goes t (Set_other c) (set_flag t False s)))
     | Set_other c \<Rightarrow> Some (Inr (goes t (Lock_other c) (set_flag c True s)))
     | Lock_other c \<Rightarrow> map_option (\<lambda>s'. Inr (goes t (Signal_other c) s')) (mutex_lock t c s)
     | Signal_other c \<Rightarrow> Some (Inr (goes t (Unlock_other c) (cond_signal c s)))
     | Unlock_other c \<Rightarrow> Some (Inr (goes t Lock_own (mutex_unlock c s)))
     | Lock_own \<Rightarrow> map_option (\<lambda>s'. Inr (goes t Test_flag s')) (mutex_lock t t s)
     | Test_flag \<Rightarrow> Some (Inr (goes t (if flag s t then Unlock_own else Wait) s))
     | Wait \<Rightarrow> Some (Inr (goes t Asleep (mutex_unlock t s)))
     | Woken \<Rightarrow> map_option (\<lambda>s'. Inr (goes t Test_flag s')) (mutex_lock t t s)
     | Unlock_own \<Rightarrow> Some (Inr (goes t Running (mutex_unlock t s)))
     | Init_lock n \<Rightarrow> map_option (\<lambda>s'. Inr (goes t (Init_clear n) s')) (mutex_lock t t s)
     | Init_clear n \<Rightarrow> Some (Inr (goes t (Init_create n) (set_flag t False s)))
     | Init_create n \<Rightarrow> Some (Inr (goes n Wrapper (goes t Test_flag s)))
     | _ \<Rightarrow> None)"
  by (simp add: advance_parts init_access_def switch_access_def split: place.split)

text \<open>\<open>current\<close>, called first, makes the context of the main thread.\<close>

definition first_current :: "nat \<Rightarrow> threads" where
  "first_current m = \<lparr>flag = (\<lambda>t. t = m), holder = (\<lambda>_. None), creator = (\<lambda>_. None),
     place = (\<lambda>_. No_thread)(m := Running)\<rparr>"

text \<open>
  Any run of the threads, with the contexts that were given control, in order. A thread in the
  library goes on; a blocked wait may end by itself; the function of a running context may switch
  to a context that has been made, make one, or return.
\<close>

inductive library_step :: "threads \<Rightarrow> threads \<Rightarrow> bool" where
  access: "advance t s = Some (Inr s') \<Longrightarrow> library_step s s'"

definition gives_control :: "threads \<Rightarrow> nat \<Rightarrow> nat list" where
  "gives_control s t = (case place s t of
       Wrapper \<Rightarrow> (case creator s t of None \<Rightarrow> [] | Some c \<Rightarrow> [c])
     | Init_create n \<Rightarrow> [n]
     | _ \<Rightarrow> [])"

inductive thread_run :: "nat \<Rightarrow> nat list \<Rightarrow> threads \<Rightarrow> bool" for m where
  start: "thread_run m [] (first_current m)"
| library: "thread_run m cs s \<Longrightarrow> advance t s = Some (Inr s') \<Longrightarrow> thread_run m (cs @ gives_control s t) s'"
| spurious: "thread_run m cs s \<Longrightarrow> place s t = Asleep \<Longrightarrow> thread_run m cs (goes t Woken s)"
| switch: "thread_run m cs s \<Longrightarrow> place s t = Running \<Longrightarrow> place s c \<noteq> No_thread \<Longrightarrow>
     switch_to t c s = Inr s' \<Longrightarrow> thread_run m (cs @ [c]) s'"
| init: "thread_run m cs s \<Longrightarrow> place s t = Running \<Longrightarrow> place s n = No_thread \<Longrightarrow>
     context_init t n s = Inr s' \<Longrightarrow> thread_run m cs s'"
| leave: "thread_run m cs s \<Longrightarrow> place s t = Running \<Longrightarrow> thread_run m cs (goes t Returned s)"

section \<open>The implementation with \<open>ucontext\<close>\<close>

text \<open>
  \<open>swapcontext (prev, this)\<close> saves the running computation in \<open>prev\<close> and resumes what
  \<open>this\<close> has saved. A computation is named by the context whose function it is;
  \<open>saved c\<close> is the one in \<open>c\<close>, \<open>cpu\<close> the running one.
\<close>

datatype uc_place = Uc_unmade | Uc_wrapper | Uc_body

record ucontexts =
  cur :: nat
  cpu :: nat
  saved :: "nat \<Rightarrow> nat"
  uc_creator :: "nat \<Rightarrow> nat option"
  uc_place :: "nat \<Rightarrow> uc_place"

definition swapcontext :: "nat \<Rightarrow> nat \<Rightarrow> (ucontexts, unit) prog" where
  "swapcontext prev this = modify (\<lambda>a. let saved' = (saved a)(prev := cpu a) in
     a\<lparr>saved := saved', cpu := saved' this\<rparr>)"

definition uc_switch_to :: "nat \<Rightarrow> (ucontexts, unit) prog" where
  "uc_switch_to this =
     bind (gets cur) (\<lambda>prev.
     bind (check (this \<noteq> prev) (Assert_Failed ''this != cur'')) (\<lambda>_.
     bind (modify (\<lambda>a. a\<lparr>cur := this\<rparr>)) (\<lambda>_.
     swapcontext prev this)))"

definition makecontext :: "nat \<Rightarrow> (ucontexts, unit) prog" where
  "makecontext n = modify (\<lambda>a. a\<lparr>saved := (saved a)(n := n), uc_place := (uc_place a)(n := Uc_wrapper)\<rparr>)"

definition uc_init :: "nat \<Rightarrow> (ucontexts, unit) prog" where
  "uc_init n =
     bind (modify (\<lambda>a. a\<lparr>uc_creator := (uc_creator a)(n := Some (cur a))\<rparr>)) (\<lambda>_.
     bind (makecontext n) (\<lambda>_.
     uc_switch_to n))"

text \<open>The wrapper goes back to the creator; when it is resumed the function begins.\<close>

definition uc_wrapper :: "nat \<Rightarrow> (ucontexts, unit) prog" where
  "uc_wrapper n =
     bind (modify (\<lambda>a. a\<lparr>uc_place := (uc_place a)(n := Uc_body)\<rparr>)) (\<lambda>_.
     bind (gets (\<lambda>a. uc_creator a n)) (\<lambda>c.
     case c of None \<Rightarrow> raise (Undefined ''null creator'') | Some c' \<Rightarrow> uc_switch_to c'))"

text \<open>When the function returns, \<open>uc_link\<close> resumes what the creator has saved.\<close>

definition uc_return :: "nat \<Rightarrow> (ucontexts, unit) prog" where
  "uc_return n =
     bind (gets (\<lambda>a. uc_creator a n)) (\<lambda>c.
     case c of None \<Rightarrow> raise (Exit 0) | Some c' \<Rightarrow> modify (\<lambda>a. a\<lparr>cpu := saved a c'\<rparr>))"

definition uc_destroy :: "nat \<Rightarrow> (ucontexts, unit) prog" where
  "uc_destroy this = bind (gets cur) (\<lambda>c. check (this \<noteq> c) (Assert_Failed ''this != cur''))"

definition uc_first_current :: "nat \<Rightarrow> ucontexts" where
  "uc_first_current m = \<lparr>cur = m, cpu = m, saved = (\<lambda>c. c), uc_creator = (\<lambda>_. None),
     uc_place = (\<lambda>_. Uc_unmade)(m := Uc_body)\<rparr>"

inductive uc_step :: "ucontexts \<Rightarrow> ucontexts \<Rightarrow> bool" where
  uc_switch: "uc_place a (cpu a) = Uc_body \<Longrightarrow> uc_place a c \<noteq> Uc_unmade \<Longrightarrow>
     uc_switch_to c a = Some (Inr ((), a')) \<Longrightarrow> uc_step a a'"
| uc_make: "uc_place a (cpu a) = Uc_body \<Longrightarrow> uc_place a n = Uc_unmade \<Longrightarrow>
     uc_init n a = Some (Inr ((), a')) \<Longrightarrow> uc_step a a'"
| uc_enter: "uc_place a (cpu a) = Uc_wrapper \<Longrightarrow> uc_wrapper (cpu a) a = Some (Inr ((), a')) \<Longrightarrow> uc_step a a'"

inductive uc_run :: "nat \<Rightarrow> nat list \<Rightarrow> ucontexts \<Rightarrow> bool" for m where
  uc_start: "uc_run m [] (uc_first_current m)"
| uc_more: "uc_run m cs a \<Longrightarrow> uc_step a a' \<Longrightarrow> uc_run m (cs @ [cur a']) a'"

section \<open>Who may run\<close>

text \<open>
  One thread holds the token: it is in code that only the current context runs, or it is in
  the waiting part of a switch and its flag is set.
\<close>

fun active :: "place \<Rightarrow> bool" where
  "active Wrapper = True"
| "active Running = True"
| "active Returned = True"
| "active (Clear_own c) = True"
| "active (Set_other c) = True"
| "active (Init_lock n) = True"
| "active (Init_clear n) = True"
| "active (Init_create n) = True"
| "active p = False"

definition token :: "threads \<Rightarrow> nat \<Rightarrow> bool" where
  "token s t \<longleftrightarrow> active (place s t) \<or> place s t \<noteq> No_thread \<and> flag s t"

text \<open>The mutexes a thread holds at a place.\<close>

fun holds :: "nat \<Rightarrow> place \<Rightarrow> nat \<Rightarrow> bool" where
  "holds t (Signal_other c) m = (m = c)"
| "holds t (Unlock_other c) m = (m = c)"
| "holds t Test_flag m = (m = t)"
| "holds t Wait m = (m = t)"
| "holds t Unlock_own m = (m = t)"
| "holds t (Init_clear n) m = (m = t)"
| "holds t (Init_create n) m = (m = t)"
| "holds t p m = False"

text \<open>What a thread relies on at a place.\<close>

fun place_ok :: "threads \<Rightarrow> nat \<Rightarrow> place \<Rightarrow> bool" where
  "place_ok s t No_thread \<longleftrightarrow> \<not> flag s t"
| "place_ok s t Wrapper \<longleftrightarrow> (\<exists>c. creator s t = Some c \<and> c \<noteq> t \<and> place s c \<noteq> No_thread)"
| "place_ok s t (Clear_own c) \<longleftrightarrow> c \<noteq> t \<and> place s c \<noteq> No_thread"
| "place_ok s t (Set_other c) \<longleftrightarrow> c \<noteq> t \<and> place s c \<noteq> No_thread \<and> \<not> flag s t"
| "place_ok s t (Lock_other c) \<longleftrightarrow> c \<noteq> t"
| "place_ok s t (Signal_other c) \<longleftrightarrow> c \<noteq> t"
| "place_ok s t (Unlock_other c) \<longleftrightarrow> c \<noteq> t"
| "place_ok s t Unlock_own \<longleftrightarrow> flag s t"
| "place_ok s t (Init_lock n) \<longleftrightarrow> place s n = No_thread \<and> creator s n = Some t"
| "place_ok s t (Init_clear n) \<longleftrightarrow> place s n = No_thread \<and> creator s n = Some t"
| "place_ok s t (Init_create n) \<longleftrightarrow> place s n = No_thread \<and> creator s n = Some t \<and> \<not> flag s t"
| "place_ok s t p \<longleftrightarrow> True"

text \<open>A context whose flag is set while its thread sleeps is about to be woken.\<close>

definition no_lost_wakeup :: "threads \<Rightarrow> bool" where
  "no_lost_wakeup s \<longleftrightarrow> (\<forall>c. place s c \<in> {Wait, Asleep} \<and> flag s c \<longrightarrow>
     (\<exists>t. place s t \<in> {Lock_other c, Signal_other c}))"

definition threads_inv :: "threads \<Rightarrow> nat \<Rightarrow> bool" where
  "threads_inv s t \<longleftrightarrow> (\<forall>u. token s u \<longleftrightarrow> u = t) \<and> (\<forall>u. place_ok s u (place s u)) \<and>
     (\<forall>m u. holder s m = Some u \<longleftrightarrow> holds u (place s u) m) \<and> no_lost_wakeup s"

lemmas thread_defs = goes_def set_flag_def mutex_lock_def mutex_unlock_def cond_signal_def
  switch_to_def context_init_def

lemma threads_invI:
  assumes "\<And>u. token s u \<longleftrightarrow> u = t" and "\<And>u. place_ok s u (place s u)"
    and "\<And>m u. holder s m = Some u \<longleftrightarrow> holds u (place s u) m" and "no_lost_wakeup s"
  shows "threads_inv s t"
  using assms by (simp add: threads_inv_def)

lemma threads_invD:
  assumes "threads_inv s t"
  shows "token s u \<longleftrightarrow> u = t" and "place_ok s u (place s u)"
    and "holder s m = Some u \<longleftrightarrow> holds u (place s u) m" and "no_lost_wakeup s"
  using assms by (simp_all add: threads_inv_def)

lemma first_current_inv: "threads_inv (first_current m) m"
  by (rule threads_invI) (auto simp: first_current_def token_def no_lost_wakeup_def)

lemma mutex_lock_Some: "mutex_lock v c s = Some s' \<longleftrightarrow> holder s c = None \<and> s' = s\<lparr>holder := (holder s)(c := Some v)\<rparr>"
  by (auto simp: mutex_lock_def)

lemma wakeups_kept:
  assumes "no_lost_wakeup s"
    and "\<And>c. place s' c \<in> {Wait, Asleep} \<Longrightarrow> flag s' c \<Longrightarrow> place s c \<in> {Wait, Asleep} \<and> flag s c \<or>
      (\<exists>t. place s' t \<in> {Lock_other c, Signal_other c})"
    and "\<And>t c. place s t \<in> {Lock_other c, Signal_other c} \<Longrightarrow> place s' t \<in> {Lock_other c, Signal_other c}"
  shows "no_lost_wakeup s'"
  unfolding no_lost_wakeup_def
proof (intro allI impI, elim conjE)
  fix c assume "place s' c \<in> {Wait, Asleep}" "flag s' c"
  from assms(2) [OF this] show "\<exists>t. place s' t \<in> {Lock_other c, Signal_other c}"
  proof
    assume "place s c \<in> {Wait, Asleep} \<and> flag s c"
    then obtain t where "place s t \<in> {Lock_other c, Signal_other c}"
      using assms(1) unfolding no_lost_wakeup_def by blast
    then show ?thesis using assms(3) by blast
  qed
qed

text \<open>What a step of one thread leaves to the others.\<close>

lemma place_ok_kept:
  assumes "place_ok s u q" and "place s' = (place s)(v := p)" and "place s v \<noteq> No_thread" and "p \<noteq> No_thread"
    and "creator s' = creator s" and "active q \<Longrightarrow> flag s' u = flag s u" and "q = No_thread \<Longrightarrow> flag s' u = flag s u"
    and "flag s u \<Longrightarrow> flag s' u"
  shows "place_ok s' u q"
  using assms by (cases q) auto

lemma threads_inv_step:
  assumes inv: "threads_inv s t"
    and places: "place s' = (place s)(v := p)" "place s v \<noteq> No_thread" "p \<noteq> No_thread"
    and creators: "creator s' = creator s"
    and flags: "\<And>u. u \<noteq> v \<Longrightarrow> flag s' u \<noteq> flag s u \<Longrightarrow> active (place s v) \<and> flag s' u \<and> place s u \<noteq> No_thread"
    and ok: "place_ok s' v p"
    and holders: "\<And>m. holder s' m \<noteq> holder s m \<Longrightarrow> holder s m \<in> {None, Some v} \<and> holder s' m \<in> {None, Some v}"
      "\<And>m. holder s' m = Some v \<longleftrightarrow> holds v p m"
    and tokens: "\<And>u. token s' u \<longleftrightarrow> u = t'"
    and wakeups: "no_lost_wakeup s'"
  shows "threads_inv s' t'"
proof (rule threads_invI)
  note d = threads_invD [OF inv]
  show "token s' u \<longleftrightarrow> u = t'" for u by (rule tokens)
  show "no_lost_wakeup s'" by (rule wakeups)
  show "place_ok s' u (place s' u)" for u
  proof (cases "u = v")
    case True
    then show ?thesis using ok places by simp
  next
    case False
    have "place_ok s' u (place s u)"
    proof (rule place_ok_kept [OF d(2) places creators])
      show "flag s' u = flag s u" if "active (place s u)"
      proof (rule ccontr)
        assume "flag s' u \<noteq> flag s u"
        then have "token s u" "token s v" using flags [OF False] that by (simp_all add: token_def)
        then show False using d(1) False by simp
      qed
    qed (use flags [OF False] in blast)+
    then show ?thesis using False places by simp
  qed
  show "holder s' m = Some u \<longleftrightarrow> holds u (place s' u) m" for m u
    using d(3) [of m u] holders [of m] places by (cases "u = v") force+
qed

text \<open>Most steps leave the token and the flags alone.\<close>

lemma threads_inv_move:
  assumes inv: "threads_inv s t"
    and places: "place s' = (place s)(v := p)" "place s v \<noteq> No_thread" "p \<noteq> No_thread"
    and same: "creator s' = creator s" "flag s' = flag s"
    and ok: "place_ok s' v p"
    and holders: "\<And>m. holder s' m \<noteq> holder s m \<Longrightarrow> holder s m \<in> {None, Some v} \<and> holder s' m \<in> {None, Some v}"
      "\<And>m. holder s' m = Some v \<longleftrightarrow> holds v p m"
    and tokens: "active p \<or> flag s v \<longleftrightarrow> active (place s v) \<or> flag s v"
    and sleeper: "p \<in> {Wait, Asleep} \<Longrightarrow> flag s v \<Longrightarrow> place s v \<in> {Wait, Asleep}"
    and signals: "\<And>c. place s v = Lock_other c \<Longrightarrow> p = Signal_other c"
      "\<And>c. place s v = Signal_other c \<Longrightarrow> place s c \<notin> {Wait, Asleep}"
  shows "threads_inv s' t"
proof (rule threads_inv_step [OF inv places same(1) _ ok holders])
  note d = threads_invD [OF inv]
  show "token s' u \<longleftrightarrow> u = t" for u
    using d(1) [of u] places tokens same by (cases "u = v") (auto simp: token_def)
  show "no_lost_wakeup s'"
    unfolding no_lost_wakeup_def
  proof (intro allI impI)
    fix c assume c: "place s' c \<in> {Wait, Asleep} \<and> flag s' c"
    then have "place s c \<in> {Wait, Asleep} \<and> flag s c"
      using sleeper places same by (cases "c = v") auto
    then obtain w where w: "place s w \<in> {Lock_other c, Signal_other c}"
      using d(4) by (auto simp: no_lost_wakeup_def)
    then have "w = v \<Longrightarrow> p = Signal_other c"
      using signals [of c] \<open>place s c \<in> {Wait, Asleep} \<and> flag s c\<close> by auto
    then show "\<exists>w. place s' w \<in> {Lock_other c, Signal_other c}"
      using w places by (intro exI [of _ w]) auto
  qed
qed (use same in auto)

lemma wake_inv:
  assumes inv: "threads_inv s t" and "place s c = Asleep"
  shows "threads_inv (goes c Woken s) t"
  by (rule threads_inv_move [OF inv, where v = c and p = Woken])
    (use assms(2) threads_invD(3) [OF inv, of _ c] in \<open>auto simp: goes_def\<close>)

lemma cond_signal_inv: "threads_inv s t \<Longrightarrow> threads_inv (cond_signal c s) t"
  by (simp add: cond_signal_def wake_inv)

lemma held_elsewhere:
  assumes "threads_inv s t" and "holds v (place s v) m" and "holds u (place s u) m"
  shows "u = v"
  using threads_invD(3) [OF assms(1), of m u] threads_invD(3) [OF assms(1), of m v] assms(2,3) by simp

lemma token_at: "threads_inv s t \<Longrightarrow> active (place s v) \<Longrightarrow> v = t"
  using threads_invD(1) [of s t v] by (simp add: token_def)

lemma set_other_inv:
  assumes inv: "threads_inv s t" and v: "place s v = Set_other c"
  shows "threads_inv (goes v (Lock_other c) (set_flag c True s)) c"
proof -
  note d = threads_invD [OF inv]
  have t: "v = t" by (rule token_at [OF inv]) (simp add: v)
  have c: "c \<noteq> v" "place s c \<noteq> No_thread" "\<not> flag s v" using d(2) [of v] v by simp_all
  have none: "\<not> active (place s u)" "place s u = No_thread \<or> \<not> flag s u" if "u \<noteq> v" for u
    using d(1) [of u] that t by (auto simp: token_def)
  show ?thesis
  proof (rule threads_inv_step [OF inv, where v = v and p = "Lock_other c"])
    show "token (goes v (Lock_other c) (set_flag c True s)) u \<longleftrightarrow> u = c" for u
      using c none [of u] d(2) [of u] by (cases "u = v") (auto simp: token_def goes_def set_flag_def)
    show "no_lost_wakeup (goes v (Lock_other c) (set_flag c True s))"
      by (rule wakeups_kept [OF d(4)]) (use v in \<open>auto simp: goes_def set_flag_def split: if_splits\<close>)
  qed (use c v d(3) [of _ v] in \<open>auto simp: goes_def set_flag_def split: if_splits\<close>)
qed

lemma clear_own_inv:
  assumes inv: "threads_inv s t" and v: "place s v = Clear_own c"
  shows "threads_inv (goes v (Set_other c) (set_flag v False s)) t"
proof -
  note d = threads_invD [OF inv]
  have t: "v = t" by (rule token_at [OF inv]) (simp add: v)
  have c: "c \<noteq> v" "place s c \<noteq> No_thread" using d(2) [of v] v by simp_all
  show ?thesis
  proof (rule threads_inv_step [OF inv, where v = v and p = "Set_other c"])
    show "token (goes v (Set_other c) (set_flag v False s)) u \<longleftrightarrow> u = t" for u
      using d(1) [of u] t by (cases "u = v") (auto simp: token_def goes_def set_flag_def)
    show "no_lost_wakeup (goes v (Set_other c) (set_flag v False s))"
      by (rule wakeups_kept [OF d(4)]) (use v in \<open>auto simp: goes_def set_flag_def split: if_splits\<close>)
  qed (use c v d(3) [of _ v] in \<open>auto simp: goes_def set_flag_def split: if_splits\<close>)
qed

lemma init_clear_inv:
  assumes inv: "threads_inv s t" and v: "place s v = Init_clear n"
  shows "threads_inv (goes v (Init_create n) (set_flag v False s)) t"
proof -
  note d = threads_invD [OF inv]
  have t: "v = t" by (rule token_at [OF inv]) (simp add: v)
  show ?thesis
  proof (rule threads_inv_step [OF inv, where v = v and p = "Init_create n"])
    show "token (goes v (Init_create n) (set_flag v False s)) u \<longleftrightarrow> u = t" for u
      using d(1) [of u] t by (cases "u = v") (auto simp: token_def goes_def set_flag_def)
    show "no_lost_wakeup (goes v (Init_create n) (set_flag v False s))"
      by (rule wakeups_kept [OF d(4)]) (use v in \<open>auto simp: goes_def set_flag_def split: if_splits\<close>)
  qed (use d(2) [of v] v d(3) [of _ v] in \<open>auto simp: goes_def set_flag_def split: if_splits\<close>)
qed

lemma signal_other_inv:
  assumes inv: "threads_inv s t" and v: "place s v = Signal_other c"
  shows "threads_inv (goes v (Unlock_other c) (cond_signal c s)) t"
proof -
  let ?s = "cond_signal c s"
  have inv': "threads_inv ?s t" by (rule cond_signal_inv [OF inv])
  have c: "c \<noteq> v" using threads_invD(2) [OF inv, of v] v by simp
  have v': "place ?s v = Signal_other c" using v c by (simp add: cond_signal_def goes_def)
  have "place s c \<noteq> Wait" using held_elsewhere [OF inv, of v c c] v c by auto
  then have asleep: "place ?s c \<notin> {Wait, Asleep}" by (simp add: cond_signal_def goes_def)
  show ?thesis
    by (rule threads_inv_move [OF inv', where v = v and p = "Unlock_other c"])
      (use v' c asleep threads_invD(3) [OF inv', of _ v] in \<open>auto simp: goes_def\<close>)
qed

lemma init_create_inv:
  assumes inv: "threads_inv s t" and v: "place s v = Init_create n"
  shows "threads_inv (goes n Wrapper (goes v Test_flag s)) n"
proof -
  note d = threads_invD [OF inv]
  have t: "v = t" by (rule token_at [OF inv]) (simp add: v)
  have n: "place s n = No_thread" "creator s n = Some v" "\<not> flag s v" using d(2) [of v] v by simp_all
  have nv: "n \<noteq> v" using n v by auto
  have none: "\<not> active (place s u)" "place s u = No_thread \<or> \<not> flag s u" if "u \<noteq> v" for u
    using d(1) [of u] that t by (auto simp: token_def)
  let ?s = "goes n Wrapper (goes v Test_flag s)"
  show ?thesis
  proof (rule threads_invI)
    show "token ?s u \<longleftrightarrow> u = n" for u
      using n nv none [of u] by (cases "u = v"; cases "u = n") (auto simp: token_def goes_def)
    show "place_ok ?s u (place ?s u)" for u
      using n nv none [of u] d(2) [of u] by (cases "u = v"; cases "u = n"; cases "place s u") (auto simp: goes_def)
    show "holder ?s m = Some u \<longleftrightarrow> holds u (place ?s u) m" for m u
      using n nv v d(3) [of m u] by (auto simp: goes_def)
    show "no_lost_wakeup ?s"
      by (rule wakeups_kept [OF d(4)]) (use v n in \<open>auto simp: goes_def set_flag_def split: if_splits\<close>)
  qed
qed

end
