(* ===== verification/Context_Agreement.thy ===== *)
theory Context_Agreement
  imports Contexts
begin

text \<open>
  The two implementations of coroutines (\<open>tb/dpi/fesvr/context.cc\<close>) hand control over in the
  same way: every step of the threads keeps the invariant and is matched by no step, or by one
  step, of the \<open>ucontext\<close> version.
\<close>

section \<open>Both implementations agree\<close>

text \<open>
  The context that runs, or that the thread with the token is switching to.
\<close>

definition current_context :: "threads \<Rightarrow> nat \<Rightarrow> nat" where
  "current_context s t = (case place s t of Clear_own c \<Rightarrow> c | Set_other c \<Rightarrow> c | _ \<Rightarrow> t)"

fun uc_place_of :: "place \<Rightarrow> uc_place" where
  "uc_place_of No_thread = Uc_unmade"
| "uc_place_of Wrapper = Uc_wrapper"
| "uc_place_of p = Uc_body"

definition simulates :: "threads \<Rightarrow> nat \<Rightarrow> ucontexts \<Rightarrow> bool" where
  "simulates s t a \<longleftrightarrow> cur a = current_context s t \<and> cpu a = cur a \<and> saved a = (\<lambda>c. c) \<and>
     uc_place a = (\<lambda>c. uc_place_of (place s c)) \<and> (\<forall>c. place s c \<noteq> No_thread \<longrightarrow> uc_creator a c = creator s c)"

definition matched :: "threads \<Rightarrow> ucontexts \<Rightarrow> bool" where
  "matched s a \<longleftrightarrow> (\<exists>t. threads_inv s t \<and> simulates s t a)"

lemma uc_place_of_unmade [simp]: "uc_place_of p = Uc_unmade \<longleftrightarrow> p = No_thread"
  by (cases p) auto

lemma simulates_kept:
  assumes "simulates s t a" and "creator s' = creator s" and "current_context s' t' = current_context s t"
    and "place s' = (place s)(v := p)" and "uc_place_of p = uc_place_of (place s v)"
  shows "simulates s' t' a"
proof -
  have "uc_place_of (place s' c) = uc_place_of (place s c)" for c using assms(4,5) by simp
  moreover from this have "place s' c = No_thread \<longleftrightarrow> place s c = No_thread" for c
    by (metis uc_place_of_unmade)
  ultimately show ?thesis using assms(1-3) by (simp add: simulates_def)
qed

lemma uc_switch_from:
  assumes "cpu a = cur a" and "saved a = (\<lambda>c. c)" and "c \<noteq> cur a"
  shows "uc_switch_to c a = Some (Inr ((), a\<lparr>cur := c, cpu := c\<rparr>))"
  using assms by (simp add: uc_switch_to_def swapcontext_def run_simps Let_def fun_upd_idem)

lemma matchedI: "threads_inv s t \<Longrightarrow> simulates s t a \<Longrightarrow> matched s a"
  by (auto simp: matched_def)

lemma matched_move:
  assumes inv: "threads_inv s t" and sim: "simulates s t a"
    and places: "place s' = (place s)(v := p)" "place s v \<noteq> No_thread" "p \<noteq> No_thread"
    and same: "creator s' = creator s" "flag s' = flag s"
    and ok: "place_ok s' v p"
    and holders: "\<And>m. holder s' m \<noteq> holder s m \<Longrightarrow> holder s m \<in> {None, Some v} \<and> holder s' m \<in> {None, Some v}"
      "\<And>m. holder s' m = Some v \<longleftrightarrow> holds v p m"
    and tokens: "active p \<or> flag s v \<longleftrightarrow> active (place s v) \<or> flag s v"
    and sleeper: "p \<in> {Wait, Asleep} \<Longrightarrow> flag s v \<Longrightarrow> place s v \<in> {Wait, Asleep}"
    and signals: "\<And>c. place s v = Lock_other c \<Longrightarrow> p = Signal_other c"
      "\<And>c. place s v = Signal_other c \<Longrightarrow> place s c \<notin> {Wait, Asleep}"
    and current: "current_context s' v = current_context s v" "uc_place_of p = uc_place_of (place s v)"
  shows "matched s' a"
proof (rule matchedI)
  show "threads_inv s' t"
    by (rule threads_inv_move [OF inv places same ok holders tokens sleeper signals])
  have "current_context s' t = current_context s t"
    using current places(1) by (cases "v = t") (auto simp: current_context_def)
  then show "simulates s' t a" by (rule simulates_kept [OF sim same(1) _ places(1) current(2)])
qed

lemma goes_simps [simp]:
  "place (goes v p s) u = (if u = v then p else place s u)" "flag (goes v p s) = flag s"
  "creator (goes v p s) = creator s" "holder (goes v p s) = holder s"
  by (simp_all add: goes_def)

lemma place_ok_goes:
  assumes "place_ok s v p" and "place s v \<noteq> No_thread" and "p \<noteq> No_thread"
    and "place s' = place s" and "creator s' = creator s" and "flag s' = flag s"
  shows "place_ok (goes v p s') v p"
  using assms by (cases p) auto

lemma matched_goes:
  assumes inv: "threads_inv s t" and sim: "simulates s t a"
    and same: "place s' = place s" "creator s' = creator s" "flag s' = flag s"
    and v: "place s v \<noteq> No_thread" "p \<noteq> No_thread" "place_ok s v p"
    and "\<And>m. holder s' m \<noteq> holder s m \<Longrightarrow> holder s m \<in> {None, Some v} \<and> holder s' m \<in> {None, Some v}"
    and "\<And>m. holder s' m = Some v \<longleftrightarrow> holds v p m"
    and "active p \<or> flag s v \<longleftrightarrow> active (place s v) \<or> flag s v"
    and "p \<in> {Wait, Asleep} \<Longrightarrow> flag s v \<Longrightarrow> place s v \<in> {Wait, Asleep}"
    and "\<And>c. place s v = Lock_other c \<Longrightarrow> p = Signal_other c"
    and "\<And>c. place s v = Signal_other c \<Longrightarrow> place s c \<notin> {Wait, Asleep}"
    and "current_context (goes v p s') v = current_context s v" and "uc_place_of p = uc_place_of (place s v)"
  shows "matched (goes v p s') a"
  by (rule matched_move [OF inv sim, where v = v and p = p])
    (use assms place_ok_goes [OF v(3,1,2) same] in \<open>simp_all add: goes_def\<close>)

text \<open>Leaving a mutex.\<close>

lemma matched_unlock:
  assumes inv: "threads_inv s t" and sim: "simulates s t a"
    and v: "place s v \<noteq> No_thread" "p \<notin> {No_thread, Wait}" "place_ok s v p" "\<not> active (place s v)"
    and c: "holds v (place s v) c" "\<And>m. holds v p m \<longleftrightarrow> holds v (place s v) m \<and> m \<noteq> c"
    and "active p \<Longrightarrow> flag s v" and "p = Asleep \<Longrightarrow> place s v = Wait"
    and "\<And>d. place s v \<noteq> Lock_other d" "\<And>d. place s v \<noteq> Signal_other d"
    and "current_context (goes v p s) v = current_context s v" and "uc_place_of p = uc_place_of (place s v)"
  shows "matched (goes v p (mutex_unlock c s)) a"
proof (rule matched_goes [OF inv sim])
  note hol = threads_invD(3) [OF inv, of _ v]
  have held: "holder s c = Some v" using hol c(1) by simp
  show "holder s m \<in> {None, Some v} \<and> holder (mutex_unlock c s) m \<in> {None, Some v}"
    if "holder (mutex_unlock c s) m \<noteq> holder s m" for m
    using that held by (cases "m = c") (simp_all add: mutex_unlock_def)
  show "holder (mutex_unlock c s) m = Some v \<longleftrightarrow> holds v p m" for m
    using hol [of m] c by (simp add: mutex_unlock_def)
qed (use assms in \<open>auto simp: mutex_unlock_def current_context_def\<close>)

lemma wake_matched: "matched s a \<Longrightarrow> place s c = Asleep \<Longrightarrow> matched (goes c Woken s) a"
  unfolding matched_def
proof (elim exE conjE)
  fix t assume inv: "threads_inv s t" and sim: "simulates s t a" and c: "place s c = Asleep"
  have "current_context (goes c Woken s) t = current_context s t"
    using c by (auto simp: current_context_def goes_def)
  then have "simulates (goes c Woken s) t a"
    by (rule simulates_kept [OF sim, of _ _ c Woken, rotated]) (simp_all add: goes_def c)
  then show "\<exists>t. threads_inv (goes c Woken s) t \<and> simulates (goes c Woken s) t a"
    using wake_inv [OF inv c] by blast
qed

lemma cond_signal_matched: "matched s a \<Longrightarrow> matched (cond_signal c s) a"
  by (simp add: cond_signal_def wake_matched)

text \<open>The accesses that pass the token on, one by one.\<close>

lemma clear_own_matched:
  assumes inv: "threads_inv s t" and sim: "simulates s t a" and v: "place s v = Clear_own c"
  shows "matched (goes v (Set_other c) (set_flag v False s)) a"
proof -
  have t: "v = t" by (rule token_at [OF inv]) (simp add: v)
  have "simulates (goes v (Set_other c) (set_flag v False s)) t a"
    by (rule simulates_kept [OF sim, of _ _ v "Set_other c"])
      (use v t in \<open>auto simp: current_context_def goes_def set_flag_def\<close>)
  with clear_own_inv [OF inv v] show ?thesis by (rule matchedI)
qed

lemma init_clear_matched:
  assumes inv: "threads_inv s t" and sim: "simulates s t a" and v: "place s v = Init_clear n"
  shows "matched (goes v (Init_create n) (set_flag v False s)) a"
proof -
  have t: "v = t" by (rule token_at [OF inv]) (simp add: v)
  have "simulates (goes v (Init_create n) (set_flag v False s)) t a"
    by (rule simulates_kept [OF sim, of _ _ v "Init_create n"])
      (use v t in \<open>auto simp: current_context_def goes_def set_flag_def\<close>)
  with init_clear_inv [OF inv v] show ?thesis by (rule matchedI)
qed

lemma set_other_matched:
  assumes inv: "threads_inv s t" and sim: "simulates s t a" and v: "place s v = Set_other c"
  shows "matched (goes v (Lock_other c) (set_flag c True s)) a"
proof -
  let ?s = "goes v (Lock_other c) (set_flag c True s)"
  note ok = threads_invD(2) [OF inv, of v]
  have t: "v = t" by (rule token_at [OF inv]) (simp add: v)
  have "\<not> active (place s c)" using threads_invD(1) [OF inv, of c] ok v t by (auto simp: token_def)
  then have "current_context ?s c = current_context s t"
    using ok v t by (cases "place s c") (auto simp: current_context_def goes_def set_flag_def)
  then have "simulates ?s c a"
    by (intro simulates_kept [OF sim, of _ _ v "Lock_other c"]) (simp_all add: goes_def set_flag_def v)
  with set_other_inv [OF inv v] show ?thesis by (rule matchedI)
qed

lemma signal_other_matched:
  assumes inv: "threads_inv s t" and sim: "simulates s t a" and v: "place s v = Signal_other c"
  shows "matched (goes v (Unlock_other c) (cond_signal c s)) a"
proof -
  let ?s = "cond_signal c s"
  have c: "c \<noteq> v" using threads_invD(2) [OF inv, of v] v by simp
  have v': "place ?s v = Signal_other c" using v c by (simp add: cond_signal_def goes_def)
  have "place s c \<noteq> Wait" using held_elsewhere [OF inv, of v c c] v c by auto
  then have asleep: "place ?s c \<notin> {Wait, Asleep}" by (simp add: cond_signal_def goes_def)
  from cond_signal_matched [OF matchedI [OF inv sim]] obtain t'
    where t': "threads_inv ?s t'" "simulates ?s t' a" by (auto simp: matched_def)
  show ?thesis
    by (rule matched_move [OF t', where v = v and p = "Unlock_other c"])
      (use v' c asleep threads_invD(3) [OF t'(1), of _ v] in \<open>auto simp: goes_def current_context_def\<close>)
qed

text \<open>A step inside the library that is not the switch of a new thread to its creator, and makes no thread.\<close>

lemma quiet_matched:
  assumes inv: "threads_inv s t" and sim: "simulates s t a" and step: "advance v s = Some r"
    and quiet: "place s v \<noteq> Wrapper" "\<And>n. place s v \<noteq> Init_create n"
  shows "\<exists>s'. r = Inr s' \<and> matched s' a"
proof -
  note ok = threads_invD(2) [OF inv, of v] and hol = threads_invD(3) [OF inv, of _ v]
  note s = step [unfolded advance_def]
  note move = matched_goes [OF inv sim]
  show ?thesis
  proof (cases "place s v")
    case (Clear_own c)
    then show ?thesis using s clear_own_matched [OF inv sim Clear_own] by auto
  next
    case (Set_other c)
    then show ?thesis using s set_other_matched [OF inv sim Set_other] by auto
  next
    case (Lock_other c)
    then show ?thesis using s ok hol
      by (auto simp: mutex_lock_def current_context_def split: if_splits intro!: move)
  next
    case (Signal_other c)
    then show ?thesis using s signal_other_matched [OF inv sim Signal_other] by auto
  next
    case (Unlock_other c)
    have "matched (goes v Lock_own (mutex_unlock c s)) a"
      by (rule matched_unlock [OF inv sim]) (use Unlock_other ok in \<open>auto simp: current_context_def\<close>)
    then show ?thesis using s Unlock_other by auto
  next
    case (Init_clear n)
    then show ?thesis using s init_clear_matched [OF inv sim Init_clear] by auto
  next
    case Wait
    have "matched (goes v Asleep (mutex_unlock v s)) a"
      by (rule matched_unlock [OF inv sim]) (use Wait ok in \<open>auto simp: current_context_def\<close>)
    then show ?thesis using s Wait by auto
  next
    case Unlock_own
    have "matched (goes v Running (mutex_unlock v s)) a"
      by (rule matched_unlock [OF inv sim]) (use Unlock_own ok in \<open>auto simp: current_context_def\<close>)
    then show ?thesis using s Unlock_own by auto
  qed (use s ok hol quiet in
      \<open>auto simp: mutex_lock_def current_context_def split: if_splits intro!: move\<close>)
qed

lemma wrapper_matched:
  assumes inv: "threads_inv s t" and sim: "simulates s t a" and v: "place s v = Wrapper"
    and step: "advance v s = Some r"
  shows "\<exists>s' a'. r = Inr s' \<and> uc_step a a' \<and> matched s' a' \<and> gives_control s v = [cur a']"
proof -
  note d = threads_invD [OF inv]
  obtain c where c: "creator s v = Some c" "c \<noteq> v" "place s c \<noteq> No_thread" using d(2) [of v] v by auto
  have t: "v = t" by (rule token_at [OF inv]) (simp add: v)
  let ?s = "goes v (Clear_own c) s"
  have r: "r = Inr ?s" using step v c by (simp add: advance_def wrapper_switch_def switch_to_def)
  have a: "cur a = v" "cpu a = v" "saved a = (\<lambda>c. c)" "uc_place a v = Uc_wrapper" "uc_creator a v = Some c"
    using sim v t c(1) by (auto simp: simulates_def current_context_def)
  let ?a = "a\<lparr>uc_place := (uc_place a)(v := Uc_body), cur := c, cpu := c\<rparr>"
  have "uc_wrapper (cpu a) a = Some (Inr ((), ?a))"
    using a c(2) by (simp add: uc_wrapper_def run_simps uc_switch_from)
  then have "uc_step a ?a" using a by (intro uc_enter) simp_all
  moreover have "threads_inv ?s t"
    by (rule threads_inv_move [OF inv, where v = v and p = "Clear_own c"])
      (use v c d(3) [of _ v] in \<open>auto simp: goes_def\<close>)
  moreover have "simulates ?s t ?a"
    using sim v c t a by (auto simp: simulates_def current_context_def goes_def)
  moreover have "gives_control s v = [cur ?a]" using v c by (simp add: gives_control_def)
  ultimately show ?thesis using r matchedI by blast
qed

lemma init_create_matched:
  assumes inv: "threads_inv s t" and sim: "simulates s t a" and v: "place s v = Init_create n"
    and step: "advance v s = Some r"
  shows "\<exists>s' a'. r = Inr s' \<and> uc_step a a' \<and> matched s' a' \<and> gives_control s v = [cur a']"
proof -
  note d = threads_invD [OF inv]
  have n: "place s n = No_thread" "creator s n = Some v" using d(2) [of v] v by simp_all
  have nv: "n \<noteq> v" using n v by auto
  have t: "v = t" by (rule token_at [OF inv]) (simp add: v)
  let ?s = "goes n Wrapper (goes v Test_flag s)"
  have r: "r = Inr ?s" using step v by (simp add: advance_def)
  have a: "cur a = v" "cpu a = v" "saved a = (\<lambda>c. c)" "uc_place a v = Uc_body" "uc_place a n = Uc_unmade"
    using sim v t n by (auto simp: simulates_def current_context_def)
  let ?a = "a\<lparr>uc_creator := (uc_creator a)(n := Some v), uc_place := (uc_place a)(n := Uc_wrapper), cur := n, cpu := n\<rparr>"
  have "uc_init n a = Some (Inr ((), ?a))"
    using a nv by (simp add: uc_init_def makecontext_def run_simps uc_switch_from fun_upd_idem)
  then have "uc_step a ?a" using a by (intro uc_make) simp_all
  moreover have "threads_inv ?s n" by (rule init_create_inv [OF inv v])
  moreover have "simulates ?s n ?a"
    using sim v n nv t a by (auto simp: simulates_def current_context_def goes_def)
  moreover have "gives_control s v = [cur ?a]" using v by (simp add: gives_control_def)
  ultimately show ?thesis using r matchedI by blast
qed

lemma advance_matched:
  assumes "matched s a" and "advance v s = Some r"
  shows "\<exists>s' a'. r = Inr s' \<and> matched s' a' \<and>
    (gives_control s v = [] \<and> a' = a \<or> gives_control s v = [cur a'] \<and> uc_step a a')"
proof -
  obtain t where t: "threads_inv s t" "simulates s t a" using assms(1) by (auto simp: matched_def)
  consider "place s v = Wrapper" | n where "place s v = Init_create n"
    | "place s v \<noteq> Wrapper" "\<And>n. place s v \<noteq> Init_create n" by blast
  then show ?thesis
  proof cases
    case 1
    then show ?thesis using wrapper_matched [OF t _ assms(2)] by blast
  next
    case 2
    then show ?thesis using init_create_matched [OF t _ assms(2)] by blast
  next
    case 3
    then have "gives_control s v = []" by (simp add: gives_control_def split: place.split)
    then show ?thesis using quiet_matched [OF t assms(2) 3] by blast
  qed
qed

lemma switch_matched:
  assumes "matched s a" and v: "place s v = Running" and c: "place s c \<noteq> No_thread"
    and step: "switch_to v c s = Inr s'"
  shows "\<exists>a'. uc_step a a' \<and> cur a' = c \<and> matched s' a'"
proof -
  obtain t where t: "threads_inv s t" "simulates s t a" using assms(1) by (auto simp: matched_def)
  have vt: "v = t" by (rule token_at [OF t(1)]) (simp add: v)
  have s': "c \<noteq> v" "s' = goes v (Clear_own c) s" using step by (auto simp: switch_to_def split: if_splits)
  have a: "cur a = v" "cpu a = v" "saved a = (\<lambda>c. c)" "uc_place a v = Uc_body" "uc_place a c \<noteq> Uc_unmade"
    using t(2) v c vt by (auto simp: simulates_def current_context_def)
  let ?a = "a\<lparr>cur := c, cpu := c\<rparr>"
  have "uc_step a ?a" using a s'(1) by (intro uc_switch [of a c]) (simp_all add: uc_switch_from)
  moreover have "threads_inv s' t"
    by (rule threads_inv_move [OF t(1), where v = v and p = "Clear_own c"])
      (use v c s' threads_invD(3) [OF t(1), of _ v] in \<open>auto simp: goes_def\<close>)
  moreover have "simulates s' t ?a"
    using t(2) v c s' vt a by (auto simp: simulates_def current_context_def)
  ultimately show ?thesis using matchedI by (intro exI [of _ ?a]) simp
qed

lemma init_matched:
  assumes "matched s a" and v: "place s v = Running" and n: "place s n = No_thread"
    and step: "context_init v n s = Inr s'"
  shows "matched s' a"
proof -
  obtain t where inv: "threads_inv s t" and sim: "simulates s t a" using assms(1) by (auto simp: matched_def)
  note d = threads_invD [OF inv]
  have t: "v = t" by (rule token_at [OF inv]) (simp add: v)
  let ?s = "s\<lparr>creator := (creator s)(n := Some v)\<rparr>"
  have s': "s' = goes v (Init_lock n) ?s" using step by (auto simp: context_init_def Let_def split: if_splits)
  have waiting: "\<not> active (place s u)" if "u \<noteq> v" for u using token_at [OF inv, of u] that t by blast
  have "place_ok ?s u (place s u)" for u
    using d(2) [of u] waiting [of u] v n by (cases "u = v"; cases "place s u") auto
  then have inv': "threads_inv ?s t" using inv by (simp add: threads_inv_def token_def no_lost_wakeup_def)
  have "simulates ?s t a" using sim n by (auto simp: simulates_def current_context_def)
  then have "matched (goes v (Init_lock n) ?s) a"
    by (rule matched_goes [OF inv'])
      (use v n d(3) [of _ v] in \<open>auto simp: current_context_def\<close>)
  then show ?thesis using s' by simp
qed

lemma leave_matched:
  assumes "matched s a" and "place s v = Running"
  shows "matched (goes v Returned s) a"
proof -
  obtain t where t: "threads_inv s t" "simulates s t a" using assms(1) by (auto simp: matched_def)
  show ?thesis
    by (rule matched_goes [OF t])
      (use assms(2) threads_invD(3) [OF t(1), of _ v] in \<open>auto simp: current_context_def\<close>)
qed

lemma first_current_matched: "matched (first_current m) (uc_first_current m)"
  by (rule matchedI [OF first_current_inv])
    (auto simp: simulates_def first_current_def uc_first_current_def current_context_def)

lemma thread_run_matched: "thread_run m cs s \<Longrightarrow> \<exists>a. uc_run m cs a \<and> matched s a"
proof (induction rule: thread_run.induct)
  case start
  then show ?case using first_current_matched uc_start by blast
next
  case (library cs s t s')
  then obtain a where a: "uc_run m cs a" "matched s a" by blast
  from advance_matched [OF a(2) library(2)] show ?case using a(1) uc_more by fastforce
next
  case (switch cs s t c s')
  then obtain a where a: "uc_run m cs a" "matched s a" by blast
  from switch_matched [OF a(2) switch(2-4)] show ?case using a(1) uc_more by blast
qed (use wake_matched init_matched leave_matched in blast)+

text \<open>
  C15: whatever the scheduler does, and whenever a wait ends by itself, the threads hand control
  over in a sequence that the implementation with \<open>ucontext\<close> has too, and the only thread that
  runs a function is the one of the context that is current there.
\<close>

theorem threads_refine_ucontext:
  assumes "thread_run m cs s"
  shows "\<exists>a. uc_run m cs a \<and> cpu a = cur a \<and> uc_place a = (\<lambda>c. uc_place_of (place s c)) \<and>
    {t. place s t = Running} \<subseteq> {cur a}"
proof -
  obtain a t where a: "uc_run m cs a" and t: "threads_inv s t" "simulates s t a"
    using thread_run_matched [OF assms] by (auto simp: matched_def)
  have "u = cur a" if "place s u = Running" for u
  proof -
    have "u = t" by (rule token_at [OF t(1)]) (simp add: that)
    then show ?thesis using t(2) that by (simp add: simulates_def current_context_def)
  qed
  then show ?thesis using a t(2) by (intro exI [of _ a]) (auto simp: simulates_def)
qed

section \<open>An example\<close>

text \<open>Threads taken in a given order.\<close>

primrec scheduled :: "nat list \<Rightarrow> threads \<Rightarrow> (nat list \<times> threads) option" where
  "scheduled [] s = Some ([], s)"
| "scheduled (t # ts) s = (case advance t s of
       Some (Inr s') \<Rightarrow> map_option (\<lambda>(cs, s''). (gives_control s t @ cs, s'')) (scheduled ts s')
     | _ \<Rightarrow> None)"

lemma scheduled_run:
  "thread_run m cs s \<Longrightarrow> scheduled ts s = Some (cs', s') \<Longrightarrow>
    thread_run m (cs @ cs') s' \<and> (library_step ^^ length ts) s s'"
proof (induction ts arbitrary: cs s cs')
  case (Cons t ts)
  from Cons.prems(2) obtain u cs'' where u: "advance t s = Some (Inr u)" "scheduled ts u = Some (cs'', s')"
    "cs' = gives_control s t @ cs''"
    by (auto split: option.splits sum.splits)
  from Cons.IH [OF library [OF Cons.prems(1) u(1)] u(2)] u(3) show ?case
    using relpowp_Suc_I2 [of library_step s u] access [OF u(1)] by simp
qed simp

text \<open>
  The main thread 0 has called \<open>init\<close> of context 1; it is back in its own function as soon as
  the new thread has set its flag, before the signal.
\<close>

definition making_one :: threads where
  "making_one = goes 0 (Init_lock 1) ((first_current 0)\<lparr>creator := (creator (first_current 0))(1 := Some 0)\<rparr>)"

lemma making_one_run: "thread_run 0 [] making_one"
  unfolding making_one_def
  by (rule init [OF start, of 0 0 1])
    (simp_all add: first_current_def context_init_def Let_def)

lemma making_one_scheduled:
  "case scheduled [0, 0, 0, 1, 1, 1, 0, 0] making_one of
     Some (cs, s) \<Rightarrow> cs = [1, 0] \<and> place s 0 = Running \<and> place s 1 = Lock_other 0
   | None \<Rightarrow> False"
  by code_simp

lemma made_one:
  obtains s where "thread_run 0 [1, 0] s" and "(library_step ^^ 8) making_one s"
    and "place s 0 = Running" and "place s 1 = Lock_other 0"
proof (cases "scheduled [0, 0, 0, 1, 1, 1, 0, 0] making_one")
  case None
  then show ?thesis using making_one_scheduled by simp
next
  case (Some r)
  obtain cs s where r: "r = (cs, s)" by force
  with Some making_one_scheduled have "cs = [1, 0]" "place s 0 = Running" "place s 1 = Lock_other 0" by simp_all
  moreover have "thread_run 0 ([] @ cs) s \<and> (library_step ^^ length [0, 0, 0, 1, 1, 1, 0, 0 :: nat]) making_one s"
    by (rule scheduled_run [OF making_one_run]) (simp only: Some r)
  moreover have "length [0, 0, 0, 1, 1, 1, 0, 0 :: nat] = 8" by simp
  ultimately show ?thesis using that [of s] unfolding append_Nil by metis
qed

theorem threads_refine_ucontext_witness:
  "\<exists>a s. thread_run 0 [1, 0] s \<and> uc_run 0 [1, 0] a \<and> place s 0 = Running \<and> cur a = 0 \<and> uc_place a 1 = Uc_body"
proof -
  obtain s where s: "thread_run 0 [1, 0] s" "place s 0 = Running" "place s 1 = Lock_other 0" by (rule made_one)
  from threads_refine_ucontext [OF s(1)] obtain a where "uc_run 0 [1, 0] a"
    "uc_place a = (\<lambda>c. uc_place_of (place s c))" "{t. place s t = Running} \<subseteq> {cur a}" by blast
  moreover from this s have "cur a = 0" "uc_place a 1 = Uc_body" by auto
  ultimately show ?thesis using s(1,2) by blast
qed

end
