(* ===== verification/Context_Progress.thy ===== *)
theory Context_Progress
  imports Context_Agreement
begin

text \<open>
  No switch between threads (\<open>tb/dpi/fesvr/context.cc\<close>) gets stuck: what the library has left
  to do shrinks with every access, and no wake-up is lost. Then what each implementation does when
  the function of a context returns.
\<close>

section \<open>A switch completes\<close>

text \<open>
  What a thread has left to do in the library, counted so that waking another thread is paid for
  by the one that signals, and starting one by the one that makes it.
\<close>

fun rank :: "place \<Rightarrow> nat" where
  "rank (Init_lock n) = 24"
| "rank (Init_clear n) = 23"
| "rank (Init_create n) = 22"
| "rank Wrapper = 17"
| "rank (Clear_own c) = 16"
| "rank (Set_other c) = 15"
| "rank (Lock_other c) = 14"
| "rank (Signal_other c) = 13"
| "rank (Unlock_other c) = 7"
| "rank Lock_own = 6"
| "rank Woken = 5"
| "rank Test_flag = 4"
| "rank Wait = 3"
| "rank Unlock_own = 3"
| "rank p = 0"

definition threads_of :: "threads \<Rightarrow> nat set" where
  "threads_of s = {t. place s t \<noteq> No_thread}"

definition work :: "threads \<Rightarrow> nat" where
  "work s = (\<Sum>t \<in> threads_of s. rank (place s t))"

lemma work_over: "finite A \<Longrightarrow> threads_of s \<subseteq> A \<Longrightarrow> work s = (\<Sum>t \<in> A. rank (place s t))"
  unfolding work_def by (rule sum.mono_neutral_left) (auto simp: threads_of_def)

lemma threads_of_goes: "p \<noteq> No_thread \<Longrightarrow> threads_of (goes t p s) = insert t (threads_of s)"
  by (auto simp: threads_of_def)

lemma work_goes:
  assumes "finite (threads_of s)" and "p \<noteq> No_thread"
  shows "work (goes t p s) + rank (place s t) = work s + rank p"
proof -
  let ?A = "insert t (threads_of s)"
  have fin: "finite ?A" using assms(1) by simp
  have "work (goes t p s) = (\<Sum>u \<in> ?A. rank (place (goes t p s) u))"
    by (rule work_over [OF fin]) (use assms(2) in \<open>simp add: threads_of_goes\<close>)
  also have "\<dots> = rank p + (\<Sum>u \<in> ?A - {t}. rank (place s u))"
    using sum.remove [OF fin, of t "\<lambda>u. rank (place (goes t p s) u)"] by simp
  finally have 1: "work (goes t p s) = rank p + (\<Sum>u \<in> ?A - {t}. rank (place s u))" .
  have "work s = (\<Sum>u \<in> ?A. rank (place s u))" by (rule work_over [OF fin]) auto
  also have "\<dots> = rank (place s t) + (\<Sum>u \<in> ?A - {t}. rank (place s u))"
    using sum.remove [OF fin, of t "\<lambda>u. rank (place s u)"] by simp
  finally show ?thesis using 1 by simp
qed

lemma same_places: "place s' = place s \<Longrightarrow> threads_of s' = threads_of s \<and> work s' = work s"
  by (simp add: threads_of_def work_def)

lemma finite_goes: "finite (threads_of s) \<Longrightarrow> p \<noteq> No_thread \<Longrightarrow> finite (threads_of (goes t p s))"
  by (simp add: threads_of_goes)

lemma work_signal:
  assumes "finite (threads_of s)"
  shows "finite (threads_of (cond_signal c s)) \<and> work (cond_signal c s) \<le> work s + 5"
  using assms work_goes [OF assms, of Woken c] by (simp add: cond_signal_def finite_goes)

text \<open>Every access in the library leaves less to do.\<close>

lemma work_moves:
  assumes fin: "finite (threads_of s)" and same: "place s' = place s" and p: "p \<noteq> No_thread"
    and less: "rank p < rank (place s t)"
  shows "finite (threads_of (goes t p s'))" and "work (goes t p s') < work s"
proof -
  have s': "threads_of s' = threads_of s" "work s' = work s" using same_places [OF same] by simp_all
  show "finite (threads_of (goes t p s'))" by (rule finite_goes) (simp_all add: s' fin p)
  have "work (goes t p s') + rank (place s' t) = work s' + rank p" by (rule work_goes) (simp_all add: s' fin p)
  then show "work (goes t p s') < work s" using less by (simp add: s' same)
qed

lemma work_advance:
  assumes fin: "finite (threads_of s)" and ok: "place_ok s t (place s t)" and step: "advance t s = Some (Inr s')"
  shows "finite (threads_of s') \<and> work s' < work s"
proof (cases "place s t")
  case Wrapper
  then show ?thesis using step
    by (auto simp: advance_def wrapper_switch_def switch_to_def split: option.splits if_splits
        intro!: work_moves [OF fin])
next
  case (Signal_other c)
  let ?s = "cond_signal c s"
  have c: "c \<noteq> t" using ok Signal_other by simp
  have "place ?s t = Signal_other c" using Signal_other c by (simp add: cond_signal_def)
  then have "work (goes t (Unlock_other c) ?s) + 13 = work ?s + 7"
    using work_goes [of ?s "Unlock_other c" t] work_signal [OF fin] by simp
  then show ?thesis
    using step Signal_other work_signal [OF fin, of c] by (auto simp: advance_def finite_goes)
next
  case (Init_create n)
  let ?s = "goes t Test_flag s"
  have n: "place s n = No_thread" "n \<noteq> t" using ok Init_create by auto
  have fin': "finite (threads_of ?s)" by (rule finite_goes [OF fin]) simp
  have "work ?s + 22 = work s + 4" using work_goes [OF fin, of Test_flag t] Init_create by simp
  moreover have "work (goes n Wrapper ?s) = work ?s + 17"
    using work_goes [OF fin', of Wrapper n] n by simp
  ultimately show ?thesis using step Init_create fin' by (auto simp: advance_def finite_goes)
qed (use step in \<open>auto simp: advance_def mutex_lock_def mutex_unlock_def set_flag_def
    split: if_splits intro!: work_moves [OF fin]\<close>)

lemma advance_kept:
  assumes "threads_inv s t" and "advance v s = Some r"
  shows "\<exists>s' t'. r = Inr s' \<and> threads_inv s' t'"
proof -
  have "simulates s t \<lparr>cur = current_context s t, cpu = current_context s t, saved = (\<lambda>c. c),
      uc_creator = creator s, uc_place = (\<lambda>c. uc_place_of (place s c))\<rparr>" (is "simulates s t ?a")
    by (simp add: simulates_def)
  from advance_matched [OF matchedI [OF assms(1) this] assms(2)] show ?thesis
    unfolding matched_def by blast
qed

lemma library_steps_bounded:
  assumes "(library_step ^^ n) s s'" and "threads_inv s t" and "finite (threads_of s)"
  shows "n + work s' \<le> work s \<and> (\<exists>t'. threads_inv s' t')"
  using assms
proof (induction n arbitrary: s t)
  case 0
  then show ?case by auto
next
  case (Suc n)
  from Suc.prems(1) obtain u where u: "library_step s u" "(library_step ^^ n) u s'"
    by (blast elim: relpowp_Suc_E2)
  then obtain v where v: "advance v s = Some (Inr u)" by (blast elim: library_step.cases)
  obtain t' where t': "threads_inv u t'" using advance_kept [OF Suc.prems(2) v] by auto
  have "finite (threads_of u)" "work u < work s"
    using work_advance [OF Suc.prems(3) threads_invD(2) [OF Suc.prems(2)] v] by simp_all
  with Suc.IH [OF u(2) t'] show ?case by simp
qed

text \<open>A thread that holds a mutex can go on.\<close>

lemma stepI: "advance t s = Some (Inr s') \<Longrightarrow> Ex (library_step s)"
  using access by blast

lemma holder_moves: "holds t (place s t) m \<Longrightarrow> Ex (library_step s)"
  by (cases "place s t") (auto simp: advance_def intro: stepI [of t])

lemma lock_moves:
  assumes "threads_inv s u" and "place s v = Lock_other c \<or> c = v \<and> place s v \<in> {Lock_own, Woken, Init_lock n}"
  shows "Ex (library_step s)"
proof (cases "holder s c")
  case None
  then show ?thesis using assms(2) by (auto simp: advance_def mutex_lock_def intro: stepI [of v])
next
  case (Some w)
  then show ?thesis using threads_invD(3) [OF assms(1)] holder_moves by blast
qed

lemma token_moves:
  assumes inv: "threads_inv s t"
  shows "Ex (library_step s) \<or> place s t \<in> {Running, Returned}"
proof -
  note d = threads_invD [OF inv]
  have tok: "active (place s t) \<or> place s t \<noteq> No_thread \<and> flag s t" using d(1) [of t] by (simp add: token_def)
  note lock = lock_moves [OF inv, where v = t]
  show ?thesis
  proof (cases "place s t")
    case Asleep
    then obtain v where "place s v = Lock_other t \<or> place s v = Signal_other t"
      using d(4) [unfolded no_lost_wakeup_def, rule_format, of t] tok by auto
    then show ?thesis using lock_moves [OF inv, of v t] holder_moves [of v s t] by auto
  next
    case Wrapper
    then show ?thesis using advance_kept [OF inv, of t] by (auto simp: advance_def intro: stepI [of t])
  next
    case (Lock_other c)
    then show ?thesis using lock by blast
  next
    case (Init_lock n)
    then show ?thesis using lock by blast
  qed (use tok lock in \<open>auto simp: advance_def intro: stepI [of t]\<close>)
qed

lemma thread_run_inv:
  assumes "thread_run m cs s"
  shows "(\<exists>t. threads_inv s t) \<and> finite (threads_of s)"
proof
  have inv: "\<exists>t. threads_inv s t" if "thread_run m cs s" for cs s
    using thread_run_matched [OF that] by (auto simp: matched_def)
  then show "\<exists>t. threads_inv s t" using assms by blast
  show "finite (threads_of s)"
    using assms
  proof (induction rule: thread_run.induct)
    case start
    then show ?case by (simp add: first_current_def threads_of_def)
  next
    case (library cs s t s')
    then show ?case using inv [OF library(1)] work_advance threads_invD(2) by blast
  next
    case (init cs s t n s')
    let ?s = "s\<lparr>creator := (creator s)(n := Some t)\<rparr>"
    have "s' = goes t (Init_lock n) ?s"
      using init(4) by (simp add: context_init_def Let_def split: if_splits)
    then show ?case using init(5) same_places [of ?s s] by (simp add: threads_of_goes)
  qed (auto simp: switch_to_def threads_of_goes split: if_splits)
qed

text \<open>
  C16: from any state of a run, the library's part of a switch, or of making a context, ends
  after at most \<open>work\<close> accesses, not counting waits that end by themselves, whatever the
  order in which the scheduler takes the threads; it never fails an assertion; and when no thread
  has an access left, exactly one thread is in the function of its context, or has returned
  from it.
\<close>

theorem switch_completes:
  assumes "thread_run m cs s" and "(library_step ^^ n) s s'"
  shows "n \<le> work s \<and> advance v s' \<noteq> Some (Inl x) \<and>
    (\<exists>t. {u. token s' u} = {t} \<and> (Ex (library_step s') \<or> {u. place s' u \<in> {Running, Returned}} = {t}))"
proof -
  obtain t where t: "threads_inv s t" "finite (threads_of s)" using thread_run_inv [OF assms(1)] by blast
  from library_steps_bounded [OF assms(2) t] obtain t' where t': "n + work s' \<le> work s" "threads_inv s' t'"
    by blast
  have tok: "token s' u \<longleftrightarrow> u = t'" for u by (rule threads_invD(1) [OF t'(2)])
  have "{u. place s' u \<in> {Running, Returned}} = {t'}" if "\<not> Ex (library_step s')"
  proof -
    have "place s' t' \<in> {Running, Returned}" using token_moves [OF t'(2)] that by blast
    moreover have "u = t'" if "place s' u \<in> {Running, Returned}" for u
      using token_at [OF t'(2), of u] that by auto
    ultimately show ?thesis by blast
  qed
  moreover have "advance v s' \<noteq> Some (Inl x)" using advance_kept [OF t'(2)] by blast
  ultimately show ?thesis using t'(1) tok by (intro conjI exI [of _ t']) auto
qed

theorem switch_completes_witness:
  "\<exists>s. (library_step ^^ 8) making_one s \<and> 8 \<le> work making_one \<and> place s 0 = Running \<and> {u. token s u} = {0}"
proof -
  obtain s where s: "(library_step ^^ 8) making_one s" "place s 0 = Running" by (rule made_one)
  from switch_completes [OF making_one_run s(1)] obtain t where "8 \<le> work making_one" "{u. token s u} = {t}"
    by blast
  moreover have "token s 0" using s(2) by (simp add: token_def)
  ultimately have "8 \<le> work making_one" "{u. token s u} = {0}" by auto
  then show ?thesis using s by blast
qed

section \<open>When the function of a context returns\<close>

text \<open>
  With \<open>ucontext\<close> the creator goes on by \<open>uc_link\<close>, but \<open>cur\<close> still names the context
  that has ended: switching to it then fails the assertion, although it is not the caller. With
  threads no function runs again. The host threads of the transports never return.
\<close>

lemma uc_run_current: "uc_run m cs a \<Longrightarrow> cpu a = cur a \<and> saved a = (\<lambda>c. c)"
proof (induction rule: uc_run.induct)
  case uc_start
  then show ?case by (simp add: uc_first_current_def)
next
  case (uc_more cs a a')
  have switch: "uc_switch_to c b = Some (Inr ((), a')) \<Longrightarrow> cpu b = cur b \<Longrightarrow> saved b = (\<lambda>c. c) \<Longrightarrow>
      cpu a' = cur a' \<and> saved a' = (\<lambda>c. c)" for c b
    by (auto simp: uc_switch_to_def swapcontext_def run_simps Let_def split: if_splits)
  from uc_more(2) uc_more.IH show ?case
    by cases
      (auto simp: uc_init_def uc_wrapper_def makecontext_def run_simps fun_upd_idem
        split: option.splits dest!: switch)
qed

theorem uc_return_leaves_cur:
  assumes "uc_run m cs a" and "uc_creator a (cur a) = Some c"
  shows "uc_return (cur a) a = Some (Inr ((), a\<lparr>cpu := c\<rparr>))"
    and "uc_switch_to (cur a) (a\<lparr>cpu := c\<rparr>) = Some (Inl (Assert_Failed ''this != cur''))"
  using assms uc_run_current [OF assms(1)] by (simp_all add: uc_return_def uc_switch_to_def run_simps)

theorem thread_return_stops:
  assumes "threads_inv s t" and "place s t = Returned" and "library_step s s'"
  shows "place s' t = Returned \<and> {u. place s' u = Running} = {}"
proof -
  obtain v where v: "advance v s = Some (Inr s')" using assms(3) by (blast elim: library_step.cases)
  have "place s' t = Returned"
    using v assms(2) threads_invD(2) [OF assms(1), of v]
    by (auto simp: advance_def wrapper_switch_def switch_to_def mutex_lock_def mutex_unlock_def set_flag_def
        cond_signal_def split: place.splits option.splits if_splits)
  moreover obtain t' where t': "threads_inv s' t'" using advance_kept [OF assms(1) v] by auto
  moreover have "place s' u \<noteq> Running" for u
    using \<open>place s' t = Returned\<close> token_at [OF t', of t] token_at [OF t', of u] by auto
  ultimately show ?thesis by simp
qed

end
