(* ===== verification/Rfb_Thread.thy ===== *)
theory Rfb_Thread
  imports Rfb
begin

text \<open>
  The thread of the remote frame buffer (\<open>thread_main\<close> in \<open>tb/dpi/fesvr/rfb.cc\<close>): it
  waits for a client, greets it, and reads its messages until one is too short. The calls on
  sockets and the lock are parameters (\<open>rfb_net\<close>), and so is what the other threads do while
  this one yields.
\<close>

section \<open>The thread\<close>

record 'h rfb_net =
  net_socket :: "'h \<Rightarrow> int \<times> 'h"
  net_bind :: "int \<Rightarrow> u16 \<Rightarrow> 'h \<Rightarrow> int \<times> 'h"
  net_listen :: "int \<Rightarrow> 'h \<Rightarrow> int \<times> 'h"
  net_accept :: "int \<Rightarrow> 'h \<Rightarrow> int \<times> 'h"
  net_close :: "int \<Rightarrow> 'h \<Rightarrow> int \<times> 'h"
  net_lock :: "nat \<Rightarrow> 'h \<Rightarrow> unit \<times> 'h"
  net_unlock :: "nat \<Rightarrow> 'h \<Rightarrow> unit \<times> 'h"

definition int_to_string :: "int \<Rightarrow> string" where
  "int_to_string k = (if k < 0 then CHR ''-'' # to_string (nat (- k)) else to_string (nat k))"

definition rfb_connect :: "'h rfb_net \<Rightarrow> nat \<Rightarrow> (('t, 'h) htif, unit) prog" where
  "rfb_connect net i =
     bind (on_host (net_lock net i)) (\<lambda>_.
     bind (the_rfb i) (\<lambda>r. let port = 5900 + rfb_display r in
     bind (on_host (net_socket net)) (\<lambda>sock.
     bind (set_rfb i (r\<lparr>rfb_sockfd := sock\<rparr>)) (\<lambda>_.
     bind (check (0 \<le> sock) (Runtime_Error ''could not acquire tcp socket'')) (\<lambda>_.
     bind (on_host (net_bind net sock (of_int port))) (\<lambda>n.
     bind (check (0 \<le> n) (Runtime_Error (''could not bind to port '' @ int_to_string port))) (\<lambda>_.
     bind (on_host (net_listen net sock)) (\<lambda>n.
     bind (check (0 \<le> n) (Runtime_Error (''could not listen on port '' @ int_to_string port))) (\<lambda>_.
     bind (on_host (net_accept net sock)) (\<lambda>afd.
     bind (set_rfb i (r\<lparr>rfb_sockfd := sock, rfb_afd := afd\<rparr>)) (\<lambda>_.
     check (0 \<le> afd) (Runtime_Error ''could not accept connection''))))))))))))"

text \<open>\<open>while (memif == NULL) sched_yield()\<close>: a turn of the other threads may never end.\<close>

partial_function (option) rfb_await_memif ::
    "(('t, 'h) htif \<Rightarrow> ('t, 'h) htif option) \<Rightarrow> nat \<Rightarrow> ('t, 'h) htif \<Rightarrow> (exn + unit \<times> ('t, 'h) htif) option" where
  "rfb_await_memif yield i s =
     (if rfb_memif (rfbs s ! i) then Some (Inr ((), s))
      else (case yield s of None \<Rightarrow> None | Some s' \<Rightarrow> rfb_await_memif yield i s'))"

text \<open>\<open>set_encodings\<close> reads on until the encodings that the message announces have come.\<close>

partial_function (option) rfb_skip ::
    "('t, 'h) env \<Rightarrow> nat \<Rightarrow> nat \<Rightarrow> nat \<Rightarrow> ('t, 'h) htif \<Rightarrow> (exn + unit \<times> ('t, 'h) htif) option" where
  "rfb_skip e i limit b s =
     (if b < limit
      then (case rfb_read e (rfbs s ! i) s of
          None \<Rightarrow> None
        | Some (Inl x) \<Rightarrow> Some (Inl x)
        | Some (Inr (m, s')) \<Rightarrow> rfb_skip e i limit (b + length m) s')
      else Some (Inr ((), s)))"

definition set_encodings :: "('t, 'h) env \<Rightarrow> nat \<Rightarrow> byte list \<Rightarrow> (('t, 'h) htif, unit) prog" where
  "set_encodings e i m =
     (let n = unat (le_word (rev (take 2 (drop 2 m))) :: u16) in rfb_skip e i (4 + 4 * n) (length m))"

definition client_message :: "('t, 'h) env \<Rightarrow> nat \<Rightarrow> byte list \<Rightarrow> (('t, 'h) htif, unit) prog" where
  "client_message e i m =
     (if m ! 0 = 0 then set_pixel_format m else if m ! 0 = 2 then set_encodings e i m else ret ())"

partial_function (option) rfb_messages ::
    "('t, 'h) env \<Rightarrow> nat \<Rightarrow> ('t, 'h) htif \<Rightarrow> (exn + unit \<times> ('t, 'h) htif) option" where
  "rfb_messages e i s =
     (if rfb_memif (rfbs s ! i)
      then (case rfb_read e (rfbs s ! i) s of
          None \<Rightarrow> None
        | Some (Inl x) \<Rightarrow> Some (Inl x)
        | Some (Inr (m, s')) \<Rightarrow>
            if length m < 4 then Some (Inr ((), s'))
            else (case client_message e i m s' of
                None \<Rightarrow> None
              | Some (Inl x) \<Rightarrow> Some (Inl x)
              | Some (Inr (u, s'')) \<Rightarrow> rfb_messages e i s''))
      else Some (Inr ((), s)))"

definition rfb_disconnect :: "'h rfb_net \<Rightarrow> nat \<Rightarrow> (('t, 'h) htif, unit) prog" where
  "rfb_disconnect net i =
     bind (on_host (net_lock net i)) (\<lambda>_.
     bind (the_rfb i) (\<lambda>r.
     bind (on_host (net_close net (rfb_afd r))) (\<lambda>_.
     bind (on_host (net_close net (rfb_sockfd r))) (\<lambda>_.
     bind (set_rfb i (r\<lparr>rfb_afd := - 1, rfb_sockfd := - 1\<rparr>)) (\<lambda>_.
     on_host (net_unlock net i))))))"

definition rfb_session :: "('t, 'h) env \<Rightarrow> 'h rfb_net \<Rightarrow> (('t, 'h) htif \<Rightarrow> ('t, 'h) htif option) \<Rightarrow> nat \<Rightarrow>
    (('t, 'h) htif, unit) prog" where
  "rfb_session e net yield i =
     bind (rfb_connect net i) (\<lambda>_.
     bind (the_rfb i) (\<lambda>r.
     bind (rfb_handshake e r) (\<lambda>_.
     bind (on_host (net_unlock net i)) (\<lambda>_.
     bind (rfb_await_memif yield i) (\<lambda>_.
     bind (rfb_messages e i) (\<lambda>_.
     rfb_disconnect net i))))))"

text \<open>\<open>thread_main\<close> ends by calling itself.\<close>

partial_function (option) rfb_thread_main :: "('t, 'h) env \<Rightarrow> 'h rfb_net \<Rightarrow>
    (('t, 'h) htif \<Rightarrow> ('t, 'h) htif option) \<Rightarrow> nat \<Rightarrow> ('t, 'h) htif \<Rightarrow> (exn + unit \<times> ('t, 'h) htif) option" where
  "rfb_thread_main e net yield i s = (case rfb_session e net yield i s of
       None \<Rightarrow> None
     | Some (Inl x) \<Rightarrow> Some (Inl x)
     | Some (Inr (u, s')) \<Rightarrow> rfb_thread_main e net yield i s')"

section \<open>How it ends\<close>

text \<open>The thread never returns: it serves one client after the other, or an exception ends it.\<close>

theorem rfb_thread_never_returns:
  assumes "rfb_thread_main e net yield i s = Some r"
  shows "\<exists>x. r = Inl x"
  using assms
proof (rule rfb_thread_main.raw_induct [where P = "\<lambda>e net yield i s r. \<exists>x. r = Inl x", rotated])
  fix run :: "('t, 'h) env \<Rightarrow> 'h rfb_net \<Rightarrow> (('t, 'h) htif \<Rightarrow> ('t, 'h) htif option) \<Rightarrow> nat \<Rightarrow>
    ('t, 'h) htif \<Rightarrow> (exn + unit \<times> ('t, 'h) htif) option" and e net yield i s r
  assume "\<And>e net yield i s r. run e net yield i s = Some r \<Longrightarrow> \<exists>x. r = Inl x"
    and "(case rfb_session e net yield i s of None \<Rightarrow> None | Some (Inl x) \<Rightarrow> Some (Inl x)
      | Some (Inr (u, s')) \<Rightarrow> run e net yield i s') = Some r"
  then show "\<exists>x. r = Inl x" by (auto split: option.splits sum.splits prod.splits)
qed

text \<open>A client that sends what it announced: each read gives at least a byte and fewer than 2048.\<close>

theorem set_encodings_returns:
  assumes "\<And>h. \<exists>n bs h'. os_read (os e) (rfb_afd (rfbs s ! i)) 2048 h = ((n, bs), h') \<and> 0 < n \<and> n < 2048 \<and>
    int (length bs) = n"
  shows "\<exists>h. set_encodings e i m s = Some (Inr ((), s\<lparr>host := h\<rparr>))"
proof -
  have "\<exists>h'. rfb_skip e i limit b (s\<lparr>host := h\<rparr>) = Some (Inr ((), s\<lparr>host := h'\<rparr>))" for limit b h
  proof (induction "limit - b" arbitrary: b h rule: less_induct)
    case less
    show ?case
    proof (cases "b < limit")
      case False
      then show ?thesis by (intro exI [of _ h]) (simp add: rfb_skip.simps)
    next
      case True
      obtain n bs h' where read: "os_read (os e) (rfb_afd (rfbs s ! i)) 2048 h = ((n, bs), h')"
        and n: "0 < n" "n < 2048" "int (length bs) = n" using assms by blast
      have "rfb_read e (rfbs s ! i) (s\<lparr>host := h\<rparr>) = Some (Inr (bs, s\<lparr>host := h'\<rparr>))"
        using read n by (auto simp: rfb_read_def run_simps)
      moreover have "limit - (b + length bs) < limit - b" using True n by simp
      then obtain h'' where "rfb_skip e i limit (b + length bs) (s\<lparr>host := h'\<rparr>) = Some (Inr ((), s\<lparr>host := h''\<rparr>))"
        using less by blast
      ultimately show ?thesis using True by (intro exI [of _ h'']) (simp add: rfb_skip.simps [of e i limit b])
    qed
  qed
  then have "\<exists>h'. rfb_skip e i limit b (s\<lparr>host := host s\<rparr>) = Some (Inr ((), s\<lparr>host := h'\<rparr>))" for limit b
    by blast
  then show ?thesis by (simp add: set_encodings_def Let_def)
qed

text \<open>
  A client that closes the connection before the announced encodings have come: \<open>read\<close> gives
  the empty string for ever, and \<open>set_encodings\<close> never returns. The thread keeps the
  connection and takes no other.
\<close>

theorem set_encodings_hangs:
  assumes "\<forall>fd h. fst (os_read (os e) fd 2048 h) = (0, [])"
    and "length m < 4 + 4 * unat (le_word (rev (take 2 (drop 2 m))) :: u16)"
  shows "set_encodings e i m s = None"
proof -
  have "\<not> (b < limit \<and> (\<forall>fd h. fst (os_read (os e) fd 2048 h) = (0, [])))" if "rfb_skip e i limit b s = Some r" for limit b s r
    using that
  proof (rule rfb_skip.raw_induct [where P = "\<lambda>e i limit b s r.
      \<not> (b < limit \<and> (\<forall>fd h. fst (os_read (os e) fd 2048 h) = (0, [])))", rotated])
    fix run :: "('b, 'a) env \<Rightarrow> nat \<Rightarrow> nat \<Rightarrow> nat \<Rightarrow> ('b, 'a) htif \<Rightarrow> (exn + unit \<times> ('b, 'a) htif) option"
      and e :: "('b, 'a) env" and i limit b s r
    assume IH: "\<And>e i limit b s r. run e i limit b s = Some r \<Longrightarrow>
        \<not> (b < limit \<and> (\<forall>fd h. fst (os_read (os e) fd 2048 h) = (0, [])))"
      and run: "(if b < limit then case rfb_read e (rfbs s ! i) s of None \<Rightarrow> None | Some (Inl x) \<Rightarrow> Some (Inl x)
        | Some (Inr (m, s')) \<Rightarrow> run e i limit (b + length m) s' else Some (Inr ((), s))) = Some r"
    show "\<not> (b < limit \<and> (\<forall>fd h. fst (os_read (os e) fd 2048 h) = (0, [])))"
    proof
      assume b: "b < limit \<and> (\<forall>fd h. fst (os_read (os e) fd 2048 h) = (0, []))"
      obtain h where "os_read (os e) (rfb_afd (rfbs s ! i)) 2048 (host s) = ((0, []), h)"
        using b by (metis prod.collapse)
      then have "rfb_read e (rfbs s ! i) s = Some (Inr ([], s\<lparr>host := h\<rparr>))" by (simp add: rfb_read_def run_simps)
      with run b have "run e i limit b (s\<lparr>host := h\<rparr>) = Some r" by simp
      from IH [OF this] b show False by blast
    qed
  qed
  from this [of "4 + 4 * unat (le_word (rev (take 2 (drop 2 m))) :: u16)" "length m" s] assms show ?thesis
    by (cases "set_encodings e i m s") (auto simp: set_encodings_def Let_def)
qed

end
