(* ===== verification/Aes_Bench.thy ===== *)
theory Aes_Bench
  imports Hexwriter
begin

text \<open>
  The test bench header of the AES accelerator (\<open>src/aes/AES.h\<close>): the layout of its
  registers, the clock, and the comparison of a ciphertext with the expected hexadecimal string.
  The functions that drive the simulated model are declared there and defined elsewhere: they are
  parameters. The header defines \<open>uint32_t\<close> as \<open>unsigned long\<close>; it is taken to have
  the 32 bits of its name (with 64, the format \<open>%x\<close> is given a wrong type).
\<close>

section \<open>Registers\<close>

definition BITS_PER_BYTE :: nat where "BITS_PER_BYTE = 8"
definition BYTES_PER_WORD :: nat where "BYTES_PER_WORD = 4"
definition KEY_BITS :: nat where "KEY_BITS = 192"
definition BLOCK_BITS :: nat where "BLOCK_BITS = 128"
definition CLOCK_PERIOD :: u32 where "CLOCK_PERIOD = 10"
definition AES_START_BYTES :: nat where "AES_START_BYTES = BYTES_PER_WORD"
definition AES_DONE_BYTES :: nat where "AES_DONE_BYTES = BYTES_PER_WORD"
definition KEY_BYTES :: nat where "KEY_BYTES = KEY_BITS div BITS_PER_BYTE"
definition KEY_WORDS :: nat where "KEY_WORDS = KEY_BYTES div BYTES_PER_WORD"
definition BLOCK_BYTES :: nat where "BLOCK_BYTES = BLOCK_BITS div BITS_PER_BYTE"
definition BLOCK_WORDS :: nat where "BLOCK_WORDS = BLOCK_BYTES div BYTES_PER_WORD"
definition AES_BASE :: u32 where "AES_BASE = 0x93000000"
definition AES_START :: u32 where "AES_START = AES_BASE"
definition AES_PT_BASE :: u32 where "AES_PT_BASE = AES_START + of_nat AES_START_BYTES"
definition AES_KEY_BASE :: u32 where "AES_KEY_BASE = AES_PT_BASE + of_nat BLOCK_BYTES"
definition AES_DONE :: u32 where "AES_DONE = AES_KEY_BASE + of_nat KEY_BYTES"
definition AES_CT_BASE :: u32 where "AES_CT_BASE = AES_DONE + of_nat AES_DONE_BYTES"

lemmas aes_constants = BITS_PER_BYTE_def BYTES_PER_WORD_def KEY_BITS_def BLOCK_BITS_def AES_START_BYTES_def
  AES_DONE_BYTES_def KEY_BYTES_def KEY_WORDS_def BLOCK_BYTES_def BLOCK_WORDS_def AES_BASE_def AES_START_def
  AES_PT_BASE_def AES_KEY_BASE_def AES_DONE_def AES_CT_BASE_def

text \<open>Five areas, one after the other, each on a word boundary.\<close>

theorem aes_registers_in_order:
  "AES_START = 0x93000000 \<and> AES_PT_BASE = AES_START + 4 \<and> AES_KEY_BASE = AES_PT_BASE + 16 \<and>
   AES_DONE = AES_KEY_BASE + 24 \<and> AES_CT_BASE = AES_DONE + 4 \<and>
   list_all (\<lambda>a. a AND 3 = 0) [AES_START, AES_PT_BASE, AES_KEY_BASE, AES_DONE, AES_CT_BASE]"
  by (simp add: aes_constants)

section \<open>The clock\<close>

record 'm aes_bench =
  aes_model :: 'm
  main_time :: u64

text \<open>What the test drives: \<open>evalModel\<close>, \<open>toggleClock\<close>, and two reads.\<close>

record 'm aes_driver =
  evalModel :: "'m \<Rightarrow> 'm"
  toggleClock :: "'m \<Rightarrow> 'm"
  ciphertextValid :: "'m \<Rightarrow> bool"
  saveCiphertext :: "'m \<Rightarrow> u32 list"

primrec run_doubles :: "'m aes_driver \<Rightarrow> nat \<Rightarrow> 'm aes_bench \<Rightarrow> 'm aes_bench" where
  "run_doubles d 0 s = s"
| "run_doubles d (Suc n) s = run_doubles d n
     (s\<lparr>aes_model := toggleClock d (evalModel d (aes_model s)),
        main_time := main_time s + ucast (drop_bit 2 CLOCK_PERIOD)\<rparr>)"

text \<open>\<open>pCycles << 2\<close>, as a signed number, counts down to zero.\<close>

definition runForClockCycles :: "'m aes_driver \<Rightarrow> u32 \<Rightarrow> 'm aes_bench \<Rightarrow> 'm aes_bench" where
  "runForClockCycles d pCycles s = run_doubles d (nat (sint (push_bit 2 pCycles))) s"

partial_function (option) waitForValidOutput :: "'m aes_driver \<Rightarrow> 'm aes_bench \<Rightarrow> 'm aes_bench option" where
  "waitForValidOutput d s =
     (if \<not> ciphertextValid d (aes_model s) then waitForValidOutput d (runForClockCycles d 1 s) else Some s)"

text \<open>
  One cycle evaluates the model and toggles its clock four times, which is two periods of the
  clock, and lets 8 units of time pass, although \<open>CLOCK_PERIOD\<close> is 10.
\<close>

theorem one_cycle_toggles:
  "runForClockCycles d 1 s = s\<lparr>
     aes_model := ((\<lambda>m. toggleClock d (evalModel d m)) ^^ 4) (aes_model s), main_time := main_time s + 8\<rparr>"
proof -
  have "nat (sint (push_bit 2 1 :: u32)) = Suc (Suc (Suc (Suc 0)))" by simp
  moreover have "ucast (drop_bit 2 CLOCK_PERIOD) = (2 :: u64)" by (simp add: CLOCK_PERIOD_def drop_bit_eq_div)
  ultimately show ?thesis by (simp add: runForClockCycles_def numeral_eq_Suc)
qed

text \<open>The wait ends at the first turn after which the model has a valid ciphertext.\<close>

theorem wait_ends:
  assumes "ciphertextValid d (aes_model ((runForClockCycles d 1 ^^ n) s))"
    and "\<forall>k<n. \<not> ciphertextValid d (aes_model ((runForClockCycles d 1 ^^ k) s))"
  shows "waitForValidOutput d s = Some ((runForClockCycles d 1 ^^ n) s)"
  using assms
proof (induction n arbitrary: s)
  case 0
  then show ?case by (simp add: waitForValidOutput.simps)
next
  case (Suc n)
  let ?s = "runForClockCycles d 1 s"
  have shift: "(runForClockCycles d 1 ^^ k) ?s = (runForClockCycles d 1 ^^ Suc k) s" for k
    by (simp only: funpow_Suc_right o_apply)
  have "\<not> ciphertextValid d (aes_model s)" using Suc.prems(2) by (metis funpow_0 zero_less_Suc)
  moreover have "waitForValidOutput d ?s = Some ((runForClockCycles d 1 ^^ n) ?s)"
  proof (rule Suc.IH)
    show "ciphertextValid d (aes_model ((runForClockCycles d 1 ^^ n) ?s))" using Suc.prems(1) by (simp only: shift)
    show "\<forall>k<n. \<not> ciphertextValid d (aes_model ((runForClockCycles d 1 ^^ k) ?s))"
      using Suc.prems(2) by (simp only: shift) blast
  qed
  ultimately show ?case by (simp only: waitForValidOutput.simps [of d s] shift) simp
qed

section \<open>The comparison\<close>

text \<open>\<open>sprintf\<close> with \<open>%8.8x\<close>: eight digits, the most significant first.\<close>

definition hex_word :: "u32 \<Rightarrow> string" where
  "hex_word w = concat (map hex_byte (rev (le_bytes 4 w)))"

definition ciphertext_text :: "u32 list \<Rightarrow> string" where
  "ciphertext_text ct = concat (map (\<lambda>i. hex_word (ct ! i)) (rev [0..<BLOCK_WORDS]))"

text \<open>\<open>strncmp\<close> of strings without a terminator in them.\<close>

definition strncmp_equal :: "nat \<Rightarrow> string \<Rightarrow> string \<Rightarrow> bool" where
  "strncmp_equal n a b \<longleftrightarrow> take n a = take n b"

definition compareCiphertext :: "u32 list \<Rightarrow> string \<Rightarrow> bool" where
  "compareCiphertext pCT expected = strncmp_equal (BLOCK_BYTES * 2) (ciphertext_text pCT) expected"

definition verifyCiphertext :: "'m aes_driver \<Rightarrow> string \<Rightarrow> string \<Rightarrow> 'm aes_bench \<Rightarrow> string list" where
  "verifyCiphertext d expected name s =
     (let ct = saveCiphertext d (aes_model s) in
      if compareCiphertext ct expected then [''PASSED: '' @ name]
      else [''Expected: 0x'' @ expected, ''FAILED: '' @ name])"

lemma hex_word_inj: "inj hex_word"
proof (rule injI)
  fix v w assume "hex_word v = hex_word w"
  then have "rev (le_bytes 4 v) = rev (le_bytes 4 w)"
    unfolding hex_word_def by (metis parse_hex_bytes)
  then have "le_word (le_bytes 4 v) = (le_word (le_bytes 4 w) :: u32)" by simp
  then show "v = w" by (simp add: le_word_le_bytes)
qed

lemma length_hex_word: "length (hex_word w) = 8"
  by (simp add: hex_word_def hex_byte_def length_concat comp_def sum_list_triv)

text \<open>
  The comparison tells ciphertexts apart: with the text of a block it holds for that block
  and for no other.
\<close>

theorem compare_ciphertext:
  assumes "length ct = 4" and "length ct' = 4"
  shows "compareCiphertext ct (ciphertext_text ct' @ rest) \<longleftrightarrow> ct = ct'"
proof
  have four: "BLOCK_WORDS = 4" "BLOCK_BYTES * 2 = 32" by (simp_all add: aes_constants)
  have len: "length (ciphertext_text c) = 32" for c
    by (simp add: ciphertext_text_def four length_concat comp_def length_hex_word sum_list_triv upt_rec)
  show "compareCiphertext ct (ciphertext_text ct' @ rest)" if "ct = ct'"
    using that by (simp add: compareCiphertext_def strncmp_equal_def four len)
  assume "compareCiphertext ct (ciphertext_text ct' @ rest)"
  then have same: "ciphertext_text ct = ciphertext_text ct'"
    by (simp add: compareCiphertext_def strncmp_equal_def four len)
  have words: "ciphertext_text c = concat (map hex_word (rev c))" if "length c = 4" for c
  proof -
    have "map (\<lambda>i. hex_word (c ! i)) (rev [0..<4]) = map hex_word (rev c)"
      using that map_nth [of c] by (metis map_map [unfolded comp_def] rev_map)
    then show ?thesis by (simp only: ciphertext_text_def four)
  qed
  have "map hex_word (rev ct) = map hex_word (rev ct')"
    by (rule concat_injective)
      (use same words assms in \<open>auto simp: length_hex_word in_set_zip\<close>)
  then show "ct = ct'" using inj_map_eq_map [OF hex_word_inj] by simp
qed

end
