(* ===== verification/Boot_Rom.thy ===== *)
theory Boot_Rom
  imports Rv_Machine Instructions
begin

text \<open>
  The boot ROM (\<open>tb/dpi/bootrom.h\<close>): 452 words, of which the first is where a hart starts.
  They hold code that jumps to memory, and a flattened device tree. The code is run on the
  instructions it uses, as the ISA manual defines them, decoded by the tables of
  \<open>encoding.h\<close>; the tree is read as the device tree specification says. Both are checked
  against the memory map of \<open>encoding.h\<close>.
\<close>

section \<open>The words\<close>

definition reset_words_1 :: "int list" where
  "reset_words_1 =
    [0x0010041b, 0x01f41413, 0xf1402573, 0x00000597, 0x07458593, 0x00008402, 0x00000000,
     0x00000000, 0x00000000, 0x00000000, 0x00000000, 0x00000000, 0x00000000, 0x00000000,
     0x00000000, 0x00000000, 0xf1402573, 0x00000597, 0x03c58593, 0x10500073, 0x0000bff5,
     0x00000000, 0x00000000, 0x00000000, 0x00000000, 0x00000000, 0x00000000, 0x00000000,
     0x00000000, 0x00000000, 0x00000000, 0x00000000, 0xedfe0dd0, 0x8f060000, 0x38000000,
     0x54050000, 0x28000000, 0x11000000, 0x10000000, 0x00000000, 0x3b010000, 0x1c050000,
     0x00000000, 0x00000000, 0x00000000, 0x00000000, 0x01000000, 0x00000000, 0x03000000,
     0x04000000, 0x00000000, 0x02000000, 0x03000000, 0x04000000, 0x0f000000, 0x02000000,
     0x03000000, 0x14000000, 0x1b000000, 0x2c687465, 0x61697261, 0x622d656e, 0x2d657261,
     0x00766564, 0x03000000, 0x10000000, 0x26000000, 0x2c687465, 0x61697261, 0x622d656e,
     0x00657261, 0x01000000, 0x73757063, 0x00000000, 0x03000000, 0x04000000, 0x00000000,
     0x01000000, 0x03000000, 0x04000000, 0x0f000000, 0x00000000, 0x03000000, 0x04000000,
     0x2c000000, 0x00800000, 0x01000000, 0x40757063, 0x00000030, 0x03000000, 0x04000000,
     0x3f000000, 0x80f0fa02, 0x03000000, 0x04000000, 0x4f000000, 0x00757063, 0x03000000,
     0x04000000, 0x5b000000, 0x00000000, 0x03000000, 0x05000000, 0x5f000000, 0x79616b6f,
     0x00000000, 0x03000000, 0x12000000, 0x1b000000, 0x2c687465, 0x69726120, 0x00656e61,
     0x63736972]"

definition reset_words_2 :: "int list" where
  "reset_words_2 =
    [0x00000076, 0x03000000, 0x0b000000, 0x66000000, 0x34367672, 0x63616d69, 0x00007573,
     0x03000000, 0x0b000000, 0x70000000, 0x63736972, 0x76732c76, 0x00003933, 0x03000000,
     0x00000000, 0x79000000, 0x01000000, 0x65746e69, 0x70757272, 0x6f632d74, 0x6f72746e,
     0x72656c6c, 0x00000000, 0x03000000, 0x04000000, 0x83000000, 0x01000000, 0x03000000,
     0x00000000, 0x94000000, 0x03000000, 0x0f000000, 0x1b000000, 0x63736972, 0x70632c76,
     0x6e692d75, 0x00006374, 0x03000000, 0x04000000, 0xa9000000, 0x01000000, 0x03000000,
     0x04000000, 0xaf000000, 0x01000000, 0x02000000, 0x02000000, 0x02000000, 0x01000000,
     0x6f6d656d, 0x38407972, 0x30303030, 0x00303030, 0x03000000, 0x07000000, 0x4f000000,
     0x6f6d656d, 0x00007972, 0x03000000, 0x10000000, 0x5b000000, 0x00000000, 0x00000080,
     0x00000000, 0x00008001, 0x02000000, 0x01000000, 0x00636f73, 0x03000000, 0x04000000,
     0x00000000, 0x02000000, 0x03000000, 0x04000000, 0x0f000000, 0x02000000, 0x03000000,
     0x1f000000, 0x1b000000, 0x2c687465, 0x61697261, 0x622d656e, 0x2d657261, 0x00636f73,
     0x706d6973, 0x622d656c, 0x00007375, 0x03000000, 0x00000000, 0xb7000000, 0x01000000,
     0x6e696c63, 0x30324074, 0x30303030, 0x00000030, 0x03000000, 0x0d000000, 0x1b000000,
     0x63736972, 0x6c632c76, 0x30746e69, 0x00000000, 0x03000000, 0x10000000, 0xbe000000,
     0x01000000, 0x03000000, 0x01000000, 0x07000000, 0x03000000, 0x10000000, 0x5b000000,
     0x00000000]"

definition reset_words_3 :: "int list" where
  "reset_words_3 =
    [0x00000002, 0x00000000, 0x00000c00, 0x03000000, 0x08000000, 0xd2000000, 0x746e6f63,
     0x006c6f72, 0x02000000, 0x01000000, 0x65746e69, 0x70757272, 0x6f632d74, 0x6f72746e,
     0x72656c6c, 0x30306340, 0x30303030, 0x00000000, 0x03000000, 0x04000000, 0x00000000,
     0x00000000, 0x03000000, 0x04000000, 0x83000000, 0x01000000, 0x03000000, 0x1e000000,
     0x1b000000, 0x69666973, 0x702c6576, 0x2d63696c, 0x2e302e31, 0x69720030, 0x2c766373,
     0x63696c70, 0x00000030, 0x03000000, 0x00000000, 0x94000000, 0x03000000, 0x10000000,
     0xbe000000, 0x01000000, 0x0b000000, 0x01000000, 0x09000000, 0x03000000, 0x10000000,
     0x5b000000, 0x00000000, 0x0000000c, 0x00000000, 0x00000004, 0x03000000, 0x04000000,
     0xdc000000, 0x07000000, 0x03000000, 0x04000000, 0xef000000, 0x02000000, 0x03000000,
     0x04000000, 0xa9000000, 0x02000000, 0x03000000, 0x04000000, 0xaf000000, 0x02000000,
     0x02000000, 0x01000000, 0x75626564, 0x6f632d67, 0x6f72746e, 0x72656c6c, 0x00003040,
     0x03000000, 0x10000000, 0x1b000000, 0x63736972, 0x65642c76, 0x2d677562, 0x00333130,
     0x03000000, 0x08000000, 0xbe000000, 0x01000000, 0xffff0000, 0x03000000, 0x10000000,
     0x5b000000, 0x00000000, 0x00000000, 0x00000000, 0x00100000, 0x03000000, 0x08000000,
     0xd2000000, 0x746e6f63, 0x006c6f72, 0x02000000, 0x01000000, 0x74726175, 0x30303140,
     0x30303030, 0x00000030, 0x03000000, 0x08000000, 0x1b000000, 0x3631736e, 0x00303537,
     0x03000000]"

definition reset_words_4 :: "int list" where
  "reset_words_4 =
    [0x10000000, 0x5b000000, 0x00000000, 0x00000010, 0x00000000, 0x00100000, 0x03000000,
     0x04000000, 0x3f000000, 0x80f0fa02, 0x03000000, 0x04000000, 0xfa000000, 0x00c20100,
     0x03000000, 0x04000000, 0x08010000, 0x02000000, 0x03000000, 0x04000000, 0x19010000,
     0x01000000, 0x03000000, 0x04000000, 0x24010000, 0x02000000, 0x03000000, 0x04000000,
     0x2e010000, 0x04000000, 0x02000000, 0x02000000, 0x02000000, 0x09000000, 0x64646123,
     0x73736572, 0x6c65632d, 0x2300736c, 0x657a6973, 0x6c65632d, 0x6300736c, 0x61706d6f,
     0x6c626974, 0x6f6d0065, 0x006c6564, 0x656d6974, 0x65736162, 0x6572662d, 0x6e657571,
     0x63007963, 0x6b636f6c, 0x6572662d, 0x6e657571, 0x64007963, 0x63697665, 0x79745f65,
     0x72006570, 0x73006765, 0x75746174, 0x69720073, 0x2c766373, 0x00617369, 0x2d756d6d,
     0x65707974, 0x626c7400, 0x6c70732d, 0x23007469, 0x65746e69, 0x70757272, 0x65632d74,
     0x00736c6c, 0x65746e69, 0x70757272, 0x6f632d74, 0x6f72746e, 0x72656c6c, 0x6e696c00,
     0x702c7875, 0x646e6168, 0x7200656c, 0x65676e61, 0x6e690073, 0x72726574, 0x73747075,
     0x7478652d, 0x65646e65, 0x65720064, 0x616e2d67, 0x0073656d, 0x63736972, 0x616d2c76,
     0x72702d78, 0x69726f69, 0x72007974, 0x76637369, 0x65646e2c, 0x75630076, 0x6e657272,
     0x70732d74, 0x00646565, 0x65746e69, 0x70757272, 0x61702d74, 0x746e6572, 0x746e6900,
     0x75727265, 0x00737470, 0x2d676572, 0x66696873, 0x65720074, 0x6f692d67, 0x6469772d,
     0x00006874]"

definition reset_words :: "int list" where
  "reset_words = reset_words_1 @ reset_words_2 @ reset_words_3 @ reset_words_4"

definition reset_vec :: "u32 list" where
  "reset_vec = map of_int reset_words"

definition reset_vec_size :: nat where
  "reset_vec_size = 452"

section \<open>A hart in the ROM\<close>

record boot_hart =
  boot_pc :: u64
  boot_regs :: "u32 \<Rightarrow> u64"

definition boot_reg :: "boot_hart \<Rightarrow> u32 \<Rightarrow> u64" where
  "boot_reg h r = (if r = 0 then 0 else boot_regs h r)"

text \<open>The result of an instruction that goes on to the next.\<close>

definition boot_next :: "boot_hart \<Rightarrow> u32 \<Rightarrow> u64 \<Rightarrow> boot_hart" where
  "boot_next h d v = h\<lparr>boot_pc := boot_pc h + 4, boot_regs := (boot_regs h)(d := v)\<rparr>"

definition boot_exec :: "u64 \<Rightarrow> u32 \<Rightarrow> string list \<Rightarrow> boot_hart \<Rightarrow> boot_hart option" where
  "boot_exec hartid w names h =
     (let x = boot_reg h (insn_rs1 w); d = insn_rd w; imm = scast (imm_i w) in
      if ''C_JR'' \<in> set names \<and> take_bit 5 (drop_bit 2 w) = 0 then Some (h\<lparr>boot_pc := boot_reg h d\<rparr>)
      else if names = [''ADDI''] then Some (boot_next h d (x + imm))
      else if names = [''ADDIW''] then Some (boot_next h d (scast (ucast (x + imm) :: u32)))
      else if names = [''SLLI''] then Some (boot_next h d (push_bit (unat (take_bit 6 (drop_bit 20 w))) x))
      else if names = [''AUIPC''] then Some (boot_next h d (boot_pc h + scast (w AND 0xFFFFF000)))
      else if names = [''CSRRS''] \<and> insn_rs1 w = 0 \<and> uint (insn_csr w) = field_of encoding_csrs ''MHARTID''
        then Some (boot_next h d hartid)
      else None)"

definition boot_step :: "u64 \<Rightarrow> u64 \<Rightarrow> boot_hart \<Rightarrow> boot_hart option" where
  "boot_step base hartid h =
     (let w = reset_vec ! (unat (boot_pc h - base) div 4) in boot_exec hartid w (decode_insn w) h)"

primrec boot_run :: "u64 \<Rightarrow> u64 \<Rightarrow> nat \<Rightarrow> boot_hart \<Rightarrow> boot_hart option" where
  "boot_run base hartid 0 h = Some h"
| "boot_run base hartid (Suc n) h = (case boot_step base hartid h of None \<Rightarrow> None | Some h' \<Rightarrow> boot_run base hartid n h')"

section \<open>Flattened device trees\<close>

text \<open>
  A device tree, and its flattened form: a header of ten words, the end of the list of reserved
  memory, the structure block and the block of property names. Words are most significant byte
  first; names and values are padded to words. Tokens: a node begins (1) or ends (2), a property
  (3), the end (9).
\<close>

datatype fdt_value = Cells "int list" | Strings "string list"

datatype fdt_node = Node string "(string \<times> fdt_value) list" "fdt_node list"

fun be_words :: "int list \<Rightarrow> int list" where
  "be_words (a # b # c # d # bs) = (((a * 0x100 + b) * 0x100 + c) * 0x100 + d) # be_words bs"
| "be_words [] = []"
| "be_words [a] = [a * 0x1000000]"
| "be_words [a, b] = [(a * 0x100 + b) * 0x10000]"
| "be_words [a, b, c] = [((a * 0x100 + b) * 0x100 + c) * 0x100]"

definition string_codes :: "string \<Rightarrow> int list" where
  "string_codes s = map of_char s @ [0]"

fun value_bytes :: "fdt_value \<Rightarrow> int" where
  "value_bytes (Cells cs) = 4 * int (length cs)"
| "value_bytes (Strings ss) = int (length (concat (map string_codes ss)))"

fun value_words :: "fdt_value \<Rightarrow> int list" where
  "value_words (Cells cs) = cs"
| "value_words (Strings ss) = be_words (concat (map string_codes ss))"

text \<open>Where a name is in the block of names: it may be the end of another name.\<close>

fun name_offset :: "string list \<Rightarrow> string \<Rightarrow> int" where
  "name_offset [] n = 0"
| "name_offset (m # ms) n =
     (if drop (length m - length n) m = n then int (length m - length n) else int (length m) + 1 + name_offset ms n)"

fun prop_words :: "string list \<Rightarrow> string \<times> fdt_value \<Rightarrow> int list" where
  "prop_words names (n, v) = [3, value_bytes v, name_offset names n] @ value_words v"

fun node_words :: "string list \<Rightarrow> fdt_node \<Rightarrow> int list" where
  "node_words names (Node n props nodes) =
     1 # be_words (string_codes n) @ concat (map (prop_words names) props) @
     concat (map (node_words names) nodes) @ [2]"

definition fdt_words :: "string list \<Rightarrow> fdt_node \<Rightarrow> int list" where
  "fdt_words names tree =
     (let struct = node_words names tree @ [9]; strings = concat (map string_codes names);
          n = 4 * int (length struct); m = int (length strings) in
      [0xD00DFEED, 56 + n + m, 56, 56 + n, 40, 17, 16, 0, m, n] @ [0, 0, 0, 0] @ struct @ be_words strings)"

section \<open>The device tree of the ROM\<close>

definition property_names :: "string list" where
  "property_names =
    [''#address-cells'', ''#size-cells'', ''compatible'', ''model'', ''timebase-frequency'',
     ''clock-frequency'', ''device_type'', ''reg'', ''status'', ''riscv,isa'', ''mmu-type'',
     ''tlb-split'', ''#interrupt-cells'', ''interrupt-controller'', ''linux,phandle'',
     ''ranges'', ''interrupts-extended'', ''reg-names'', ''riscv,max-priority'',
     ''riscv,ndev'', ''current-speed'', ''interrupt-parent'', ''interrupts'', ''reg-shift'',
     ''reg-io-width'']"

definition cpu_intc_node :: fdt_node where
  "cpu_intc_node = Node ''interrupt-controller''
    [(''#interrupt-cells'', Cells [1]), (''interrupt-controller'', Cells []),
     (''compatible'', Strings [''riscv,cpu-intc'']), (''linux,phandle'', Cells [1]),
     (''phandle'', Cells [1])]
    []"

definition cpu_node :: fdt_node where
  "cpu_node = Node ''cpu@0''
    [(''clock-frequency'', Cells [0x2faf080]), (''device_type'', Strings [''cpu'']),
     (''reg'', Cells [0]), (''status'', Strings [''okay'']),
     (''compatible'', Strings [''eth, ariane'', ''riscv'']),
     (''riscv,isa'', Strings [''rv64imacsu'']), (''mmu-type'', Strings [''riscv,sv39'']),
     (''tlb-split'', Cells [])]
    [cpu_intc_node]"

definition cpus_node :: fdt_node where
  "cpus_node = Node ''cpus''
    [(''#address-cells'', Cells [1]), (''#size-cells'', Cells [0]),
     (''timebase-frequency'', Cells [0x8000])]
    [cpu_node]"

definition memory_node :: fdt_node where
  "memory_node = Node ''memory@80000000''
    [(''device_type'', Strings [''memory'']), (''reg'', Cells [0, 0x80000000, 0, 0x1800000])]
    []"

definition clint_node :: fdt_node where
  "clint_node = Node ''clint@2000000''
    [(''compatible'', Strings [''riscv,clint0'']),
     (''interrupts-extended'', Cells [1, 3, 1, 7]),
     (''reg'', Cells [0, 0x2000000, 0, 0xc0000]), (''reg-names'', Strings [''control''])]
    []"

definition plic_node :: fdt_node where
  "plic_node = Node ''interrupt-controller@c000000''
    [(''#address-cells'', Cells [0]), (''#interrupt-cells'', Cells [1]),
     (''compatible'', Strings [''sifive,plic-1.0.0'', ''riscv,plic0'']),
     (''interrupt-controller'', Cells []), (''interrupts-extended'', Cells [1, 0xb, 1, 9]),
     (''reg'', Cells [0, 0xc000000, 0, 0x4000000]), (''riscv,max-priority'', Cells [7]),
     (''riscv,ndev'', Cells [2]), (''linux,phandle'', Cells [2]), (''phandle'', Cells [2])]
    []"

definition debug_node :: fdt_node where
  "debug_node = Node ''debug-controller@0''
    [(''compatible'', Strings [''riscv,debug-013'']),
     (''interrupts-extended'', Cells [1, 0xffff]), (''reg'', Cells [0, 0, 0, 0x1000]),
     (''reg-names'', Strings [''control''])]
    []"

definition uart_node :: fdt_node where
  "uart_node = Node ''uart@10000000''
    [(''compatible'', Strings [''ns16750'']), (''reg'', Cells [0, 0x10000000, 0, 0x1000]),
     (''clock-frequency'', Cells [0x2faf080]), (''current-speed'', Cells [0x1c200]),
     (''interrupt-parent'', Cells [2]), (''interrupts'', Cells [1]),
     (''reg-shift'', Cells [2]), (''reg-io-width'', Cells [4])]
    []"

definition soc_node :: fdt_node where
  "soc_node = Node ''soc''
    [(''#address-cells'', Cells [2]), (''#size-cells'', Cells [2]),
     (''compatible'', Strings [''eth,ariane-bare-soc'', ''simple-bus'']),
     (''ranges'', Cells [])]
    [clint_node, plic_node, debug_node, uart_node]"

definition ariane_bare :: fdt_node where
  "ariane_bare = Node ''''
    [(''#address-cells'', Cells [2]), (''#size-cells'', Cells [2]),
     (''compatible'', Strings [''eth,ariane-bare-dev'']),
     (''model'', Strings [''eth,ariane-bare''])]
    [cpus_node, memory_node, soc_node]"

fun find_node :: "fdt_node \<Rightarrow> string list \<Rightarrow> fdt_node option" where
  "find_node t [] = Some t"
| "find_node (Node n props nodes) (p # ps) =
     (case filter (\<lambda>t. case t of Node m _ _ \<Rightarrow> m = p) nodes of [t] \<Rightarrow> find_node t ps | _ \<Rightarrow> None)"

definition node_prop :: "fdt_node \<Rightarrow> string list \<Rightarrow> string \<Rightarrow> fdt_value option" where
  "node_prop t path name = (case find_node t path of
       None \<Rightarrow> None
     | Some (Node n props nodes) \<Rightarrow> map_of props name)"

text \<open>The words of the ROM from byte 128 on, most significant byte first.\<close>

definition swap_word :: "int \<Rightarrow> int" where
  "swap_word w = (w mod 0x100) * 0x1000000 + (w div 0x100 mod 0x100) * 0x10000 +
     (w div 0x10000 mod 0x100) * 0x100 + w div 0x1000000"

lemma rom_tree: "map swap_word (drop 32 reset_words) = fdt_words property_names ariane_bare"
  by code_simp

section \<open>The code of the ROM\<close>

lemma rom_code:
  "take 20 reset_vec = [0x0010041B, 0x01F41413, 0xF1402573, 0x00000597, 0x07458593, 0x00008402, 0, 0, 0, 0, 0, 0,
     0, 0, 0, 0, 0xF1402573, 0x00000597, 0x03C58593, 0x10500073]"
  by (simp add: reset_vec_def reset_words_def reset_words_1_def)

lemma rom_decodes_1:
  "decode_insn 0x0010041B = [''ADDIW'']" "decode_insn 0x01F41413 = [''SLLI'']" "decode_insn 0xF1402573 = [''CSRRS'']"
  by code_simp+

lemma rom_decodes_2:
  "decode_insn 0x00000597 = [''AUIPC'']" "decode_insn 0x07458593 = [''ADDI'']" "decode_insn 0x03C58593 = [''ADDI'']"
  by code_simp+

lemma rom_decodes_3: "''C_JR'' \<in> set (decode_insn 0x00008402)" "decode_insn 0x10500073 = [''WFI'']"
  by code_simp+

lemmas rom_decodes = rom_decodes_1 rom_decodes_2 rom_decodes_3

lemma rom_words:
  "reset_vec ! 0 = 0x0010041B" "reset_vec ! 1 = 0x01F41413" "reset_vec ! 2 = 0xF1402573"
  "reset_vec ! 3 = 0x00000597" "reset_vec ! 4 = 0x07458593" "reset_vec ! 5 = 0x00008402"
  "reset_vec ! 16 = 0xF1402573" "reset_vec ! 17 = 0x00000597" "reset_vec ! 18 = 0x03C58593"
  "reset_vec ! 19 = 0x10500073"
  using arg_cong [OF rom_code, of "\<lambda>ws. map ((!) ws) [0, 1, 2, 3, 4, 5, 16, 17, 18, 19]"]
  by simp_all

lemma rom_fields:
  "insn_rd 0x0010041B = 8" "insn_rs1 0x0010041B = 0" "imm_i 0x0010041B = 1"
  "insn_rd 0x01F41413 = 8" "insn_rs1 0x01F41413 = 8" "unat (take_bit 6 (drop_bit 20 0x01F41413 :: u32)) = 31"
  "insn_rd 0xF1402573 = 10" "insn_rs1 0xF1402573 = 0" "insn_csr 0xF1402573 = 0xF14"
  "insn_rd 0x00000597 = 11" "(0x00000597 :: u32) AND 0xFFFFF000 = 0"
  "insn_rd 0x07458593 = 11" "insn_rs1 0x07458593 = 11" "imm_i 0x07458593 = 116"
  "insn_rd 0x00008402 = 8" "take_bit 5 (drop_bit 2 0x00008402 :: u32) = 0"
  "insn_rd 0x03C58593 = 11" "insn_rs1 0x03C58593 = 11" "imm_i 0x03C58593 = 60"
  by code_simp+

lemma mhartid: "field_of encoding_csrs ''MHARTID'' = 0xF14"
  by code_simp

lemma boot_fetch:
  assumes "unat (x - base) div 4 = k" and "reset_vec ! k = w" and "boot_exec i w (decode_insn w) \<lparr>boot_pc = x, boot_regs = R\<rparr> = r"
  shows "boot_step base i \<lparr>boot_pc = x, boot_regs = R\<rparr> = r"
  using assms by (simp add: boot_step_def Let_def)

lemmas boot_exec_simps = boot_exec_def boot_next_def boot_reg_def Let_def rom_decodes rom_fields mhartid

lemma boot_steps:
  "boot_step b i \<lparr>boot_pc = b, boot_regs = R\<rparr> = Some \<lparr>boot_pc = b + 4, boot_regs = R(8 := 1)\<rparr>"
  "boot_step b i \<lparr>boot_pc = b + 4, boot_regs = R\<rparr> = Some \<lparr>boot_pc = b + 8, boot_regs = R(8 := push_bit 31 (R 8))\<rparr>"
  "boot_step b i \<lparr>boot_pc = b + 8, boot_regs = R\<rparr> = Some \<lparr>boot_pc = b + 12, boot_regs = R(10 := i)\<rparr>"
  "boot_step b i \<lparr>boot_pc = b + 12, boot_regs = R\<rparr> = Some \<lparr>boot_pc = b + 16, boot_regs = R(11 := b + 12)\<rparr>"
  "boot_step b i \<lparr>boot_pc = b + 16, boot_regs = R\<rparr> = Some \<lparr>boot_pc = b + 20, boot_regs = R(11 := R 11 + 116)\<rparr>"
  "boot_step b i \<lparr>boot_pc = b + 20, boot_regs = R\<rparr> = Some \<lparr>boot_pc = R 8, boot_regs = R\<rparr>"
  "boot_step b i \<lparr>boot_pc = b + 64, boot_regs = R\<rparr> = Some \<lparr>boot_pc = b + 68, boot_regs = R(10 := i)\<rparr>"
  "boot_step b i \<lparr>boot_pc = b + 68, boot_regs = R\<rparr> = Some \<lparr>boot_pc = b + 72, boot_regs = R(11 := b + 68)\<rparr>"
  "boot_step b i \<lparr>boot_pc = b + 72, boot_regs = R\<rparr> = Some \<lparr>boot_pc = b + 76, boot_regs = R(11 := R 11 + 60)\<rparr>"
  by (rule boot_fetch [OF _ rom_words(1)], simp, simp add: boot_exec_simps)
    (rule boot_fetch [OF _ rom_words(2)], simp, simp add: boot_exec_simps,
     rule boot_fetch [OF _ rom_words(3)], simp, simp add: boot_exec_simps,
     rule boot_fetch [OF _ rom_words(4)], simp, simp add: boot_exec_simps,
     rule boot_fetch [OF _ rom_words(5)], simp, simp add: boot_exec_simps,
     rule boot_fetch [OF _ rom_words(6)], simp, simp add: boot_exec_simps,
     rule boot_fetch [OF _ rom_words(7)], simp, simp add: boot_exec_simps,
     rule boot_fetch [OF _ rom_words(8)], simp, simp add: boot_exec_simps,
     rule boot_fetch [OF _ rom_words(9)], simp, simp add: boot_exec_simps)

text \<open>
  C31: a hart that starts at the first word of the ROM, wherever the ROM is, is after six
  instructions at \<open>DRAM_BASE\<close>, with its number in \<open>a0\<close> and the address of the device
  tree, byte 128 of the ROM, in \<open>a1\<close>; one that starts at byte 64 has the same two values after
  three instructions and stops at a \<open>WFI\<close>. The words from byte 128 on are the flattened form
  of \<open>ariane_bare\<close>, whose memory starts at \<open>DRAM_BASE\<close> and whose interrupt controller
  is where \<open>encoding.h\<close> says.
\<close>

theorem boot_rom_starts:
  "boot_run base hartid 6 \<lparr>boot_pc = base, boot_regs = R\<rparr> =
     Some \<lparr>boot_pc = of_int (field_of memory_map ''DRAM_BASE''),
       boot_regs = R(8 := 0x80000000, 10 := hartid, 11 := base + 128)\<rparr> \<and>
   boot_run base hartid 3 \<lparr>boot_pc = base + 64, boot_regs = R\<rparr> =
     Some \<lparr>boot_pc = base + 76, boot_regs = R(10 := hartid, 11 := base + 128)\<rparr> \<and>
   decode_insn (reset_vec ! 19) = [''WFI''] \<and>
   map swap_word (drop 32 reset_words) = fdt_words property_names ariane_bare \<and>
   node_prop ariane_bare [''memory@80000000''] ''reg'' =
     Some (Cells [0, field_of memory_map ''DRAM_BASE'', 0, 0x1800000]) \<and>
   node_prop ariane_bare [''soc'', ''clint@2000000''] ''reg'' =
     Some (Cells [0, field_of memory_map ''CLINT_BASE'', 0, field_of memory_map ''CLINT_SIZE''])"
proof (intro conjI)
  have apart: "(8 :: u32) \<noteq> 11" "(8 :: u32) \<noteq> 10" "(11 :: u32) \<noteq> 8" "(10 :: u32) \<noteq> 8" by code_simp+
  have six: "(6 :: nat) = Suc (Suc (Suc (Suc (Suc (Suc 0)))))" by simp
  have base: "field_of memory_map ''DRAM_BASE'' = 0x80000000" "field_of memory_map ''CLINT_BASE'' = 0x2000000"
    "field_of memory_map ''CLINT_SIZE'' = 0xC0000"
    by (simp_all add: field_of_def memory_map_def)
  show "boot_run base hartid 6 \<lparr>boot_pc = base, boot_regs = R\<rparr> =
      Some \<lparr>boot_pc = of_int (field_of memory_map ''DRAM_BASE''),
        boot_regs = R(8 := 0x80000000, 10 := hartid, 11 := base + 128)\<rparr>"
    unfolding six boot_run.simps boot_steps option.case
    by (simp add: base apart push_bit_eq_mult fun_upd_twist [of 8] add.commute del: word_eq_numeral_iff_iszero)
  show "boot_run base hartid 3 \<lparr>boot_pc = base + 64, boot_regs = R\<rparr> =
      Some \<lparr>boot_pc = base + 76, boot_regs = R(10 := hartid, 11 := base + 128)\<rparr>"
    unfolding numeral_3_eq_3 boot_run.simps boot_steps option.case by (simp add: add.commute)
  show "decode_insn (reset_vec ! 19) = [''WFI'']" by (simp only: rom_words rom_decodes)
  show "map swap_word (drop 32 reset_words) = fdt_words property_names ariane_bare" by (rule rom_tree)
  show "node_prop ariane_bare [''memory@80000000''] ''reg'' =
      Some (Cells [0, field_of memory_map ''DRAM_BASE'', 0, 0x1800000])"
    unfolding base by code_simp
  show "node_prop ariane_bare [''soc'', ''clint@2000000''] ''reg'' =
      Some (Cells [0, field_of memory_map ''CLINT_BASE'', 0, field_of memory_map ''CLINT_SIZE''])"
    unfolding base by code_simp
qed

end
