(* ===== verification/Spec2Isabelle.thy ===== *)
theory Spec2Isabelle
  imports Elf2hex Htif_Load Served_Calls Host_Process Dtm_Words Tsi_Target Sim_Dtm Option_Parser Htif_Pthread Htif_Types Tb_Elfloader Ariane_Tb Rom_Encoding Context_Progress Rfb_Thread Aes_Bench Boot_Rom
begin

text \<open>
  A model of the simulation host software of the Ariane SoC: the front-end server \<open>fesvr\<close>
  under \<open>tb/dpi/fesvr\<close>, which loads a program into the simulated target, serves its system
  calls and devices, and reaches its memory through the debug module.

  How the program is put together. An ELF file is loaded (\<open>elfloader.cc\<close>) through a
  byte-granular memory interface (\<open>memif.cc\<close>) that is built on the aligned chunks of a
  provider. One provider is a memory image printed as hexadecimal (\<open>htif_hexwriter.cc\<close>, for
  the tool \<open>elf2hex.cc\<close>); another is the debug transport (\<open>dtm.cc\<close>), which halts a
  hart and lets it execute short programs. The server (\<open>htif.cc\<close>) polls the word
  \<open>tohost\<close> of the target, hands each command to a device (\<open>device.cc\<close>, \<open>rfb.cc\<close>) or
  to the system call proxy (\<open>syscall.cc\<close>), and returns their responses through
  \<open>fromhost\<close>.

  Other providers of memory are the serial interface (\<open>tsi.cc\<close>) and, for the raw byte
  streams under a transport, \<open>htif_pthread.cc\<close>. The host thread of a transport is a coroutine
  of \<open>context.cc\<close> that the simulation switches to. On the side of the simulation are the DPI
  bridges (\<open>SimDTM.cc\<close>, \<open>SimJTAG.cc\<close>, \<open>remote_bitbang.cc\<close>, \<open>msim_helper.cc\<close>),
  the test bench's own ELF loader (\<open>tb/dpi/elfloader.cc\<close>), the main program of the Verilator
  build (\<open>ariane_tb.cpp\<close>), the boot ROM it starts from (\<open>bootrom.h\<close>) and the header of the
  AES test bench (\<open>AES.h\<close>). Paths below are relative to \<open>src\<close> or to \<open>src/tb/dpi\<close>.

  Foundations:

  \<^item> \<open>Prelude\<close>: the integer types; programs over an explicit state, with an exception or
    failed assertion as \<open>Inl\<close> and never returning as \<open>None\<close>; their total-correctness
    calculus \<open>wp\<close>. \<open>Bytes\<close>: little-endian words and byte memories. \<open>Clib\<close>: the C
    library's \<open>atoi\<close> and strings.

  Target memory and its providers:

  \<^item> \<open>Memif\<close> (\<open>memif.cc\<close>): \<open>memif_t\<close> over the record \<open>chunked_memif\<close> of the
    provider's operations. The locales \<open>chunked_memory\<close> and \<open>clearing_memory\<close> state what a
    provider promises (reads and writes of aligned chunks against a byte memory \<open>view\<close>; ranges
    are cleared) and prove that the interface reads and writes that memory byte by byte.
  \<^item> \<open>Hexwriter\<close> (\<open>htif_hexwriter.cc\<close>): the image writer is a \<open>chunked_memory\<close>.
    \<open>Htif_Chunks\<close> (\<open>clear_chunk\<close> of \<open>htif.cc\<close>): with the method that subclasses inherit,
    any provider is a \<open>clearing_memory\<close>; the serial interface is made one by it.
  \<^item> \<open>Elf\<close>, \<open>Elf2hex\<close>: the file format, the loader with its asserts over the locale
    \<open>byte_memory\<close>, and the tool.
  \<^item> \<open>Dtm\<close> (\<open>dtm.cc\<close>): the operations of the debug transport over a parameter \<open>dmi\<close>,
    and its handshake with the simulation. \<open>Instructions\<close> and \<open>Dtm_Words\<close>: the instruction
    words it builds, against the tables of \<open>encoding.h\<close>.
  \<^item> \<open>Debug_Module\<close> is an instance of \<open>dmi\<close>: a debug module with one 64-bit hart as the
    RISC-V debug specification has it, of any latency. It is not code of the repository; it shows
    that the hypotheses on \<open>dmi\<close> can hold, and the theorems about memory and registers are over
    it. \<open>Dtm_Commands\<close>, \<open>Hart_Programs\<close>, \<open>Dtm_Hart\<close>: what requests, abstract commands
    and the programs for the halted hart do. \<open>Dtm_Memory\<close>, \<open>Dtm_Writes\<close>,
    \<open>Dtm_Target\<close>: the chunks, which are a \<open>clearing_memory\<close>. \<open>Dtm_Control\<close>,
    \<open>Dtm_Setup\<close>: control registers, reset and set-up.
  \<^item> \<open>Tsi\<close>, \<open>Tsi_Target\<close> (\<open>tsi.cc\<close>): memory as commands in two queues of words,
    against an adapter of any pace. \<open>Htif_Pthread\<close> (\<open>htif_pthread.cc\<close>): the byte queues.

  The server:

  \<^item> \<open>Htif_State\<close>, \<open>Device\<close> (\<open>device.cc\<close>, \<open>term.cc\<close>), \<open>Rfb\<close> and
    \<open>Rfb_Thread\<close> (\<open>rfb.cc\<close>), \<open>Syscall\<close> (\<open>syscall.cc\<close>), \<open>Htif\<close>
    (\<open>htif.cc\<close>). The record \<open>htif\<close> is the state of \<open>htif_t\<close> with its members;
    \<open>env\<close> holds what the code calls and does not define: the virtual methods of the subclass and
    the host's operating system \<open>host_os\<close>. \<open>Examples\<close> instantiates both.
  \<^item> \<open>Htif_Types\<close>: command words, devices and frame buffers refer to what exists.
  \<^item> \<open>Htif_Serve\<close>: the locale \<open>served_memory\<close> for the server over any provider, with the
    debug transport and a plain memory as its instances. \<open>Host_Threads\<close>: the host threads of
    the three transports. \<open>Htif_Session\<close>: whole turns of the server's loop, and a target that
    runs while the server idles (the locale \<open>polled_target\<close>). \<open>Htif_Calls\<close>: what
    \<open>read\<close>, \<open>write\<close> and \<open>exit\<close> do to memory and host (the relation \<open>host_call\<close>),
    a call served in one turn, and the relation \<open>session\<close> of a target and its host, any number
    of polls and calls until the target ends, which the server's loop carries out exactly.
    \<open>Served_Calls\<close>: dispatch of any call of the table, the loops of \<open>sys_chdir\<close> and the copying
    of a frame, over the same memories.
    \<open>Htif_Load\<close>: finding and loading the program (the locale \<open>loading_memory\<close>), and the
    whole start over the debug transport.
  \<^item> \<open>Host_Process\<close>: the signal handlers (\<open>htif.cc\<close>, \<open>tb/ariane_tb.cpp\<close>), what an
    interrupted run returns, and the terminal's settings (\<open>term.cc\<close>), which are put back at the
    end.
  \<^item> \<open>Contexts\<close>, \<open>Context_Agreement\<close>, \<open>Context_Progress\<close> (\<open>context.cc\<close>): the two
    implementations of coroutines, the threads as a step relation at the grain of single accesses
    to what they share.

  The side of the simulation:

  \<^item> \<open>Sim_Dtm\<close> (\<open>SimDTM.cc\<close>, \<open>msim_helper.cc\<close>), \<open>Remote_Bitbang\<close>
    (\<open>remote_bitbang.cc\<close>, \<open>SimJTAG.cc\<close>), \<open>Option_Parser\<close> (\<open>option_parser.cc\<close>),
    \<open>Tb_Elfloader\<close> (\<open>elfloader.cc\<close>), \<open>Ariane_Tb\<close> (\<open>tb/ariane_tb.cpp\<close>),
    \<open>Aes_Bench\<close> (\<open>src/aes/AES.h\<close>).
  \<^item> \<open>Boot_Rom\<close> (\<open>bootrom.h\<close>): its words, run on the instructions they hold.
  \<^item> \<open>Rv_Encoding\<close>, \<open>Rv_Machine\<close> (\<open>fesvr/encoding.h\<close>), \<open>Rom_Encoding\<close>
    (\<open>src/debug/debug_rom/encoding.h\<close>), \<open>Debug_Defines\<close> (\<open>debug_defines.h\<close>): the
    tables.

  What is shown. For the memory interface: exact byte-granular reads and writes over every
  provider that keeps its contract, which the debug transport on its debug module and the serial
  interface on its adapter do; for the image writer, whose \<open>clear_chunk\<close> does nothing, exactly
  when no zero overwrites another byte. For the
  loaders and the tool: the printed or loaded image is the image of the file's segments, and over the
  debug transport the hart then runs at the entry point. For the server: types of commands, system
  calls, descriptors, paths and the argument block; a system call is served in one turn; \<open>run\<close>
  carries out the whole session of a target with its host and returns its exit code; responses
  arrive in order. For the coroutines: the threads refine the \<open>ucontext\<close> version and no switch
  gets stuck. For the bridges: requests, pins, arguments and options pass in order and unchanged. For
  the tables: no word decodes in two ways, the two copies agree, writing a register field leaves the others. Some
  theorems state where the code hangs or loses data.

  Loops. Those the code bounds (over sections, segments, devices, registers) are structural recursion
  or \<open>for_each\<close>. Those that may run for ever are \<open>partial_function\<close>s: the value \<open>None\<close>
  is not returning, and a property that such a loop returns says so. One loop has fuel:
  \<open>round_bpp\<close> of the frame buffer counts from 24 up to the next power of two, 32, in eight of
  its 64 turns.

  Concurrency. A switch of coroutines is a turn of the other side, a parameter that may not come
  back; turns are what the interleaving theorems quantify over. Only \<open>context.cc\<close> itself is
  modelled at the grain of threads.

  Not modelled: the SystemVerilog and VHDL hardware and the software that runs on it; the calls on
  sockets, files, threads, signals and the terminal below the code, which are parameters; at which
  point of a run a signal arrives, beyond the flag the loop reads each turn; the text of usage messages; traces of the
  Verilator build (\<open>VM_TRACE\<close> is 0); the assembler macros of \<open>encoding.h\<close>; a data race on
  what two threads access without a lock, which the code has in \<open>rfb.cc\<close> and C++ gives no meaning.
\<close>

end
